(* ===== verification/Go_Prelude.thy ===== *)
theory Go_Prelude
  imports Main "HOL-Library.List_Lexorder" "HOL-Library.Char_ord" "HOL-Library.Product_Lexorder"
    "HOL-Library.Multiset" "HOL-Library.Sublist" "HOL-Library.AList"
begin

text \<open>
  The part of Go and of its standard library that the operator's code uses, shared by every
  component: byte strings and the \<^verbatim>\<open>strings\<close> package, maps as association lists in
  iteration order, error values and panics, and \<^verbatim>\<open>sort.Slice\<close>.

  \<^item> A Go string is a byte sequence, \<^typ>\<open>string\<close>; Go's \<open><\<close> on strings is the bytewise
    lexicographic order, which \<open>HOL-Library.List_Lexorder\<close> gives.
  \<^item> A Go map is an association list without repeated keys. Go's \<open>range\<close> visits the entries in
    an unspecified order: the order of the list stands for the order that was picked, and a
    function that must not depend on it is proved to be invariant under permutation.
    A nil map is \<^const>\<open>None\<close> where the code can tell it from an empty one.
  \<^item> An error value and a panic are constructors of \<open>go_error\<close>; a fallible call returns
    \<open>go_error + 'a\<close>.
  \<^item> \<open>sort.Slice\<close> is the insertion sort of Go's \<open>insertionSortLessFunc\<close>, which the library
    runs for short slices. Its documented contract (a permutation, ordered by \<open>less\<close>, not
    necessarily stable) is the locale \<open>slice_sorter\<close>; the lemmas the components use are proved
    from the contract alone, so they hold of every implementation of \<open>sort.Slice\<close>.
\<close>

section \<open>Collections of rules\<close>

named_theorems go_strings \<open>defining equations of the string operations\<close>
named_theorems go_maps \<open>equations of Go map reads and writes\<close>

section \<open>Errors\<close>

datatype api_error =
    NotFound string
  | AlreadyExists string
  | Conflict string
  | OtherError string

datatype go_error =
    ApiError api_error
  | Errorf string
  | NilDereference
  | IndexOutOfRange

type_synonym 'a result = "go_error + 'a"

fun bindR :: "'a result \<Rightarrow> ('a \<Rightarrow> 'b result) \<Rightarrow> 'b result" where
  "bindR (Inl e) f = Inl e"
| "bindR (Inr x) f = f x"

text \<open>A call that may also not return: \<^const>\<open>None\<close> is "does not return".\<close>

type_synonym 'a run = "'a result option"

fun bindF :: "'a run \<Rightarrow> ('a \<Rightarrow> 'b run) \<Rightarrow> 'b run" where
  "bindF None f = None"
| "bindF (Some (Inl e)) f = Some (Inl e)"
| "bindF (Some (Inr x)) f = f x"

abbreviation returnF :: "'a \<Rightarrow> 'a run" where
  "returnF x \<equiv> Some (Inr x)"

abbreviation failF :: "go_error \<Rightarrow> 'a run" where
  "failF e \<equiv> Some (Inl e)"

fun isPanic :: "go_error \<Rightarrow> bool" where
  "isPanic NilDereference = True"
| "isPanic IndexOutOfRange = True"
| "isPanic _ = False"

text \<open>A \<^verbatim>\<open>for range\<close> loop that threads a state and may stop with an error.\<close>

fun foldR :: "('a \<Rightarrow> 's \<Rightarrow> 's result) \<Rightarrow> 'a list \<Rightarrow> 's \<Rightarrow> 's result" where
  "foldR f [] s = Inr s"
| "foldR f (x # xs) s = bindR (f x s) (foldR f xs)"

text \<open>A loop that collects one value per element.\<close>

fun mapR :: "('a \<Rightarrow> 'b result) \<Rightarrow> 'a list \<Rightarrow> 'b list result" where
  "mapR f [] = Inr []"
| "mapR f (x # xs) = bindR (f x) (\<lambda>y. bindR (mapR f xs) (\<lambda>ys. Inr (y # ys)))"

text \<open>Dereferencing a pointer.\<close>

definition deref :: "'a option \<Rightarrow> 'a result" where
  "deref p = (case p of None \<Rightarrow> Inl NilDereference | Some x \<Rightarrow> Inr x)"

section \<open>Strings\<close>

definition HasPrefix :: "string \<Rightarrow> string \<Rightarrow> bool" where
  "HasPrefix s p = (take (length p) s = p)"

definition HasSuffix :: "string \<Rightarrow> string \<Rightarrow> bool" where
  "HasSuffix s p = (length p \<le> length s \<and> drop (length s - length p) s = p)"

definition TrimPrefix :: "string \<Rightarrow> string \<Rightarrow> string" where
  "TrimPrefix s p = (if HasPrefix s p then drop (length p) s else s)"

definition TrimSuffix :: "string \<Rightarrow> string \<Rightarrow> string" where
  "TrimSuffix s p = (if HasSuffix s p then take (length s - length p) s else s)"

fun Contains :: "string \<Rightarrow> string \<Rightarrow> bool" where
  "Contains [] sub = (sub = [])"
| "Contains (c # cs) sub = (HasPrefix (c # cs) sub \<or> Contains cs sub)"

fun Join :: "string list \<Rightarrow> string \<Rightarrow> string" where
  "Join [] sep = []"
| "Join [s] sep = s"
| "Join (s # t # ss) sep = s @ sep @ Join (t # ss) sep"

definition Compare :: "string \<Rightarrow> string \<Rightarrow> int" where
  "Compare a b = (if a = b then 0 else if a < b then - 1 else 1)"

declare HasPrefix_def [go_strings] HasSuffix_def [go_strings] TrimPrefix_def [go_strings]
  TrimSuffix_def [go_strings] Compare_def [go_strings]

section \<open>Maps\<close>

type_synonym strmap = "(string \<times> string) list"

definition lookup0 :: "strmap option \<Rightarrow> string \<Rightarrow> string" where
  "lookup0 m k = (case m of None \<Rightarrow> [] | Some kvs \<Rightarrow>
     (case map_of kvs k of None \<Rightarrow> [] | Some v \<Rightarrow> v))"

definition mapPut :: "strmap option \<Rightarrow> string \<Rightarrow> string \<Rightarrow> strmap option" where
  "mapPut m k v = Some (AList.update k v (case m of None \<Rightarrow> [] | Some kvs \<Rightarrow> kvs))"

definition mapLen :: "strmap option \<Rightarrow> nat" where
  "mapLen m = (case m of None \<Rightarrow> 0 | Some kvs \<Rightarrow> length kvs)"

definition entries :: "strmap option \<Rightarrow> strmap" where
  "entries m = (case m of None \<Rightarrow> [] | Some kvs \<Rightarrow> kvs)"

definition wf_map :: "strmap option \<Rightarrow> bool" where
  "wf_map m = distinct (map fst (entries m))"

text \<open>A map of slices: an absent key reads as the nil slice, and the code appends to what it reads.\<close>

definition slotOf :: "(string \<times> 'a list) list \<Rightarrow> string \<Rightarrow> 'a list" where
  "slotOf m k = (case map_of m k of None \<Rightarrow> [] | Some xs \<Rightarrow> xs)"

definition appendTo :: "string \<Rightarrow> 'a list \<Rightarrow> (string \<times> 'a list) list \<Rightarrow> (string \<times> 'a list) list" where
  "appendTo k xs m = AList.update k (slotOf m k @ xs) m"

section \<open>sort.Slice\<close>

fun sift :: "('a \<Rightarrow> 'a \<Rightarrow> bool) \<Rightarrow> 'a \<Rightarrow> 'a list \<Rightarrow> 'a list" where
  "sift lt x [] = [x]"
| "sift lt x (y # ys) = (if lt x y then y # sift lt x ys else x # y # ys)"

definition sort_slice :: "('a \<Rightarrow> 'a \<Rightarrow> bool) \<Rightarrow> 'a list \<Rightarrow> 'a list" where
  "sort_slice lt xs = rev (foldl (\<lambda>done x. sift lt x done) [] xs)"

definition sorted_slice :: "('a \<Rightarrow> 'a \<Rightarrow> bool) \<Rightarrow> 'a list \<Rightarrow> bool" where
  "sorted_slice lt xs = sorted_wrt (\<lambda>a b. \<not> lt b a) xs"

definition strict_weak :: "('a \<Rightarrow> 'a \<Rightarrow> bool) \<Rightarrow> bool" where
  "strict_weak lt = ((\<forall>a b. lt a b \<longrightarrow> \<not> lt b a) \<and>
     (\<forall>a b c. \<not> lt a b \<longrightarrow> \<not> lt b c \<longrightarrow> \<not> lt a c))"

section \<open>Facts about strings\<close>

lemma HasPrefix_iff_prefix: "HasPrefix s p = prefix p s"
  by (metis HasPrefix_def append_eq_conv_conj prefix_def)

lemma HasSuffix_iff_suffix: "HasSuffix s p = suffix p s"
proof
  assume "HasSuffix s p"
  then have "s = take (length s - length p) s @ p"
    by (metis HasSuffix_def append_take_drop_id)
  then show "suffix p s" by (metis suffixI)
next
  assume "suffix p s"
  then obtain zs where "s = zs @ p" by (auto simp: suffix_def)
  then show "HasSuffix s p" by (simp add: HasSuffix_def)
qed

lemma TrimPrefix_append [simp]: "TrimPrefix (p @ s) p = s"
  by (simp add: TrimPrefix_def HasPrefix_def)

lemma TrimSuffix_append [simp]: "TrimSuffix (s @ p) p = s"
  by (simp add: TrimSuffix_def HasSuffix_def)

lemma Contains_iff_sublist: "Contains s sub = sublist sub s"
  by (induction s) (auto simp: HasPrefix_iff_prefix sublist_Cons_right)

lemma Compare_zero [simp]: "Compare a b = 0 \<longleftrightarrow> a = b"
  by (simp add: Compare_def)

lemma Compare_neg [simp]: "Compare a b = - 1 \<longleftrightarrow> a < b"
  by (auto simp: Compare_def)

section \<open>Facts about maps\<close>

lemma entries_simps [simp]: "entries None = []" "entries (Some kvs) = kvs"
  by (simp_all add: entries_def)

lemma lookup0_entries [go_maps]:
  "lookup0 m k = (case map_of (entries m) k of None \<Rightarrow> [] | Some v \<Rightarrow> v)"
  by (cases m) (simp_all add: lookup0_def)

lemma entries_mapPut [simp]: "entries (mapPut m k v) = AList.update k v (entries m)"
  by (cases m) (simp_all add: mapPut_def)

lemma wf_map_mapPut [intro]: "wf_map m \<Longrightarrow> wf_map (mapPut m k v)"
  by (simp add: wf_map_def distinct_update)

lemma mapPut_not_nil [simp]: "mapPut m k v \<noteq> None"
  by (simp add: mapPut_def)

lemma map_of_update [simp]: "map_of (AList.update k v kvs) = (map_of kvs)(k \<mapsto> v)"
  by (rule update_conv')

lemma lookup0_mapPut [go_maps]:
  "lookup0 (mapPut m k v) k' = (if k' = k then v else lookup0 m k')"
  by (simp add: lookup0_entries)

section \<open>Facts about sort.Slice\<close>

lemma mset_sift [simp]: "mset (sift lt x ys) = add_mset x (mset ys)"
  by (induction ys) auto

lemma mset_foldl_sift: "mset (foldl (\<lambda>done x. sift lt x done) ys xs) = mset ys + mset xs"
  by (induction xs arbitrary: ys) auto

lemma mset_sort_slice: "mset (sort_slice lt xs) = mset xs"
  by (simp add: sort_slice_def mset_foldl_sift)

lemma strict_weak_asym: "strict_weak lt \<Longrightarrow> lt a b \<Longrightarrow> \<not> lt b a"
  unfolding strict_weak_def by blast

lemma strict_weak_trans: "strict_weak lt \<Longrightarrow> \<not> lt a b \<Longrightarrow> \<not> lt b c \<Longrightarrow> \<not> lt a c"
  unfolding strict_weak_def by blast

text \<open>The sorted prefix is kept in reverse, largest element first.\<close>

lemma sift_sorted:
  assumes "strict_weak lt" and "sorted_wrt (\<lambda>a b. \<not> lt a b) ys"
  shows "sorted_wrt (\<lambda>a b. \<not> lt a b) (sift lt x ys)"
  using assms(2)
proof (induction ys)
  case Nil
  then show ?case by simp
next
  case (Cons y ys)
  have set_sift: "set (sift lt x ys) = insert x (set ys)"
    by (metis mset_sift set_mset_add_mset_insert set_mset_mset)
  show ?case
  proof (cases "lt x y")
    case True
    then have "\<not> lt y x" by (rule strict_weak_asym [OF assms(1)])
    with True Cons set_sift show ?thesis by auto
  next
    case False
    with Cons.prems have "\<forall>z \<in> set ys. \<not> lt x z"
      using strict_weak_trans [OF assms(1)] by fastforce
    with False Cons show ?thesis by simp
  qed
qed

lemma foldl_sift_sorted:
  "strict_weak lt \<Longrightarrow> sorted_wrt (\<lambda>a b. \<not> lt a b) ys \<Longrightarrow>
    sorted_wrt (\<lambda>a b. \<not> lt a b) (foldl (\<lambda>done x. sift lt x done) ys xs)"
  by (induction xs arbitrary: ys) (auto simp: sift_sorted)

lemma sorted_sort_slice: "strict_weak lt \<Longrightarrow> sorted_slice lt (sort_slice lt xs)"
  by (simp add: sorted_slice_def sort_slice_def sorted_wrt_rev foldl_sift_sorted)

subsection \<open>The contract of sort.Slice, and what its callers conclude from it\<close>

text \<open>A comparison that compares a key of a linear order is a strict weak order.\<close>

lemma strict_weak_key: "(\<And>a b. lt a b \<longleftrightarrow> key a < (key b :: 'k::linorder)) \<Longrightarrow> strict_weak lt"
  by (auto simp: strict_weak_def)

locale slice_sorter =
  fixes srt :: "('a \<Rightarrow> 'a \<Rightarrow> bool) \<Rightarrow> 'a list \<Rightarrow> 'a list"
  assumes srt_mset: "mset (srt lt xs) = mset xs"
    and srt_sorted: "strict_weak lt \<Longrightarrow> sorted_slice lt (srt lt xs)"
begin

lemma srt_set: "set (srt lt xs) = set xs"
  by (metis srt_mset set_mset_mset)

lemma srt_keys:
  fixes key :: "'a \<Rightarrow> 'k::linorder"
  assumes lt: "\<And>a b. lt a b \<longleftrightarrow> key a < key b"
  shows "map key (srt lt xs) = sort (map key xs)"
proof (rule sym, rule properties_for_sort)
  show "mset (map key (srt lt xs)) = mset (map key xs)"
    by (metis mset_map srt_mset)
  have "sorted_slice lt (srt lt xs)"
    by (rule srt_sorted, rule strict_weak_key, rule lt)
  then show "sorted (map key (srt lt xs))"
    by (simp add: sorted_slice_def lt sorted_map not_less)
qed

text \<open>Where the key determines the element, the result depends on the elements only, not on the
  order they came in.\<close>

lemma srt_order_free:
  fixes key :: "'a \<Rightarrow> 'k::linorder"
  assumes lt: "\<And>a b. lt a b \<longleftrightarrow> key a < key b"
    and inj: "inj_on key (set xs)" and perm: "mset ys = mset xs"
  shows "srt lt ys = srt lt xs"
proof -
  have "map key (srt lt ys) = map key (srt lt xs)"
    using perm by (simp add: srt_keys [OF lt] properties_for_sort)
  moreover have "set (srt lt ys) \<union> set (srt lt xs) = set xs"
    by (metis srt_set perm set_mset_mset sup.idem)
  ultimately show ?thesis
    using inj by (metis inj_on_map_eq_map)
qed

end

interpretation go_sort: slice_sorter sort_slice
  by unfold_locales (auto simp: mset_sort_slice sorted_sort_slice)

section \<open>Facts about results\<close>

lemma bindR_Inr: "bindR m f = Inr y \<longleftrightarrow> (\<exists>x. m = Inr x \<and> f x = Inr y)"
  by (cases m) auto

lemma bindR_Inl: "bindR m f = Inl e \<longleftrightarrow> m = Inl e \<or> (\<exists>x. m = Inr x \<and> f x = Inl e)"
  by (cases m) auto

lemma bindR_assoc: "bindR (bindR m f) g = bindR m (\<lambda>x. bindR (f x) g)"
  by (cases m) auto

lemma run_cases [case_names Diverges Fails Returns]:
  obtains "m = None" | e where "m = failF e" | x where "m = returnF x"
  by (metis not_None_eq sumE)

lemma bindF_conv_bind:
  "bindF m f = Option.bind m (\<lambda>r. case r of Inl e \<Rightarrow> failF e | Inr x \<Rightarrow> f x)"
  by (cases m rule: run_cases) auto

lemma bindF_mono [partial_function_mono]:
  assumes m: "mono_option m" and k: "\<And>y. mono_option (\<lambda>f. k y f)"
  shows "mono_option (\<lambda>f. bindF (m f) (\<lambda>y. k y f))"
  unfolding bindF_conv_bind
proof (rule bind_mono [OF m])
  fix r :: "'c result"
  show "mono_option (\<lambda>f. case r of Inl e \<Rightarrow> failF e | Inr x \<Rightarrow> k x f)"
    using k by (cases r) (auto intro: option.const_mono)
qed

lemma bindF_returnF: "bindF m f = returnF y \<longleftrightarrow> (\<exists>x. m = returnF x \<and> f x = returnF y)"
  by (cases m rule: run_cases) auto

lemma bindF_assoc: "bindF (bindF m f) g = bindF m (\<lambda>x. bindF (f x) g)"
  by (cases m rule: run_cases) auto

lemma bindR_cong [fundef_cong]:
  "m = m' \<Longrightarrow> (\<And>x. m' = Inr x \<Longrightarrow> f x = f' x) \<Longrightarrow> bindR m f = bindR m' f'"
  by (cases m') auto

text \<open>A loop whose steps succeed, and a loop whose steps commute.\<close>

lemma deref_simps [simp]: "deref (Some x) = Inr x" "deref None = Inl NilDereference"
  by (simp_all add: deref_def)

lemma deref_Inr: "deref p = Inr x \<longleftrightarrow> p = Some x"
  by (auto simp: deref_def split: option.split)

lemma deref_Inl: "deref p = Inl e \<longleftrightarrow> p = None \<and> e = NilDereference"
  by (auto simp: deref_def split: option.split)

lemma foldR_Inr:
  "(\<And>x s. x \<in> set xs \<Longrightarrow> f x s = Inr (g x s)) \<Longrightarrow> foldR f xs s = Inr (fold g xs s)"
  by (induction xs arbitrary: s) simp_all

text \<open>Steps with one possible error: a loop over them has the same error only, and has it when one
  of the steps always fails.\<close>

definition onlyError :: "go_error \<Rightarrow> ('a \<Rightarrow> 's \<Rightarrow> 's result) \<Rightarrow> bool" where
  "onlyError e f = (\<forall>x s. (\<exists>s'. f x s = Inr s') \<or> f x s = Inl e)"

lemma onlyErrorD: "onlyError e f \<Longrightarrow> (\<exists>s'. f x s = Inr s') \<or> f x s = Inl e"
  unfolding onlyError_def by blast

lemma onlyError_foldR: "onlyError e f \<Longrightarrow> onlyError e (foldR f)"
proof -
  assume f: "onlyError e f"
  have "(\<exists>s'. foldR f xs s = Inr s') \<or> foldR f xs s = Inl e" for xs s
  proof (induction xs arbitrary: s)
    case (Cons x xs)
    then show ?case using onlyErrorD [OF f, of x s] by (elim disjE exE) simp_all
  qed simp
  then show ?thesis by (simp add: onlyError_def)
qed

lemma foldR_fails:
  assumes f: "onlyError e f" and x: "x \<in> set xs" "\<forall>s. f x s = Inl e"
  shows "foldR f xs s = Inl e"
  using x(1)
proof (induction xs arbitrary: s)
  case (Cons y ys)
  then show ?case using x(2) onlyErrorD [OF f, of y s] by auto
qed simp

lemma foldR_fold: "foldR f xs s = fold (\<lambda>x r. bindR r (f x)) xs (Inr s)"
proof -
  have "fold (\<lambda>x r. bindR r (f x)) xs m = bindR m (foldR f xs)" for m
  proof (induction xs arbitrary: m)
    case Nil
    show ?case by (cases m) simp_all
  next
    case (Cons x xs)
    then show ?case by (cases m) simp_all
  qed
  then show ?thesis by simp
qed

lemma foldR_perm:
  assumes "mset xs = mset ys"
    and comm: "\<And>x y s. x \<in> set xs \<Longrightarrow> y \<in> set xs \<Longrightarrow> bindR (f x s) (f y) = bindR (f y s) (f x)"
  shows "foldR f xs s = foldR f ys s"
proof -
  have "fold (\<lambda>x r. bindR r (f x)) xs = fold (\<lambda>x r. bindR r (f x)) ys"
  proof (rule fold_multiset_equiv [OF _ assms(1)], rule ext, simp add: bindR_assoc)
    fix x y and r :: "'b result"
    assume "x \<in> set xs" "y \<in> set xs"
    then show "bindR r (\<lambda>s. bindR (f y s) (f x)) = bindR r (\<lambda>s. bindR (f x s) (f y))"
      by (cases r) (simp_all add: comm)
  qed
  then show ?thesis by (simp add: foldR_fold)
qed

lemma mapR_Inr: "mapR f xs = Inr ys \<longleftrightarrow> list_all2 (\<lambda>x y. f x = Inr y) xs ys"
  by (induction xs arbitrary: ys) (auto simp: bindR_Inr list_all2_Cons1)

lemma mapR_total: "(\<And>x. x \<in> set xs \<Longrightarrow> f x = Inr (g x)) \<Longrightarrow> mapR f xs = Inr (map g xs)"
  by (induction xs) auto

lemma mapR_Inl: "mapR f xs = Inl e \<Longrightarrow> \<exists>x \<in> set xs. f x = Inl e"
  by (induction xs) (auto simp: bindR_Inl)

lemma slotOf_appendTo [simp]:
  "slotOf (appendTo k xs m) k' = (if k' = k then slotOf m k @ xs else slotOf m k')"
  by (simp add: slotOf_def appendTo_def)

lemma slotOf_update [simp]: "slotOf (AList.update k xs m) k' = (if k' = k then xs else slotOf m k')"
  by (simp add: slotOf_def)

lemma slotOf_Nil [simp]: "slotOf [] k = []"
  by (simp add: slotOf_def)

lemma distinct_appendTo [simp]:
  "distinct (map fst m) \<Longrightarrow> distinct (map fst (appendTo k xs m))"
  by (simp add: appendTo_def distinct_update)

end
