(* ===== verification/Api_Types.thy ===== *)
theory Api_Types
  imports Go_Prelude "HOL-Library.Word"
begin

text \<open>
  The custom resources of \<^verbatim>\<open>api/v1alpha1\<close>: one record per Go struct, with the struct's fields
  in their order, and the methods the structs carry.

  \<^item> A slice is a list; a slice the code compares with nil is an optional list, \<^const>\<open>None\<close> for
    nil. A pointer is an \<open>option\<close>; a slice of pointers is a list of options, so that a nil
    element is a value of the model.
  \<^item> \<^verbatim>\<open>apiextensions.JSON\<close> is its raw bytes; \<^verbatim>\<open>resource.Quantity\<close> is its textual form.
  \<^item> \<^verbatim>\<open>ChromeNavItem\<close> is recursive through two slices, so it is a datatype: a record of the flat
    fields and the two slices.
  \<^item> Field names carry a short prefix per struct, since record fields share one name space.
\<close>

section \<open>Kubernetes metadata\<close>

type_synonym JSON = string
type_synonym Quantity = string

record OwnerReference =
  or_APIVersion :: string
  or_Kind :: string
  or_Name :: string
  or_UID :: string
  or_Controller :: "bool option"

record ObjectMeta =
  om_Name :: string
  om_Namespace :: string
  om_UID :: string
  om_ResourceVersion :: string
  om_CreationTimestamp :: string
  om_DeletionTimestamp :: "string option"
  om_Labels :: "strmap option"
  om_Annotations :: "strmap option"
  om_OwnerReferences :: "OwnerReference list"
  om_Finalizers :: "string list"

record NamespacedName =
  nn_Namespace :: string
  nn_Name :: string

definition emptyMeta :: ObjectMeta where
  "emptyMeta = \<lparr>om_Name = [], om_Namespace = [], om_UID = [], om_ResourceVersion = [],
     om_CreationTimestamp = [], om_DeletionTimestamp = None, om_Labels = None,
     om_Annotations = None, om_OwnerReferences = [], om_Finalizers = []\<rparr>"

section \<open>Frontend\<close>

record APISpecInfo =
  as_URL :: string
  as_BundleLabels :: "string list"
  as_FrontendName :: string

record APIInfo =
  ai_Versions :: "string list"
  ai_Specs :: "APISpecInfo list"

record FrontendInfo =
  fi_Paths :: "string list"

record ServiceMonitorConfig =
  smc_Disabled :: bool

record Permission =
  perm_Method :: string
  perm_Apps :: "string list"
  perm_Args :: "JSON option"

record SearchEntry =
  se_ID :: string
  se_Href :: string
  se_Title :: string
  se_Description :: string
  se_AltTitle :: "string list"
  se_IsExternal :: bool
  se_FrontendRef :: string
  se_Permissions :: "Permission list"

record ServiceTile =
  st_Section :: string
  st_Group :: string
  st_ID :: string
  st_Href :: string
  st_Title :: string
  st_Description :: string
  st_Icon :: string
  st_IsExternal :: bool
  st_FrontendRef :: string
  st_Permissions :: "Permission list"

record SegmentRef =
  sr_FrontendName :: string
  sr_SegmentID :: string

record ChromeNavAttrs =
  nav_IsHidden :: bool
  nav_Expandable :: bool
  nav_Href :: string
  nav_AppID :: string
  nav_IsExternal :: bool
  nav_Title :: string
  nav_GroupID :: string
  nav_ID :: string
  nav_Product :: string
  nav_Notifier :: string
  nav_Icon :: string
  nav_IsBeta :: bool
  nav_Permissions :: "Permission list"
  nav_Position :: "64 word option"
  nav_SegmentRef :: "SegmentRef option"
  nav_BundleSegmentRef :: string
  nav_FrontendRef :: string

datatype ChromeNavItem =
  ChromeNavItem (nav_attrs: ChromeNavAttrs)
    (nav_NavItems: "ChromeNavItem list option") (nav_Routes: "ChromeNavItem list option")

record BundleSegment =
  bs_SegmentID :: string
  bs_BundleID :: string
  bs_Position :: "64 word"
  bs_NavItems :: "ChromeNavItem list option"

record NavigationSegment =
  ns_SegmentID :: string
  ns_NavItems :: "ChromeNavItem list option"

record SupportCaseData =
  scd_Version :: string
  scd_Product :: string

record Route =
  rt_Pathname :: string
  rt_Dynamic :: bool
  rt_Exact :: bool
  rt_Props :: "JSON option"
  rt_FullProfile :: bool
  rt_IsFedramp :: bool
  rt_SupportCaseData :: "SupportCaseData option"
  rt_Permissions :: "Permission list"

record Module =
  mod_ID :: string
  mod_Module :: string
  mod_Routes :: "Route list"
  mod_Dependencies :: "string list"
  mod_OptionalDependencies :: "string list"

record ModuleConfig =
  mc_SupportCaseData :: SupportCaseData
  mc_SSOScopes :: "string list"

record Analytics =
  an_APIKey :: string
  an_APIKeyDev :: string
  an_AutocaptureAPIKey :: string
  an_AutocaptureAPIKeyDev :: string

record FedModule =
  fm_ManifestLocation :: string
  fm_Modules :: "Module list"
  fm_ModuleID :: string
  fm_Config :: "JSON option"
  fm_ModuleConfig :: "ModuleConfig option"
  fm_FullProfile :: "bool option"
  fm_DefaultDocumentTitle :: string
  fm_IsFedramp :: "bool option"
  fm_Analytics :: "Analytics option"
  fm_CDNPath :: string

section \<open>Widgets\<close>

record WidgetTemplateConfigItem =
  wi_W :: "64 word"
  wi_H :: "64 word"
  wi_MaxH :: "64 word option"
  wi_MinH :: "64 word option"
  wi_CX :: "64 word option"
  wi_CY :: "64 word option"
  wi_I :: string
  wi_Static :: "bool option"

record TemplateConfig =
  tc_Sm :: "WidgetTemplateConfigItem list"
  tc_Md :: "WidgetTemplateConfigItem list"
  tc_Lg :: "WidgetTemplateConfigItem list"
  tc_Xl :: "WidgetTemplateConfigItem list"

record BaseWidgetDashboardTemplate =
  bt_Name :: string
  bt_DisplayName :: string
  bt_TemplateConfig :: TemplateConfig
  bt_FrontendRef :: string

record WidgetHeaderLink =
  wh_Title :: string
  wh_Href :: string

record WidgetConfiguration =
  wc_Title :: string
  wc_Icon :: string
  wc_HeaderLink :: WidgetHeaderLink
  wc_Permissions :: "Permission list"

record WidgetBaseDimensions =
  wd_Width :: "64 word option"
  wd_Height :: "64 word option"
  wd_MaxHeight :: "64 word option"
  wd_MinHeight :: "64 word option"

record WidgetModuleFederationMetadata =
  wm_Scope :: string
  wm_Module :: string
  wm_ImportName :: string
  wm_FeatureFlag :: string
  wm_Defaults :: WidgetBaseDimensions
  wm_Config :: WidgetConfiguration
  wm_FrontendRef :: string

section \<open>Bundles\<close>

record BundlePermission =
  bp_Method :: string
  bp_Args :: "string list"

record EmbeddedRoute =
  er_Title :: string
  er_AppID :: string
  er_Href :: string
  er_Product :: string

record LeafBundleNavItem =
  lb_Title :: string
  lb_GroupID :: string
  lb_AppID :: string
  lb_Href :: string
  lb_Product :: string
  lb_IsExternal :: bool
  lb_Filterable :: bool
  lb_Expandable :: bool
  lb_Notifier :: string
  lb_Routes :: "EmbeddedRoute list"
  lb_Permissions :: "BundlePermission list"

record BundleNavItem =
  bn_Title :: string
  bn_GroupID :: string
  bn_Icon :: string
  bn_NavItems :: "LeafBundleNavItem list"
  bn_AppID :: string
  bn_Href :: string
  bn_Product :: string
  bn_IsExternal :: bool
  bn_Filterable :: bool
  bn_Permissions :: "BundlePermission list"
  bn_Routes :: "EmbeddedRoute list"
  bn_Expandable :: bool
  bn_DynamicNav :: string

record ExtraNavItem =
  xn_Name :: string
  xn_NavItem :: ChromeNavItem

record BundleSpec =
  bsp_ID :: string
  bsp_Title :: string
  bsp_AppList :: "string list"
  bsp_EnvName :: string
  bsp_ExtraNavItems :: "ExtraNavItem list"
  bsp_CustomNav :: "ChromeNavItem list"

record Bundle =
  bu_Meta :: ObjectMeta
  bu_Spec :: BundleSpec

section \<open>The Frontend resource\<close>

record FrontendSpec =
  fs_Disabled :: bool
  fs_EnvName :: string
  fs_Title :: string
  fs_DeploymentRepo :: string
  fs_API :: "APIInfo option"
  fs_Frontend :: FrontendInfo
  fs_Image :: string
  fs_Service :: string
  fs_ServiceMonitor :: ServiceMonitorConfig
  fs_Module :: "FedModule option"
  fs_NavItems :: "BundleNavItem option list"
  fs_BundleSegments :: "BundleSegment option list option"
  fs_NavigationSegments :: "NavigationSegment option list option"
  fs_AssetsPrefix :: string
  fs_AkamaiCacheBustDisable :: bool
  fs_AkamaiCacheBustPaths :: "string list option"
  fs_SearchEntries :: "SearchEntry option list option"
  fs_ServiceTiles :: "ServiceTile option list option"
  fs_WidgetRegistry :: "WidgetModuleFederationMetadata option list"
  fs_BaseWidgetLayouts :: "BaseWidgetDashboardTemplate option list option"
  fs_Replicas :: "32 word option"
  fs_FeoConfigEnabled :: bool

record Condition =
  co_Type :: string
  co_Status :: string
  co_Reason :: string
  co_Message :: string
  co_LastTransitionTime :: string

record FrontendDeployments =
  fd_ManagedDeployments :: "32 word"
  fd_ReadyDeployments :: "32 word"

record FrontendStatus =
  fst_Deployments :: FrontendDeployments
  fst_Ready :: bool
  fst_Conditions :: "Condition list"

record Frontend =
  fe_APIVersion :: string
  fe_Kind :: string
  fe_Meta :: ObjectMeta
  fe_Spec :: FrontendSpec
  fe_Status :: FrontendStatus

type_synonym FrontendList = "Frontend list"

abbreviation fe_Name :: "Frontend \<Rightarrow> string" where
  "fe_Name f \<equiv> om_Name (fe_Meta f)"

abbreviation fe_Namespace :: "Frontend \<Rightarrow> string" where
  "fe_Namespace f \<equiv> om_Namespace (fe_Meta f)"

section \<open>The FrontendEnvironment resource\<close>

record FrontendBundles =
  fb_ID :: string
  fb_Title :: string
  fb_Description :: string

record FrontendBundlesGenerated =
  fbg_ID :: string
  fbg_Title :: string
  fbg_Description :: string
  fbg_NavItems :: "ChromeNavItem list"

record FrontendServiceCategoryGroup =
  scg_ID :: string
  scg_Title :: string

record FrontendServiceCategory =
  sc_ID :: string
  sc_Title :: string
  sc_Icon :: string
  sc_Groups :: "FrontendServiceCategoryGroup list"

record FrontendServiceCategoryGroupGenerated =
  gg_ID :: string
  gg_Title :: string
  gg_Tiles :: "ServiceTile list"

record FrontendServiceCategoryGenerated =
  cg_ID :: string
  cg_Title :: string
  cg_Icon :: string
  cg_Groups :: "FrontendServiceCategoryGroupGenerated list"

record MonitoringConfig =
  mon_Mode :: string
  mon_Disabled :: bool

record FrontendEnvironmentSpec =
  env_SSO :: string
  env_SSOMapping :: "strmap option"
  env_IngressClass :: string
  env_IngressAnnotations :: "strmap option"
  env_Hostname :: string
  env_Whitelist :: "string list"
  env_Monitoring :: "MonitoringConfig option"
  env_SSL :: bool
  env_GenerateNavJSON :: bool
  env_EnableAkamaiCacheBust :: bool
  env_AkamaiCacheBustImage :: string
  env_AkamaiCacheBustURL :: string
  env_AkamaiCacheBustURLs :: "string list"
  env_AkamaiSecretName :: string
  env_TargetNamespaces :: "string list"
  env_ServiceCategories :: "FrontendServiceCategory list option"
  env_HTTPHeaders :: "strmap option"
  env_OverwriteCaddyConfig :: bool
  env_EnablePushCache :: bool
  env_ValpopImage :: string
  env_ReverseProxyImage :: string
  env_ReverseProxySPAEntrypointPath :: string
  env_ReverseProxyLogLevel :: string
  env_ReverseProxyHostname :: string
  env_DeployCutoffTimestampPushCache :: string
  env_DefaultReplicas :: "32 word option"
  env_Bundles :: "FrontendBundles list option"
  env_Requests :: "strmap option"
  env_Limits :: "strmap option"

record FrontendEnvironment =
  fenv_APIVersion :: string
  fenv_Kind :: string
  fenv_Meta :: ObjectMeta
  fenv_Spec :: FrontendEnvironmentSpec

abbreviation fenv_Name :: "FrontendEnvironment \<Rightarrow> string" where
  "fenv_Name e \<equiv> om_Name (fenv_Meta e)"

text \<open>The zero values of the two resources, for concrete runs.\<close>

definition emptySpec :: FrontendSpec where
  "emptySpec = \<lparr>fs_Disabled = False, fs_EnvName = [], fs_Title = [], fs_DeploymentRepo = [],
     fs_API = None, fs_Frontend = \<lparr>fi_Paths = []\<rparr>, fs_Image = [], fs_Service = [],
     fs_ServiceMonitor = \<lparr>smc_Disabled = False\<rparr>, fs_Module = None, fs_NavItems = [],
     fs_BundleSegments = None, fs_NavigationSegments = None, fs_AssetsPrefix = [],
     fs_AkamaiCacheBustDisable = False, fs_AkamaiCacheBustPaths = None, fs_SearchEntries = None,
     fs_ServiceTiles = None, fs_WidgetRegistry = [], fs_BaseWidgetLayouts = None,
     fs_Replicas = None, fs_FeoConfigEnabled = False\<rparr>"

definition emptyFrontend :: "string \<Rightarrow> Frontend" where
  "emptyFrontend name = \<lparr>fe_APIVersion = ''cloud.redhat.com/v1alpha1'', fe_Kind = ''Frontend'',
     fe_Meta = emptyMeta\<lparr>om_Name := name\<rparr>, fe_Spec = emptySpec,
     fe_Status = \<lparr>fst_Deployments = \<lparr>fd_ManagedDeployments = 0, fd_ReadyDeployments = 0\<rparr>,
       fst_Ready = False, fst_Conditions = []\<rparr>\<rparr>"

definition emptyEnvSpec :: FrontendEnvironmentSpec where
  "emptyEnvSpec = \<lparr>env_SSO = [], env_SSOMapping = None, env_IngressClass = [],
     env_IngressAnnotations = None, env_Hostname = [], env_Whitelist = [], env_Monitoring = None,
     env_SSL = False, env_GenerateNavJSON = False, env_EnableAkamaiCacheBust = False,
     env_AkamaiCacheBustImage = [], env_AkamaiCacheBustURL = [], env_AkamaiCacheBustURLs = [],
     env_AkamaiSecretName = [], env_TargetNamespaces = [], env_ServiceCategories = None,
     env_HTTPHeaders = None, env_OverwriteCaddyConfig = False, env_EnablePushCache = False,
     env_ValpopImage = [], env_ReverseProxyImage = [], env_ReverseProxySPAEntrypointPath = [],
     env_ReverseProxyLogLevel = [], env_ReverseProxyHostname = [],
     env_DeployCutoffTimestampPushCache = [], env_DefaultReplicas = None, env_Bundles = None,
     env_Requests = None, env_Limits = None\<rparr>"

definition emptyEnv :: FrontendEnvironment where
  "emptyEnv = \<lparr>fenv_APIVersion = ''cloud.redhat.com/v1alpha1'', fenv_Kind = ''FrontendEnvironment'',
     fenv_Meta = emptyMeta, fenv_Spec = emptyEnvSpec\<rparr>"

section \<open>Methods of ChromeNavItem\<close>

definition HasSegmentRef :: "ChromeNavItem \<Rightarrow> bool" where
  "HasSegmentRef navItem = (nav_SegmentRef (nav_attrs navItem) \<noteq> None)"

definition IsValidNavItem :: "ChromeNavItem \<Rightarrow> bool" where
  "IsValidNavItem navItem =
     (nav_Title (nav_attrs navItem) \<noteq> [] \<and> nav_Href (nav_attrs navItem) \<noteq> [])"

definition IsExpandable :: "ChromeNavItem \<Rightarrow> bool" where
  "IsExpandable navItem =
     (nav_Expandable (nav_attrs navItem) \<and> nav_Routes navItem \<noteq> None)"

definition IsGroup :: "ChromeNavItem \<Rightarrow> bool" where
  "IsGroup navItem = (nav_GroupID (nav_attrs navItem) \<noteq> [] \<and> nav_NavItems navItem \<noteq> None)"

section \<open>Methods of Frontend and FrontendEnvironment\<close>

definition MakeOwnerReference :: "Frontend \<Rightarrow> OwnerReference" where
  "MakeOwnerReference i = \<lparr>or_APIVersion = fe_APIVersion i, or_Kind = fe_Kind i,
     or_Name = fe_Name i, or_UID = om_UID (fe_Meta i), or_Controller = Some True\<rparr>"

definition MakeEnvOwnerReference :: "FrontendEnvironment \<Rightarrow> OwnerReference" where
  "MakeEnvOwnerReference i = \<lparr>or_APIVersion = fenv_APIVersion i, or_Kind = fenv_Kind i,
     or_Name = fenv_Name i, or_UID = om_UID (fenv_Meta i), or_Controller = Some True\<rparr>"

definition GetIdent :: "Frontend \<Rightarrow> string" where
  "GetIdent i = fs_EnvName (fe_Spec i) @ ''.'' @ fe_Name i"

fun anyEq :: "string list \<Rightarrow> string \<Rightarrow> bool" where
  "anyEq [] lookup = False"
| "anyEq (a # as) lookup = (if a = lookup then True else anyEq as lookup)"

definition HasPath :: "FrontendInfo \<Rightarrow> string \<Rightarrow> bool" where
  "HasPath feinfo lookup = anyEq (fi_Paths feinfo) lookup"

text \<open>\<open>GetLabels\<close> stores the default label in the receiver and returns a copy of its labels. The
  label key is the only difference between the three resources.\<close>

definition getLabels :: "string \<Rightarrow> ObjectMeta \<Rightarrow> strmap \<times> ObjectMeta" where
  "getLabels key i =
     (let i1 = (if om_Labels i = None then i\<lparr>om_Labels := Some []\<rparr> else i);
          i2 = (if map_of (entries (om_Labels i1)) key = None
                then i1\<lparr>om_Labels := mapPut (om_Labels i1) key (om_Name i1)\<rparr> else i1)
      in (entries (om_Labels i2), i2))"

definition GetLabels :: "Frontend \<Rightarrow> strmap \<times> Frontend" where
  "GetLabels i = (let (m, meta) = getLabels ''frontend'' (fe_Meta i) in (m, i\<lparr>fe_Meta := meta\<rparr>))"

definition GetEnvLabels :: "FrontendEnvironment \<Rightarrow> strmap \<times> FrontendEnvironment" where
  "GetEnvLabels i =
     (let (m, meta) = getLabels ''frontendenv'' (fenv_Meta i) in (m, i\<lparr>fenv_Meta := meta\<rparr>))"

definition GetBundleLabels :: "Bundle \<Rightarrow> strmap \<times> Bundle" where
  "GetBundleLabels i =
     (let (m, meta) = getLabels ''Bundle'' (bu_Meta i) in (m, i\<lparr>bu_Meta := meta\<rparr>))"

definition GenerateTargetNamespace :: "FrontendEnvironment \<Rightarrow> string" where
  "GenerateTargetNamespace i = fenv_Name i"

text \<open>\<open>GetDeploymentStatus\<close> returns a pointer into the status; nothing in the repository writes through it, so
  it is a read.\<close>

definition GetConditions :: "Frontend \<Rightarrow> Condition list" where
  "GetConditions i = fst_Conditions (fe_Status i)"

definition SetConditions :: "Condition list \<Rightarrow> Frontend \<Rightarrow> Frontend" where
  "SetConditions conditions i = i\<lparr>fe_Status := (fe_Status i)\<lparr>fst_Conditions := conditions\<rparr>\<rparr>"

definition GetDeploymentStatus :: "Frontend \<Rightarrow> FrontendDeployments" where
  "GetDeploymentStatus i = fst_Deployments (fe_Status i)"

section \<open>Facts about the methods\<close>

lemma anyEq_iff [simp]: "anyEq xs x = (x \<in> set xs)"
  by (induction xs) auto

lemma SetConditions_reads [simp]:
  "GetConditions (SetConditions conditions i) = conditions"
  "GetDeploymentStatus (SetConditions conditions i) = GetDeploymentStatus i"
  by (simp_all add: GetConditions_def SetConditions_def GetDeploymentStatus_def)

lemma HasPath_iff: "HasPath feinfo p = (p \<in> set (fi_Paths feinfo))"
  by (simp add: HasPath_def)

lemma getLabels_has_key:
  "map_of (fst (getLabels key i)) key =
     Some (case map_of (entries (om_Labels i)) key of None \<Rightarrow> om_Name i | Some v \<Rightarrow> v)"
  by (cases "om_Labels i") (auto simp: getLabels_def Let_def split: option.split)

lemma getLabels_other_keys:
  "k \<noteq> key \<Longrightarrow> map_of (fst (getLabels key i)) k = map_of (entries (om_Labels i)) k"
  by (cases "om_Labels i") (auto simp: getLabels_def Let_def)

end
