(* ===== verification/Navigation.thy ===== *)
theory Navigation
  imports Api_Types
begin

text \<open>
  The navigation part of \<^verbatim>\<open>controllers/reconcile.go\<close>: \<open>fillNavRefsTree\<close> replaces segment
  references by the segments they name, \<open>filterUnknownNavRefs\<close> drops the references that are left,
  \<open>addRefsToNavItems\<close> stamps the origin on every item.

  \<^item> \<open>fillFrom\<close> is the body of \<open>fillNavRefsTree\<close> with the loop variable \<open>index\<close> and the shared
    segment cache made explicit. The loop may run for ever, so it is a
    \<^theory_text>\<open>partial_function (option)\<close>: \<^const>\<open>None\<close> is "does not return". The writes
    \<^verbatim>\<open>parsedNavItems[index] = ...\<close> check the index, as Go does.
  \<^item> Slices are values. The code reuses backing arrays (\<^verbatim>\<open>append(s[:i], s[i+1:]...)\<close>), which only
    shows when one slice is filled twice. Between bundles that happens when two bundles of one
    environment have the same ID; \<^theory_text>\<open>Bundles\<close> has a parameter for what the second one finds. Inside one
    call it happens only in a reference cycle.
  \<^item> The specification, the full expansion over a fixed table of segments, is \<open>expands\<close> of
    \<^theory_text>\<open>Nav_Expansion\<close>.
\<close>

section \<open>Items\<close>

definition setRoutes :: "ChromeNavItem list \<Rightarrow> ChromeNavItem \<Rightarrow> ChromeNavItem" where
  "setRoutes rs n = ChromeNavItem (nav_attrs n) (nav_NavItems n) (Some rs)"

definition setNavItems :: "ChromeNavItem list \<Rightarrow> ChromeNavItem \<Rightarrow> ChromeNavItem" where
  "setNavItems ns n = ChromeNavItem (nav_attrs n) (Some ns) (nav_Routes n)"

definition setAttrs :: "ChromeNavAttrs \<Rightarrow> ChromeNavItem \<Rightarrow> ChromeNavItem" where
  "setAttrs a n = ChromeNavItem a (nav_NavItems n) (nav_Routes n)"

definition routesOf :: "ChromeNavItem \<Rightarrow> ChromeNavItem list" where
  "routesOf n = (case nav_Routes n of None \<Rightarrow> [] | Some rs \<Rightarrow> rs)"

definition groupOf :: "ChromeNavItem \<Rightarrow> ChromeNavItem list" where
  "groupOf n = (case nav_NavItems n of None \<Rightarrow> [] | Some ns \<Rightarrow> ns)"

text \<open>The test \<^verbatim>\<open>navItem.HasSegmentRef() && navItem.Href == "" && navItem.Title == ""\<close>.\<close>

definition bareRef :: "ChromeNavItem \<Rightarrow> bool" where
  "bareRef n = (HasSegmentRef n \<and> nav_Href (nav_attrs n) = [] \<and> nav_Title (nav_attrs n) = [])"

definition refOf :: "ChromeNavItem \<Rightarrow> SegmentRef" where
  "refOf n = (case nav_SegmentRef (nav_attrs n) of
     None \<Rightarrow> \<lparr>sr_FrontendName = [], sr_SegmentID = []\<rparr> | Some r \<Rightarrow> r)"

section \<open>The segment cache\<close>

record NavSegmentCacheEntry =
  ce_NavItems :: "ChromeNavItem list"
  ce_IsFilled :: bool

type_synonym NavCache = "string \<Rightarrow> (string \<Rightarrow> NavSegmentCacheEntry option) option"

definition cacheGet :: "NavCache \<Rightarrow> SegmentRef \<Rightarrow> NavSegmentCacheEntry option" where
  "cacheGet cache r =
     (case cache (sr_FrontendName r) of None \<Rightarrow> None | Some m \<Rightarrow> m (sr_SegmentID r))"

definition cachePut :: "NavCache \<Rightarrow> SegmentRef \<Rightarrow> NavSegmentCacheEntry \<Rightarrow> NavCache" where
  "cachePut cache r e = cache(sr_FrontendName r \<mapsto>
     (case cache (sr_FrontendName r) of None \<Rightarrow> Map.empty | Some m \<Rightarrow> m)(sr_SegmentID r \<mapsto> e))"

section \<open>fillNavRefsTree\<close>

definition copySegmentItems :: "ChromeNavItem \<Rightarrow> ChromeNavItem list \<Rightarrow> ChromeNavItem list" where
  "copySegmentItems navItem segmentRefItems =
     map (\<lambda>item. setAttrs ((nav_attrs item)
        \<lparr>nav_BundleSegmentRef := nav_BundleSegmentRef (nav_attrs navItem),
         nav_FrontendRef := sr_FrontendName (refOf navItem),
         nav_SegmentRef := nav_SegmentRef (nav_attrs navItem)\<rparr>) item) segmentRefItems"

definition replaceAt :: "'a list \<Rightarrow> nat \<Rightarrow> 'a list \<Rightarrow> 'a list" where
  "replaceAt xs index ys = take index xs @ ys @ drop (Suc index) xs"

definition updateAt :: "'a list \<Rightarrow> nat \<Rightarrow> ('a \<Rightarrow> 'a) \<Rightarrow> 'a list result" where
  "updateAt xs index f =
     (if index < length xs then Inr (xs[index := f (xs ! index)]) else Inl IndexOutOfRange)"

definition depthError :: go_error where
  "depthError = Errorf ''maximum navigation depth reached''"

partial_function (option) fillFrom ::
  "nat \<Rightarrow> ChromeNavItem list \<Rightarrow> nat \<Rightarrow> NavCache \<Rightarrow> (ChromeNavItem list \<times> NavCache) run"
where
  "fillFrom depth parsed index cache =
    (if 10 < depth then failF depthError
     else if length parsed \<le> index then returnF (parsed, cache)
     else let navItem = parsed ! index in
       bindF
         (if bareRef navItem then
            (case cacheGet cache (refOf navItem) of
               None \<Rightarrow> returnF None
             | Some entry \<Rightarrow>
                 bindF
                   (if \<not> ce_IsFilled entry then
                      bindF (fillFrom (Suc depth) (ce_NavItems entry) 0 cache)
                        (\<lambda>p. returnF (fst p, cachePut (snd p) (refOf navItem)
                            \<lparr>ce_NavItems = fst p, ce_IsFilled = True\<rparr>))
                    else returnF (ce_NavItems entry, cache))
                   (\<lambda>p. returnF (Some
                      (replaceAt parsed index (copySegmentItems navItem (fst p)), snd p))))
          else returnF (Some (parsed, cache)))
         (\<lambda>s1. case s1 of
            None \<Rightarrow> fillFrom depth parsed (Suc index) cache
          | Some p1 \<Rightarrow>
              bindF
                (if IsExpandable navItem then
                   bindF (fillFrom (Suc depth) (routesOf navItem) 0 (snd p1))
                     (\<lambda>p. Some (bindR (updateAt (fst p1) index (setRoutes (fst p)))
                        (\<lambda>xs. Inr (xs, snd p))))
                 else returnF p1)
                (\<lambda>p2. bindF
                   (if IsGroup navItem then
                      bindF (fillFrom (Suc depth) (groupOf navItem) 0 (snd p2))
                        (\<lambda>p. Some (bindR (updateAt (fst p2) index (setNavItems (fst p)))
                           (\<lambda>xs. Inr (xs, snd p))))
                    else returnF p2)
                   (\<lambda>p3. fillFrom depth (fst p3) (Suc index) (snd p3)))))"

definition fillNavRefsTree ::
  "ChromeNavItem list \<Rightarrow> NavCache \<Rightarrow> nat \<Rightarrow> (ChromeNavItem list \<times> NavCache) run"
where
  "fillNavRefsTree navItems navSegmentsCache depth = fillFrom depth navItems 0 navSegmentsCache"

section \<open>filterUnknownNavRefs and addRefsToNavItems\<close>

text \<open>The two functions recurse into the routes of an expandable item and the items of a group,
  which are smaller than the item.\<close>

lemma size_routesOf [termination_simp]:
  "size_list size (routesOf n) < Suc (size (n :: ChromeNavItem) + k)"
  by (cases n) (auto simp: routesOf_def split: option.split)

lemma size_groupOf [termination_simp]:
  "size_list size (groupOf n) < Suc (size (n :: ChromeNavItem) + k)"
  by (cases n) (auto simp: groupOf_def split: option.split)

fun filterUnknownNavRefs :: "ChromeNavItem list \<Rightarrow> ChromeNavItem list" where
  "filterUnknownNavRefs [] = []"
| "filterUnknownNavRefs (navItem # navItems) =
     (if bareRef navItem then filterUnknownNavRefs navItems
      else let n1 = (if IsExpandable navItem
                     then setRoutes (filterUnknownNavRefs (routesOf navItem)) navItem else navItem);
               n2 = (if IsGroup navItem
                     then setNavItems (filterUnknownNavRefs (groupOf navItem)) n1 else n1)
           in n2 # filterUnknownNavRefs navItems)"

definition stampRefs :: "string \<Rightarrow> string \<Rightarrow> ChromeNavItem \<Rightarrow> ChromeNavItem" where
  "stampRefs frontendID parentBundleSegmentRef navItem =
     setAttrs ((nav_attrs navItem)\<lparr>nav_BundleSegmentRef := parentBundleSegmentRef,
       nav_FrontendRef := frontendID\<rparr>) navItem"

fun addRefsToNavItems ::
  "ChromeNavItem list \<Rightarrow> string \<Rightarrow> string \<Rightarrow> string \<Rightarrow> ChromeNavItem list" where
  "addRefsToNavItems [] bundleID frontendID parentBundleSegmentRef = []"
| "addRefsToNavItems (navItem # navItems) bundleID frontendID parentBundleSegmentRef =
     (let n0 = stampRefs frontendID parentBundleSegmentRef navItem;
          n1 = (if IsExpandable navItem
                then setRoutes (addRefsToNavItems (routesOf navItem) bundleID frontendID
                  parentBundleSegmentRef) n0 else n0);
          n2 = (if IsGroup navItem
                then setNavItems (addRefsToNavItems (groupOf navItem) bundleID frontendID
                  parentBundleSegmentRef) n1 else n1)
      in n2 # addRefsToNavItems navItems bundleID frontendID parentBundleSegmentRef)"

section \<open>Facts about items and the cache\<close>

definition titled :: "ChromeNavItem \<Rightarrow> bool" where
  "titled n = (nav_Href (nav_attrs n) \<noteq> [] \<or> nav_Title (nav_attrs n) \<noteq> [])"

lemma setter_simps [simp]:
  "nav_attrs (setRoutes rs n) = nav_attrs n" "nav_NavItems (setRoutes rs n) = nav_NavItems n"
  "nav_Routes (setRoutes rs n) = Some rs"
  "nav_attrs (setNavItems ns n) = nav_attrs n" "nav_NavItems (setNavItems ns n) = Some ns"
  "nav_Routes (setNavItems ns n) = nav_Routes n"
  "nav_attrs (setAttrs a n) = a" "nav_NavItems (setAttrs a n) = nav_NavItems n"
  "nav_Routes (setAttrs a n) = nav_Routes n"
  "setAttrs (nav_attrs n) n = n" "setAttrs a (setAttrs b n) = setAttrs a n"
  by (simp_all add: setRoutes_def setNavItems_def setAttrs_def)

lemma routesOf_simps [simp]:
  "routesOf (setRoutes rs n) = rs" "routesOf (setNavItems ns n) = routesOf n"
  "routesOf (setAttrs a n) = routesOf n" "groupOf (setRoutes rs n) = groupOf n"
  "groupOf (setNavItems ns n) = ns" "groupOf (setAttrs a n) = groupOf n"
  by (simp_all add: routesOf_def groupOf_def)

lemma item_test_simps [simp]:
  "bareRef (setRoutes rs n) = bareRef n" "bareRef (setNavItems ns n) = bareRef n"
  "titled (setRoutes rs n) = titled n" "titled (setNavItems ns n) = titled n"
  "IsExpandable (setNavItems ns n) = IsExpandable n" "IsGroup (setRoutes rs n) = IsGroup n"
  "IsExpandable n \<Longrightarrow> IsExpandable (setRoutes rs n)" "IsGroup n \<Longrightarrow> IsGroup (setNavItems ns n)"
  by (simp_all add: bareRef_def titled_def HasSegmentRef_def IsExpandable_def IsGroup_def)

lemma setRoutes_routesOf [simp]: "IsExpandable n \<Longrightarrow> setRoutes (routesOf n) n = n"
  by (cases n) (auto simp: IsExpandable_def setRoutes_def routesOf_def)

lemma setNavItems_groupOf [simp]: "IsGroup n \<Longrightarrow> setNavItems (groupOf n) n = n"
  by (cases n) (auto simp: IsGroup_def setNavItems_def groupOf_def)

lemma bareRef_not_titled: "bareRef n \<Longrightarrow> \<not> titled n"
  by (simp add: bareRef_def titled_def)

lemma titled_not_bareRef: "titled n \<Longrightarrow> \<not> bareRef n"
  using bareRef_not_titled by blast

lemma length_copySegmentItems [simp]: "length (copySegmentItems n xs) = length xs"
  by (simp add: copySegmentItems_def)

lemma copySegmentItems_Nil [simp]: "copySegmentItems n xs = [] \<longleftrightarrow> xs = []"
  by (simp add: copySegmentItems_def)

lemma titled_copySegmentItems [simp]:
  "(\<forall>x \<in> set (copySegmentItems n xs). titled x) = (\<forall>x \<in> set xs. titled x)"
  by (auto simp: copySegmentItems_def titled_def)

lemma cacheGet_cachePut [simp]:
  "cacheGet (cachePut c r e) r' = (if r' = r then Some e else cacheGet c r')"
  by (auto simp: cacheGet_def cachePut_def split: option.split)

lemma updateAt_Inr: "updateAt xs i f = Inr ys \<longleftrightarrow> i < length xs \<and> ys = xs[i := f (xs ! i)]"
  by (auto simp: updateAt_def)

lemma replaceAt_split:
  assumes "i < length xs" and "ys \<noteq> []"
  shows "i < length (replaceAt xs i ys)"
    "take (Suc i) (replaceAt xs i ys) = take i xs @ [hd ys]"
    "drop (Suc i) (replaceAt xs i ys) = tl ys @ drop (Suc i) xs"
  using assms by (simp_all add: replaceAt_def neq_Nil_conv) (auto simp: min_def)

text \<open>Items and caches for concrete runs: a link, a reference, a cache with one segment.\<close>

definition emptyAttrs :: ChromeNavAttrs where
  "emptyAttrs = \<lparr>nav_IsHidden = False, nav_Expandable = False, nav_Href = [], nav_AppID = [],
     nav_IsExternal = False, nav_Title = [], nav_GroupID = [], nav_ID = [], nav_Product = [],
     nav_Notifier = [], nav_Icon = [], nav_IsBeta = False, nav_Permissions = [], nav_Position = None,
     nav_SegmentRef = None, nav_BundleSegmentRef = [], nav_FrontendRef = []\<rparr>"

definition linkItem :: "string \<Rightarrow> ChromeNavItem" where
  "linkItem t = ChromeNavItem (emptyAttrs\<lparr>nav_Title := t\<rparr>) None None"

definition refItem :: "string \<Rightarrow> string \<Rightarrow> ChromeNavItem" where
  "refItem f s = ChromeNavItem
     (emptyAttrs\<lparr>nav_SegmentRef := Some \<lparr>sr_FrontendName = f, sr_SegmentID = s\<rparr>\<rparr>) None None"

definition oneSegment :: "string \<Rightarrow> string \<Rightarrow> ChromeNavItem list \<Rightarrow> NavCache" where
  "oneSegment f s its = cachePut Map.empty \<lparr>sr_FrontendName = f, sr_SegmentID = s\<rparr>
     \<lparr>ce_NavItems = its, ce_IsFilled = False\<rparr>"

lemma demo_items [simp]:
  "\<not> bareRef (linkItem t)" "bareRef (refItem f s)" "titled (linkItem t) = (t \<noteq> [])"
  "\<not> titled (refItem f s)" "\<not> IsExpandable (linkItem t)" "\<not> IsExpandable (refItem f s)"
  "\<not> IsGroup (linkItem t)" "\<not> IsGroup (refItem f s)"
  "refOf (refItem f s) = \<lparr>sr_FrontendName = f, sr_SegmentID = s\<rparr>"
  by (simp_all add: linkItem_def refItem_def emptyAttrs_def bareRef_def titled_def IsExpandable_def
      IsGroup_def HasSegmentRef_def refOf_def)

lemma cacheGet_oneSegment [simp]:
  "cacheGet (oneSegment f s its) r =
     (if r = \<lparr>sr_FrontendName = f, sr_SegmentID = s\<rparr>
      then Some \<lparr>ce_NavItems = its, ce_IsFilled = False\<rparr> else None)"
  by (simp add: oneSegment_def) (simp add: cacheGet_def)

section \<open>One iteration of the loop\<close>

text \<open>The body of the loop over an arbitrary function \<open>f\<close> for the recursive calls, in its parts:
  the reference at the index, then the routes and the group of the item, then the next index.\<close>

type_synonym filler =
  "nat \<Rightarrow> ChromeNavItem list \<Rightarrow> nat \<Rightarrow> NavCache \<Rightarrow> (ChromeNavItem list \<times> NavCache) run"

definition refStage :: "filler \<Rightarrow> nat \<Rightarrow> ChromeNavItem list \<Rightarrow> nat \<Rightarrow> NavCache \<Rightarrow>
    (ChromeNavItem list \<times> NavCache) option run" where
  "refStage f depth parsed index cache =
     (let navItem = parsed ! index in
      if bareRef navItem then
        (case cacheGet cache (refOf navItem) of
           None \<Rightarrow> returnF None
         | Some entry \<Rightarrow>
             bindF
               (if \<not> ce_IsFilled entry then
                  bindF (f (Suc depth) (ce_NavItems entry) 0 cache)
                    (\<lambda>p. returnF (fst p, cachePut (snd p) (refOf navItem)
                        \<lparr>ce_NavItems = fst p, ce_IsFilled = True\<rparr>))
                else returnF (ce_NavItems entry, cache))
               (\<lambda>p. returnF (Some
                  (replaceAt parsed index (copySegmentItems navItem (fst p)), snd p))))
      else returnF (Some (parsed, cache)))"

definition subStage :: "filler \<Rightarrow> bool \<Rightarrow> ChromeNavItem list \<Rightarrow>
    (ChromeNavItem list \<Rightarrow> ChromeNavItem \<Rightarrow> ChromeNavItem) \<Rightarrow> nat \<Rightarrow> nat \<Rightarrow>
    ChromeNavItem list \<times> NavCache \<Rightarrow> (ChromeNavItem list \<times> NavCache) run" where
  "subStage f test items upd depth index p1 =
     (if test then
        bindF (f (Suc depth) items 0 (snd p1))
          (\<lambda>p. Some (bindR (updateAt (fst p1) index (upd (fst p))) (\<lambda>xs. Inr (xs, snd p))))
      else returnF p1)"

definition belowStage :: "filler \<Rightarrow> ChromeNavItem \<Rightarrow> nat \<Rightarrow> nat \<Rightarrow> ChromeNavItem list \<times> NavCache \<Rightarrow>
    (ChromeNavItem list \<times> NavCache) run" where
  "belowStage f n depth index p1 =
     bindF (subStage f (IsExpandable n) (routesOf n) setRoutes depth index p1)
       (subStage f (IsGroup n) (groupOf n) setNavItems depth index)"

definition fillBody :: "filler \<Rightarrow> filler" where
  "fillBody f d parsed i c =
     (if 10 < d then failF depthError
      else if length parsed \<le> i then returnF (parsed, c)
      else bindF (refStage f d parsed i c) (\<lambda>s1. case s1 of
          None \<Rightarrow> f d parsed (Suc i) c
        | Some p1 \<Rightarrow> bindF (belowStage f (parsed ! i) d i p1)
            (\<lambda>p. f d (fst p) (Suc i) (snd p))))"

lemma fillFrom_body: "fillFrom d parsed i c = fillBody fillFrom d parsed i c"
  by (subst fillFrom.simps)
    (simp add: fillBody_def refStage_def belowStage_def subStage_def bindF_assoc Let_def)

lemma fillFrom_induct [consumes 1, case_names body]:
  assumes "fillFrom d parsed i c = Some r"
    and "\<And>f d parsed i c r. (\<And>d parsed i c r. f d parsed i c = Some r \<Longrightarrow> P d parsed i c r) \<Longrightarrow>
      fillBody f d parsed i c = Some r \<Longrightarrow> P d parsed i c r"
  shows "P d parsed i c r"
proof (rule fillFrom.raw_induct [where P = P, OF _ assms(1)], goal_cases)
  case (1 f d parsed i c r)
  have "fillBody f d parsed i c = Some r"
    unfolding 1(2) [symmetric]
    by (simp add: fillBody_def refStage_def belowStage_def subStage_def bindF_assoc Let_def)
  with 1(1) show ?case by (rule assms(2))
qed

lemma fillFrom_deep: "10 < d \<Longrightarrow> fillFrom d parsed i c = failF depthError"
  by (simp add: fillFrom.simps)

lemma fillFrom_done: "d \<le> 10 \<Longrightarrow> length parsed \<le> i \<Longrightarrow> fillFrom d parsed i c = returnF (parsed, c)"
  by (simp add: fillFrom.simps)

lemma fillFrom_step:
  assumes "d \<le> 10" and "i < length parsed"
  shows "fillFrom d parsed i c =
    bindF (refStage fillFrom d parsed i c) (\<lambda>s1. case s1 of
        None \<Rightarrow> fillFrom d parsed (Suc i) c
      | Some p1 \<Rightarrow> bindF (belowStage fillFrom (parsed ! i) d i p1)
          (\<lambda>p. fillFrom d (fst p) (Suc i) (snd p)))"
  using assms by (subst fillFrom_body) (simp add: fillBody_def)

section \<open>Filtering and stamping\<close>

text \<open>The levels the code walks: the list itself, and below an item of a walked level its routes when it is
  expandable and its items when it is a group. The routes of an item that is not expandable and the items
  of one that is not a group are not walked: a reference there stays, an item there is not stamped.\<close>

fun noRefs :: "ChromeNavItem list \<Rightarrow> bool" where
  "noRefs [] = True"
| "noRefs (n # ns) = (\<not> bareRef n \<and> (IsExpandable n \<longrightarrow> noRefs (routesOf n)) \<and>
     (IsGroup n \<longrightarrow> noRefs (groupOf n)) \<and> noRefs ns)"

fun allStamped :: "string \<Rightarrow> string \<Rightarrow> ChromeNavItem list \<Rightarrow> bool" where
  "allStamped f b [] = True"
| "allStamped f b (n # ns) = (nav_FrontendRef (nav_attrs n) = f \<and> nav_BundleSegmentRef (nav_attrs n) = b \<and>
     (IsExpandable n \<longrightarrow> allStamped f b (routesOf n)) \<and> (IsGroup n \<longrightarrow> allStamped f b (groupOf n)) \<and>
     allStamped f b ns)"

text \<open>The list without its references: an item that is kept has its own fields, its routes and its group are
  without references where the code walks them and unchanged elsewhere.\<close>

inductive withoutRefs :: "ChromeNavItem list \<Rightarrow> ChromeNavItem list \<Rightarrow> bool" where
  nothing: "withoutRefs [] []"
| dropped: "bareRef n \<Longrightarrow> withoutRefs ns ms \<Longrightarrow> withoutRefs (n # ns) ms"
| kept: "\<not> bareRef n \<Longrightarrow> nav_attrs m = nav_attrs n \<Longrightarrow>
    (IsExpandable n \<longrightarrow> nav_Routes m = Some rs \<and> withoutRefs (routesOf n) rs) \<Longrightarrow>
    (\<not> IsExpandable n \<longrightarrow> nav_Routes m = nav_Routes n) \<Longrightarrow>
    (IsGroup n \<longrightarrow> nav_NavItems m = Some gs \<and> withoutRefs (groupOf n) gs) \<Longrightarrow>
    (\<not> IsGroup n \<longrightarrow> nav_NavItems m = nav_NavItems n) \<Longrightarrow>
    withoutRefs ns ms \<Longrightarrow> withoutRefs (n # ns) (m # ms)"

lemma stampRefs_simps [simp]:
  "nav_attrs (stampRefs f b n) = (nav_attrs n)\<lparr>nav_BundleSegmentRef := b, nav_FrontendRef := f\<rparr>"
  "bareRef (stampRefs f b n) = bareRef n" "titled (stampRefs f b n) = titled n"
  "IsExpandable (stampRefs f b n) = IsExpandable n" "IsGroup (stampRefs f b n) = IsGroup n"
  "routesOf (stampRefs f b n) = routesOf n" "groupOf (stampRefs f b n) = groupOf n"
  by (simp_all add: stampRefs_def bareRef_def titled_def HasSegmentRef_def IsExpandable_def IsGroup_def)

lemma stampRefs_setters [simp]:
  "stampRefs f b (setRoutes rs n) = setRoutes rs (stampRefs f b n)"
  "stampRefs f b (setNavItems rs n) = setNavItems rs (stampRefs f b n)"
  "stampRefs f b (stampRefs f' b' n) = stampRefs f b n"
  "setNavItems gs (setRoutes rs n) = setRoutes rs (setNavItems gs n)"
  "setRoutes rs (setRoutes rs' n) = setRoutes rs n"
  "setNavItems gs (setNavItems gs' n) = setNavItems gs n"
  by (simp_all add: stampRefs_def setRoutes_def setNavItems_def setAttrs_def)

lemma filter_noRefs: "noRefs (filterUnknownNavRefs items)"
  by (induction items rule: filterUnknownNavRefs.induct) (auto simp: Let_def)

lemma noRefs_filter: "noRefs items \<Longrightarrow> filterUnknownNavRefs items = items"
  by (induction items rule: filterUnknownNavRefs.induct) (auto simp: Let_def)

lemma filter_withoutRefs: "withoutRefs items (filterUnknownNavRefs items)"
proof (induction items rule: filterUnknownNavRefs.induct)
  case (2 n ns)
  let ?n1 = "if IsExpandable n then setRoutes (filterUnknownNavRefs (routesOf n)) n else n"
  let ?n2 = "if IsGroup n then setNavItems (filterUnknownNavRefs (groupOf n)) ?n1 else ?n1"
  show ?case
  proof (cases "bareRef n")
    case True
    with 2(1) show ?thesis by (simp add: withoutRefs.dropped)
  next
    case False
    have "withoutRefs (n # ns) (?n2 # filterUnknownNavRefs ns)"
      by (rule withoutRefs.kept [where rs = "filterUnknownNavRefs (routesOf n)" and gs = "filterUnknownNavRefs (groupOf n)"])
        (use False 2(2-4) in auto)
    with False show ?thesis by (simp add: Let_def)
  qed
qed (simp add: withoutRefs.nothing)

lemma add_stamped: "allStamped f b (addRefsToNavItems items bid f b)"
  by (induction items bid f b rule: addRefsToNavItems.induct) (auto simp: Let_def)

lemma add_overwrites:
  "addRefsToNavItems (addRefsToNavItems items bid f b) bid' f' b' = addRefsToNavItems items bid' f' b'"
  by (induction items bid f b rule: addRefsToNavItems.induct) (auto simp: Let_def)

lemma filter_add:
  "filterUnknownNavRefs (addRefsToNavItems items bid f b) =
     addRefsToNavItems (filterUnknownNavRefs items) bid f b"
  by (induction items bid f b rule: addRefsToNavItems.induct) (auto simp: Let_def)

text \<open>C31: \<open>filterUnknownNavRefs\<close> leaves no bare segment reference at the levels it walks: the list, the routes
  of expandable items and the items of groups there, and so on down. At these levels it keeps every other
  item, in order and with its own fields, and it leaves alone what it does not walk (routes of an item that
  is not expandable, items of one that is not a group). It changes nothing exactly when there was no
  reference to drop at a walked level.\<close>

theorem filterUnknownNavRefs_correct:
  "noRefs (filterUnknownNavRefs items) \<and> withoutRefs items (filterUnknownNavRefs items) \<and>
   (filterUnknownNavRefs items = items \<longleftrightarrow> noRefs items)"
  using filter_noRefs [of items] noRefs_filter [of items] filter_withoutRefs [of items] by auto

text \<open>C32: \<open>addRefsToNavItems\<close> stamps the frontend and the bundle segment on every item at the levels it
  walks (the list, the routes of expandable items and the items of groups there, and so on down; not the
  routes of an item that is not expandable nor the items of one that is not a group). A later stamp
  replaces an earlier one completely, and stamping commutes with dropping unknown references.\<close>

theorem addRefsToNavItems_correct:
  "allStamped f b (addRefsToNavItems items bid f b) \<and>
   addRefsToNavItems (addRefsToNavItems items bid f b) bid' f' b' = addRefsToNavItems items bid' f' b' \<and>
   filterUnknownNavRefs (addRefsToNavItems items bid f b) =
     addRefsToNavItems (filterUnknownNavRefs items) bid f b"
  using add_stamped add_overwrites filter_add by blast

text \<open>A reference below an item that is not expandable survives.\<close>

lemma unwalked_reference_stays:
  "filterUnknownNavRefs [setRoutes [refItem f s] (linkItem t)] = [setRoutes [refItem f s] (linkItem t)]"
  by (simp add: linkItem_def setRoutes_def emptyAttrs_def bareRef_def HasSegmentRef_def IsExpandable_def IsGroup_def)

end
