(* ===== verification/Nav_Termination.thy ===== *)
theory Nav_Termination
  imports Navigation
begin

text \<open>
  When the loop of \<open>fillNavRefsTree\<close> returns. A cache is \<open>closedCache\<close> when no segment is empty and
  every item of a segment has a title or a link, or is a reference to a segment of the cache.
  Over a closed cache the function returns for every list of items and every depth; with an
  untitled item left in second place of a referenced segment it does not.
\<close>

section \<open>Closed caches\<close>

definition known :: "NavCache \<Rightarrow> ChromeNavItem \<Rightarrow> bool" where
  "known c n = (bareRef n \<and> cacheGet c (refOf n) \<noteq> None)"

definition entryOK :: "NavCache \<Rightarrow> NavSegmentCacheEntry \<Rightarrow> bool" where
  "entryOK c e = (ce_NavItems e \<noteq> [] \<and>
     (\<forall>n \<in> set (ce_NavItems e). titled n \<or> \<not> ce_IsFilled e \<and> known c n))"

definition closedCache :: "NavCache \<Rightarrow> bool" where
  "closedCache c = (\<forall>r e. cacheGet c r = Some e \<longrightarrow> entryOK c e)"

definition sameSegments :: "NavCache \<Rightarrow> NavCache \<Rightarrow> bool" where
  "sameSegments c c' = (\<forall>r. (cacheGet c r = None) = (cacheGet c' r = None))"

text \<open>What a call at one depth promises: the cache stays closed over the same segments, and a list
  without unresolvable or untitled items comes back fully titled.\<close>

definition keeps :: "NavCache \<Rightarrow> ChromeNavItem list \<Rightarrow> (ChromeNavItem list \<times> NavCache) result \<Rightarrow> bool" where
  "keeps c items r = ((\<forall>e. r = Inl e \<longrightarrow> e = depthError) \<and> (\<forall>items' c'. r = Inr (items', c') \<longrightarrow>
     closedCache c' \<and> sameSegments c c' \<and>
     (items \<noteq> [] \<and> (\<forall>n \<in> set items. titled n \<or> known c n) \<longrightarrow>
        items' \<noteq> [] \<and> (\<forall>n \<in> set items'. titled n))))"

definition returns :: "nat \<Rightarrow> bool" where
  "returns d = (\<forall>items c. closedCache c \<longrightarrow>
     (\<exists>r. fillFrom d items 0 c = Some r \<and> keeps c items r))"

lemma sameSegments_refl [simp]: "sameSegments c c"
  by (simp add: sameSegments_def)

lemma sameSegments_trans: "sameSegments a b \<Longrightarrow> sameSegments b c \<Longrightarrow> sameSegments a c"
  by (simp add: sameSegments_def)

lemma known_sameSegments: "sameSegments c c' \<Longrightarrow> known c' n = known c n"
  by (simp add: sameSegments_def known_def)

lemma closedCacheD: "closedCache c \<Longrightarrow> cacheGet c r = Some e \<Longrightarrow> entryOK c e"
  unfolding closedCache_def by blast

lemma cachePut_closed:
  assumes "closedCache c" and "cacheGet c r \<noteq> None" and "its \<noteq> []" and "\<forall>n \<in> set its. titled n"
  shows "closedCache (cachePut c r \<lparr>ce_NavItems = its, ce_IsFilled = True\<rparr>)"
    and "sameSegments c (cachePut c r \<lparr>ce_NavItems = its, ce_IsFilled = True\<rparr>)"
proof -
  let ?c = "cachePut c r \<lparr>ce_NavItems = its, ce_IsFilled = True\<rparr>"
  show same: "sameSegments c ?c" using assms(2) by (simp add: sameSegments_def)
  have "entryOK ?c e" if "cacheGet c r' = Some e" for r' e
    using closedCacheD [OF assms(1) that] by (simp add: entryOK_def known_sameSegments [OF same])
  then show "closedCache ?c" using assms(3,4) by (auto simp: closedCache_def entryOK_def)
qed

section \<open>One iteration keeps the cache closed\<close>

text \<open>A stage may fail; when it succeeds it keeps the cache closed and changes nothing behind the
  index but the item itself.\<close>

definition stageOK :: "nat \<Rightarrow> ChromeNavItem list \<Rightarrow> ChromeNavItem list \<Rightarrow> NavCache \<Rightarrow>
    (ChromeNavItem list \<times> NavCache) result \<Rightarrow> bool" where
  "stageOK i front rest c r = ((\<forall>e. r = Inl e \<longrightarrow> e = depthError) \<and> (\<forall>xs c'. r = Inr (xs, c') \<longrightarrow>
     closedCache c' \<and> sameSegments c c' \<and> i < length xs \<and> drop (Suc i) xs = rest \<and>
     map titled (take (Suc i) xs) = map titled front))"

lemma subStage_ok:
  assumes "returns (Suc d)" and "closedCache c" and "i < length xs"
    and upd: "\<And>ys n. titled (upd ys n) = titled n"
  shows "\<exists>r. subStage fillFrom test items upd d i (xs, c) = Some r \<and>
    stageOK i (take (Suc i) xs) (drop (Suc i) xs) c r"
proof (cases test)
  case True
  from assms(1,2) obtain r where r: "fillFrom (Suc d) items 0 c = Some r" "keeps c items r"
    unfolding returns_def by blast
  show ?thesis
  proof (cases r)
    case (Inl e)
    with True r show ?thesis by (simp add: subStage_def stageOK_def keeps_def)
  next
    case (Inr p)
    then obtain ys c' where p: "r = Inr (ys, c')" by (cases p) auto
    have "map titled (take (Suc i) (xs[i := upd ys (xs ! i)])) = map titled (take (Suc i) xs)"
      using assms(3) upd by (simp add: take_map map_update flip: take_map)
        (metis list_update_id map_update)
    with True r p assms(3) show ?thesis
      by (auto simp: subStage_def stageOK_def updateAt_def keeps_def)
  qed
next
  case False
  then show ?thesis using assms(2,3) by (simp add: subStage_def stageOK_def)
qed

lemma belowStage_ok:
  assumes deeper: "returns (Suc d)" and "closedCache c" and "i < length xs"
  shows "\<exists>r. belowStage fillFrom n d i (xs, c) = Some r \<and>
    stageOK i (take (Suc i) xs) (drop (Suc i) xs) c r"
proof -
  obtain r2 where r2: "subStage fillFrom (IsExpandable n) (routesOf n) setRoutes d i (xs, c) = Some r2"
    "stageOK i (take (Suc i) xs) (drop (Suc i) xs) c r2"
    using subStage_ok [OF assms] item_test_simps(3) by metis
  show ?thesis
  proof (cases r2)
    case (Inl e)
    with r2 show ?thesis by (simp add: belowStage_def stageOK_def)
  next
    case (Inr q)
    then obtain ys c2 where q: "r2 = Inr (ys, c2)" by (cases q) auto
    with r2(2) have k: "closedCache c2" "sameSegments c c2" "i < length ys"
      "drop (Suc i) ys = drop (Suc i) xs" "map titled (take (Suc i) ys) = map titled (take (Suc i) xs)"
      by (auto simp: stageOK_def)
    obtain r3 where r3: "subStage fillFrom (IsGroup n) (groupOf n) setNavItems d i (ys, c2) = Some r3"
      "stageOK i (take (Suc i) ys) (drop (Suc i) ys) c2 r3"
      using subStage_ok [OF deeper k(1,3)] item_test_simps(4) by metis
    have "stageOK i (take (Suc i) xs) (drop (Suc i) xs) c r3"
      using r3(2) k sameSegments_trans [OF k(2)] by (simp add: stageOK_def)
    with r2 q r3 show ?thesis by (simp add: belowStage_def)
  qed
qed

lemma copies_split:
  assumes "i < length parsed" and "its \<noteq> []" and "\<forall>n \<in> set its. titled n"
  shows "i < length (replaceAt parsed i (copySegmentItems n its))"
    and "take (Suc i) (replaceAt parsed i (copySegmentItems n its)) = take i parsed @ [hd (copySegmentItems n its)]"
    and "drop (Suc i) (replaceAt parsed i (copySegmentItems n its)) = tl (copySegmentItems n its) @ drop (Suc i) parsed"
    and "\<forall>m \<in> set (hd (copySegmentItems n its) # tl (copySegmentItems n its)). titled m"
proof -
  let ?cs = "copySegmentItems n its"
  have ne: "?cs \<noteq> []" and "\<forall>m \<in> set ?cs. titled m" using assms(2,3) by simp_all
  then show "\<forall>m \<in> set (hd ?cs # tl ?cs). titled m" by (metis list.collapse)
qed (use assms in \<open>simp_all add: replaceAt_split\<close>)

lemma refStage_cases:
  assumes "returns (Suc d)" and "closedCache c" and "i < length parsed"
  obtains (unknown) "bareRef (parsed ! i)" "\<not> known c (parsed ! i)"
      "refStage fillFrom d parsed i c = returnF None"
    | (plain) "\<not> bareRef (parsed ! i)" "refStage fillFrom d parsed i c = returnF (Some (parsed, c))"
    | (fails) "refStage fillFrom d parsed i c = failF depthError"
    | (expanded) xs c' t ts where "known c (parsed ! i)"
      "refStage fillFrom d parsed i c = returnF (Some (xs, c'))" "closedCache c'" "sameSegments c c'"
      "i < length xs" "take (Suc i) xs = take i parsed @ [t]"
      "drop (Suc i) xs = ts @ drop (Suc i) parsed" "\<forall>n \<in> set (t # ts). titled n"
proof (cases "known c (parsed ! i)")
  case False
  then show thesis
    using unknown plain by (cases "bareRef (parsed ! i)") (auto simp: known_def refStage_def)
next
  case True
  let ?n = "parsed ! i"
  from True obtain e where e: "bareRef ?n" "cacheGet c (refOf ?n) = Some e" by (auto simp: known_def)
  have ok: "entryOK c e" using assms(2) e(2) by (rule closedCacheD)
  have use: thesis if "its \<noteq> []" "\<forall>n \<in> set its. titled n" and "closedCache c'" "sameSegments c c'"
    and "refStage fillFrom d parsed i c = returnF (Some (replaceAt parsed i (copySegmentItems ?n its), c'))"
    for its c'
    using True that copies_split [OF assms(3) that(1,2)] by (intro expanded)
  show thesis
  proof (cases "ce_IsFilled e")
    case True
    with ok e show thesis
      by (intro use [of "ce_NavItems e" c] assms(2)) (auto simp: entryOK_def refStage_def)
  next
    case False
    from assms(1,2) obtain r where r: "fillFrom (Suc d) (ce_NavItems e) 0 c = Some r"
      "keeps c (ce_NavItems e) r" unfolding returns_def by blast
    show thesis
    proof (cases r)
      case (Inl err)
      with False e r show thesis by (intro fails) (simp add: refStage_def keeps_def)
    next
      case (Inr q)
      then obtain its c1 where q: "r = Inr (its, c1)" by (cases q) auto
      with r(2) ok have k: "closedCache c1" "sameSegments c c1" "its \<noteq> []" "\<forall>n \<in> set its. titled n"
        unfolding keeps_def entryOK_def by blast+
      let ?c2 = "cachePut c1 (refOf ?n) \<lparr>ce_NavItems = its, ce_IsFilled = True\<rparr>"
      have "cacheGet c1 (refOf ?n) \<noteq> None" using k(2) e(2) by (metis option.distinct(1) sameSegments_def)
      with k have "closedCache ?c2" "sameSegments c ?c2"
        using cachePut_closed sameSegments_trans by blast+
      with False e r(1) q k show thesis by (intro use [of its ?c2]) (simp_all add: refStage_def Let_def)
    qed
  qed
qed

section \<open>The loop\<close>

text \<open>The bare references ahead of the index, and then the items ahead of it, get fewer.\<close>

definition refsAhead :: "ChromeNavItem list \<Rightarrow> nat \<Rightarrow> nat" where
  "refsAhead parsed i = length (filter bareRef (drop i parsed))"

lemma refsAhead_step:
  "i < length parsed \<Longrightarrow>
     refsAhead parsed i = (if bareRef (parsed ! i) then 1 else 0) + refsAhead parsed (Suc i)"
  by (simp add: refsAhead_def flip: Cons_nth_drop_Suc)

lemma refsAhead_titled:
  "drop j xs = ts @ drop k ys \<Longrightarrow> \<forall>n \<in> set ts. titled n \<Longrightarrow> refsAhead xs j = refsAhead ys k"
  by (auto simp: refsAhead_def filter_empty_conv dest: titled_not_bareRef)

text \<open>What the rest of the loop promises: the items before the index are titled already.\<close>

definition loopOK :: "NavCache \<Rightarrow> ChromeNavItem list \<Rightarrow> nat \<Rightarrow>
    (ChromeNavItem list \<times> NavCache) result \<Rightarrow> bool" where
  "loopOK c parsed i r = ((\<forall>e. r = Inl e \<longrightarrow> e = depthError) \<and> (\<forall>items' c'. r = Inr (items', c') \<longrightarrow>
     closedCache c' \<and> sameSegments c c' \<and>
     (parsed \<noteq> [] \<and> (\<forall>n \<in> set (take i parsed). titled n) \<and>
        (\<forall>n \<in> set (drop i parsed). titled n \<or> known c n) \<longrightarrow>
      items' \<noteq> [] \<and> (\<forall>n \<in> set items'. titled n))))"

lemma loopOK_Inl [simp]: "loopOK c parsed i (Inl e) = (e = depthError)"
  by (simp add: loopOK_def)

lemma all_titled_map: "map titled xs = map titled ys \<Longrightarrow> (\<forall>n \<in> set xs. titled n) = (\<forall>n \<in> set ys. titled n)"
  by (metis (mono_tags, lifting) imageE imageI list.set_map)

text \<open>From the state an iteration leaves to the state it started in.\<close>

lemma loopOK_advance:
  assumes "loopOK c' xs (Suc i) r" and "sameSegments c c'" and "i < length xs"
    and "map titled (take (Suc i) xs) = map titled (take i parsed @ [t])"
    and "drop (Suc i) xs = ts @ drop (Suc i) parsed" and "\<forall>n \<in> set ts. titled n"
    and "titled (parsed ! i) \<or> known c (parsed ! i) \<Longrightarrow> titled t" and "i < length parsed"
  shows "loopOK c parsed i r"
  unfolding loopOK_def
proof (rule conjI, use assms(1) in \<open>simp add: loopOK_def\<close>, intro allI impI)
  fix items' c''
  assume r: "r = Inr (items', c'')"
  have k: "closedCache c''" "sameSegments c' c''"
    "xs \<noteq> [] \<and> (\<forall>n \<in> set (take (Suc i) xs). titled n) \<and>
      (\<forall>n \<in> set (drop (Suc i) xs). titled n \<or> known c' n) \<longrightarrow>
      items' \<noteq> [] \<and> (\<forall>n \<in> set items'. titled n)"
    using assms(1) [unfolded loopOK_def, THEN conjunct2, THEN spec, THEN spec, THEN mp, OF r] by blast+
  have d: "drop i parsed = parsed ! i # drop (Suc i) parsed"
    using assms(8) by (simp add: Cons_nth_drop_Suc)
  have "items' \<noteq> [] \<and> (\<forall>n \<in> set items'. titled n)"
    if h: "parsed \<noteq> []" "\<forall>n \<in> set (take i parsed). titled n"
      "\<forall>n \<in> set (drop i parsed). titled n \<or> known c n"
  proof -
    have "titled t" using h(3) d assms(7) by simp
    then have "\<forall>n \<in> set (take (Suc i) xs). titled n"
      using h(2) all_titled_map [OF assms(4)] by simp
    moreover have "\<forall>n \<in> set (drop (Suc i) xs). titled n \<or> known c' n"
      using h(3) d assms(5,6) known_sameSegments [OF assms(2)] by auto
    moreover have "xs \<noteq> []" using assms(3) by auto
    ultimately show ?thesis using k(3) by blast
  qed
  then show "closedCache c'' \<and> sameSegments c c'' \<and> (parsed \<noteq> [] \<and>
     (\<forall>n \<in> set (take i parsed). titled n) \<and> (\<forall>n \<in> set (drop i parsed). titled n \<or> known c n) \<longrightarrow>
     items' \<noteq> [] \<and> (\<forall>n \<in> set items'. titled n))"
    using k(1) sameSegments_trans [OF assms(2) k(2)] by blast
qed

text \<open>Where every smaller state of the loop returns, an iteration whose reference stage succeeded
  returns too.\<close>

lemma iteration_returns:
  assumes deeper: "returns (Suc d)" and d: "d \<le> 10" and i: "i < length parsed"
    and smaller: "\<And>xs j c. (refsAhead xs j, length xs - j) < (refsAhead parsed i, length parsed - i) \<Longrightarrow>
      closedCache c \<Longrightarrow> \<exists>r. fillFrom d xs j c = Some r \<and> loopOK c xs j r"
    and st: "refStage fillFrom d parsed i c = returnF (Some (xs, c1))"
    and c1: "closedCache c1" "sameSegments c c1" and len: "i < length xs"
    and front: "take (Suc i) xs = take i parsed @ [t]"
    and tail: "drop (Suc i) xs = ts @ drop (Suc i) parsed" "\<forall>n \<in> set ts. titled n"
    and t: "titled (parsed ! i) \<or> known c (parsed ! i) \<Longrightarrow> titled t"
    and fewer: "bareRef (parsed ! i) \<or> ts = []"
  shows "\<exists>r. fillFrom d parsed i c = Some r \<and> loopOK c parsed i r"
proof -
  note step = fillFrom_step [OF d i]
  obtain r1 where r1: "belowStage fillFrom (parsed ! i) d i (xs, c1) = Some r1"
    "stageOK i (take (Suc i) xs) (drop (Suc i) xs) c1 r1"
    using belowStage_ok [OF deeper c1(1) len] by blast
  show ?thesis
  proof (cases r1)
    case (Inl e)
    with r1 st show ?thesis by (simp add: step stageOK_def)
  next
    case (Inr q)
    then obtain ys c2 where q: "r1 = Inr (ys, c2)" by (cases q) auto
    with r1(2) front tail(1) have k: "closedCache c2" "sameSegments c1 c2" "i < length ys"
      "drop (Suc i) ys = ts @ drop (Suc i) parsed"
      "map titled (take (Suc i) ys) = map titled (take i parsed @ [t])"
      by (auto simp: stageOK_def)
    have ahead: "refsAhead ys (Suc i) = refsAhead parsed (Suc i)"
      using k(4) tail(2) by (rule refsAhead_titled)
    have "length ys - Suc i = length parsed - Suc i" if "ts = []"
      using k(4) that by (metis append_Nil length_drop)
    then have "(refsAhead ys (Suc i), length ys - Suc i) < (refsAhead parsed i, length parsed - i)"
      using ahead refsAhead_step [OF i] i fewer by (cases "bareRef (parsed ! i)") simp_all
    from smaller [OF this k(1)] obtain r where
      r: "fillFrom d ys (Suc i) c2 = Some r" "loopOK c2 ys (Suc i) r" by blast
    have same: "sameSegments c c2" using c1(2) k(2) by (rule sameSegments_trans)
    have "fillFrom d parsed i c = Some r" using st r1 q r(1) by (simp add: step)
    then show ?thesis using loopOK_advance [OF r(2) same k(3,5,4) tail(2) t i] by blast
  qed
qed

lemma loop_returns:
  assumes deeper: "returns (Suc d)" and d: "d \<le> 10" and closed: "closedCache c"
  shows "\<exists>r. fillFrom d parsed i c = Some r \<and> loopOK c parsed i r"
  using closed
proof (induction "(refsAhead parsed i, length parsed - i)" arbitrary: parsed i c rule: less_induct)
  case less
  show ?case
  proof (cases "i < length parsed")
    case False
    then have "fillFrom d parsed i c = returnF (parsed, c)" using d by (simp add: fillFrom_done)
    then show ?thesis using False less.prems by (auto simp: loopOK_def)
  next
    case i: True
    let ?n = "parsed ! i"
    note step = fillFrom_step [OF d i] and rest = iteration_returns [OF deeper d i less.hyps]
    have tk: "take (Suc i) parsed = take i parsed @ [?n]" using i by (simp add: take_Suc_conv_app_nth)
    from deeper less.prems i show ?thesis
    proof (cases rule: refStage_cases)
      case unknown
      have "(refsAhead parsed (Suc i), length parsed - Suc i) < (refsAhead parsed i, length parsed - i)"
        using refsAhead_step [OF i] unknown(1) by simp
      from less.hyps [OF this less.prems] obtain r where
        r: "fillFrom d parsed (Suc i) c = Some r" "loopOK c parsed (Suc i) r" by blast
      then have "fillFrom d parsed i c = Some r" using unknown(3) by (simp add: step)
      moreover have "loopOK c parsed i r"
        using r(2) unknown(1,2) i tk
        by (intro loopOK_advance [of c parsed i r c parsed ?n "[]"]) (auto simp: bareRef_not_titled)
      ultimately show ?thesis by blast
    next
      case plain
      then show ?thesis
        using less.prems i tk by (intro rest [of c parsed c ?n "[]"]) (auto simp: known_def)
    next
      case fails
      then show ?thesis by (simp add: step)
    next
      case (expanded xs c' t ts)
      then show ?thesis by (intro rest [of c xs c' t ts]) (auto simp: known_def)
    qed
  qed
qed

lemma loopOK_keeps: "loopOK c items 0 r \<Longrightarrow> keeps c items r"
  by (simp add: loopOK_def keeps_def)

lemma returns_all: "returns d"
proof (induction "11 - d" arbitrary: d)
  case 0
  then show ?case by (simp add: returns_def keeps_def fillFrom_deep)
next
  case (Suc k)
  then have deeper: "returns (Suc d)" and d: "d \<le> 10" by auto
  show ?case
    unfolding returns_def using loop_returns [OF deeper d, of _ _ 0] loopOK_keeps by blast
qed

end
