(* ===== verification/Nav_Expansion.thy ===== *)
theory Nav_Expansion
  imports Nav_Termination
begin

text \<open>
  What \<open>fillNavRefsTree\<close> computes. \<open>expands segs items items'\<close> is the specification: over a fixed
  table \<open>segs\<close> of navigation segments, \<open>items'\<close> is \<open>items\<close> with every resolvable reference replaced
  by the expansion of its segment, at every level. It knows no cache, no index and no depth.
  \<open>fillFrom_expands\<close> shows that the memoising in-place loop computes exactly this, and that every
  entry it leaves in the cache is the expansion of its segment; \<open>expands_no_cycle\<close> shows that a
  reference cycle has no expansion, so that over a closed cache it is always reported as an error.
\<close>

section \<open>The specification\<close>

type_synonym Segments = "SegmentRef \<Rightarrow> ChromeNavItem list option"

definition rebuild :: "ChromeNavItem \<Rightarrow> ChromeNavItem list \<Rightarrow> ChromeNavItem list \<Rightarrow> ChromeNavItem" where
  "rebuild n rs gs =
     (let n1 = (if IsExpandable n then setRoutes rs n else n)
      in if IsGroup n then setNavItems gs n1 else n1)"

inductive expands :: "Segments \<Rightarrow> ChromeNavItem list \<Rightarrow> ChromeNavItem list \<Rightarrow> bool"
  for segs :: Segments
where
  nothing: "expands segs [] []"
| unresolved: "bareRef n \<Longrightarrow> segs (refOf n) = None \<Longrightarrow> expands segs ns ns' \<Longrightarrow>
    expands segs (n # ns) (n # ns')"
| resolved: "bareRef n \<Longrightarrow> segs (refOf n) = Some its \<Longrightarrow> expands segs its its' \<Longrightarrow>
    expands segs ns ns' \<Longrightarrow> expands segs (n # ns) (copySegmentItems n its' @ ns')"
| plain: "\<not> bareRef n \<Longrightarrow> (IsExpandable n \<longrightarrow> expands segs (routesOf n) rs) \<Longrightarrow>
    (IsGroup n \<longrightarrow> expands segs (groupOf n) gs) \<Longrightarrow> expands segs ns ns' \<Longrightarrow>
    expands segs (n # ns) (rebuild n rs gs # ns')"

inductive_cases expands_NilE [elim!]: "expands segs [] ys"
inductive_cases expands_ConsE: "expands segs (n # ns) ys"

lemma expands_Cons_cases [consumes 1, case_names unresolved resolved plain]:
  assumes "expands segs (n # ns) ys"
  obtains ns' where "ys = n # ns'" "bareRef n" "segs (refOf n) = None" "expands segs ns ns'"
  | its its' ns' where "ys = copySegmentItems n its' @ ns'" "bareRef n" "segs (refOf n) = Some its"
      "expands segs its its'" "expands segs ns ns'"
  | rs gs ns' where "ys = rebuild n rs gs # ns'" "\<not> bareRef n"
      "IsExpandable n \<longrightarrow> expands segs (routesOf n) rs" "IsGroup n \<longrightarrow> expands segs (groupOf n) gs"
      "expands segs ns ns'"
  using assms by (rule expands_ConsE) blast+

text \<open>References carry no routes and no group of their own.\<close>

fun tidy :: "ChromeNavItem list \<Rightarrow> bool" where
  "tidy [] = True"
| "tidy (n # ns) = ((bareRef n \<longrightarrow> \<not> IsExpandable n \<and> \<not> IsGroup n) \<and>
     (IsExpandable n \<longrightarrow> tidy (routesOf n)) \<and> (IsGroup n \<longrightarrow> tidy (groupOf n)) \<and> tidy ns)"

definition resolvable :: "Segments \<Rightarrow> ChromeNavItem \<Rightarrow> bool" where
  "resolvable segs n = (bareRef n \<and> segs (refOf n) \<noteq> None)"

definition closedSegs :: "Segments \<Rightarrow> bool" where
  "closedSegs segs = (\<forall>r its. segs r = Some its \<longrightarrow>
     its \<noteq> [] \<and> tidy its \<and> (\<forall>n \<in> set its. titled n \<or> resolvable segs n))"

section \<open>The specification is a function, and its results are stable\<close>

lemma rebuild_simps [simp]:
  "nav_attrs (rebuild n rs gs) = nav_attrs n" "bareRef (rebuild n rs gs) = bareRef n"
  "titled (rebuild n rs gs) = titled n" "IsExpandable (rebuild n rs gs) = IsExpandable n"
  "IsGroup (rebuild n rs gs) = IsGroup n"
  "IsExpandable n \<Longrightarrow> routesOf (rebuild n rs gs) = rs" "IsGroup n \<Longrightarrow> groupOf (rebuild n rs gs) = gs"
  by (simp_all add: rebuild_def Let_def)

lemma rebuild_cong:
  "(IsExpandable n \<Longrightarrow> rs = rs') \<Longrightarrow> (IsGroup n \<Longrightarrow> gs = gs') \<Longrightarrow> rebuild n rs gs = rebuild n rs' gs'"
  by (simp add: rebuild_def)

lemma rebuild_id [simp]: "rebuild n (routesOf n) (groupOf n) = n"
  by (simp add: rebuild_def Let_def)

lemma rebuild_rebuild [simp]: "rebuild (rebuild n rs gs) rs gs = rebuild n rs gs"
proof -
  let ?m = "rebuild n rs gs"
  have "rebuild ?m rs gs = rebuild ?m (routesOf ?m) (groupOf ?m)" by (rule rebuild_cong) simp_all
  then show ?thesis by simp
qed

lemma expands_det: "expands segs xs ys \<Longrightarrow> expands segs xs zs \<Longrightarrow> zs = ys"
proof (induction arbitrary: zs rule: expands.induct)
  case nothing
  then show ?case by auto
next
  case (unresolved n ns ns')
  from unresolved.prems unresolved.hyps(1,2) obtain ms where "zs = n # ms" "expands segs ns ms"
    by (cases rule: expands_Cons_cases) auto
  with unresolved.IH show ?case by blast
next
  case (resolved n its its' ns ns')
  from resolved.prems resolved.hyps(1,2) obtain its2 ms where "zs = copySegmentItems n its2 @ ms"
    "expands segs its its2" "expands segs ns ms"
    by (cases rule: expands_Cons_cases) auto
  with resolved.IH show ?case by blast
next
  case (plain n rs gs ns ns')
  from plain.prems plain.hyps(1) obtain rs' gs' ms where z: "zs = rebuild n rs' gs' # ms"
    "IsExpandable n \<longrightarrow> expands segs (routesOf n) rs'" "IsGroup n \<longrightarrow> expands segs (groupOf n) gs'"
    "expands segs ns ms"
    by (cases rule: expands_Cons_cases) auto
  then have "rebuild n rs' gs' = rebuild n rs gs" using plain.IH(1,2) by (intro rebuild_cong) blast+
  with z(1) plain.IH(3) [OF z(4)] show ?case by simp
qed

lemma expands_append:
  "expands segs xs xs' \<Longrightarrow> expands segs ys ys' \<Longrightarrow> expands segs (xs @ ys) (xs' @ ys')"
  by (induction rule: expands.induct) (auto intro: expands.intros)

lemma expands_appendE:
  assumes "expands segs (xs @ ys) zs"
  obtains xs' ys' where "zs = xs' @ ys'" "expands segs xs xs'" "expands segs ys ys'"
  using assms
proof (induction xs arbitrary: zs thesis)
  case Nil
  then show ?case by (auto intro: expands.nothing)
next
  case (Cons n xs)
  from Cons.prems(2) have "expands segs (n # xs @ ys) zs" by simp
  then show ?case
  proof (cases rule: expands_Cons_cases)
    case (unresolved ns')
    with Cons.IH obtain a b where "ns' = a @ b" "expands segs xs a" "expands segs ys b" by blast
    with unresolved show ?thesis by (intro Cons.prems(1) [of "n # a" b]) (auto intro: expands.unresolved)
  next
    case (resolved its its' ns')
    with Cons.IH obtain a b where "ns' = a @ b" "expands segs xs a" "expands segs ys b" by blast
    with resolved show ?thesis by (intro Cons.prems(1) [of "copySegmentItems n its' @ a" b])
        (auto intro: expands.resolved)
  next
    case (plain rs gs ns')
    with Cons.IH obtain a b where "ns' = a @ b" "expands segs xs a" "expands segs ys b" by blast
    with plain show ?thesis by (intro Cons.prems(1) [of "rebuild n rs gs # a" b])
        (auto intro: expands.plain)
  qed
qed

lemma expands_titled:
  assumes "closedSegs segs" and "expands segs xs ys"
    and "\<forall>n \<in> set xs. titled n \<or> resolvable segs n"
  shows "(\<forall>n \<in> set ys. titled n) \<and> (xs \<noteq> [] \<longrightarrow> ys \<noteq> [])"
  using assms(2,3)
proof (induction rule: expands.induct)
  case (resolved n its its' ns ns')
  have "\<forall>m \<in> set its. titled m \<or> resolvable segs m" "its \<noteq> []"
    using assms(1) resolved.hyps(2) unfolding closedSegs_def by blast+
  with resolved show ?case by (simp add: ball_Un)
next
  case (unresolved n ns ns')
  then have "\<not> titled n" "\<not> resolvable segs n" by (simp_all add: bareRef_not_titled resolvable_def)
  with unresolved.prems show ?case by auto
next
  case (plain n rs gs ns ns')
  have "titled n" using plain.hyps(1) plain.prems by (auto simp: resolvable_def)
  with plain show ?case by auto
qed simp

lemma segment_titled:
  assumes "closedSegs segs" and "segs r = Some its" and "expands segs its its'"
  shows "\<forall>n \<in> set its'. titled n" and "its' \<noteq> []"
  using expands_titled [OF assms(1,3)] assms(1,2) by (auto simp: closedSegs_def)

text \<open>Copies of titled items differ in the stamped fields only, which the expansion ignores.\<close>

lemma copy_tests:
  assumes "m \<in> set (copySegmentItems n [x])" and "titled x"
  shows "\<not> bareRef m" "IsExpandable m = IsExpandable x" "IsGroup m = IsGroup x"
    "routesOf m = routesOf x" "groupOf m = groupOf x"
  using assms by (auto simp: copySegmentItems_def titled_def bareRef_def IsExpandable_def IsGroup_def)

lemma expands_copies:
  "expands segs xs xs \<Longrightarrow> \<forall>x \<in> set xs. titled x \<Longrightarrow>
     expands segs (copySegmentItems n xs) (copySegmentItems n xs)"
proof (induction xs)
  case Nil
  then show ?case by (simp add: copySegmentItems_def expands.nothing)
next
  case (Cons x xs)
  obtain m where m: "copySegmentItems n [x] = [m]" by (simp add: copySegmentItems_def)
  have t: "titled x" and nb: "\<not> bareRef x" using Cons.prems(2) titled_not_bareRef by simp_all
  note tests = copy_tests [of m n x, simplified m, OF _ t, simplified]
  from Cons.prems(1) nb obtain rs gs where x: "x = rebuild x rs gs"
    "IsExpandable x \<longrightarrow> expands segs (routesOf x) rs" "IsGroup x \<longrightarrow> expands segs (groupOf x) gs"
    and xs: "expands segs xs xs"
    by (cases rule: expands_Cons_cases) auto
  have "IsExpandable x \<longrightarrow> rs = routesOf x" "IsGroup x \<longrightarrow> gs = groupOf x"
    using x(1) by (metis rebuild_simps(6), metis rebuild_simps(7))
  with x tests have "expands segs (m # copySegmentItems n xs)
      (rebuild m (routesOf m) (groupOf m) # copySegmentItems n xs)"
    using Cons.IH [OF xs] Cons.prems(2) by (intro expands.plain) auto
  moreover have "copySegmentItems n (x # xs) = m # copySegmentItems n xs"
    using m by (simp add: copySegmentItems_def)
  ultimately show ?case by simp
qed

lemma expands_stable:
  assumes "closedSegs segs" and "expands segs xs ys"
  shows "expands segs ys ys"
  using assms(2)
proof (induction rule: expands.induct)
  case nothing
  then show ?case by (rule expands.nothing)
next
  case (unresolved n ns ns')
  then show ?case by (intro expands.unresolved)
next
  case (resolved n its its' ns ns')
  then show ?case
    using segment_titled [OF assms(1)] by (intro expands_append expands_copies) auto
next
  case (plain n rs gs ns ns')
  let ?m = "rebuild n rs gs"
  have "expands segs (?m # ns') (rebuild ?m rs gs # ns')"
    using plain by (intro expands.plain) auto
  then show ?case by simp
qed

lemma tidy_append [simp]: "tidy (xs @ ys) = (tidy xs \<and> tidy ys)"
  by (induction xs) auto

lemma tidy_copies: "tidy xs \<Longrightarrow> \<forall>x \<in> set xs. titled x \<Longrightarrow> tidy (copySegmentItems n xs)"
proof (induction xs)
  case (Cons x xs)
  obtain m where m: "copySegmentItems n [x] = [m]" by (simp add: copySegmentItems_def)
  have t: "titled x" using Cons.prems(2) by simp
  note tests = copy_tests [of m n x, simplified m, OF _ t, simplified]
  have "copySegmentItems n (x # xs) = m # copySegmentItems n xs"
    using m by (simp add: copySegmentItems_def)
  with Cons tests show ?case by simp
qed (simp add: copySegmentItems_def)

lemma expands_tidy:
  assumes "closedSegs segs" and "expands segs xs ys" and "tidy xs"
  shows "tidy ys"
  using assms(2,3)
proof (induction rule: expands.induct)
  case (resolved n its its' ns ns')
  then have "tidy its'" using assms(1) by (simp add: closedSegs_def)
  with resolved show ?case
    using segment_titled [OF assms(1)] tidy_copies by auto
qed auto

section \<open>The loop computes the expansion\<close>

definition soundCache :: "Segments \<Rightarrow> NavCache \<Rightarrow> bool" where
  "soundCache segs c = (\<forall>r. case cacheGet c r of
       None \<Rightarrow> segs r = None
     | Some e \<Rightarrow> (\<exists>its. segs r = Some its \<and>
         (if ce_IsFilled e then expands segs its (ce_NavItems e) else ce_NavItems e = its)))"

lemma soundCache_None: "soundCache segs c \<Longrightarrow> cacheGet c r = None \<Longrightarrow> segs r = None"
  unfolding soundCache_def by (drule spec [of _ r]) simp

lemma soundCache_Some:
  assumes "soundCache segs c" and "cacheGet c r = Some e"
  obtains its where "segs r = Some its"
    "if ce_IsFilled e then expands segs its (ce_NavItems e) else ce_NavItems e = its"
  using assms(1) [unfolded soundCache_def, THEN spec, of r] assms(2) by auto

lemma soundCache_cachePut:
  "soundCache segs c \<Longrightarrow> segs r = Some its \<Longrightarrow> expands segs its its' \<Longrightarrow>
     soundCache segs (cachePut c r \<lparr>ce_NavItems = its', ce_IsFilled = True\<rparr>)"
  by (simp add: soundCache_def)

text \<open>What the loop promises from an index on.\<close>

definition expandsFrom :: "Segments \<Rightarrow> ChromeNavItem list \<Rightarrow> nat \<Rightarrow> NavCache \<Rightarrow>
    (ChromeNavItem list \<times> NavCache) result \<Rightarrow> bool" where
  "expandsFrom segs parsed i c r = (\<forall>res c'. r = Inr (res, c') \<longrightarrow>
     soundCache segs c \<longrightarrow> tidy (drop i parsed) \<longrightarrow>
     soundCache segs c' \<and> (\<exists>new. res = take i parsed @ new \<and> expands segs (drop i parsed) new))"

lemma expandsFrom_start:
  "expandsFrom segs items 0 c (Inr (res, c')) \<Longrightarrow> soundCache segs c \<Longrightarrow> tidy items \<Longrightarrow>
     soundCache segs c' \<and> expands segs items res"
  by (simp add: expandsFrom_def)

text \<open>After a reference was replaced, the loop walks over all copies but the first. They are
  expanded already, so the walk leaves them as they are.\<close>

lemma expandsFrom_replaced:
  assumes closed: "closedSegs segs" and i: "i < length parsed" and n: "bareRef (parsed ! i)"
    and seg: "segs (refOf (parsed ! i)) = Some its" "expands segs its its'"
    and ys: "ys = replaceAt parsed i (copySegmentItems (parsed ! i) its')"
    and IH: "expandsFrom segs ys (Suc i) c1 (Inr (res, c'))"
    and c1: "soundCache segs c1" and tidy: "tidy (drop i parsed)"
  shows "soundCache segs c' \<and> (\<exists>new. res = take i parsed @ new \<and> expands segs (drop i parsed) new)"
proof -
  let ?n = "parsed ! i"
  define cs where "cs = copySegmentItems ?n its'"
  have t: "\<forall>n \<in> set its'. titled n" "its' \<noteq> []" using segment_titled [OF closed seg] .
  then have ne: "cs \<noteq> []" by (simp add: cs_def)
  note sp = replaceAt_split [OF i ne, folded cs_def]
  have d: "drop i parsed = ?n # drop (Suc i) parsed" using i by (simp add: Cons_nth_drop_Suc)
  have "tidy its" using closed seg(1) unfolding closedSegs_def by blast
  with t have "tidy cs" unfolding cs_def by (intro tidy_copies expands_tidy [OF closed seg(2)])
  moreover have stable: "expands segs cs cs"
    unfolding cs_def by (intro expands_copies expands_stable [OF closed seg(2)] t(1))
  moreover obtain c0 cs' where cs': "cs = c0 # cs'" using ne by (cases cs) auto
  ultimately have "tidy (drop (Suc i) ys)" using tidy sp(3) d by (simp add: ys flip: cs_def)
  then have new: "soundCache segs c'"
    "\<exists>new. res = take (Suc i) ys @ new \<and> expands segs (drop (Suc i) ys) new"
    using IH c1 unfolding expandsFrom_def by blast+
  have dy: "drop (Suc i) ys = cs' @ drop (Suc i) parsed" "take (Suc i) ys = take i parsed @ [c0]"
    using sp(2,3) cs' by (simp_all add: ys flip: cs_def)
  from new(2) obtain a b where ab: "res = take (Suc i) ys @ a @ b" "expands segs cs' a"
    "expands segs (drop (Suc i) parsed) b"
    unfolding dy(1) by (metis expands_appendE)
  have "\<not> bareRef c0" using t(1) cs' by (metis cs_def list.set_intros(1) titled_copySegmentItems titled_not_bareRef)
  with stable cs' have "expands segs cs' cs'" by (auto elim: expands_Cons_cases)
  with ab(2) have "a = cs'" by (rule expands_det [rotated])
  then have "res = take i parsed @ cs @ b" using ab(1) dy(2) cs' by simp
  moreover have "expands segs (drop i parsed) (cs @ b)"
    unfolding d cs_def by (rule expands.resolved [OF n seg ab(3)])
  ultimately show ?thesis using new(1) by blast
qed

text \<open>The stages below a plain item, over calls that keep the promise.\<close>

definition fillsOK :: "Segments \<Rightarrow> filler \<Rightarrow> bool" where
  "fillsOK segs f = (\<forall>d items c r. f d items 0 c = Some r \<longrightarrow> expandsFrom segs items 0 c r)"

lemma fillsOK_run:
  "fillsOK segs f \<Longrightarrow> f d items 0 c = returnF (items', c') \<Longrightarrow> soundCache segs c \<Longrightarrow> tidy items \<Longrightarrow>
     soundCache segs c' \<and> expands segs items items'"
  unfolding fillsOK_def by (intro expandsFrom_start) blast+

lemma sub_expands:
  assumes IH: "fillsOK segs f"
    and run: "subStage f test items upd d i p1 = returnF p2"
    and sound: "soundCache segs (snd p1)" and tidy: "test \<longrightarrow> tidy items" and i: "i < length (fst p1)"
  obtains xs where "test \<longrightarrow> expands segs items xs" "soundCache segs (snd p2)"
    "fst p2 = (fst p1)[i := if test then upd xs (fst p1 ! i) else fst p1 ! i]"
proof (cases test)
  case False
  with run sound that show thesis by (auto simp: subStage_def)
next
  case True
  with run obtain xs c2 where xs: "f (Suc d) items 0 (snd p1) = returnF (xs, c2)"
    "fst p2 = (fst p1)[i := upd xs (fst p1 ! i)]" "snd p2 = c2"
    by (auto simp: subStage_def bindF_returnF bindR_Inr updateAt_Inr)
  have "soundCache segs c2 \<and> expands segs items xs"
    using fillsOK_run [OF IH xs(1)] sound tidy True by simp
  with True xs that show thesis by auto
qed

lemma below_expands:
  assumes IH: "fillsOK segs f"
    and run: "belowStage f (parsed ! i) d i (parsed, c) = returnF p"
    and sound: "soundCache segs c" and i: "i < length parsed"
    and tidy: "IsExpandable (parsed ! i) \<longrightarrow> tidy (routesOf (parsed ! i))"
      "IsGroup (parsed ! i) \<longrightarrow> tidy (groupOf (parsed ! i))"
  obtains rs gs where "IsExpandable (parsed ! i) \<longrightarrow> expands segs (routesOf (parsed ! i)) rs"
    "IsGroup (parsed ! i) \<longrightarrow> expands segs (groupOf (parsed ! i)) gs"
    "soundCache segs (snd p)" "fst p = parsed[i := rebuild (parsed ! i) rs gs]"
proof -
  from run obtain q where q:
    "subStage f (IsExpandable (parsed ! i)) (routesOf (parsed ! i)) setRoutes d i (parsed, c) = returnF q"
    "subStage f (IsGroup (parsed ! i)) (groupOf (parsed ! i)) setNavItems d i q = returnF p"
    by (auto simp: belowStage_def bindF_returnF)
  have "soundCache segs (snd (parsed, c))" "i < length (fst (parsed, c))" using sound i by simp_all
  from sub_expands [OF IH q(1) this(1) tidy(1) this(2)] obtain rs where rs:
    "IsExpandable (parsed ! i) \<longrightarrow> expands segs (routesOf (parsed ! i)) rs" "soundCache segs (snd q)"
    "fst q = parsed[i := if IsExpandable (parsed ! i) then setRoutes rs (parsed ! i) else parsed ! i]"
    by (metis fst_conv)
  have "i < length (fst q)" using rs(3) i by simp
  from sub_expands [OF IH q(2) rs(2) tidy(2) this] obtain gs where gs:
    "IsGroup (parsed ! i) \<longrightarrow> expands segs (groupOf (parsed ! i)) gs" "soundCache segs (snd p)"
    "fst p = (fst q)[i := if IsGroup (parsed ! i) then setNavItems gs (fst q ! i) else fst q ! i]"
    by blast
  have "fst p = parsed[i := rebuild (parsed ! i) rs gs]"
    using gs(3) rs(3) i by (simp add: rebuild_def Let_def)
  with rs(1) gs(1,2) that show thesis by blast
qed

text \<open>The outcomes of the reference stage.\<close>

lemma ref_expands:
  assumes closed: "closedSegs segs"
    and IH: "fillsOK segs f"
    and run: "refStage f d parsed i c = returnF s" and sound: "soundCache segs c"
  obtains (skip) "s = None" "bareRef (parsed ! i)" "segs (refOf (parsed ! i)) = None"
    | (plain) "s = Some (parsed, c)" "\<not> bareRef (parsed ! i)"
    | (replaced) its its' c1 where "bareRef (parsed ! i)" "segs (refOf (parsed ! i)) = Some its"
        "expands segs its its'" "soundCache segs c1"
        "s = Some (replaceAt parsed i (copySegmentItems (parsed ! i) its'), c1)"
proof (cases "bareRef (parsed ! i)")
  case False
  with run plain show thesis by (auto simp: refStage_def)
next
  case bare: True
  let ?n = "parsed ! i"
  show thesis
  proof (cases "cacheGet c (refOf ?n)")
    case None
    with run bare sound skip show thesis by (auto simp: refStage_def dest: soundCache_None)
  next
    case (Some e)
    from soundCache_Some [OF sound Some] obtain its where its: "segs (refOf ?n) = Some its"
      "if ce_IsFilled e then expands segs its (ce_NavItems e) else ce_NavItems e = its" .
    show thesis
    proof (cases "ce_IsFilled e")
      case True
      with run bare Some its sound show thesis
        by (intro replaced [of its "ce_NavItems e" c]) (auto simp: refStage_def bindF_returnF)
    next
      case False
      with run bare Some its obtain its' c0 where r: "f (Suc d) its 0 c = returnF (its', c0)"
        "s = Some (replaceAt parsed i (copySegmentItems ?n its'),
          cachePut c0 (refOf ?n) \<lparr>ce_NavItems = its', ce_IsFilled = True\<rparr>)"
        by (auto simp: refStage_def Let_def bindF_returnF)
      have "tidy its" using closed its(1) unfolding closedSegs_def by blast
      then have "soundCache segs c0" "expands segs its its'"
        using fillsOK_run [OF IH r(1) sound] by blast+
      with bare its(1) r(2) show thesis by (intro replaced) (auto intro: soundCache_cachePut)
    qed
  qed
qed

lemma belowStage_leaf:
  "\<not> IsExpandable n \<Longrightarrow> \<not> IsGroup n \<Longrightarrow> belowStage f n d i p = returnF p"
  by (simp add: belowStage_def subStage_def)

text \<open>An item that is not a reference: its routes and its group are expanded, then the rest.\<close>

lemma expandsFrom_plain:
  assumes "fillsOK segs f" and i: "i < length parsed" and plain: "\<not> bareRef (parsed ! i)"
    and p: "belowStage f (parsed ! i) d i (parsed, c) = returnF p"
    and rest: "expandsFrom segs (fst p) (Suc i) (snd p) (Inr (res, c'))"
    and sound: "soundCache segs c" and tidy: "tidy (drop i parsed)"
  shows "soundCache segs c' \<and> (\<exists>new. res = take i parsed @ new \<and> expands segs (drop i parsed) new)"
proof -
  let ?n = "parsed ! i"
  have d: "drop i parsed = ?n # drop (Suc i) parsed" using i by (simp add: Cons_nth_drop_Suc)
  with tidy have ok: "IsExpandable ?n \<longrightarrow> tidy (routesOf ?n)" "IsGroup ?n \<longrightarrow> tidy (groupOf ?n)"
    "tidy (drop (Suc i) parsed)" by simp_all
  from below_expands [OF assms(1) p sound i ok(1,2)] obtain rs gs where b:
    "IsExpandable ?n \<longrightarrow> expands segs (routesOf ?n) rs" "IsGroup ?n \<longrightarrow> expands segs (groupOf ?n) gs"
    "soundCache segs (snd p)" "fst p = parsed[i := rebuild ?n rs gs]" .
  have "drop (Suc i) (fst p) = drop (Suc i) parsed" "take (Suc i) (fst p) = take i parsed @ [rebuild ?n rs gs]"
    using b(4) i by (simp_all add: take_Suc_conv_app_nth)
  with rest b(3) ok(3) obtain new where "soundCache segs c'"
    "res = take i parsed @ rebuild ?n rs gs # new" "expands segs (drop (Suc i) parsed) new"
    by (auto simp: expandsFrom_def)
  with b(1,2) d show ?thesis using expands.plain [OF plain] by fastforce
qed

lemma fillFrom_expands:
  assumes closed: "closedSegs segs" and run: "fillFrom d parsed i c = Some r"
  shows "expandsFrom segs parsed i c r"
  using run
proof (induction rule: fillFrom_induct)
  case (body f d parsed i c r)
  note IH = body.IH
  have IH0: "fillsOK segs f" unfolding fillsOK_def using IH by blast
  show ?case
    unfolding expandsFrom_def
  proof (intro allI impI)
    fix res c'
    assume r: "r = Inr (res, c')" and sound: "soundCache segs c" and tidy: "tidy (drop i parsed)"
    let ?n = "parsed ! i"
    let ?goal = "soundCache segs c' \<and> (\<exists>new. res = take i parsed @ new \<and> expands segs (drop i parsed) new)"
    show ?goal
    proof (cases "i < length parsed")
      case False
      with body.hyps r sound show ?thesis
        by (auto simp: fillBody_def split: if_splits intro: expands.nothing)
    next
      case i: True
      then have d: "drop i parsed = ?n # drop (Suc i) parsed" by (simp add: Cons_nth_drop_Suc)
      have tk: "take (Suc i) parsed = take i parsed @ [?n]" using i by (simp add: take_Suc_conv_app_nth)
      from body.hyps r i obtain s where s: "refStage f d parsed i c = returnF s"
        "(case s of None \<Rightarrow> f d parsed (Suc i) c | Some p1 \<Rightarrow> bindF (belowStage f ?n d i p1)
            (\<lambda>p. f d (fst p) (Suc i) (snd p))) = returnF (res, c')"
        by (auto simp: fillBody_def bindF_returnF split: if_splits)
      from closed IH0 s(1) sound show ?thesis
      proof (cases rule: ref_expands)
        case skip
        with IH s(2) have "expandsFrom segs parsed (Suc i) c (Inr (res, c'))" by auto
        with sound tidy d tk show ?thesis using skip
          by (auto simp: expandsFrom_def intro: expands.unresolved)
      next
        case plain
        then obtain p where p: "belowStage f ?n d i (parsed, c) = returnF p"
          "f d (fst p) (Suc i) (snd p) = returnF (res, c')"
          using s(2) by (auto simp: bindF_returnF)
        from expandsFrom_plain [OF IH0 i plain(2) p(1) IH [OF p(2)] sound tidy] show ?thesis .
      next
        case (replaced its its' c1)
        then have "\<not> IsExpandable ?n" "\<not> IsGroup ?n" using tidy d by simp_all
        with s(2) replaced have "f d (replaceAt parsed i (copySegmentItems ?n its')) (Suc i) c1 =
          returnF (res, c')" by (simp add: belowStage_leaf)
        from expandsFrom_replaced [OF closed i replaced(1-3) refl IH [OF this] replaced(4) tidy]
        show ?thesis .
      qed
    qed
  qed
qed

section \<open>Reference cycles\<close>

text \<open>The references the loop meets in a list: at the top, or in the routes or the group of an item
  that is not itself a reference. A segment uses the segments its items refer to.\<close>

inductive refersTo :: "ChromeNavItem list \<Rightarrow> SegmentRef \<Rightarrow> bool" where
  here: "n \<in> set xs \<Longrightarrow> bareRef n \<Longrightarrow> refersTo xs (refOf n)"
| route: "n \<in> set xs \<Longrightarrow> \<not> bareRef n \<Longrightarrow> IsExpandable n \<Longrightarrow> refersTo (routesOf n) r \<Longrightarrow> refersTo xs r"
| group: "n \<in> set xs \<Longrightarrow> \<not> bareRef n \<Longrightarrow> IsGroup n \<Longrightarrow> refersTo (groupOf n) r \<Longrightarrow> refersTo xs r"

inductive_cases refersToE: "refersTo xs r"

definition segmentUses :: "Segments \<Rightarrow> SegmentRef \<Rightarrow> SegmentRef \<Rightarrow> bool" where
  "segmentUses segs r' r = (segs r' \<noteq> None \<and> (\<exists>its. segs r = Some its \<and> refersTo its r'))"

definition onCycle :: "Segments \<Rightarrow> SegmentRef \<Rightarrow> bool" where
  "onCycle segs r = (segmentUses segs)\<^sup>+\<^sup>+ r r"

lemma refersTo_Nil [simp]: "\<not> refersTo [] r"
  by (auto elim: refersToE)

lemma refersTo_Cons:
  "refersTo (n # ns) r \<longleftrightarrow> bareRef n \<and> r = refOf n \<or>
     \<not> bareRef n \<and> (IsExpandable n \<and> refersTo (routesOf n) r \<or> IsGroup n \<and> refersTo (groupOf n) r) \<or>
     refersTo ns r"
proof (rule iffI, goal_cases)
  case 1
  then show ?case by (rule refersToE) (auto intro: refersTo.intros)
next
  case 2
  have "refersTo (n # ns) r" if "refersTo ns r"
    using that by (rule refersToE) (auto intro: refersTo.intros)
  with 2 show ?case by (auto intro: refersTo.intros)
qed

text \<open>Every reference that an expansion resolved is well-founded: the chain of segments below it
  ends.\<close>

lemma expands_accessible:
  "expands segs xs ys \<Longrightarrow> refersTo xs r \<Longrightarrow> segs r \<noteq> None \<Longrightarrow> Wellfounded.accp (segmentUses segs) r"
proof (induction arbitrary: r rule: expands.induct)
  case (resolved n its its' ns ns')
  show ?case
  proof (cases "r = refOf n")
    case True
    have "Wellfounded.accp (segmentUses segs) r'" if "segmentUses segs r' r" for r'
      using that True resolved.hyps(2) by (intro resolved.IH(1)) (simp_all add: segmentUses_def)
    then show ?thesis by (rule accp.accI)
  next
    case False
    with resolved.prems resolved.hyps(1) have "refersTo ns r" by (simp add: refersTo_Cons)
    with resolved.IH(2) resolved.prems(2) show ?thesis by blast
  qed
qed (auto simp: refersTo_Cons)

lemma accp_no_cycle: "Wellfounded.accp R x \<Longrightarrow> \<not> R\<^sup>+\<^sup>+ x x"
proof (induction rule: accp.induct)
  case (accI x)
  show ?case
  proof
    assume "R\<^sup>+\<^sup>+ x x"
    then obtain y where y: "R y x" "R\<^sup>*\<^sup>* x y" by (metis tranclp.simps tranclp_into_rtranclp rtranclp.rtrancl_refl)
    then have "R\<^sup>+\<^sup>+ y y" by (rule rtranclp_into_tranclp2)
    with accI.IH y(1) show False by blast
  qed
qed

lemma expands_no_cycle:
  assumes "expands segs xs ys" and "refersTo xs r"
  shows "\<not> onCycle segs r"
proof
  assume c: "onCycle segs r"
  then obtain r' where "segmentUses segs r r'" unfolding onCycle_def by (blast dest: tranclpD)
  then have "segs r \<noteq> None" by (simp add: segmentUses_def)
  with assms have "Wellfounded.accp (segmentUses segs) r" by (rule expands_accessible)
  with c show False unfolding onCycle_def by (blast dest: accp_no_cycle)
qed

section \<open>From a fresh cache\<close>

text \<open>The table a cache stands for before anything was filled.\<close>

definition tableOf :: "NavCache \<Rightarrow> Segments" where
  "tableOf c r = map_option ce_NavItems (cacheGet c r)"

definition freshCache :: "NavCache \<Rightarrow> bool" where
  "freshCache c = (\<forall>r e. cacheGet c r = Some e \<longrightarrow> \<not> ce_IsFilled e \<and> tidy (ce_NavItems e))"

lemma fresh_sound: "freshCache c \<Longrightarrow> soundCache (tableOf c) c"
  by (auto simp: soundCache_def tableOf_def freshCache_def split: option.split)

lemma fresh_closed: "freshCache c \<Longrightarrow> closedCache c \<Longrightarrow> closedSegs (tableOf c)"
  unfolding closedSegs_def tableOf_def freshCache_def closedCache_def entryOK_def known_def
    resolvable_def by fastforce

lemma fill_outcome:
  assumes "closedCache c"
  obtains (filled) items' c' where "fillNavRefsTree items c d = returnF (items', c')"
    | (deep) "fillNavRefsTree items c d = failF depthError"
proof -
  from returns_all [of d] assms obtain r where "fillFrom d items 0 c = Some r" "keeps c items r"
    unfolding returns_def by blast
  then show thesis using that by (cases r) (auto simp: fillNavRefsTree_def keeps_def)
qed

lemma fill_expands:
  assumes "closedCache c" and "freshCache c" and "tidy items"
    and "fillNavRefsTree items c d = returnF (items', c')"
  shows "expands (tableOf c) items items'" and "soundCache (tableOf c) c'"
  using fillFrom_expands [OF fresh_closed [OF assms(2,1)] assms(4) [unfolded fillNavRefsTree_def]]
    fresh_sound [OF assms(2)] assms(3) expandsFrom_start by blast+

section \<open>Properties\<close>

text \<open>C1: over a fresh cache whose segments are non-empty and whose items are titled or refer to
  segments of the cache, and where no reference carries routes or a group of its own (\<open>tidy\<close>),
  \<open>fillNavRefsTree\<close> always returns: with the full expansion of the items, or with the depth error and
  no other.\<close>

theorem fillNavRefsTree_correct:
  assumes "closedCache c" and "freshCache c" and "tidy items"
  shows "(\<exists>items' c'. fillNavRefsTree items c d = returnF (items', c') \<and>
        expands (tableOf c) items items' \<and> (\<forall>items2. expands (tableOf c) items items2 \<longrightarrow> items2 = items')) \<or>
    fillNavRefsTree items c d = failF depthError"
  using assms(1)
proof (cases rule: fill_outcome [of c items d])
  case (filled items' c')
  then show ?thesis using fill_expands(1) [OF assms filled] expands_det by blast
qed blast

theorem fillNavRefsTree_correct_witness:
  "closedCache (oneSegment ''app'' ''s'' [linkItem ''A'']) \<and>
   freshCache (oneSegment ''app'' ''s'' [linkItem ''A'']) \<and> tidy [refItem ''app'' ''s''] \<and>
   ((\<exists>items' c'. fillNavRefsTree [refItem ''app'' ''s''] (oneSegment ''app'' ''s'' [linkItem ''A'']) 0 =
        returnF (items', c') \<and>
      expands (tableOf (oneSegment ''app'' ''s'' [linkItem ''A''])) [refItem ''app'' ''s''] items' \<and>
      (\<forall>items2. expands (tableOf (oneSegment ''app'' ''s'' [linkItem ''A''])) [refItem ''app'' ''s''] items2
         \<longrightarrow> items2 = items')) \<or>
    fillNavRefsTree [refItem ''app'' ''s''] (oneSegment ''app'' ''s'' [linkItem ''A'']) 0 = failF depthError)"
proof -
  let ?c = "oneSegment ''app'' ''s'' [linkItem ''A'']"
  have h: "closedCache ?c" "freshCache ?c" "tidy [refItem ''app'' ''s'']"
    by (simp_all add: closedCache_def freshCache_def entryOK_def)
  show ?thesis using h fillNavRefsTree_correct [OF h, of 0] by blast
qed

text \<open>C12: over a fresh cache whose segments are non-empty and whose items each have a title or link or refer to
  a segment of the cache, and where no reference carries routes or a group of its own (\<open>tidy\<close>), a reference
  cycle neither hangs the loop nor is it expanded silently: when the items lead, at a level the code walks,
  to a segment that uses itself through other segments, the outcome is the depth error, at whatever depth
  the call starts. Without these hypotheses it is false: an empty segment can make the loop step over the
  cycle, and an unresolvable reference behind the first item can make it hang.\<close>

theorem fillNavRefsTree_cycle:
  assumes "closedCache c" and "freshCache c" and "tidy items"
    and "refersTo items r" and "onCycle (tableOf c) r"
  shows "fillNavRefsTree items c d = failF depthError"
  using assms(1)
proof (cases rule: fill_outcome [of c items d])
  case (filled items' c')
  then show ?thesis using fill_expands(1) [OF assms(1-3) filled] expands_no_cycle assms(4,5) by blast
qed

theorem fillNavRefsTree_cycle_witness:
  "closedCache (oneSegment ''app'' ''s'' [refItem ''app'' ''s'']) \<and>
   freshCache (oneSegment ''app'' ''s'' [refItem ''app'' ''s'']) \<and>
   fillNavRefsTree [linkItem ''A'', refItem ''app'' ''s''] (oneSegment ''app'' ''s'' [refItem ''app'' ''s'']) 0 =
     failF depthError"
proof -
  let ?c = "oneSegment ''app'' ''s'' [refItem ''app'' ''s'']"
  let ?r = "\<lparr>sr_FrontendName = ''app'', sr_SegmentID = ''s''\<rparr>"
  have h: "closedCache ?c" "freshCache ?c" "tidy [linkItem ''A'', refItem ''app'' ''s'']"
    "refersTo [linkItem ''A'', refItem ''app'' ''s''] ?r"
    by (simp_all add: closedCache_def freshCache_def entryOK_def known_def refersTo_Cons)
  have "onCycle (tableOf ?c) ?r"
    unfolding onCycle_def by (rule tranclp.r_into_trancl) (simp add: segmentUses_def tableOf_def refersTo_Cons)
  with h show ?thesis using fillNavRefsTree_cycle [OF h, of 0] by blast
qed

end
