(* ===== verification/Nav_Divergence.thy ===== *)
theory Nav_Divergence
  imports Nav_Expansion
begin

text \<open>
  Where the loop of \<open>fillNavRefsTree\<close> goes wrong, for caches that are not closed. The copies of a
  segment's items are stamped with the reference they replace, so an item without title and link
  (a reference to a segment that does not exist, say) turns into a reference to the segment it came
  from. In the first place of the segment it is skipped; in any other place the loop expands it
  again, and again its copies contain it. An empty segment is the other case: its reference is
  removed, the next item moves to the index, and the loop steps over it.
\<close>

definition leafItem :: "ChromeNavItem \<Rightarrow> bool" where
  "leafItem n = (\<not> IsExpandable n \<and> \<not> IsGroup n)"

text \<open>Items the loop leaves alone: no routes, no group, and titled or a reference to nothing.\<close>

definition inert :: "NavCache \<Rightarrow> ChromeNavItem \<Rightarrow> bool" where
  "inert c n = (leafItem n \<and> (titled n \<or> bareRef n \<and> cacheGet c (refOf n) = None))"

lemma leaf_below [simp]: "leafItem n \<Longrightarrow> belowStage f n d i p = returnF p"
  by (simp add: leafItem_def belowStage_leaf)

lemma inert_refStage:
  "inert c (parsed ! i) \<Longrightarrow> refStage f d parsed i c =
     returnF (if bareRef (parsed ! i) then None else Some (parsed, c))"
  by (auto simp: inert_def refStage_def dest: titled_not_bareRef)

lemma walk_inert:
  assumes "d \<le> 10" and "\<forall>n \<in> set (drop i items). inert c n"
  shows "fillFrom d items i c = returnF (items, c)"
  using assms(2)
proof (induction "length items - i" arbitrary: i)
  case 0
  then show ?case using assms(1) by (simp add: fillFrom_done)
next
  case (Suc k)
  then have i: "i < length items" by simp
  then have d: "drop i items = items ! i # drop (Suc i) items" by (simp add: Cons_nth_drop_Suc)
  with Suc have "fillFrom d items (Suc i) c = returnF (items, c)" "inert c (items ! i)" by simp_all
  then show ?case
    using fillFrom_step [OF assms(1) i] by (simp add: inert_refStage) (simp add: inert_def)
qed

text \<open>The state the loop cannot leave: behind a run of titled leaves there is a bare reference to a
  filled segment whose copies, but for the first, contain an untitled leaf.\<close>

definition looping :: "SegmentRef \<Rightarrow> ChromeNavItem list \<Rightarrow> ChromeNavItem list \<Rightarrow> nat \<Rightarrow> NavCache \<Rightarrow> bool" where
  "looping x its parsed i c =
     (cacheGet c x = Some \<lparr>ce_NavItems = its, ce_IsFilled = True\<rparr> \<and>
      (\<exists>ms n rest. drop i parsed = ms @ n # rest \<and> (\<forall>m \<in> set ms. titled m \<and> leafItem m) \<and>
         leafItem n \<and> bareRef n \<and> refOf n = x))"

lemma copy_refers:
  assumes "bareRef n" and "m \<in> set (copySegmentItems n its)" and "\<not> titled m"
  shows "bareRef m" and "refOf m = refOf n"
  using assms by (auto simp: copySegmentItems_def bareRef_def refOf_def titled_def HasSegmentRef_def)

lemma copies_all_leaf:
  "\<forall>m \<in> set its. leafItem m \<Longrightarrow> \<forall>m \<in> set (copySegmentItems n its). leafItem m"
  by (auto simp: copySegmentItems_def leafItem_def IsExpandable_def IsGroup_def)

lemma tl_copies: "tl (copySegmentItems n its) = copySegmentItems n (tl its)"
  by (simp add: copySegmentItems_def map_tl)

lemma looping_again:
  assumes i: "i < length parsed" and n: "bareRef (parsed ! i)" "refOf (parsed ! i) = x"
    and its: "\<forall>m \<in> set its. leafItem m" "\<exists>m \<in> set (tl its). \<not> titled m"
    and c: "cacheGet c x = Some \<lparr>ce_NavItems = its, ce_IsFilled = True\<rparr>"
  shows "looping x its (replaceAt parsed i (copySegmentItems (parsed ! i) its)) (Suc i) c"
proof -
  let ?cs = "copySegmentItems (parsed ! i) its"
  have leaf: "\<forall>m \<in> set (tl ?cs). leafItem m"
    using its(1) copies_all_leaf by (metis list.set_sel(2) tl_Nil)
  have "\<exists>m \<in> set (tl ?cs). \<not> titled m"
    using its(2) titled_copySegmentItems unfolding tl_copies by blast
  then obtain ms m rest where m: "tl ?cs = ms @ m # rest" "\<not> titled m" "\<forall>k \<in> set ms. titled k"
    using split_list_first_prop [of "tl ?cs" "\<lambda>m. \<not> titled m"] by auto
  have ne: "?cs \<noteq> []" using its(2) by auto
  then have "m \<in> set ?cs" using m(1) by (metis in_set_conv_decomp list.set_sel(2))
  with m n have "bareRef m" "refOf m = x" using copy_refers by blast+
  moreover have "drop (Suc i) (replaceAt parsed i ?cs) = ms @ m # (rest @ drop (Suc i) parsed)"
    using replaceAt_split(3) [OF i ne] m(1) by simp
  ultimately show ?thesis using c leaf m unfolding looping_def by fastforce
qed

lemma looping_never_returns:
  assumes its: "\<forall>m \<in> set its. leafItem m" "\<exists>m \<in> set (tl its). \<not> titled m"
    and d: "d \<le> 10" and loop: "looping x its parsed i c"
  shows "fillFrom d parsed i c = None"
proof (rule ccontr)
  assume "fillFrom d parsed i c \<noteq> None"
  then obtain r where "fillFrom d parsed i c = Some r" by blast
  then have "\<not> (d \<le> 10 \<and> looping x its parsed i c)"
  proof (induction rule: fillFrom_induct)
    case (body f d parsed i c r)
    show ?case
    proof
      assume h: "d \<le> 10 \<and> looping x its parsed i c"
      then obtain ms n rest where l: "drop i parsed = ms @ n # rest"
        "\<forall>m \<in> set ms. titled m \<and> leafItem m" "leafItem n" "bareRef n" "refOf n = x"
        and c: "cacheGet c x = Some \<lparr>ce_NavItems = its, ce_IsFilled = True\<rparr>"
        unfolding looping_def by blast
      have i: "i < length parsed" using l(1) by (metis append_is_Nil_conv drop_all linorder_not_less list.distinct(1))
      then have d: "drop i parsed = parsed ! i # drop (Suc i) parsed" by (simp add: Cons_nth_drop_Suc)
      show False
      proof (cases ms)
        case Nil
        with l d have n: "bareRef (parsed ! i)" "refOf (parsed ! i) = x" "leafItem (parsed ! i)" by simp_all
        with body.hyps h i c have
          "f d (replaceAt parsed i (copySegmentItems (parsed ! i) its)) (Suc i) c = Some r"
          by (simp add: fillBody_def refStage_def)
        with body.IH looping_again [OF i n(1,2) its c] h show False by blast
      next
        case (Cons m ms')
        with l d have m: "titled (parsed ! i)" "leafItem (parsed ! i)" "drop (Suc i) parsed = ms' @ n # rest"
          by simp_all
        with body.hyps h i have "f d parsed (Suc i) c = Some r"
          by (simp add: fillBody_def refStage_def titled_not_bareRef)
        moreover have "looping x its parsed (Suc i) c"
          unfolding looping_def using c l m(3) Cons by auto
        ultimately show False using body.IH h by blast
      qed
    qed
  qed
  with d loop show False by blast
qed

text \<open>Inert items in front are stepped over.\<close>

lemma walk_prefix:
  assumes "d \<le> 10" and "\<forall>m \<in> set pre. inert c m"
  shows "i \<le> length pre \<Longrightarrow> fillFrom d (pre @ xs) i c = fillFrom d (pre @ xs) (length pre) c"
proof (induction "length pre - i" arbitrary: i)
  case (Suc k)
  then have i: "i < length pre" by simp
  then have "inert c ((pre @ xs) ! i)" using assms(2) by (simp add: nth_append)
  then have "fillFrom d (pre @ xs) i c = fillFrom d (pre @ xs) (Suc i) c"
    using fillFrom_step [OF assms(1), of i "pre @ xs" c] i
    by (simp add: inert_refStage) (simp add: inert_def)
  with Suc i show ?case by simp
qed simp

text \<open>A reference to an unfilled segment of that kind, behind inert items.\<close>

lemma reference_never_returns:
  assumes d: "d < 10" and pre: "\<forall>m \<in> set pre. inert c m" and n: "bareRef n" "leafItem n"
    and entry: "cacheGet c (refOf n) = Some \<lparr>ce_NavItems = its, ce_IsFilled = False\<rparr>"
    and its: "\<forall>m \<in> set its. inert c m" "\<exists>m \<in> set (tl its). \<not> titled m"
  shows "fillFrom d (pre @ n # rest) 0 c = None"
proof -
  let ?i = "length pre" and ?p = "pre @ n # rest"
  let ?c = "cachePut c (refOf n) \<lparr>ce_NavItems = its, ce_IsFilled = True\<rparr>"
  let ?xs = "replaceAt ?p ?i (copySegmentItems n its)"
  have at: "?p ! ?i = n" by simp
  have "fillFrom (Suc d) its 0 c = returnF (its, c)"
    using d its(1) by (intro walk_inert) simp_all
  then have "refStage fillFrom d ?p ?i c = returnF (Some (?xs, ?c))"
    using n(1) entry by (simp add: refStage_def Let_def)
  moreover have "looping (refOf n) its ?xs (Suc ?i) ?c"
    using looping_again [of ?i ?p "refOf n" its ?c] n(1) its at by (simp add: inert_def)
  then have "fillFrom d ?xs (Suc ?i) ?c = None"
    using its d by (intro looping_never_returns) (auto simp: inert_def)
  ultimately have "fillFrom d ?p ?i c = None" using fillFrom_step [of d ?i ?p c] d n(2) at by simp
  with walk_prefix [of d pre c 0 "n # rest"] d pre show ?thesis by simp
qed

section \<open>Properties\<close>



text \<open>Behind a reference to an empty segment the next item is skipped: a reference there is
  left as it is even though its segment is in the cache.\<close>

theorem fillNavRefsTree_empty_skips:
  assumes "bareRef n" and "leafItem n" and "bareRef m"
    and "cacheGet c (refOf n) = Some \<lparr>ce_NavItems = [], ce_IsFilled = False\<rparr>"
  shows "\<exists>c'. fillNavRefsTree [n, m] c 0 = returnF ([m], c')"
  unfolding fillNavRefsTree_def using assms fillFrom_step [of 0 0 "[n, m]" c]
  by (simp add: refStage_def replaceAt_def copySegmentItems_def fillFrom_done Let_def)

theorem fillNavRefsTree_empty_skips_witness:
  "\<exists>c'. fillNavRefsTree [refItem ''app'' ''e'', refItem ''app'' ''s'']
     (cachePut (oneSegment ''app'' ''s'' [linkItem ''A'']) \<lparr>sr_FrontendName = ''app'', sr_SegmentID = ''e''\<rparr>
        \<lparr>ce_NavItems = [], ce_IsFilled = False\<rparr>) 0 = returnF ([refItem ''app'' ''s''], c')"
  by (rule fillNavRefsTree_empty_skips) (simp_all add: leafItem_def)

end
