(* ===== verification/Bundles.thy ===== *)
theory Bundles
  imports Nav_Divergence
begin

text \<open>
  \<open>setupBundlesData\<close> of \<^verbatim>\<open>controllers/reconcile.go\<close>: the navigation of every bundle of an
  environment, assembled from the bundle segments of all its frontends.

  \<^item> The local Go maps \<open>bundleNavSegmentMap\<close> and \<open>skippedNavItemsMap\<close> are association lists; the
    order in which the final \<open>range\<close> visits the second one is the argument \<open>order\<close>, about which
    only \<open>rangeOrder\<close> is known: it visits every entry once.
  \<^item> \<open>bundleNavSegment.NavItems\<close> is overwritten with the stamped items in the frontend list. Stamping
    is idempotent and no later step reads the field, so the list is not returned.
  \<^item> Filling a bundle writes into the arrays behind the routes and groups of its segments' items, which
    stay in \<open>bundleNavSegmentMap\<close>. No other bundle reads them unless it has the same ID. What such a
    bundle finds depends on the capacities the Go runtime gave the slices, so it is the argument
    \<open>residue\<close>: the items of each segment of the bundle after it was filled, about which nothing is known.
    The properties of what a bundle contains are about environments with distinct bundle IDs.
  \<^item> On an error the Go function also returns the bundles built so far; its caller drops them.
\<close>

section \<open>The model\<close>

type_synonym SegmentMap = "(string \<times> BundleSegment list) list"
type_synonym PathMap = "(string \<times> string list) list"

definition getNavItemPath :: "string \<Rightarrow> string \<Rightarrow> string \<Rightarrow> string" where
  "getNavItemPath feName bundleID segmentID = feName @ ''-'' @ bundleID @ ''-'' @ segmentID"

definition cacheSegment :: "string \<Rightarrow> NavigationSegment option \<Rightarrow> NavCache \<Rightarrow> NavCache result" where
  "cacheSegment name navSegment cache =
     bindR (deref navSegment) (\<lambda>s. bindR (deref (ns_NavItems s)) (\<lambda>items.
       Inr (cachePut cache \<lparr>sr_FrontendName = name, sr_SegmentID = ns_SegmentID s\<rparr>
         \<lparr>ce_NavItems = items, ce_IsFilled = False\<rparr>)))"

definition cacheFrontend :: "Frontend \<Rightarrow> NavCache \<Rightarrow> NavCache result" where
  "cacheFrontend frontend cache =
     (case fs_NavigationSegments (fe_Spec frontend) of
        None \<Rightarrow> Inr cache
      | Some segments \<Rightarrow>
          foldR (cacheSegment (fe_Name frontend)) segments
            (if cache (fe_Name frontend) = None then cache(fe_Name frontend \<mapsto> Map.empty) else cache))"

definition fillNavSegmentCache :: "FrontendList \<Rightarrow> NavCache result" where
  "fillNavSegmentCache feList = foldR cacheFrontend feList Map.empty"

definition stampSegment :: "string \<Rightarrow> BundleSegment \<Rightarrow> BundleSegment result" where
  "stampSegment name seg = bindR (deref (bs_NavItems seg)) (\<lambda>items.
     Inr (seg\<lparr>bs_NavItems := Some (addRefsToNavItems items (bs_BundleID seg) name (bs_SegmentID seg))\<rparr>))"

definition collectSegment ::
  "string \<Rightarrow> BundleSegment option \<Rightarrow> SegmentMap \<times> PathMap \<Rightarrow> (SegmentMap \<times> PathMap) result"
where
  "collectSegment name bundleNavSegment maps =
     bindR (deref bundleNavSegment) (\<lambda>s. bindR (stampSegment name s) (\<lambda>seg.
       Inr (appendTo (bs_BundleID seg) [seg] (fst maps),
            appendTo (bs_BundleID seg) [getNavItemPath name (bs_BundleID seg) (bs_SegmentID seg)]
              (snd maps))))"

definition collectFrontend ::
  "Frontend \<Rightarrow> SegmentMap \<times> PathMap \<Rightarrow> (SegmentMap \<times> PathMap) result"
where
  "collectFrontend frontend maps =
     (if fs_FeoConfigEnabled (fe_Spec frontend) then
        (case fs_BundleSegments (fe_Spec frontend) of
           None \<Rightarrow> Inr maps
         | Some segments \<Rightarrow> foldR (collectSegment (fe_Name frontend)) segments maps)
      else Inr maps)"

definition segmentLess :: "BundleSegment \<Rightarrow> BundleSegment \<Rightarrow> bool" where
  "segmentLess a b =
     (if bs_Position a = bs_Position b then bs_SegmentID a < bs_SegmentID b
      else bs_Position a < bs_Position b)"

definition withPosition :: "64 word \<Rightarrow> ChromeNavItem \<Rightarrow> ChromeNavItem" where
  "withPosition pos navItem = setAttrs ((nav_attrs navItem)\<lparr>nav_Position := Some pos\<rparr>) navItem"

definition segmentNavItems :: "BundleSegment \<Rightarrow> ChromeNavItem list result" where
  "segmentNavItems seg = bindR (deref (bs_NavItems seg)) (\<lambda>items.
     Inr (map (withPosition (bs_Position seg)) items))"

definition bundleNavItems :: "BundleSegment list \<Rightarrow> ChromeNavItem list result" where
  "bundleNavItems segs =
     foldR (\<lambda>seg acc. bindR (segmentNavItems seg) (\<lambda>items. Inr (acc @ items))) segs []"

definition buildBundle ::
  "SegmentMap \<Rightarrow> FrontendBundles \<Rightarrow> NavCache \<Rightarrow> (FrontendBundlesGenerated \<times> NavCache) run"
where
  "buildBundle segmentMap bundle cache =
     bindF (Some (bundleNavItems (sort_slice segmentLess (slotOf segmentMap (fb_ID bundle)))))
       (\<lambda>navItems. bindF (fillNavRefsTree navItems cache 0) (\<lambda>p.
          returnF (\<lparr>fbg_ID = fb_ID bundle, fbg_Title = fb_Title bundle,
            fbg_Description = fb_Description bundle,
            fbg_NavItems = filterUnknownNavRefs (fst p)\<rparr>, snd p)))"

type_synonym SliceResidue = "BundleSegment list \<Rightarrow> NavCache \<Rightarrow> nat \<Rightarrow> ChromeNavItem list"

text \<open>The segments as the loop leaves them: sorted in place, with whatever is left in their items.\<close>

definition filledSegments :: "SliceResidue \<Rightarrow> NavCache \<Rightarrow> BundleSegment list \<Rightarrow> BundleSegment list" where
  "filledSegments residue cache segs =
     map (\<lambda>i. (segs ! i)\<lparr>bs_NavItems := Some (residue segs cache i)\<rparr>) [0..<length segs]"

definition afterBundle :: "SliceResidue \<Rightarrow> FrontendBundles \<Rightarrow> NavCache \<Rightarrow> SegmentMap \<Rightarrow> SegmentMap" where
  "afterBundle residue bundle cache segmentMap = AList.update (fb_ID bundle)
     (filledSegments residue cache (sort_slice segmentLess (slotOf segmentMap (fb_ID bundle)))) segmentMap"

fun buildBundles ::
  "SliceResidue \<Rightarrow> SegmentMap \<Rightarrow> FrontendBundles list \<Rightarrow> NavCache \<Rightarrow> FrontendBundlesGenerated list run"
where
  "buildBundles residue segmentMap [] cache = returnF []"
| "buildBundles residue segmentMap (bundle # bundles) cache =
     bindF (buildBundle segmentMap bundle cache) (\<lambda>p.
       bindF (buildBundles residue (afterBundle residue bundle cache segmentMap) bundles (snd p))
         (\<lambda>rest. returnF (fst p # rest)))"

definition setupBundlesData ::
  "SliceResidue \<Rightarrow> (PathMap \<Rightarrow> PathMap) \<Rightarrow> FrontendList \<Rightarrow> FrontendEnvironment \<Rightarrow>
     (FrontendBundlesGenerated list \<times> string list) run"
where
  "setupBundlesData residue order feList feEnvironment =
     (case env_Bundles (fenv_Spec feEnvironment) of
        None \<Rightarrow> returnF ([], [])
      | Some bundles \<Rightarrow>
          bindF (Some (fillNavSegmentCache feList)) (\<lambda>cache.
          bindF (Some (foldR collectFrontend feList ([], []))) (\<lambda>maps.
          bindF (buildBundles residue (fst maps) bundles cache) (\<lambda>generated.
            returnF (generated, concat (map snd (order
              (filter (\<lambda>e. fst e \<notin> set (map fb_ID bundles)) (snd maps)))))))))"

definition rangeOrder :: "(PathMap \<Rightarrow> PathMap) \<Rightarrow> bool" where
  "rangeOrder order = (\<forall>m. mset (order m) = mset m)"

section \<open>Collecting the bundle segments\<close>

text \<open>Every pointer the function follows is set.\<close>

definition setPointers :: "Frontend \<Rightarrow> bool" where
  "setPointers fe =
     ((\<forall>segs. fs_NavigationSegments (fe_Spec fe) = Some segs \<longrightarrow>
         (\<forall>s \<in> set segs. s \<noteq> None \<and> ns_NavItems (the s) \<noteq> None)) \<and>
      (fs_FeoConfigEnabled (fe_Spec fe) \<longrightarrow>
         (\<forall>segs. fs_BundleSegments (fe_Spec fe) = Some segs \<longrightarrow>
            (\<forall>s \<in> set segs. s \<noteq> None \<and> bs_NavItems (the s) \<noteq> None))))"

text \<open>The segments a frontend contributes, stamped, each with the name of the frontend.\<close>

definition stamped :: "string \<Rightarrow> BundleSegment \<Rightarrow> BundleSegment" where
  "stamped name seg = seg\<lparr>bs_NavItems := Some (addRefsToNavItems (the (bs_NavItems seg))
     (bs_BundleID seg) name (bs_SegmentID seg))\<rparr>"

definition contributed :: "Frontend \<Rightarrow> (string \<times> BundleSegment) list" where
  "contributed fe =
     (if fs_FeoConfigEnabled (fe_Spec fe) then
        (case fs_BundleSegments (fe_Spec fe) of
           None \<Rightarrow> []
         | Some segs \<Rightarrow> map (\<lambda>s. (fe_Name fe, stamped (fe_Name fe) (the s))) segs)
      else [])"

definition contributions :: "FrontendList \<Rightarrow> (string \<times> BundleSegment) list" where
  "contributions feList = concat (map contributed feList)"

definition pathOf :: "string \<times> BundleSegment \<Rightarrow> string" where
  "pathOf p = getNavItemPath (fst p) (bs_BundleID (snd p)) (bs_SegmentID (snd p))"

definition collectPair :: "string \<times> BundleSegment \<Rightarrow> SegmentMap \<times> PathMap \<Rightarrow> SegmentMap \<times> PathMap" where
  "collectPair p maps = (appendTo (bs_BundleID (snd p)) [snd p] (fst maps),
     appendTo (bs_BundleID (snd p)) [pathOf p] (snd maps))"

lemma stamped_simps [simp]:
  "bs_BundleID (stamped n s) = bs_BundleID s" "bs_SegmentID (stamped n s) = bs_SegmentID s"
  "bs_Position (stamped n s) = bs_Position s"
  by (simp_all add: stamped_def)

lemma collectSegment_set:
  "s \<noteq> None \<Longrightarrow> bs_NavItems (the s) \<noteq> None \<Longrightarrow>
     collectSegment name s maps = Inr (collectPair (name, stamped name (the s)) maps)"
  by (auto simp: collectSegment_def stampSegment_def collectPair_def pathOf_def stamped_def)

lemma collectFrontend_set:
  assumes "setPointers fe"
  shows "collectFrontend fe maps = Inr (fold collectPair (contributed fe) maps)"
proof (cases "fs_FeoConfigEnabled (fe_Spec fe) \<and> fs_BundleSegments (fe_Spec fe) \<noteq> None")
  case True
  then obtain segs where segs: "fs_FeoConfigEnabled (fe_Spec fe)" "fs_BundleSegments (fe_Spec fe) = Some segs"
    by blast
  with assms have "foldR (collectSegment (fe_Name fe)) segs maps =
      Inr (fold (\<lambda>s. collectPair (fe_Name fe, stamped (fe_Name fe) (the s))) segs maps)"
    by (intro foldR_Inr collectSegment_set) (auto simp: setPointers_def)
  with segs show ?thesis by (simp add: collectFrontend_def contributed_def fold_map comp_def)
next
  case False
  then show ?thesis by (auto simp: collectFrontend_def contributed_def)
qed

lemma collect_all:
  "\<forall>fe \<in> set feList. setPointers fe \<Longrightarrow>
     foldR collectFrontend feList maps = Inr (fold collectPair (contributions feList) maps)"
  by (induction feList arbitrary: maps) (simp_all add: collectFrontend_set contributions_def)

lemma slotOf_collect:
  "slotOf (fst (fold collectPair ps maps)) k =
     slotOf (fst maps) k @ map snd (filter (\<lambda>p. bs_BundleID (snd p) = k) ps)"
  "slotOf (snd (fold collectPair ps maps)) k =
     slotOf (snd maps) k @ map pathOf (filter (\<lambda>p. bs_BundleID (snd p) = k) ps)"
  by (induction ps arbitrary: maps) (auto simp: collectPair_def)

lemma distinct_collect:
  "distinct (map fst (snd maps)) \<Longrightarrow> distinct (map fst (snd (fold collectPair ps maps)))"
  by (induction ps arbitrary: maps) (simp_all add: collectPair_def)

lemma slot_values:
  assumes "distinct (map fst m)"
  shows "set (concat (map snd (filter (\<lambda>e. P (fst e)) m))) = {v. \<exists>k. P k \<and> v \<in> set (slotOf m k)}"
proof -
  have mem: "v \<in> set (slotOf m k) \<longleftrightarrow> (\<exists>xs. (k, xs) \<in> set m \<and> v \<in> set xs)" for v k
    using assms by (auto simp: slotOf_def split: option.split dest: map_of_SomeD)
  show ?thesis by (auto simp: mem) blast
qed

definition skippedPaths :: "FrontendList \<Rightarrow> FrontendBundles list \<Rightarrow> string set" where
  "skippedPaths feList bundles =
     pathOf ` {p \<in> set (contributions feList). bs_BundleID (snd p) \<notin> set (map fb_ID bundles)}"

lemma skipped_collect:
  assumes "rangeOrder order"
  shows "set (concat (map snd (order (filter (\<lambda>e. fst e \<notin> set (map fb_ID bundles))
      (snd (fold collectPair (contributions feList) ([], []))))))) = skippedPaths feList bundles"
proof -
  let ?m = "snd (fold collectPair (contributions feList) ([], []))"
  let ?f = "filter (\<lambda>e. fst e \<notin> set (map fb_ID bundles)) ?m"
  have "set (order ?f) = set ?f" using assms unfolding rangeOrder_def by (metis set_mset_mset)
  then have "set (concat (map snd (order ?f))) = set (concat (map snd ?f))" by simp
  also have "\<dots> = {v. \<exists>k. k \<notin> set (map fb_ID bundles) \<and> v \<in> set (slotOf ?m k)}"
    by (rule slot_values) (simp add: distinct_collect)
  also have "\<dots> = skippedPaths feList bundles"
    by (auto simp: slotOf_collect skippedPaths_def)
  finally show ?thesis .
qed

section \<open>The segment cache\<close>

text \<open>A frontend writes its own slot of the cache only.\<close>

lemma cacheSegment_local:
  "cacheSegment name s cache =
     bindR (cacheSegment name s (Map.empty(name := cache name))) (\<lambda>c. Inr (cache(name := c name)))"
  by (cases s) (auto simp: cacheSegment_def cachePut_def deref_def split: option.split)

lemma foldR_cacheSegment_local:
  "foldR (cacheSegment name) segs cache =
     bindR (foldR (cacheSegment name) segs (Map.empty(name := cache name))) (\<lambda>c. Inr (cache(name := c name)))"
proof (induction segs arbitrary: cache)
  case (Cons s segs)
  show ?case
  proof (cases "cacheSegment name s (Map.empty(name := cache name))")
    case (Inl e)
    then have "cacheSegment name s cache = Inl e" by (subst cacheSegment_local) simp
    with Inl show ?thesis by (simp only: foldR.simps bindR.simps)
  next
    case (Inr c)
    then have "cacheSegment name s cache = Inr (cache(name := c name))"
      by (subst cacheSegment_local) simp
    moreover have "Map.empty(name := c name) = c"
      using Inr by (cases s) (auto simp: cacheSegment_def cachePut_def bindR_Inr)
    ultimately show ?thesis
      using Inr Cons.IH [of "cache(name := c name)"]
      by (simp only: foldR.simps bindR.simps fun_upd_same fun_upd_upd)
  qed
qed simp

definition slotStep :: "Frontend \<Rightarrow> (string \<Rightarrow> NavSegmentCacheEntry option) option \<Rightarrow>
    (string \<Rightarrow> NavSegmentCacheEntry option) option result" where
  "slotStep fe m = bindR (cacheFrontend fe (Map.empty(fe_Name fe := m))) (\<lambda>c. Inr (c (fe_Name fe)))"

lemma cacheFrontend_local:
  "cacheFrontend fe cache =
     bindR (slotStep fe (cache (fe_Name fe))) (\<lambda>m. Inr (cache(fe_Name fe := m)))"
proof (cases "fs_NavigationSegments (fe_Spec fe)")
  case (Some segs)
  let ?c = "if cache (fe_Name fe) = None then cache(fe_Name fe \<mapsto> Map.empty) else cache"
  show ?thesis
    using Some foldR_cacheSegment_local [of "fe_Name fe" segs ?c]
    by (auto simp: slotStep_def cacheFrontend_def bindR_assoc fun_upd_idem)
qed (simp add: slotStep_def cacheFrontend_def fun_upd_idem)

lemma cacheSegment_set:
  "s \<noteq> None \<Longrightarrow> ns_NavItems (the s) \<noteq> None \<Longrightarrow> cacheSegment name s cache =
     Inr (cachePut cache \<lparr>sr_FrontendName = name, sr_SegmentID = ns_SegmentID (the s)\<rparr>
       \<lparr>ce_NavItems = the (ns_NavItems (the s)), ce_IsFilled = False\<rparr>)"
  by (auto simp: cacheSegment_def)

lemma cacheFrontend_set:
  assumes "setPointers fe"
  obtains c where "cacheFrontend fe cache = Inr c"
proof (cases "fs_NavigationSegments (fe_Spec fe)")
  case (Some segs)
  with assms have "\<forall>s \<in> set segs. s \<noteq> None \<and> ns_NavItems (the s) \<noteq> None"
    by (simp add: setPointers_def)
  with Some show ?thesis
    using that foldR_Inr [where f = "cacheSegment (fe_Name fe)", OF cacheSegment_set]
    by (fastforce simp: cacheFrontend_def)
qed (use that in \<open>simp add: cacheFrontend_def\<close>)

lemma cacheFrontend_commute:
  assumes "setPointers x" and "setPointers y" and "fe_Name x \<noteq> fe_Name y"
  shows "bindR (cacheFrontend x s) (cacheFrontend y) = bindR (cacheFrontend y s) (cacheFrontend x)"
proof -
  obtain a where a: "slotStep x (s (fe_Name x)) = Inr a"
    using cacheFrontend_set [OF assms(1)] unfolding slotStep_def by (metis bindR.simps(2))
  obtain b where b: "slotStep y (s (fe_Name y)) = Inr b"
    using cacheFrontend_set [OF assms(2)] unfolding slotStep_def by (metis bindR.simps(2))
  show ?thesis
    using assms(3) a b by (simp add: cacheFrontend_local fun_upd_twist)
qed

lemma fillNavSegmentCache_perm:
  assumes "mset feList' = mset feList" and "distinct (map fe_Name feList)"
    and "\<forall>fe \<in> set feList. setPointers fe"
  shows "fillNavSegmentCache feList' = fillNavSegmentCache feList"
  unfolding fillNavSegmentCache_def
proof (rule foldR_perm [OF assms(1)])
  fix x y s
  assume "x \<in> set feList'" "y \<in> set feList'"
  moreover have "set feList' = set feList" using assms(1) by (metis set_mset_mset)
  moreover have "inj_on fe_Name (set feList)" using assms(2) by (simp add: distinct_map)
  ultimately show "bindR (cacheFrontend x s) (cacheFrontend y) = bindR (cacheFrontend y s) (cacheFrontend x)"
    using assms(3) cacheFrontend_commute [of x y s] inj_onD [of fe_Name "set feList" x y] by auto
qed

section \<open>The order of the frontends does not matter\<close>

text \<open>Two segments of one bundle never share position and ID.\<close>

definition segmentKey :: "BundleSegment \<Rightarrow> 64 word \<times> string" where
  "segmentKey s = (bs_Position s, bs_SegmentID s)"

definition uniqueKeys :: "FrontendList \<Rightarrow> bool" where
  "uniqueKeys feList = (\<forall>k. inj_on segmentKey
     {s \<in> snd ` set (contributions feList). bs_BundleID s = k})"

lemma segmentLess_key: "segmentLess a b \<longleftrightarrow> segmentKey a < segmentKey b"
  by (auto simp: segmentLess_def segmentKey_def)

lemma mset_contributions:
  "mset feList' = mset feList \<Longrightarrow> mset (contributions feList') = mset (contributions feList)"
proof -
  assume "mset feList' = mset feList"
  moreover have "mset (contributions xs) = \<Sum>\<^sub># (image_mset (\<lambda>fe. mset (contributed fe)) (mset xs))" for xs
    by (induction xs) (simp_all add: contributions_def)
  ultimately show ?thesis by simp
qed

definition segmentsOf :: "FrontendList \<Rightarrow> string \<Rightarrow> BundleSegment list" where
  "segmentsOf feList k = map snd (filter (\<lambda>p. bs_BundleID (snd p) = k) (contributions feList))"

definition sortedSegments :: "FrontendList \<Rightarrow> string \<Rightarrow> BundleSegment list" where
  "sortedSegments feList k = sort_slice segmentLess (segmentsOf feList k)"

text \<open>The same segments in the order of position and segment ID; the order of ties is left open.\<close>

definition inOrder :: "FrontendList \<Rightarrow> string \<Rightarrow> BundleSegment list \<Rightarrow> bool" where
  "inOrder feList k segs = (mset segs = mset (segmentsOf feList k) \<and> sorted (map segmentKey segs))"

lemma sortedSegments_inOrder: "inOrder feList k (sortedSegments feList k)"
  by (simp add: inOrder_def sortedSegments_def go_sort.srt_keys [OF segmentLess_key] go_sort.srt_mset)

lemma sortedSegments_perm:
  assumes "mset feList' = mset feList" and "uniqueKeys feList"
  shows "sortedSegments feList' k = sortedSegments feList k"
  unfolding sortedSegments_def segmentsOf_def
proof (rule go_sort.srt_order_free [OF segmentLess_key])
  have "inj_on segmentKey {s \<in> snd ` set (contributions feList). bs_BundleID s = k}"
    using assms(2) by (simp add: uniqueKeys_def)
  then show "inj_on segmentKey (set (map snd (filter (\<lambda>p. bs_BundleID (snd p) = k) (contributions feList))))"
    by (rule inj_on_subset) auto
  show "mset (map snd (filter (\<lambda>p. bs_BundleID (snd p) = k) (contributions feList'))) =
      mset (map snd (filter (\<lambda>p. bs_BundleID (snd p) = k) (contributions feList)))"
    using mset_contributions [OF assms(1)] by simp
qed

text \<open>Bundles with distinct IDs read their own segments only: neither what the others leave behind nor the
  segments of other IDs matter.\<close>

lemma buildBundle_cong:
  "sort_slice segmentLess (slotOf m (fb_ID b)) = sort_slice segmentLess (slotOf m' (fb_ID b)) \<Longrightarrow>
     buildBundle m b c = buildBundle m' b c"
  by (simp add: buildBundle_def)

lemma slotOf_afterBundle: "fb_ID b' \<noteq> fb_ID b \<Longrightarrow> slotOf (afterBundle res b c m) (fb_ID b') = slotOf m (fb_ID b')"
  by (simp add: afterBundle_def)

lemma buildBundles_cong:
  assumes "distinct (map fb_ID bundles)"
    and "\<And>b. b \<in> set bundles \<Longrightarrow> sort_slice segmentLess (slotOf m (fb_ID b)) = sort_slice segmentLess (slotOf m' (fb_ID b))"
  shows "buildBundles res m bundles cache = buildBundles res' m' bundles cache"
  using assms
proof (induction bundles arbitrary: m m' cache)
  case (Cons b bs)
  have "buildBundles res (afterBundle res b cache m) bs c = buildBundles res' (afterBundle res' b cache m') bs c" for c
  proof (rule Cons.IH)
    fix b' assume b': "b' \<in> set bs"
    with Cons.prems(1) have "fb_ID b' \<noteq> fb_ID b" by (auto simp: image_iff)
    with b' Cons.prems(2) show "sort_slice segmentLess (slotOf (afterBundle res b cache m) (fb_ID b')) =
        sort_slice segmentLess (slotOf (afterBundle res' b cache m') (fb_ID b'))" by (simp add: slotOf_afterBundle)
  qed (use Cons.prems(1) in simp)
  moreover have "buildBundle m b cache = buildBundle m' b cache" using Cons.prems(2) by (intro buildBundle_cong) simp
  ultimately show ?case by simp
qed simp

text \<open>A run with the collection done: what is left are the sorted segments of each bundle.\<close>

lemma setupBundlesData_collected:
  assumes "\<forall>fe \<in> set feList. setPointers fe" and "rangeOrder order"
    and "env_Bundles (fenv_Spec env) = Some bundles" and "fillNavSegmentCache feList = Inr cache"
  shows "bindF (setupBundlesData residue order feList env) (\<lambda>p. returnF (fst p, set (snd p))) =
    bindF (buildBundles residue (fst (fold collectPair (contributions feList) ([], []))) bundles cache)
      (\<lambda>generated. returnF (generated, skippedPaths feList bundles))"
  using assms skipped_collect [OF assms(2), of bundles feList]
  by (simp add: setupBundlesData_def collect_all bindF_assoc del: set_concat set_map)

lemma cache_set:
  "\<forall>fe \<in> set feList. setPointers fe \<Longrightarrow> \<exists>c. foldR cacheFrontend feList cache = Inr c"
proof (induction feList arbitrary: cache)
  case (Cons fe feList)
  then obtain c where "cacheFrontend fe cache = Inr c" using cacheFrontend_set by (metis list.set_intros(1))
  with Cons show ?case by simp
qed simp

text \<open>A nil pointer is met in every order.\<close>

lemma segment_errors:
  "onlyError NilDereference (cacheSegment name)" "onlyError NilDereference (collectSegment name)"
  by (auto simp: onlyError_def cacheSegment_def collectSegment_def stampSegment_def deref_def
      split: option.split)

lemma frontend_errors:
  "onlyError NilDereference cacheFrontend" "onlyError NilDereference collectFrontend"
  using onlyErrorD [OF onlyError_foldR, OF segment_errors(1)]
    onlyErrorD [OF onlyError_foldR, OF segment_errors(2)]
  by (auto simp: onlyError_def cacheFrontend_def collectFrontend_def split: option.split)

lemma unset_pointer:
  assumes "\<not> setPointers fe"
  shows "(\<forall>s. cacheFrontend fe s = Inl NilDereference) \<or> (\<forall>s. collectFrontend fe s = Inl NilDereference)"
proof -
  have "(\<exists>segs x. fs_NavigationSegments (fe_Spec fe) = Some segs \<and> x \<in> set segs \<and>
        (x = None \<or> ns_NavItems (the x) = None)) \<or>
      (\<exists>segs x. fs_FeoConfigEnabled (fe_Spec fe) \<and> fs_BundleSegments (fe_Spec fe) = Some segs \<and>
        x \<in> set segs \<and> (x = None \<or> bs_NavItems (the x) = None))"
    using assms unfolding setPointers_def by metis
  then show ?thesis
  proof (elim disjE exE conjE, goal_cases)
    case (1 segs x) \<comment> \<open>a nil segment\<close>
    then show ?case using foldR_fails [OF segment_errors(1) 1(2)]
      by (simp add: cacheFrontend_def cacheSegment_def)
  next
    case (2 segs x)
    have "cacheSegment n x s = Inl NilDereference" for n s using 2 by (cases x) (simp_all add: cacheSegment_def)
    then show ?case using foldR_fails [OF segment_errors(1) 2(2)] 2(1) by (simp add: cacheFrontend_def)
  next
    case (3 segs x)
    then show ?case using foldR_fails [OF segment_errors(2) 3(3)]
      by (simp add: collectFrontend_def collectSegment_def)
  next
    case (4 segs x)
    have "collectSegment n x s = Inl NilDereference" for n s
      using 4 by (cases x) (simp_all add: collectSegment_def stampSegment_def)
    then show ?case using foldR_fails [OF segment_errors(2) 4(3)] 4(1,2) by (simp add: collectFrontend_def)
  qed
qed

lemma setupBundlesData_nil:
  assumes "fe \<in> set feList" and "\<not> setPointers fe" and "env_Bundles (fenv_Spec env) \<noteq> None"
  shows "setupBundlesData residue order feList env = failF NilDereference"
proof -
  have "fillNavSegmentCache feList = Inl NilDereference \<or>
      foldR collectFrontend feList ([], []) = Inl NilDereference"
    using unset_pointer [OF assms(2)] foldR_fails [OF frontend_errors(1) assms(1)]
      foldR_fails [OF frontend_errors(2) assms(1)] unfolding fillNavSegmentCache_def by blast
  moreover have "(\<exists>c. fillNavSegmentCache feList = Inr c) \<or> fillNavSegmentCache feList = Inl NilDereference"
    unfolding fillNavSegmentCache_def by (rule onlyErrorD [OF onlyError_foldR [OF frontend_errors(1)]])
  ultimately show ?thesis using assms(3) by (auto simp: setupBundlesData_def)
qed

section \<open>What a bundle contains\<close>

definition segmentItems :: "BundleSegment list \<Rightarrow> ChromeNavItem list" where
  "segmentItems segs = concat (map (\<lambda>s. map (withPosition (bs_Position s)) (the (bs_NavItems s))) segs)"

definition bundleItems :: "FrontendList \<Rightarrow> string \<Rightarrow> ChromeNavItem list" where
  "bundleItems feList k = segmentItems (sortedSegments feList k)"

lemma tidy_segmentItems:
  "tidy (segmentItems segs) \<longleftrightarrow> (\<forall>s \<in> set segs. tidy (map (withPosition (bs_Position s)) (the (bs_NavItems s))))"
  by (induction segs) (simp_all add: segmentItems_def)

lemma tidy_bundleItems: "tidy (bundleItems feList k) \<longleftrightarrow> tidy (segmentItems (segmentsOf feList k))"
  by (simp add: bundleItems_def tidy_segmentItems sortedSegments_def go_sort.srt_set)

lemma bundleNavItems_set:
  "\<forall>s \<in> set segs. bs_NavItems s \<noteq> None \<Longrightarrow> bundleNavItems segs =
     Inr (concat (map (\<lambda>s. map (withPosition (bs_Position s)) (the (bs_NavItems s))) segs))"
proof -
  have "foldR (\<lambda>seg acc. bindR (segmentNavItems seg) (\<lambda>items. Inr (acc @ items))) segs acc =
      Inr (acc @ concat (map (\<lambda>s. map (withPosition (bs_Position s)) (the (bs_NavItems s))) segs))"
    if "\<forall>s \<in> set segs. bs_NavItems s \<noteq> None" for acc
    using that by (induction segs arbitrary: acc) (auto simp: segmentNavItems_def)
  then show "\<forall>s \<in> set segs. bs_NavItems s \<noteq> None \<Longrightarrow> ?thesis" by (simp add: bundleNavItems_def)
qed

lemma collected_bundle:
  fixes feList
  defines "m \<equiv> fst (fold collectPair (contributions feList) ([], []))"
  shows "sort_slice segmentLess (slotOf m k) = sortedSegments feList k"
    and "bundleNavItems (sort_slice segmentLess (slotOf m k)) = Inr (bundleItems feList k)"
proof -
  show s: "sort_slice segmentLess (slotOf m k) = sortedSegments feList k"
    by (simp add: m_def slotOf_collect sortedSegments_def segmentsOf_def)
  have "\<forall>s \<in> set (sortedSegments feList k). bs_NavItems s \<noteq> None"
    by (auto simp: sortedSegments_def segmentsOf_def go_sort.srt_set contributions_def contributed_def stamped_def
        split: if_splits option.splits)
  then show "bundleNavItems (sort_slice segmentLess (slotOf m k)) = Inr (bundleItems feList k)"
    by (simp add: s bundleNavItems_set bundleItems_def segmentItems_def)
qed

text \<open>A generated bundle against the bundle of the environment it stands for.\<close>

definition bundleHead :: "FrontendBundles \<Rightarrow> FrontendBundlesGenerated \<Rightarrow> bool" where
  "bundleHead b g = (fbg_ID g = fb_ID b \<and> fbg_Title g = fb_Title b \<and>
     fbg_Description g = fb_Description b \<and> noRefs (fbg_NavItems g))"

lemma buildBundle_head: "buildBundle m b c = returnF (g, c') \<Longrightarrow> bundleHead b g"
  by (auto simp: buildBundle_def bindF_returnF bundleHead_def filter_noRefs)

lemma buildBundles_heads: "buildBundles residue m bs c = returnF gs \<Longrightarrow> list_all2 bundleHead bs gs"
proof (induction bs arbitrary: m c gs)
  case (Cons b bs)
  then obtain g c' rest where "buildBundle m b c = returnF (g, c')"
    "buildBundles residue (afterBundle residue b c m) bs c' = returnF rest"
    "gs = g # rest" by (auto simp: bindF_returnF)
  with Cons.IH show ?case by (simp add: buildBundle_head)
qed simp

text \<open>One cache serves all bundles; what it remembers does not change what a later bundle gets.\<close>

lemma fill_sound:
  assumes "closedSegs segs" and "soundCache segs c" and "tidy items"
    and "fillNavRefsTree items c d = returnF (items', c')"
  shows "expands segs items items'" and "soundCache segs c'"
  using fillFrom_expands [OF assms(1) assms(4) [unfolded fillNavRefsTree_def]] assms(2,3)
    expandsFrom_start by blast+

lemma buildBundles_expand:
  assumes closed: "closedSegs segs" and tidy: "\<forall>k. tidy (bundleItems feList k)"
  shows "soundCache segs c \<Longrightarrow> distinct (map fb_ID bs) \<Longrightarrow>
    (\<forall>b \<in> set bs. bundleNavItems (sort_slice segmentLess (slotOf m (fb_ID b))) = Inr (bundleItems feList (fb_ID b))) \<Longrightarrow>
    buildBundles residue m bs c = returnF gs \<Longrightarrow>
    list_all2 (\<lambda>b g. bundleHead b g \<and> (\<exists>items. expands segs (bundleItems feList (fb_ID b)) items \<and>
      fbg_NavItems g = filterUnknownNavRefs items)) bs gs"
proof (induction bs arbitrary: m c gs)
  case (Cons b bs)
  let ?m = "afterBundle residue b c m"
  from Cons.prems(4) obtain g c' rest where r: "buildBundle m b c = returnF (g, c')"
    "buildBundles residue ?m bs c' = returnF rest" "gs = g # rest" by (auto simp: bindF_returnF)
  from r(1) Cons.prems(3) obtain items where f: "fillNavRefsTree (bundleItems feList (fb_ID b)) c 0 = returnF (items, c')"
    "fbg_NavItems g = filterUnknownNavRefs items"
    by (auto simp: buildBundle_def bindF_returnF)
  from fill_sound [OF closed Cons.prems(1) _ f(1)] tidy
  have e: "expands segs (bundleItems feList (fb_ID b)) items" "soundCache segs c'" by blast+
  have "\<forall>b' \<in> set bs. fb_ID b' \<noteq> fb_ID b" using Cons.prems(2) by (auto simp: image_iff)
  then have "\<forall>b' \<in> set bs. bundleNavItems (sort_slice segmentLess (slotOf ?m (fb_ID b'))) = Inr (bundleItems feList (fb_ID b'))"
    using Cons.prems(3) by (simp add: slotOf_afterBundle)
  with Cons.IH [OF e(2) _ _ r(2)] Cons.prems(2) r(3) f(2) e(1) buildBundle_head [OF r(1)] show ?case by auto
qed simp

section \<open>A concrete list\<close>

definition demoSegment :: "string \<Rightarrow> string \<Rightarrow> ChromeNavItem list \<Rightarrow> BundleSegment" where
  "demoSegment b s its = \<lparr>bs_SegmentID = s, bs_BundleID = b, bs_Position = 100, bs_NavItems = Some its\<rparr>"

definition demoFrontend :: "string \<Rightarrow> BundleSegment list \<Rightarrow> Frontend" where
  "demoFrontend n segs = (emptyFrontend n)\<lparr>fe_Spec := emptySpec
     \<lparr>fs_FeoConfigEnabled := True, fs_BundleSegments := Some (map Some segs)\<rparr>\<rparr>"

definition demoList :: FrontendList where
  "demoList = [demoFrontend ''app'' [demoSegment ''b'' ''s'' [linkItem ''A''],
     demoSegment ''gone'' ''t'' [linkItem ''B'']]]"

definition demoBundles :: "FrontendBundles list" where
  "demoBundles = [\<lparr>fb_ID = ''b'', fb_Title = ''T'', fb_Description = ''D''\<rparr>]"

definition demoEnv :: FrontendEnvironment where
  "demoEnv = emptyEnv\<lparr>fenv_Spec := emptyEnvSpec\<lparr>env_Bundles := Some demoBundles\<rparr>\<rparr>"

definition demoGenerated :: "FrontendBundlesGenerated list" where
  "demoGenerated = [\<lparr>fbg_ID = ''b'', fbg_Title = ''T'', fbg_Description = ''D'',
     fbg_NavItems = [withPosition 100 (stampRefs ''app'' ''s'' (linkItem ''A''))]\<rparr>]"

lemma demo_pointers: "\<forall>fe \<in> set demoList. setPointers fe"
  by (simp add: demoList_def setPointers_def demoFrontend_def emptySpec_def demoSegment_def)

lemma demo_cache: "fillNavSegmentCache demoList = Inr Map.empty"
  by (simp add: fillNavSegmentCache_def demoList_def cacheFrontend_def demoFrontend_def emptySpec_def)

lemma demo_contributions:
  "contributions demoList =
     [(''app'', demoSegment ''b'' ''s'' [stampRefs ''app'' ''s'' (linkItem ''A'')]),
      (''app'', demoSegment ''gone'' ''t'' [stampRefs ''app'' ''t'' (linkItem ''B'')])]"
  by (simp add: contributions_def demoList_def contributed_def demoFrontend_def emptySpec_def
      demoSegment_def stamped_def emptyFrontend_def emptyMeta_def)

lemma demo_bundle_items:
  "bundleItems demoList k =
     (if k = ''b'' then [withPosition 100 (stampRefs ''app'' ''s'' (linkItem ''A''))]
      else if k = ''gone'' then [withPosition 100 (stampRefs ''app'' ''t'' (linkItem ''B''))] else [])"
  by (auto simp: bundleItems_def segmentItems_def sortedSegments_def segmentsOf_def demo_contributions demoSegment_def
      sort_slice_def)

lemma withPosition_tests [simp]:
  "bareRef (withPosition p n) = bareRef n" "titled (withPosition p n) = titled n"
  "IsExpandable (withPosition p n) = IsExpandable n" "IsGroup (withPosition p n) = IsGroup n"
  by (simp_all add: withPosition_def bareRef_def titled_def HasSegmentRef_def IsExpandable_def IsGroup_def)

lemma demo_run:
  "setupBundlesData residue id demoList demoEnv = returnF (demoGenerated, [''app-gone-t''])"
proof -
  let ?m = "fold collectPair (contributions demoList) ([], [])"
  have "fillNavRefsTree (bundleItems demoList ''b'') Map.empty 0 = returnF (bundleItems demoList ''b'', Map.empty)"
    unfolding fillNavRefsTree_def
    by (rule walk_inert) (simp_all add: demo_bundle_items inert_def leafItem_def)
  moreover have "snd ?m = [(''b'', [''app-b-s'']), (''gone'', [''app-gone-t''])]"
    by (simp add: demo_contributions collectPair_def appendTo_def slotOf_def pathOf_def
        getNavItemPath_def demoSegment_def)
  ultimately show ?thesis
    using demo_pointers
    by (simp add: setupBundlesData_def demo_cache collect_all demoEnv_def demoBundles_def
        buildBundle_def collected_bundle(2) demo_bundle_items demoGenerated_def)
qed

section \<open>Properties\<close>

lemma setupBundlesData_run:
  assumes "setupBundlesData residue order feList env = returnF (gs, skipped)"
    and "env_Bundles (fenv_Spec env) = Some bundles" and "rangeOrder order"
  obtains cache where "fillNavSegmentCache feList = Inr cache" "\<forall>fe \<in> set feList. setPointers fe"
    "buildBundles residue (fst (fold collectPair (contributions feList) ([], []))) bundles cache = returnF gs"
    "set skipped = skippedPaths feList bundles"
proof -
  have p: "\<forall>fe \<in> set feList. setPointers fe"
    using setupBundlesData_nil [of _ feList env residue order] assms(1,2) by force
  then obtain cache where cache: "fillNavSegmentCache feList = Inr cache"
    using cache_set unfolding fillNavSegmentCache_def by blast
  have "bindF (buildBundles residue (fst (fold collectPair (contributions feList) ([], []))) bundles cache)
      (\<lambda>generated. returnF (generated, skippedPaths feList bundles)) = returnF (gs, set skipped)"
    using setupBundlesData_collected [OF p assms(3,2) cache, where residue = residue] assms(1) by simp
  then show thesis using that [OF cache p] by (auto simp: bindF_returnF)
qed

text \<open>C14: when \<open>setupBundlesData\<close> succeeds, it produced one bundle per bundle of the environment, in
  that order and under its ID, title and description. No bare segment reference is left in its navigation
  at the levels the code walks (the list, the routes of expandable items, the items of groups, and so on
  down; below other items a reference would stay). And it reports as skipped exactly the paths of the
  segments whose bundle the environment does not have.\<close>

theorem setupBundlesData_result:
  assumes "setupBundlesData residue order feList env = returnF (gs, skipped)"
    and "env_Bundles (fenv_Spec env) = Some bundles" and "rangeOrder order"
  shows "list_all2 bundleHead bundles gs \<and> set skipped = skippedPaths feList bundles"
  using assms by (rule setupBundlesData_run) (simp add: buildBundles_heads)

theorem setupBundlesData_result_witness:
  "list_all2 bundleHead demoBundles demoGenerated \<and>
   set [''app-gone-t''] = skippedPaths demoList demoBundles"
  by (rule setupBundlesData_result [OF demo_run])
    (simp_all add: demoEnv_def rangeOrder_def)

text \<open>C3: for an environment with distinct bundle IDs, the navigation of each bundle is the items of its
  segments, of all frontends and in the order of position and segment ID, expanded over the navigation
  segments of all frontends, less the references that cannot be resolved. The cache that the bundles share
  does not show in the result. Assumed of the navigation: no segment is empty, every item of a navigation
  segment has a title or link or refers to a segment there is (\<open>closedCache\<close>), and references carry neither
  routes nor a group of their own (\<open>freshCache\<close>, \<open>tidy\<close>).\<close>

theorem setupBundlesData_expansion:
  assumes "setupBundlesData residue order feList env = returnF (gs, skipped)"
    and "env_Bundles (fenv_Spec env) = Some bundles" and "rangeOrder order" and "distinct (map fb_ID bundles)"
    and "fillNavSegmentCache feList = Inr cache" and "closedCache cache" and "freshCache cache"
    and "\<forall>k. tidy (segmentItems (segmentsOf feList k))"
  shows "list_all2 (\<lambda>b g. \<exists>segs items. inOrder feList (fb_ID b) segs \<and>
      expands (tableOf cache) (segmentItems segs) items \<and> fbg_NavItems g = filterUnknownNavRefs items) bundles gs"
proof -
  have tidy: "\<forall>k. tidy (bundleItems feList k)" using assms(8) by (simp add: tidy_bundleItems)
  from assms(1-3) have "buildBundles residue (fst (fold collectPair (contributions feList) ([], []))) bundles cache =
      returnF gs"
    by (rule setupBundlesData_run) (use assms(5) in auto)
  from buildBundles_expand [OF fresh_closed [OF assms(7,6)] tidy fresh_sound [OF assms(7)] assms(4) _ this]
  show ?thesis
    unfolding collected_bundle(2) by (rule list_all2_mono) (use sortedSegments_inOrder bundleItems_def in metis)+
qed

theorem setupBundlesData_expansion_witness:
  "list_all2 (\<lambda>b g. \<exists>segs items. inOrder demoList (fb_ID b) segs \<and>
      expands (tableOf Map.empty) (segmentItems segs) items \<and> fbg_NavItems g = filterUnknownNavRefs items)
     demoBundles demoGenerated"
  by (rule setupBundlesData_expansion [OF demo_run _ _ _ demo_cache])
    (simp_all add: demoEnv_def demoBundles_def rangeOrder_def closedCache_def freshCache_def cacheGet_def demo_bundle_items
      flip: tidy_bundleItems)

text \<open>The bundles do not depend on the order in which the frontends are listed nor on the order in which
  maps are visited; only the order of the skipped names may change. Nor do they depend on what the slices
  hold after use.\<close>

lemma bundles_order_free:
  assumes "mset feList' = mset feList" and "distinct (map fe_Name feList)" and "uniqueKeys feList"
    and "rangeOrder order" and "rangeOrder order'"
    and ids: "\<And>bundles. env_Bundles (fenv_Spec env) = Some bundles \<Longrightarrow> distinct (map fb_ID bundles)"
  shows "bindF (setupBundlesData residue' order' feList' env) (\<lambda>p. returnF (fst p, set (snd p))) =
    bindF (setupBundlesData residue order feList env) (\<lambda>p. returnF (fst p, set (snd p)))"
proof (cases "env_Bundles (fenv_Spec env)")
  case None
  then show ?thesis by (simp add: setupBundlesData_def)
next
  case (Some bundles)
  have sets: "set feList' = set feList" using assms(1) by (metis set_mset_mset)
  show ?thesis
  proof (cases "\<forall>fe \<in> set feList. setPointers fe")
    case False
    then obtain fe where "fe \<in> set feList" "fe \<in> set feList'" "\<not> setPointers fe" using sets by blast
    then show ?thesis using Some by (simp add: setupBundlesData_nil)
  next
    case True
    then obtain cache where c: "fillNavSegmentCache feList = Inr cache"
      using cache_set unfolding fillNavSegmentCache_def by blast
    have c': "fillNavSegmentCache feList' = Inr cache"
      using fillNavSegmentCache_perm [OF assms(1,2) True] c by simp
    have "skippedPaths feList' bundles = skippedPaths feList bundles"
      using mset_contributions [OF assms(1)] unfolding skippedPaths_def by (metis set_mset_mset)
    moreover have "buildBundles residue' (fst (fold collectPair (contributions feList') ([], []))) bundles cache =
        buildBundles residue (fst (fold collectPair (contributions feList) ([], []))) bundles cache"
      using ids [OF Some] by (rule buildBundles_cong) (simp add: collected_bundle(1) sortedSegments_perm [OF assms(1,3)])
    ultimately show ?thesis
      using setupBundlesData_collected [OF True assms(4) Some c]
          setupBundlesData_collected [OF True [folded sets] assms(5) Some c', where residue = residue'] by simp
  qed
qed

end
