(* ===== verification/Index_Data.thy ===== *)
theory Index_Data
  imports Api_Types
begin

text \<open>
  The generated files that are one sorted list over all frontends: the search index, the widget
  registry, the base dashboard templates and the API specs (\<^verbatim>\<open>controllers/reconcile.go\<close>).
  All four collect entries per frontend and sort the result; \<open>frontend_index\<close> is the contract they
  share, and each of them is an interpretation of it.

  The code writes \<open>FrontendRef\<close> (or \<open>FrontendName\<close>) through the pointers of the frontend list;
  writing it again gives the same value. The templates are different: their name gets the
  frontend's name in front, so \<open>setupBaseWidgetDashboardTemplates\<close> also returns the list it
  leaves behind.
\<close>

section \<open>The model\<close>

definition indexOf :: "(Frontend \<Rightarrow> 'e list result) \<Rightarrow> ('e \<Rightarrow> 'e \<Rightarrow> bool) \<Rightarrow> FrontendList \<Rightarrow> 'e list result" where
  "indexOf collect lt feList = bindR (mapR collect feList) (\<lambda>xss. Inr (sort_slice lt (concat xss)))"

definition entriesOf :: "'a list option \<Rightarrow> 'a list" where
  "entriesOf xs = (case xs of None \<Rightarrow> [] | Some ys \<Rightarrow> ys)"

subsection \<open>Search index\<close>

definition adjustSearchEntry :: "SearchEntry \<Rightarrow> Frontend \<Rightarrow> SearchEntry" where
  "adjustSearchEntry searchEntry frontend =
     \<lparr>se_ID = fe_Name frontend @ ''-'' @ fs_EnvName (fe_Spec frontend) @ ''-'' @ se_ID searchEntry,
      se_Href = se_Href searchEntry, se_Title = se_Title searchEntry,
      se_Description = se_Description searchEntry, se_AltTitle = se_AltTitle searchEntry,
      se_IsExternal = se_IsExternal searchEntry, se_FrontendRef = fe_Name frontend,
      se_Permissions = []\<rparr>"

fun adjustEntries :: "Frontend \<Rightarrow> SearchEntry option list \<Rightarrow> SearchEntry list" where
  "adjustEntries frontend [] = []"
| "adjustEntries frontend (None # es) = adjustEntries frontend es"
| "adjustEntries frontend (Some e # es) = adjustSearchEntry e frontend # adjustEntries frontend es"

definition collectSearch :: "Frontend \<Rightarrow> SearchEntry list result" where
  "collectSearch frontend =
     (if fs_FeoConfigEnabled (fe_Spec frontend) then
        (case fs_SearchEntries (fe_Spec frontend) of
           None \<Rightarrow> Inr []
         | Some es \<Rightarrow> Inr (adjustEntries frontend es))
      else Inr [])"

definition searchLess :: "SearchEntry \<Rightarrow> SearchEntry \<Rightarrow> bool" where
  "searchLess a b =
     (if Compare (se_ID a) (se_ID b) \<noteq> 0 then Compare (se_ID a) (se_ID b) = - 1
      else if Compare (se_Title a) (se_Title b) \<noteq> 0 then Compare (se_Title a) (se_Title b) = - 1
      else if Compare (se_Description a) (se_Description b) \<noteq> 0
        then Compare (se_Description a) (se_Description b) = - 1
      else if Compare (se_Href a) (se_Href b) \<noteq> 0 then Compare (se_Href a) (se_Href b) = - 1
      else Compare (se_FrontendRef a) (se_FrontendRef b) = - 1)"

definition setupSearchIndex :: "FrontendList \<Rightarrow> SearchEntry list result" where
  "setupSearchIndex feList = indexOf collectSearch searchLess feList"

subsection \<open>Widget registry\<close>

definition collectWidgets :: "Frontend \<Rightarrow> WidgetModuleFederationMetadata list result" where
  "collectWidgets frontend =
     (if fs_FeoConfigEnabled (fe_Spec frontend) then
        mapR (\<lambda>widget. bindR (deref widget) (\<lambda>w. Inr (w\<lparr>wm_FrontendRef := fe_Name frontend\<rparr>)))
          (fs_WidgetRegistry (fe_Spec frontend))
      else Inr [])"

definition widgetSortKey :: "WidgetModuleFederationMetadata \<Rightarrow> string" where
  "widgetSortKey w = wm_FrontendRef w @ wm_Scope w @ wm_Module w @ wm_ImportName w"

definition setupWidgetRegistry :: "FrontendList \<Rightarrow> WidgetModuleFederationMetadata list result" where
  "setupWidgetRegistry feList =
     indexOf collectWidgets (\<lambda>a b. widgetSortKey a < widgetSortKey b) feList"

subsection \<open>Base dashboard templates\<close>

definition renameTemplate :: "Frontend \<Rightarrow> BaseWidgetDashboardTemplate \<Rightarrow> BaseWidgetDashboardTemplate" where
  "renameTemplate frontend template = template\<lparr>bt_FrontendRef := fe_Name frontend,
     bt_Name := fe_Name frontend @ ''-'' @ bt_Name template\<rparr>"

definition collectTemplates :: "Frontend \<Rightarrow> BaseWidgetDashboardTemplate list result" where
  "collectTemplates frontend =
     (if fs_FeoConfigEnabled (fe_Spec frontend) then
        (case fs_BaseWidgetLayouts (fe_Spec frontend) of
           None \<Rightarrow> Inr []
         | Some ts \<Rightarrow> mapR (\<lambda>t. bindR (deref t) (\<lambda>x. Inr (renameTemplate frontend x))) ts)
      else Inr [])"

definition templateSortKey :: "BaseWidgetDashboardTemplate \<Rightarrow> string" where
  "templateSortKey t = bt_FrontendRef t @ bt_Name t @ bt_DisplayName t"

definition renamedFrontend :: "Frontend \<Rightarrow> Frontend" where
  "renamedFrontend frontend =
     (if fs_FeoConfigEnabled (fe_Spec frontend) then
        frontend\<lparr>fe_Spec := (fe_Spec frontend)\<lparr>fs_BaseWidgetLayouts :=
          map_option (map (map_option (renameTemplate frontend)))
            (fs_BaseWidgetLayouts (fe_Spec frontend))\<rparr>\<rparr>
      else frontend)"

definition setupBaseWidgetDashboardTemplates ::
  "FrontendList \<Rightarrow> (BaseWidgetDashboardTemplate list \<times> FrontendList) result"
where
  "setupBaseWidgetDashboardTemplates feList =
     bindR (indexOf collectTemplates (\<lambda>a b. templateSortKey a < templateSortKey b) feList)
       (\<lambda>ts. Inr (ts, map renamedFrontend feList))"

subsection \<open>API specs\<close>

definition collectSpecs :: "Frontend \<Rightarrow> APISpecInfo list result" where
  "collectSpecs frontend =
     (case fs_API (fe_Spec frontend) of
        None \<Rightarrow> Inr []
      | Some api \<Rightarrow>
          if 0 < length (ai_Specs api)
          then Inr (map (\<lambda>s. s\<lparr>as_FrontendName := fe_Name frontend\<rparr>) (ai_Specs api))
          else Inr [])"

definition specLess :: "APISpecInfo \<Rightarrow> APISpecInfo \<Rightarrow> bool" where
  "specLess a b =
     (if as_FrontendName a = [] \<and> as_FrontendName b = [] then as_URL a < as_URL b
      else if as_FrontendName a = [] then False
      else if as_FrontendName b = [] then True
      else if as_FrontendName a = as_FrontendName b then as_URL a < as_URL b
      else as_FrontendName a < as_FrontendName b)"

definition setupAPISpecs :: "FrontendList \<Rightarrow> APISpecInfo list result" where
  "setupAPISpecs feList = indexOf collectSpecs specLess feList"

section \<open>The shared contract\<close>

locale frontend_index =
  fixes collect :: "Frontend \<Rightarrow> 'e list result"
    and lt :: "'e \<Rightarrow> 'e \<Rightarrow> bool"
    and key :: "'e \<Rightarrow> 'k::linorder"
  assumes lt_key: "lt a b \<longleftrightarrow> key a < key b"
    and collect_error: "collect fe = Inl e \<Longrightarrow> e = NilDereference"
begin

text \<open>The index holds exactly the collected entries, in order of their keys.\<close>

lemma index_entries:
  assumes "indexOf collect lt feList = Inr xs"
  shows "mset xs = (\<Sum>fe \<in># mset feList. mset (projr (collect fe)))" and "sorted (map key xs)"
    and "\<forall>fe \<in> set feList. \<exists>es. collect fe = Inr es"
proof -
  from assms obtain xss where x: "mapR collect feList = Inr xss" "xs = sort_slice lt (concat xss)"
    by (auto simp: indexOf_def bindR_Inr)
  then have l: "list_all2 (\<lambda>fe es. collect fe = Inr es) feList xss" by (simp add: mapR_Inr)
  then have "mset (concat xss) = (\<Sum>fe \<in># mset feList. mset (projr (collect fe)))"
    by (induction rule: list_all2_induct) simp_all
  then show "mset xs = (\<Sum>fe \<in># mset feList. mset (projr (collect fe)))"
    using x(2) by (simp add: go_sort.srt_mset)
  show "sorted (map key xs)" using go_sort.srt_keys [where lt = lt and key = key, OF lt_key, of "concat xss"] x(2) by simp
  show "\<forall>fe \<in> set feList. \<exists>es. collect fe = Inr es"
    using l by (auto simp: list_all2_conv_all_nth in_set_conv_nth)
qed

lemma index_set:
  assumes "indexOf collect lt feList = Inr xs"
  shows "set xs = (\<Union>fe \<in> set feList. set (projr (collect fe)))"
proof -
  have "set xs = set_mset (\<Sum>fe \<in># mset feList. mset (projr (collect fe)))"
    using index_entries(1) [OF assms] by (metis set_mset_mset)
  then show ?thesis by simp
qed

lemma index_error:
  assumes "fe \<in> set feList" and "collect fe = Inl e"
  shows "indexOf collect lt feList = Inl NilDereference"
proof (cases "indexOf collect lt feList")
  case (Inl err)
  then obtain x where "collect x = Inl err" by (auto simp: indexOf_def bindR_Inl dest: mapR_Inl)
  with Inl collect_error show ?thesis by blast
next
  case (Inr xs)
  with index_entries(3) assms show ?thesis by fastforce
qed

text \<open>Where the key tells the entries apart, the order of the frontends does not matter.\<close>

lemma index_order_free:
  assumes perm: "mset feList' = mset feList"
    and inj: "inj_on key (\<Union>fe \<in> set feList. set (projr (collect fe)))"
  shows "indexOf collect lt feList' = indexOf collect lt feList"
proof -
  have sets: "set feList' = set feList" using perm by (metis set_mset_mset)
  show ?thesis
  proof (cases "\<exists>fe \<in> set feList. \<exists>e. collect fe = Inl e")
    case True
    then show ?thesis using index_error sets by metis
  next
    case False
    define g where "g fe = projr (collect fe)" for fe
    have g: "collect fe = Inr (g fe)" if "fe \<in> set feList" for fe
      using False that by (cases "collect fe") (auto simp: g_def)
    then have m: "mapR collect feList = Inr (map g feList)" "mapR collect feList' = Inr (map g feList')"
      using sets by (auto intro: mapR_total)
    have sum: "mset (concat (map g xs)) = (\<Sum>fe \<in># mset xs. mset (g fe))" for xs
      by (induction xs) simp_all
    have "sort_slice lt (concat (map g feList')) = sort_slice lt (concat (map g feList))"
    proof (rule go_sort.srt_order_free [OF lt_key])
      show "inj_on key (set (concat (map g feList)))" using inj by (simp add: g_def)
      show "mset (concat (map g feList')) = mset (concat (map g feList))" using perm by (simp add: sum)
    qed
    with m show ?thesis by (simp add: indexOf_def)
  qed
qed

end

section \<open>The four indexes\<close>

definition searchKey :: "SearchEntry \<Rightarrow> string \<times> string \<times> string \<times> string \<times> string" where
  "searchKey e = (se_ID e, se_Title e, se_Description e, se_Href e, se_FrontendRef e)"

definition specKey :: "APISpecInfo \<Rightarrow> bool \<times> string \<times> string" where
  "specKey s = (as_FrontendName s = [], as_FrontendName s, as_URL s)"

lemma mapR_deref_error:
  "mapR (\<lambda>p. bindR (deref p) (\<lambda>x. Inr (f x))) ps = Inl e \<Longrightarrow> e = NilDereference"
  by (drule mapR_Inl) (auto simp: bindR_Inl deref_Inl)

interpretation search_index: frontend_index collectSearch searchLess searchKey
  by unfold_locales
    (auto simp: searchLess_def searchKey_def collectSearch_def split: if_splits option.splits)

interpretation widget_index: frontend_index collectWidgets
    "\<lambda>a b. widgetSortKey a < widgetSortKey b" widgetSortKey
  by unfold_locales (auto simp: collectWidgets_def split: if_splits dest: mapR_deref_error)

interpretation template_index: frontend_index collectTemplates
    "\<lambda>a b. templateSortKey a < templateSortKey b" templateSortKey
  by unfold_locales (auto simp: collectTemplates_def split: if_splits option.splits dest: mapR_deref_error)

interpretation spec_index: frontend_index collectSpecs specLess specKey
  by unfold_locales (auto simp: specLess_def specKey_def collectSpecs_def split: if_splits option.splits)

section \<open>Properties\<close>

text \<open>The entries of one frontend that are shown, field by field.\<close>

definition searchEntriesOf :: "Frontend \<Rightarrow> SearchEntry list" where
  "searchEntriesOf fe = (if fs_FeoConfigEnabled (fe_Spec fe)
     then [\<lparr>se_ID = fe_Name fe @ ''-'' @ fs_EnvName (fe_Spec fe) @ ''-'' @ se_ID e, se_Href = se_Href e,
         se_Title = se_Title e, se_Description = se_Description e, se_AltTitle = se_AltTitle e,
         se_IsExternal = se_IsExternal e, se_FrontendRef = fe_Name fe, se_Permissions = []\<rparr>.
       Some e \<leftarrow> entriesOf (fs_SearchEntries (fe_Spec fe))]
     else [])"

lemma adjustEntries_concat:
  "adjustEntries fe es = concat (map (\<lambda>p. case p of None \<Rightarrow> [] | Some e \<Rightarrow> [adjustSearchEntry e fe]) es)"
  by (induction fe es rule: adjustEntries.induct) simp_all

lemma collectSearch_entries: "collectSearch fe = Inr (searchEntriesOf fe)"
  by (simp add: collectSearch_def searchEntriesOf_def entriesOf_def adjustEntries_concat adjustSearchEntry_def
      split: option.split cong: option.case_cong)

lemma setupSearchIndex_total: "\<exists>index. setupSearchIndex feList = Inr index"
  by (simp add: setupSearchIndex_def indexOf_def mapR_total [of _ collectSearch searchEntriesOf] collectSearch_entries)

text \<open>C34: the search index holds exactly the non-nil entries of the frontends with
  \<open>FeoConfigEnabled\<close>, each with its link, title, description, alternative titles and external flag, under
  the ID \<^verbatim>\<open>FRONTEND-ENVIRONMENT-ENTRY\<close>, with the frontend's name and without the permissions it declares, in
  the order of ID, title, description, link and frontend; it never fails.\<close>

theorem setupSearchIndex_correct:
  "\<exists>index. setupSearchIndex feList = Inr index \<and>
     mset index = (\<Sum>fe \<in># mset feList. mset (searchEntriesOf fe)) \<and> sorted (map searchKey index)"
proof -
  obtain index where i: "setupSearchIndex feList = Inr index" using setupSearchIndex_total by blast
  with search_index.index_entries [of feList index] show ?thesis
    by (auto simp: setupSearchIndex_def collectSearch_entries)
qed

text \<open>The permissions declared on a search entry do not reach the search index.\<close>

theorem setupSearchIndex_permissions:
  assumes "setupSearchIndex feList = Inr index" and "e \<in> set index"
  shows "se_Permissions e = []"
proof -
  have "set index = (\<Union>fe \<in> set feList. set (searchEntriesOf fe))"
    using search_index.index_set [of feList index] assms(1)
    by (simp add: setupSearchIndex_def collectSearch_entries)
  with assms(2) obtain fe where "e \<in> set (searchEntriesOf fe)" by blast
  then show ?thesis by (auto simp: searchEntriesOf_def split: if_splits option.splits)
qed

definition searchDemo :: Frontend where
  "searchDemo = (emptyFrontend ''app'')\<lparr>fe_Spec := emptySpec\<lparr>fs_FeoConfigEnabled := True,
     fs_SearchEntries := Some [None, Some \<lparr>se_ID = ''x'', se_Href = [], se_Title = [],
       se_Description = [], se_AltTitle = [], se_IsExternal = False, se_FrontendRef = [],
       se_Permissions = [\<lparr>perm_Method = ''isOrgAdmin'', perm_Apps = [], perm_Args = None\<rparr>]\<rparr>]\<rparr>\<rparr>"

theorem setupSearchIndex_permissions_witness:
  "setupSearchIndex [searchDemo] = Inr [adjustSearchEntry (the (the (fs_SearchEntries (fe_Spec searchDemo)) ! 1)) searchDemo] \<and>
   se_Permissions (adjustSearchEntry (the (the (fs_SearchEntries (fe_Spec searchDemo)) ! 1)) searchDemo) = []"
proof -
  let ?e = "adjustSearchEntry (the (the (fs_SearchEntries (fe_Spec searchDemo)) ! 1)) searchDemo"
  have run: "setupSearchIndex [searchDemo] = Inr [?e]" by code_simp
  from run setupSearchIndex_permissions [OF run, of ?e] show ?thesis by simp
qed

text \<open>The four sorted files do not depend on the order in which the API server lists the
  frontends, where the sort keys tell the entries apart; a nil element makes every order fail.\<close>

lemma index_files_order_free:
  assumes "mset feList' = mset feList"
    and "inj_on searchKey (\<Union>fe \<in> set feList. set (projr (collectSearch fe)))"
    and "inj_on widgetSortKey (\<Union>fe \<in> set feList. set (projr (collectWidgets fe)))"
    and "inj_on templateSortKey (\<Union>fe \<in> set feList. set (projr (collectTemplates fe)))"
    and "inj_on specKey (\<Union>fe \<in> set feList. set (projr (collectSpecs fe)))"
  shows "setupSearchIndex feList' = setupSearchIndex feList \<and>
    setupWidgetRegistry feList' = setupWidgetRegistry feList \<and>
    bindR (setupBaseWidgetDashboardTemplates feList') (\<lambda>p. Inr (fst p)) =
      bindR (setupBaseWidgetDashboardTemplates feList) (\<lambda>p. Inr (fst p)) \<and>
    setupAPISpecs feList' = setupAPISpecs feList"
  unfolding setupSearchIndex_def setupWidgetRegistry_def setupBaseWidgetDashboardTemplates_def
    setupAPISpecs_def
  using search_index.index_order_free [OF assms(1,2)] widget_index.index_order_free [OF assms(1,3)]
    template_index.index_order_free [OF assms(1,4)] spec_index.index_order_free [OF assms(1,5)]
  by (simp add: bindR_assoc)

text \<open>A nil element panics the operator: the widget registry fails exactly when a frontend with
  \<open>FeoConfigEnabled\<close> has a nil widget, and then with a nil dereference.\<close>

theorem setupWidgetRegistry_panics:
  "setupWidgetRegistry feList = Inl e \<longleftrightarrow> e = NilDereference \<and>
     (\<exists>fe \<in> set feList. fs_FeoConfigEnabled (fe_Spec fe) \<and> None \<in> set (fs_WidgetRegistry (fe_Spec fe)))"
proof -
  have c: "(\<exists>err. collectWidgets fe = Inl err) \<longleftrightarrow>
      fs_FeoConfigEnabled (fe_Spec fe) \<and> None \<in> set (fs_WidgetRegistry (fe_Spec fe))" for fe
  proof -
    have "(\<exists>err. mapR (\<lambda>w. bindR (deref w) (\<lambda>x. Inr (f x))) ws = Inl err) \<longleftrightarrow> None \<in> set ws"
      for f :: "WidgetModuleFederationMetadata \<Rightarrow> WidgetModuleFederationMetadata" and ws
      by (induction ws) (auto simp: bindR_Inl deref_Inl deref_def split: option.split)
    then show ?thesis by (simp add: collectWidgets_def)
  qed
  show ?thesis
  proof (cases "\<exists>fe \<in> set feList. \<exists>err. collectWidgets fe = Inl err")
    case True
    then show ?thesis using widget_index.index_error c unfolding setupWidgetRegistry_def by fastforce
  next
    case False
    then have "\<forall>fe \<in> set feList. collectWidgets fe \<noteq> Inl e" by blast
    then have "mapR collectWidgets feList \<noteq> Inl e" using mapR_Inl by blast
    then show ?thesis using False c by (auto simp: setupWidgetRegistry_def indexOf_def bindR_Inl)
  qed
qed

lemma templates_named:
  assumes "setupBaseWidgetDashboardTemplates feList = Inr (ts, feList')" and "t \<in> set ts"
  obtains fe x where "fe \<in> set feList" "fs_FeoConfigEnabled (fe_Spec fe)"
    "Some x \<in> set (entriesOf (fs_BaseWidgetLayouts (fe_Spec fe)))" "t = renameTemplate fe x"
proof -
  have i: "indexOf collectTemplates (\<lambda>a b. templateSortKey a < templateSortKey b) feList = Inr ts"
    using assms(1) by (auto simp: setupBaseWidgetDashboardTemplates_def bindR_Inr)
  from template_index.index_set [OF i] assms(2) obtain fe where f: "fe \<in> set feList"
    "t \<in> set (projr (collectTemplates fe))" by blast
  with template_index.index_entries(3) [OF i] obtain es where
    fe: "fe \<in> set feList" "collectTemplates fe = Inr es" "t \<in> set es" by force
  show thesis
  proof (cases "fs_FeoConfigEnabled (fe_Spec fe)")
    case True
    with fe obtain ps where ps: "fs_BaseWidgetLayouts (fe_Spec fe) = Some ps"
      "list_all2 (\<lambda>p y. bindR (deref p) (\<lambda>x. Inr (renameTemplate fe x)) = Inr y) ps es"
      by (auto simp: collectTemplates_def mapR_Inr split: option.splits)
    from ps(2) fe(3) have "\<exists>x. Some x \<in> set ps \<and> t = renameTemplate fe x"
      by (induction rule: list_all2_induct) (auto simp: bindR_Inr deref_Inr)
    with that fe(1) True ps(1) show thesis by (auto simp: entriesOf_def)
  next
    case False
    with fe show thesis by (simp add: collectTemplates_def)
  qed
qed

lemma renamedFrontend_simps [simp]:
  "fe_Meta (renamedFrontend fe) = fe_Meta fe"
  "fs_FeoConfigEnabled (fe_Spec (renamedFrontend fe)) = fs_FeoConfigEnabled (fe_Spec fe)"
  by (simp_all add: renamedFrontend_def)

lemma renamed_layouts:
  "fs_FeoConfigEnabled (fe_Spec fe) \<Longrightarrow>
     entriesOf (fs_BaseWidgetLayouts (fe_Spec (renamedFrontend fe))) =
       map (map_option (renameTemplate fe)) (entriesOf (fs_BaseWidgetLayouts (fe_Spec fe)))"
  by (simp add: renamedFrontend_def entriesOf_def split: option.split)

text \<open>C35: every generated dashboard template is named after its frontend, and the frontend list is
  left with the longer names, so that a second pass over it prefixes them again.\<close>

theorem setupBaseWidgetDashboardTemplates_renames:
  assumes "setupBaseWidgetDashboardTemplates feList = Inr (ts, feList')"
    and "setupBaseWidgetDashboardTemplates feList' = Inr (ts', feList'')"
  shows "(\<forall>t \<in> set ts. \<exists>n. bt_Name t = bt_FrontendRef t @ ''-'' @ n) \<and>
    (\<forall>t \<in> set ts'. \<exists>n. bt_Name t = bt_FrontendRef t @ ''-'' @ bt_FrontendRef t @ ''-'' @ n)"
proof (intro conjI ballI)
  fix t assume "t \<in> set ts"
  with assms(1) show "\<exists>n. bt_Name t = bt_FrontendRef t @ ''-'' @ n"
    by (rule templates_named) (auto simp: renameTemplate_def)
next
  fix t assume "t \<in> set ts'"
  with assms(2) obtain fe' x' where f: "fe' \<in> set feList'" "fs_FeoConfigEnabled (fe_Spec fe')"
    "Some x' \<in> set (entriesOf (fs_BaseWidgetLayouts (fe_Spec fe')))" "t = renameTemplate fe' x'"
    by (rule templates_named)
  have "feList' = map renamedFrontend feList"
    using assms(1) by (auto simp: setupBaseWidgetDashboardTemplates_def bindR_Inr)
  with f obtain fe where fe: "fe' = renamedFrontend fe" by auto
  with f(2,3) obtain x where "x' = renameTemplate fe x"
    by (auto simp: renamed_layouts map_option_eq_Some dest: sym)
  with f(4) fe show "\<exists>n. bt_Name t = bt_FrontendRef t @ ''-'' @ bt_FrontendRef t @ ''-'' @ n"
    by (auto simp: renameTemplate_def)
qed

definition templateDemo :: Frontend where
  "templateDemo = (emptyFrontend ''app'')\<lparr>fe_Spec := emptySpec\<lparr>fs_FeoConfigEnabled := True,
     fs_BaseWidgetLayouts := Some [Some \<lparr>bt_Name = ''t'', bt_DisplayName = [],
       bt_TemplateConfig = \<lparr>tc_Sm = [], tc_Md = [], tc_Lg = [], tc_Xl = []\<rparr>, bt_FrontendRef = []\<rparr>]\<rparr>\<rparr>"

theorem setupBaseWidgetDashboardTemplates_renames_witness:
  "\<exists>ts feList' ts' feList''. setupBaseWidgetDashboardTemplates [templateDemo] = Inr (ts, feList') \<and>
     setupBaseWidgetDashboardTemplates feList' = Inr (ts', feList'') \<and> map bt_Name ts' = [''app-app-t''] \<and>
     (\<forall>t \<in> set ts'. \<exists>n. bt_Name t = bt_FrontendRef t @ ''-'' @ bt_FrontendRef t @ ''-'' @ n)"
proof -
  let ?one = "projr (setupBaseWidgetDashboardTemplates [templateDemo])"
  let ?two = "projr (setupBaseWidgetDashboardTemplates (snd ?one))"
  have r: "setupBaseWidgetDashboardTemplates [templateDemo] = Inr (fst ?one, snd ?one)"
    "setupBaseWidgetDashboardTemplates (snd ?one) = Inr (fst ?two, snd ?two)"
    "map bt_Name (fst ?two) = [''app-app-t'']"
    by code_simp+
  show ?thesis
    using r setupBaseWidgetDashboardTemplates_renames [OF r(1,2), THEN conjunct2]
    by (intro exI conjI)
qed

end
