(* ===== verification/Service_Tiles.thy ===== *)
theory Service_Tiles
  imports Api_Types
begin

text \<open>
  \<open>setupServiceTilesData\<close> of \<^verbatim>\<open>controllers/reconcile.go\<close>: the service tiles of all frontends, sorted
  into the categories and groups of the environment.

  The code keeps a map from group keys to pointers to the tile slices of the groups. Two groups may
  share a key, and then they do not share the slice, so the pointers are modelled: \<open>TileHeap\<close> holds
  the slices by address and the map from keys to addresses. \<open>placedTiles\<close> is the specification, a
  filter per group, which the heap version refines when the keys are distinct.
\<close>

section \<open>The model\<close>

definition getServiceTilePath :: "string \<Rightarrow> string \<Rightarrow> string" where
  "getServiceTilePath sectn grp = sectn @ ''-'' @ grp"

record TileHeap =
  th_Store :: "ServiceTile list list"
  th_Access :: "(string \<times> nat) list"

type_synonym GroupSlot = "FrontendServiceCategoryGroup \<times> nat"
type_synonym CategorySlot = "FrontendServiceCategory \<times> GroupSlot list"

fun allocGroups :: "string \<Rightarrow> FrontendServiceCategoryGroup list \<Rightarrow> TileHeap \<Rightarrow> GroupSlot list \<times> TileHeap" where
  "allocGroups categoryID [] h = ([], h)"
| "allocGroups categoryID (gr # grs) h =
     (let tiles = length (th_Store h);
          h1 = \<lparr>th_Store = th_Store h @ [[]],
                th_Access = AList.update (getServiceTilePath categoryID (scg_ID gr)) tiles (th_Access h)\<rparr>;
          (gs, h2) = allocGroups categoryID grs h1
      in ((gr, tiles) # gs, h2))"

fun allocCategories :: "FrontendServiceCategory list \<Rightarrow> TileHeap \<Rightarrow> CategorySlot list \<times> TileHeap" where
  "allocCategories [] h = ([], h)"
| "allocCategories (category # cats) h =
     (let (groups, h1) = allocGroups (sc_ID category) (sc_Groups category) h;
          (rest, h2) = allocCategories cats h1
      in ((category, groups) # rest, h2))"

definition placeTile ::
  "string \<Rightarrow> ServiceTile option \<Rightarrow> TileHeap \<times> string list \<Rightarrow> (TileHeap \<times> string list) result"
where
  "placeTile name tile state = bindR (deref tile) (\<lambda>t.
     case map_of (th_Access (fst state)) (getServiceTilePath (st_Section t) (st_Group t)) of
       Some tiles \<Rightarrow> Inr ((fst state)\<lparr>th_Store := (th_Store (fst state))[tiles :=
           th_Store (fst state) ! tiles @ [t\<lparr>st_FrontendRef := name\<rparr>]]\<rparr>, snd state)
     | None \<Rightarrow> Inr (fst state, snd state @ [st_ID t]))"

definition placeFrontend :: "Frontend \<Rightarrow> TileHeap \<times> string list \<Rightarrow> (TileHeap \<times> string list) result" where
  "placeFrontend frontend state =
     (if fs_FeoConfigEnabled (fe_Spec frontend) then
        (case fs_ServiceTiles (fe_Spec frontend) of
           None \<Rightarrow> Inr state
         | Some tiles \<Rightarrow> foldR (placeTile (fe_Name frontend)) tiles state)
      else Inr state)"

definition tileLess :: "ServiceTile \<Rightarrow> ServiceTile \<Rightarrow> bool" where
  "tileLess a b =
     (if Compare (st_Section a) (st_Section b) \<noteq> 0 then Compare (st_Section a) (st_Section b) = - 1
      else if Compare (st_Group a) (st_Group b) \<noteq> 0 then Compare (st_Group a) (st_Group b) = - 1
      else if Compare (st_ID a) (st_ID b) \<noteq> 0 then Compare (st_ID a) (st_ID b) = - 1
      else if Compare (st_Href a) (st_Href b) \<noteq> 0 then Compare (st_Href a) (st_Href b) = - 1
      else if Compare (st_Title a) (st_Title b) \<noteq> 0 then Compare (st_Title a) (st_Title b) = - 1
      else if Compare (st_Description a) (st_Description b) \<noteq> 0
        then Compare (st_Description a) (st_Description b) = - 1
      else if Compare (st_Icon a) (st_Icon b) \<noteq> 0 then Compare (st_Icon a) (st_Icon b) = - 1
      else Compare (st_FrontendRef a) (st_FrontendRef b) = - 1)"

definition finishGroup :: "TileHeap \<Rightarrow> GroupSlot \<Rightarrow> FrontendServiceCategoryGroupGenerated" where
  "finishGroup h slot = \<lparr>gg_ID = scg_ID (fst slot), gg_Title = scg_Title (fst slot),
     gg_Tiles = sort_slice tileLess (th_Store h ! snd slot)\<rparr>"

definition finishCategory :: "TileHeap \<Rightarrow> CategorySlot \<Rightarrow> FrontendServiceCategoryGenerated" where
  "finishCategory h slot = \<lparr>cg_ID = sc_ID (fst slot), cg_Title = sc_Title (fst slot),
     cg_Icon = sc_Icon (fst slot), cg_Groups = map (finishGroup h) (snd slot)\<rparr>"

definition setupServiceTilesData ::
  "FrontendList \<Rightarrow> FrontendEnvironment \<Rightarrow> (FrontendServiceCategoryGenerated list \<times> string list) result"
where
  "setupServiceTilesData feList feEnvironment =
     (case env_ServiceCategories (fenv_Spec feEnvironment) of
        None \<Rightarrow> Inr ([], [])
      | Some cats \<Rightarrow>
          (let (slots, h) = allocCategories cats \<lparr>th_Store = [], th_Access = []\<rparr>
           in bindR (foldR placeFrontend feList (h, [])) (\<lambda>state.
                Inr (map (finishCategory (fst state)) slots, snd state))))"

section \<open>The specification\<close>

definition tilePath :: "ServiceTile \<Rightarrow> string" where
  "tilePath t = getServiceTilePath (st_Section t) (st_Group t)"

definition categoryPaths :: "FrontendServiceCategory \<Rightarrow> string list" where
  "categoryPaths c = map (\<lambda>g. getServiceTilePath (sc_ID c) (scg_ID g)) (sc_Groups c)"

definition groupPaths :: "FrontendServiceCategory list \<Rightarrow> string list" where
  "groupPaths cats = concat (map categoryPaths cats)"

definition setTiles :: "Frontend \<Rightarrow> bool" where
  "setTiles fe = (fs_FeoConfigEnabled (fe_Spec fe) \<longrightarrow>
     (\<forall>ts. fs_ServiceTiles (fe_Spec fe) = Some ts \<longrightarrow> None \<notin> set ts))"

definition tilesOf :: "Frontend \<Rightarrow> ServiceTile list" where
  "tilesOf fe =
     (if fs_FeoConfigEnabled (fe_Spec fe) then
        (case fs_ServiceTiles (fe_Spec fe) of
           None \<Rightarrow> []
         | Some ts \<Rightarrow> map (\<lambda>t. (the t)\<lparr>st_FrontendRef := fe_Name fe\<rparr>) ts)
      else [])"

definition allTiles :: "FrontendList \<Rightarrow> ServiceTile list" where
  "allTiles feList = concat (map tilesOf feList)"

definition filledGroup :: "ServiceTile list \<Rightarrow> FrontendServiceCategory \<Rightarrow> FrontendServiceCategoryGroup \<Rightarrow>
    FrontendServiceCategoryGroupGenerated" where
  "filledGroup tiles c g = \<lparr>gg_ID = scg_ID g, gg_Title = scg_Title g,
     gg_Tiles = sort_slice tileLess
       (filter (\<lambda>t. tilePath t = getServiceTilePath (sc_ID c) (scg_ID g)) tiles)\<rparr>"

definition placedTiles :: "ServiceTile list \<Rightarrow> FrontendServiceCategory \<Rightarrow> FrontendServiceCategoryGenerated" where
  "placedTiles tiles c = \<lparr>cg_ID = sc_ID c, cg_Title = sc_Title c, cg_Icon = sc_Icon c,
     cg_Groups = map (filledGroup tiles c) (sc_Groups c)\<rparr>"

section \<open>Allocation\<close>

definition heapOK :: "TileHeap \<Rightarrow> bool" where
  "heapOK h = ((\<forall>p a. map_of (th_Access h) p = Some a \<longrightarrow> a < length (th_Store h)) \<and>
     (\<forall>p q a. map_of (th_Access h) p = Some a \<longrightarrow> map_of (th_Access h) q = Some a \<longrightarrow> p = q))"

lemma heapOK_alloc:
  "heapOK h \<Longrightarrow> heapOK \<lparr>th_Store = th_Store h @ [ts],
     th_Access = AList.update p (length (th_Store h)) (th_Access h)\<rparr>"
  unfolding heapOK_def by (auto split: if_splits) (meson less_irrefl less_Suc_eq)+

text \<open>What allocation promises for the groups it got.\<close>

definition allocated :: "TileHeap \<Rightarrow> TileHeap \<Rightarrow> string list \<Rightarrow> (string \<times> nat) list \<Rightarrow> bool" where
  "allocated h h' paths slots =
     (heapOK h' \<and> map fst slots = paths \<and> th_Store h' = th_Store h @ replicate (length paths) [] \<and>
      dom (map_of (th_Access h')) = dom (map_of (th_Access h)) \<union> set paths \<and>
      (\<forall>p. p \<notin> set paths \<longrightarrow> map_of (th_Access h') p = map_of (th_Access h) p) \<and>
      (distinct paths \<longrightarrow> (\<forall>(p, a) \<in> set slots. map_of (th_Access h') p = Some a)))"

lemma allocated_trans:
  assumes a: "allocated h h1 ps ss" and b: "allocated h1 h2 qs ts"
  shows "allocated h h2 (ps @ qs) (ss @ ts)"
proof -
  have "map_of (th_Access h2) p = Some x" if "distinct (ps @ qs)" "(p, x) \<in> set (ss @ ts)" for p x
  proof (cases "(p, x) \<in> set ts")
    case True
    with b that(1) show ?thesis by (auto simp: allocated_def)
  next
    case False
    with that(2) have "(p, x) \<in> set ss" by simp
    moreover from this a have "p \<in> set ps" unfolding allocated_def by (metis fst_conv image_eqI set_map)
    moreover from this that(1) have "p \<notin> set qs" by auto
    ultimately have "map_of (th_Access h2) p = map_of (th_Access h1) p" "map_of (th_Access h1) p = Some x"
      using a b that(1) unfolding allocated_def by auto
    then show ?thesis by simp
  qed
  with a b show ?thesis by (auto simp: allocated_def replicate_add)
qed

lemma allocGroups_allocated:
  assumes "heapOK h" and "allocGroups cid grs h = (gs, h')"
  shows "map fst gs = grs \<and>
    allocated h h' (map (\<lambda>g. getServiceTilePath cid (scg_ID g)) grs)
      (map (\<lambda>(g, a). (getServiceTilePath cid (scg_ID g), a)) gs)"
  using assms
proof (induction grs arbitrary: h gs)
  case Nil
  then show ?case by (simp add: allocated_def)
next
  case (Cons g grs)
  let ?p = "getServiceTilePath cid (scg_ID g)"
  let ?h1 = "\<lparr>th_Store = th_Store h @ [[]], th_Access = AList.update ?p (length (th_Store h)) (th_Access h)\<rparr>"
  from Cons.prems(2) obtain gs' where g: "allocGroups cid grs ?h1 = (gs', h')"
    "gs = (g, length (th_Store h)) # gs'" by (auto simp: Let_def split: prod.splits)
  have ok: "heapOK ?h1" using Cons.prems(1) by (rule heapOK_alloc)
  have one: "allocated h ?h1 [?p] [(?p, length (th_Store h))]"
    using ok by (simp add: allocated_def)
  from allocated_trans [OF one] Cons.IH [OF ok g(1)] g(2) show ?case by fastforce
qed

definition slotPaths :: "CategorySlot \<Rightarrow> (string \<times> nat) list" where
  "slotPaths s = map (\<lambda>(g, a). (getServiceTilePath (sc_ID (fst s)) (scg_ID g), a)) (snd s)"

lemma allocCategories_allocated:
  assumes "heapOK h" and "allocCategories cats h = (slots, h')"
  shows "map fst slots = cats \<and> (\<forall>s \<in> set slots. map fst (snd s) = sc_Groups (fst s)) \<and>
    allocated h h' (groupPaths cats) (concat (map slotPaths slots))"
  using assms
proof (induction cats arbitrary: h slots)
  case Nil
  then show ?case by (simp add: allocated_def groupPaths_def)
next
  case (Cons c cats)
  from Cons.prems(2) obtain gs h1 rest where r: "allocGroups (sc_ID c) (sc_Groups c) h = (gs, h1)"
    "allocCategories cats h1 = (rest, h')" "slots = (c, gs) # rest"
    by (auto simp: Let_def split: prod.splits)
  note g = allocGroups_allocated [OF Cons.prems(1) r(1)]
  then have "heapOK h1" by (simp add: allocated_def)
  from Cons.IH [OF this r(2)] g r(3) show ?case
    using allocated_trans by (fastforce simp: groupPaths_def categoryPaths_def slotPaths_def)
qed

section \<open>Placement\<close>

definition placePure :: "ServiceTile \<Rightarrow> TileHeap \<times> string list \<Rightarrow> TileHeap \<times> string list" where
  "placePure t state = (case map_of (th_Access (fst state)) (tilePath t) of
     Some a \<Rightarrow> ((fst state)\<lparr>th_Store := (th_Store (fst state))[a := th_Store (fst state) ! a @ [t]]\<rparr>, snd state)
   | None \<Rightarrow> (fst state, snd state @ [st_ID t]))"

lemma placeTile_set:
  "t \<noteq> None \<Longrightarrow> placeTile name t state = Inr (placePure ((the t)\<lparr>st_FrontendRef := name\<rparr>) state)"
  by (auto simp: placeTile_def placePure_def tilePath_def split: option.split)

lemma placeFrontend_set:
  assumes "setTiles fe"
  shows "placeFrontend fe state = Inr (fold placePure (tilesOf fe) state)"
proof (cases "fs_FeoConfigEnabled (fe_Spec fe) \<and> fs_ServiceTiles (fe_Spec fe) \<noteq> None")
  case True
  then obtain ts where ts: "fs_FeoConfigEnabled (fe_Spec fe)" "fs_ServiceTiles (fe_Spec fe) = Some ts" by blast
  with assms have "foldR (placeTile (fe_Name fe)) ts state =
      Inr (fold (\<lambda>t. placePure ((the t)\<lparr>st_FrontendRef := fe_Name fe\<rparr>)) ts state)"
    by (intro foldR_Inr placeTile_set) (metis setTiles_def)
  with ts show ?thesis by (simp add: placeFrontend_def tilesOf_def fold_map comp_def)
qed (auto simp: placeFrontend_def tilesOf_def)

lemma place_all:
  "\<forall>fe \<in> set feList. setTiles fe \<Longrightarrow>
     foldR placeFrontend feList state = Inr (fold placePure (allTiles feList) state)"
  by (induction feList arbitrary: state) (simp_all add: placeFrontend_set allTiles_def)

lemma placed:
  assumes "heapOK h"
  shows "th_Access (fst (fold placePure ts (h, sk))) = th_Access h \<and>
    snd (fold placePure ts (h, sk)) =
      sk @ map st_ID (filter (\<lambda>t. map_of (th_Access h) (tilePath t) = None) ts) \<and>
    (\<forall>p a. map_of (th_Access h) p = Some a \<longrightarrow>
       th_Store (fst (fold placePure ts (h, sk))) ! a = th_Store h ! a @ filter (\<lambda>t. tilePath t = p) ts)"
  using assms
proof (induction ts arbitrary: h sk)
  case (Cons t ts)
  show ?case
  proof (cases "map_of (th_Access h) (tilePath t)")
    case None
    then show ?thesis using Cons.IH [OF Cons.prems, of "sk @ [st_ID t]"] by (auto simp: placePure_def)
  next
    case (Some b)
    let ?h1 = "h\<lparr>th_Store := (th_Store h)[b := th_Store h ! b @ [t]]\<rparr>"
    have b: "b < length (th_Store h)" using Some Cons.prems by (auto simp: heapOK_def)
    have "heapOK ?h1" using Cons.prems by (simp add: heapOK_def)
    note IH = Cons.IH [OF this, of sk]
    have "a \<noteq> b" if "map_of (th_Access h) p = Some a" "p \<noteq> tilePath t" for p a
      using Cons.prems that Some unfolding heapOK_def by blast
    with IH Some b show ?thesis by (auto simp: placePure_def nth_list_update)
  qed
qed simp

section \<open>Properties\<close>

lemma finish_placed:
  assumes "allocCategories cats \<lparr>th_Store = [], th_Access = []\<rparr> = (slots, h)" and "distinct (groupPaths cats)"
  shows "map (finishCategory (fst (fold placePure ts (h, [])))) slots = map (placedTiles ts) cats"
    and "snd (fold placePure ts (h, [])) = map st_ID (filter (\<lambda>t. tilePath t \<notin> set (groupPaths cats)) ts)"
proof -
  have e: "heapOK \<lparr>th_Store = [], th_Access = []\<rparr>" by (simp add: heapOK_def)
  note al = allocCategories_allocated [OF e assms(1)]
  then have ok: "heapOK h" and store: "th_Store h = replicate (length (groupPaths cats)) []"
    and dom: "dom (map_of (th_Access h)) = set (groupPaths cats)"
    and at: "\<forall>(p, a) \<in> set (concat (map slotPaths slots)). map_of (th_Access h) p = Some a"
    using assms(2) by (auto simp: allocated_def)
  note pl = placed [OF ok, of ts "[]"]
  let ?h = "fst (fold placePure ts (h, []))"
  have group: "finishGroup ?h ga = filledGroup ts (fst s) (fst ga)"
    if s: "s \<in> set slots" "ga \<in> set (snd s)" for s ga
  proof -
    have "(getServiceTilePath (sc_ID (fst s)) (scg_ID (fst ga)), snd ga) \<in> set (concat (map slotPaths slots))"
      using s by (force simp: slotPaths_def)
    with at have a: "map_of (th_Access h) (getServiceTilePath (sc_ID (fst s)) (scg_ID (fst ga))) = Some (snd ga)"
      by auto
    with ok store have "th_Store h ! snd ga = []" by (auto simp: heapOK_def)
    with a pl show ?thesis by (simp add: finishGroup_def filledGroup_def)
  qed
  have "finishCategory ?h s = placedTiles ts (fst s)" if "s \<in> set slots" for s
  proof -
    have "map (finishGroup ?h) (snd s) = map (filledGroup ts (fst s)) (map fst (snd s))"
      using group [OF that] by simp
    also have "map fst (snd s) = sc_Groups (fst s)" using al that by blast
    finally show ?thesis by (simp add: finishCategory_def placedTiles_def)
  qed
  then have "map (finishCategory ?h) slots = map (placedTiles ts) (map fst slots)" by simp
  then show "map (finishCategory ?h) slots = map (placedTiles ts) cats" using al by simp
  have "map_of (th_Access h) p = None \<longleftrightarrow> p \<notin> set (groupPaths cats)" for p using dom by (metis domIff)
  then show "snd (fold placePure ts (h, [])) = map st_ID (filter (\<lambda>t. tilePath t \<notin> set (groupPaths cats)) ts)"
    using pl by simp
qed

lemma tiles_placed:
  assumes "env_ServiceCategories (fenv_Spec env) = Some cats" and "distinct (groupPaths cats)"
    and "\<forall>fe \<in> set feList. setTiles fe"
  shows "setupServiceTilesData feList env =
    Inr (map (placedTiles (allTiles feList)) cats,
      map st_ID (filter (\<lambda>t. tilePath t \<notin> set (groupPaths cats)) (allTiles feList)))"
proof -
  obtain slots h where a: "allocCategories cats \<lparr>th_Store = [], th_Access = []\<rparr> = (slots, h)" by fastforce
  from assms(1,3) a finish_placed [OF a assms(2), of "allTiles feList"] show ?thesis
    by (simp add: setupServiceTilesData_def place_all)
qed

section \<open>Order and contents\<close>

definition tileKey :: "ServiceTile \<Rightarrow> string \<times> string \<times> string \<times> string \<times> string \<times> string \<times> string \<times> string" where
  "tileKey t = (st_Section t, st_Group t, st_ID t, st_Href t, st_Title t, st_Description t, st_Icon t,
     st_FrontendRef t)"

lemma tileLess_key: "tileLess a b \<longleftrightarrow> tileKey a < tileKey b"
  by (auto simp: tileLess_def tileKey_def)

text \<open>A generated group and a generated category against those of the environment: same head, and
  the tiles of the group's key in the order of the sort key.\<close>

definition groupHolds :: "ServiceTile list \<Rightarrow> FrontendServiceCategory \<Rightarrow> FrontendServiceCategoryGroup \<Rightarrow>
    FrontendServiceCategoryGroupGenerated \<Rightarrow> bool" where
  "groupHolds tiles c g gen = (gg_ID gen = scg_ID g \<and> gg_Title gen = scg_Title g \<and>
     mset (gg_Tiles gen) = mset (filter (\<lambda>t. tilePath t = getServiceTilePath (sc_ID c) (scg_ID g)) tiles) \<and>
     sorted (map tileKey (gg_Tiles gen)))"

definition categoryHolds :: "ServiceTile list \<Rightarrow> FrontendServiceCategory \<Rightarrow> FrontendServiceCategoryGenerated \<Rightarrow> bool" where
  "categoryHolds tiles c gen = (cg_ID gen = sc_ID c \<and> cg_Title gen = sc_Title c \<and> cg_Icon gen = sc_Icon c \<and>
     list_all2 (groupHolds tiles c) (sc_Groups c) (cg_Groups gen))"

lemma placedTiles_holds: "categoryHolds tiles c (placedTiles tiles c)"
  by (simp add: categoryHolds_def placedTiles_def list_all2_map2 list.rel_refl groupHolds_def filledGroup_def
      go_sort.srt_mset go_sort.srt_keys [OF tileLess_key])

text \<open>C10: where no two groups of the environment share a key and no tile that a frontend lists is nil, the generated categories are those of the
  environment with every group holding exactly the tiles of its key, stamped with their frontend and in
  order; the tiles that belong to no group are reported as skipped, in the order they came in.\<close>

theorem setupServiceTilesData_correct:
  assumes "env_ServiceCategories (fenv_Spec env) = Some cats" and "distinct (groupPaths cats)"
    and "\<forall>fe \<in> set feList. setTiles fe"
  shows "\<exists>gen. setupServiceTilesData feList env =
      Inr (gen, map st_ID (filter (\<lambda>t. tilePath t \<notin> set (groupPaths cats)) (allTiles feList))) \<and>
    list_all2 (categoryHolds (allTiles feList)) cats gen"
  by (simp add: tiles_placed [OF assms] list_all2_map2 list.rel_refl placedTiles_holds)

definition demoTile :: "string \<Rightarrow> string \<Rightarrow> string \<Rightarrow> ServiceTile" where
  "demoTile s g i = \<lparr>st_Section = s, st_Group = g, st_ID = i, st_Href = [], st_Title = [],
     st_Description = [], st_Icon = [], st_IsExternal = False, st_FrontendRef = [], st_Permissions = []\<rparr>"

definition demoTileFrontend :: "ServiceTile list \<Rightarrow> Frontend" where
  "demoTileFrontend ts = (emptyFrontend ''app'')\<lparr>fe_Spec := emptySpec\<lparr>fs_FeoConfigEnabled := True,
     fs_ServiceTiles := Some (map Some ts)\<rparr>\<rparr>"

definition demoCategory :: "string \<Rightarrow> string \<Rightarrow> FrontendServiceCategory" where
  "demoCategory c g = \<lparr>sc_ID = c, sc_Title = [], sc_Icon = [],
     sc_Groups = [\<lparr>scg_ID = g, scg_Title = []\<rparr>]\<rparr>"

definition demoTileEnv :: "FrontendServiceCategory list \<Rightarrow> FrontendEnvironment" where
  "demoTileEnv cats = emptyEnv\<lparr>fenv_Spec := emptyEnvSpec\<lparr>env_ServiceCategories := Some cats\<rparr>\<rparr>"

theorem setupServiceTilesData_correct_witness:
  "\<exists>gen. setupServiceTilesData [demoTileFrontend [demoTile ''a'' ''b'' ''x'', demoTile ''a'' ''c'' ''y'']]
      (demoTileEnv [demoCategory ''a'' ''b'']) =
     Inr (gen, map st_ID (filter (\<lambda>t. tilePath t \<notin> set (groupPaths [demoCategory ''a'' ''b'']))
         (allTiles [demoTileFrontend [demoTile ''a'' ''b'' ''x'', demoTile ''a'' ''c'' ''y'']]))) \<and>
     list_all2 (categoryHolds (allTiles [demoTileFrontend [demoTile ''a'' ''b'' ''x'', demoTile ''a'' ''c'' ''y'']]))
       [demoCategory ''a'' ''b''] gen"
  by (rule setupServiceTilesData_correct)
    (simp_all add: demoTileEnv_def demoCategory_def groupPaths_def categoryPaths_def setTiles_def
      demoTileFrontend_def emptySpec_def)

text \<open>The order of the frontends does not show.\<close>

lemma mset_allTiles: "mset feList' = mset feList \<Longrightarrow> mset (allTiles feList') = mset (allTiles feList)"
proof -
  assume "mset feList' = mset feList"
  moreover have "mset (allTiles xs) = \<Sum>\<^sub># (image_mset (\<lambda>fe. mset (tilesOf fe)) (mset xs))" for xs
    by (induction xs) (simp_all add: allTiles_def)
  ultimately show ?thesis by simp
qed

lemma placedTiles_perm:
  assumes "mset ts' = mset ts" and "inj_on tileKey (set ts)"
  shows "placedTiles ts' c = placedTiles ts c"
proof -
  have "filledGroup ts' c g = filledGroup ts c g" for g
  proof -
    have "sort_slice tileLess (filter P ts') = sort_slice tileLess (filter P ts)" for P
    proof (rule go_sort.srt_order_free [OF tileLess_key])
      show "inj_on tileKey (set (filter P ts))" using assms(2) by (rule inj_on_subset) auto
    qed (use assms(1) in simp)
    then show ?thesis by (simp add: filledGroup_def)
  qed
  then show ?thesis by (simp add: placedTiles_def)
qed

text \<open>The order in which the frontends are listed does not show in the service categories, where
  the sort key tells the tiles apart.\<close>

lemma tiles_order_free:
  assumes "mset feList' = mset feList" and "env_ServiceCategories (fenv_Spec env) = Some cats"
    and "distinct (groupPaths cats)" and "\<forall>fe \<in> set feList. setTiles fe"
    and "inj_on tileKey (set (allTiles feList))"
  shows "bindR (setupServiceTilesData feList' env) (\<lambda>p. Inr (fst p, mset (snd p))) =
    bindR (setupServiceTilesData feList env) (\<lambda>p. Inr (fst p, mset (snd p)))"
proof -
  have p: "\<forall>fe \<in> set feList'. setTiles fe" using assms(1,4) by (metis set_mset_mset)
  have m: "mset (allTiles feList') = mset (allTiles feList)" using assms(1) by (rule mset_allTiles)
  have "map (placedTiles (allTiles feList')) cats = map (placedTiles (allTiles feList)) cats"
    using placedTiles_perm [OF m assms(5)] by simp
  with m show ?thesis
    by (simp add: tiles_placed [OF assms(2,3) p] tiles_placed [OF assms(2,3,4)])
qed

text \<open>The key of a group joins section and group by a dash, and both may contain dashes. With
  the groups b-c of a and c of a-b, the tile of the first group shows in the second one.\<close>

theorem setupServiceTilesData_key_clash:
  "bindR (setupServiceTilesData [demoTileFrontend [demoTile ''a'' ''b-c'' ''x'']]
       (demoTileEnv [demoCategory ''a'' ''b-c'', demoCategory ''a-b'' ''c'']))
     (\<lambda>p. Inr (map (\<lambda>c. (cg_ID c, map (\<lambda>g. (gg_ID g, map st_ID (gg_Tiles g))) (cg_Groups c))) (fst p))) =
   Inr [(''a'', [(''b-c'', [])]), (''a-b'', [(''c'', [''x''])])]"
  by code_simp

end
