(* ===== verification/Camel_Case.thy ===== *)
theory Camel_Case
  imports Go_Prelude
begin

text \<open>
  \<^verbatim>\<open>controllers/utils/utils.go\<close>: the conversion of a Kubernetes resource name to the camelCase
  module name used in \<^verbatim>\<open>fed-modules.json\<close>. \<open>ToCamelCase\<close> is the function, its loop is
  \<open>camelLoop\<close> with the loop's two variables. The \<^verbatim>\<open>strings\<close> functions are modelled on ASCII
  bytes, which is what the API server admits in a resource name.

  The inverse \<open>kebab\<close> is the specification: on names whose dashes are each followed by a
  letter the conversion can be undone, so two such Frontends never share a module name.
\<close>

section \<open>The code\<close>

definition isSpace :: "char \<Rightarrow> bool" where
  "isSpace c = (of_char c \<in> {9, 10, 11, 12, 13, 32 :: nat})"

definition isLowerLetter :: "char \<Rightarrow> bool" where
  "isLowerLetter c = (97 \<le> (of_char c :: nat) \<and> (of_char c :: nat) \<le> 122)"

definition isUpperLetter :: "char \<Rightarrow> bool" where
  "isUpperLetter c = (65 \<le> (of_char c :: nat) \<and> (of_char c :: nat) \<le> 90)"

definition toLowerChar :: "char \<Rightarrow> char" where
  "toLowerChar c = (if isUpperLetter c then char_of (of_char c + 32 :: nat) else c)"

definition toUpperChar :: "char \<Rightarrow> char" where
  "toUpperChar c = (if isLowerLetter c then char_of (of_char c - 32 :: nat) else c)"

definition TrimSpace :: "string \<Rightarrow> string" where
  "TrimSpace s = rev (dropWhile isSpace (rev (dropWhile isSpace s)))"

fun camelLoop :: "bool \<Rightarrow> string \<Rightarrow> string \<Rightarrow> string" where
  "camelLoop upperCase [] camel = camel"
| "camelLoop upperCase (v # vs) camel =
     (if upperCase then camelLoop False vs (camel @ [toUpperChar v])
      else if [v] = ''-'' then camelLoop True vs camel
      else camelLoop upperCase vs (camel @ [v]))"

definition ToCamelCase :: "string \<Rightarrow> string" where
  "ToCamelCase item =
     (let s = TrimSpace item
      in if s = [] then s else camelLoop False (map toLowerChar s) [])"

section \<open>The specification\<close>

definition isDigit :: "char \<Rightarrow> bool" where
  "isDigit c = (48 \<le> (of_char c :: nat) \<and> (of_char c :: nat) \<le> 57)"

text \<open>Names in which every dash is followed by a lower-case letter.\<close>

fun kebabName :: "string \<Rightarrow> bool" where
  "kebabName [] = True"
| "kebabName [c] = (isLowerLetter c \<or> isDigit c)"
| "kebabName (c # d # cs) =
     (if c = CHR ''-'' then isLowerLetter d \<and> kebabName (d # cs)
      else (isLowerLetter c \<or> isDigit c) \<and> kebabName (d # cs))"

fun kebab :: "string \<Rightarrow> string" where
  "kebab [] = []"
| "kebab (c # cs) = (if isUpperLetter c then CHR ''-'' # toLowerChar c # kebab cs else c # kebab cs)"

section \<open>Characters\<close>

lemma dash_facts [simp]:
  "\<not> isSpace (CHR ''-'')" "\<not> isUpperLetter (CHR ''-'')" "\<not> isLowerLetter (CHR ''-'')"
  "toLowerChar (CHR ''-'') = CHR ''-''"
  by (simp_all add: isSpace_def isUpperLetter_def isLowerLetter_def toLowerChar_def)

lemma lower_facts:
  assumes "isLowerLetter c"
  shows "isUpperLetter (toUpperChar c)" "toLowerChar (toUpperChar c) = c"
    "\<not> isUpperLetter c" "toLowerChar c = c" "\<not> isSpace c" "c \<noteq> CHR ''-''"
proof -
  have r: "97 \<le> (of_char c :: nat)" "(of_char c :: nat) \<le> 122"
    using assms by (simp_all add: isLowerLetter_def)
  then have u: "of_char (char_of (of_char c - 32 :: nat) :: char) = (of_char c - 32 :: nat)"
    by simp
  show "isUpperLetter (toUpperChar c)"
    using r u assms by (simp add: toUpperChar_def isUpperLetter_def) arith
  then show "toLowerChar (toUpperChar c) = c"
    using r u assms by (simp add: toUpperChar_def toLowerChar_def)
  show nu: "\<not> isUpperLetter c" using r by (simp add: isUpperLetter_def)
  then show "toLowerChar c = c" by (simp add: toLowerChar_def)
  show "\<not> isSpace c" using r by (auto simp: isSpace_def)
  show "c \<noteq> CHR ''-''" using assms by auto
qed

lemma digit_facts:
  assumes "isDigit c"
  shows "\<not> isUpperLetter c" "toLowerChar c = c" "\<not> isSpace c" "c \<noteq> CHR ''-''"
proof -
  have r: "48 \<le> (of_char c :: nat)" "(of_char c :: nat) \<le> 57"
    using assms by (simp_all add: isDigit_def)
  show nu: "\<not> isUpperLetter c" using r by (simp add: isUpperLetter_def)
  then show "toLowerChar c = c" by (simp add: toLowerChar_def)
  show "\<not> isSpace c" using r by (auto simp: isSpace_def)
  show "c \<noteq> CHR ''-''" using assms by (auto simp: isDigit_def)
qed

section \<open>The loop\<close>

lemma camelLoop_append: "camelLoop u vs (camel @ acc) = camel @ camelLoop u vs acc"
  by (induction u vs acc rule: camelLoop.induct) auto

lemma camelLoop_acc: "camelLoop u vs [c] = c # camelLoop u vs []"
  using camelLoop_append [of u vs "[c]" "[]"] by simp

lemma kebab_camelLoop: "kebabName s \<Longrightarrow> kebab (camelLoop False s []) = s"
proof (induction s rule: kebabName.induct)
  case 1
  then show ?case by simp
next
  case (2 c)
  then show ?case using lower_facts digit_facts by (auto simp: isDigit_def)
next
  case (3 c d cs)
  show ?case
  proof (cases "c = CHR ''-''")
    case True
    with "3.prems" have d: "isLowerLetter d" and IH: "kebab (camelLoop False (d # cs) []) = d # cs"
      using "3.IH"(1) by auto
    from IH d have "kebab (camelLoop False cs []) = cs"
      by (simp add: camelLoop_acc lower_facts)
    with True d show ?thesis
      by (simp add: camelLoop_acc lower_facts)
  next
    case False
    with "3.prems" have "kebab (camelLoop False (d # cs) []) = d # cs" "\<not> isUpperLetter c"
      using "3.IH"(2) lower_facts(3) digit_facts(1) by auto
    with False show ?thesis by (simp add: camelLoop_acc)
  qed
qed

lemma kebabName_chars:
  "kebabName s \<Longrightarrow> c \<in> set s \<Longrightarrow> \<not> isSpace c \<and> toLowerChar c = c"
proof (induction s rule: kebabName.induct)
  case (3 x y cs)
  then show ?case using lower_facts digit_facts by (auto split: if_splits)
qed (use lower_facts digit_facts in auto)

lemma TrimSpace_id: "(\<And>c. c \<in> set s \<Longrightarrow> \<not> isSpace c) \<Longrightarrow> TrimSpace s = s"
proof -
  assume a: "\<And>c. c \<in> set s \<Longrightarrow> \<not> isSpace c"
  then have "dropWhile isSpace s = s" "dropWhile isSpace (rev s) = rev s"
    by (auto simp: dropWhile_eq_self_iff hd_rev)
  then show ?thesis by (simp add: TrimSpace_def)
qed

lemma ToCamelCase_kebabName: "kebabName s \<Longrightarrow> ToCamelCase s = camelLoop False s []"
  by (simp add: ToCamelCase_def Let_def TrimSpace_id kebabName_chars map_idI)

lemma ToCamelCase_inj_on: "inj_on ToCamelCase {s. kebabName s}"
  by (rule inj_on_inverseI [where g = kebab]) (simp add: ToCamelCase_kebabName kebab_camelLoop)

text \<open>C40: on resource names in which every dash is followed by a letter, \<open>ToCamelCase\<close> loses
  nothing: the name is recovered from the module name. (Names with dots, which Kubernetes also admits, are not
  covered.)\<close>

theorem ToCamelCase_roundtrip:
  assumes "kebabName s"
  shows "kebab (ToCamelCase s) = s"
  using assms by (simp add: ToCamelCase_kebabName kebab_camelLoop)

theorem ToCamelCase_roundtrip_witness:
  "kebabName ''chrome-service-v2'' \<and> kebab (ToCamelCase ''chrome-service-v2'') = ''chrome-service-v2''"
proof -
  have "kebabName ''chrome-service-v2''" by code_simp
  then show ?thesis using ToCamelCase_roundtrip by blast
qed

end
