(* ===== verification/Fed_Modules.thy ===== *)
theory Fed_Modules
  imports Api_Types Camel_Case
begin

text \<open>
  \<open>setupFedModules\<close> and \<open>setupSSOConfig\<close> of \<^verbatim>\<open>controllers/reconcile.go\<close>: the module map of
  \<^verbatim>\<open>fed-modules.json\<close> and the SSO configuration.

  For the frontend named chrome the code decodes the module's JSON config, sets one member and
  encodes it again. The JSON codec is an argument of the model: \<open>putJSON raw key value\<close> is the
  encoding of the object that \<open>raw\<close> decodes to, with the member set; it fails when \<open>raw\<close> is the
  literal null, where the write goes to a nil map. No property below assumes anything about it.
\<close>

section \<open>The model\<close>

type_synonym FedModules = "(string \<times> FedModule) list"
type_synonym jsonPut = "JSON \<Rightarrow> string \<Rightarrow> string \<Rightarrow> JSON result"

definition fedModuleName :: "Frontend \<Rightarrow> FedModule \<Rightarrow> string" where
  "fedModuleName frontend m =
     (if fm_ModuleID m \<noteq> [] then fm_ModuleID m else ToCamelCase (fe_Name frontend))"

definition fullProfile :: "FedModule \<Rightarrow> FedModule" where
  "fullProfile m = m\<lparr>fm_FullProfile :=
     (if fm_FullProfile m = None \<or> fm_FullProfile m = Some False then Some False else Some True)\<rparr>"

definition slashed :: "string \<Rightarrow> string" where
  "slashed path =
     (let p1 = (if \<not> HasPrefix path ''/'' then ''/'' @ path else path)
      in if \<not> HasSuffix p1 ''/'' then p1 @ ''/'' else p1)"

definition cdnPath :: "Frontend \<Rightarrow> FedModule \<Rightarrow> FedModule" where
  "cdnPath frontend m =
     (case fi_Paths (fs_Frontend (fe_Spec frontend)) of
        [] \<Rightarrow> m
      | path # _ \<Rightarrow> m\<lparr>fm_CDNPath := slashed path\<rparr>)"

definition chromeConfig :: "jsonPut \<Rightarrow> string \<Rightarrow> FedModule \<Rightarrow> FedModule result" where
  "chromeConfig putJSON sso m =
     bindR (putJSON (case fm_Config m of None \<Rightarrow> ''{}'' | Some config \<Rightarrow> config) ''ssoUrl'' sso)
       (\<lambda>config. Inr (m\<lparr>fm_Config := Some config\<rparr>))"

definition buildFedModule :: "jsonPut \<Rightarrow> string \<Rightarrow> Frontend \<Rightarrow> FedModule \<Rightarrow> FedModule result" where
  "buildFedModule putJSON sso frontend m =
     (let m2 = cdnPath frontend (fullProfile m)
      in if fe_Name frontend = ''chrome'' then chromeConfig putJSON sso m2 else Inr m2)"

definition publishesModule :: "Frontend \<Rightarrow> bool" where
  "publishesModule frontend =
     ((fe_Name frontend = ''chrome'' \<or> fs_FeoConfigEnabled (fe_Spec frontend)) \<and>
      fs_Module (fe_Spec frontend) \<noteq> None)"

definition addFedModule :: "jsonPut \<Rightarrow> string \<Rightarrow> Frontend \<Rightarrow> FedModules \<Rightarrow> FedModules result" where
  "addFedModule putJSON sso frontend fedModules =
     (if publishesModule frontend then
        (let m = the (fs_Module (fe_Spec frontend))
         in bindR (buildFedModule putJSON sso frontend m) (\<lambda>built.
              Inr (AList.update (fedModuleName frontend m) built fedModules)))
      else Inr fedModules)"

definition setupFedModules ::
  "jsonPut \<Rightarrow> FrontendEnvironment \<Rightarrow> FrontendList \<Rightarrow> FedModules \<Rightarrow> FedModules result"
where
  "setupFedModules putJSON feEnv frontendList fedModules =
     foldR (addFedModule putJSON (env_SSO (fenv_Spec feEnv))) frontendList fedModules"

datatype SSOValue = SSOText string | SSOMap strmap

definition setupSSOConfig :: "FrontendEnvironment \<Rightarrow> (string \<times> SSOValue) list" where
  "setupSSOConfig feEnv =
     (let c1 = AList.update ''ssoUrl'' (SSOText (env_SSO (fenv_Spec feEnv))) [];
          c2 = (if 0 < mapLen (env_SSOMapping (fenv_Spec feEnv)) then
                  AList.update ''ssoMapping''
                    (SSOMap (foldl (\<lambda>m hostname. AList.update hostname
                        (lookup0 (env_SSOMapping (fenv_Spec feEnv)) hostname) m) []
                      (sort (map fst (entries (env_SSOMapping (fenv_Spec feEnv))))))) c1
                else c1)
      in AList.update ''environment'' (SSOText (fenv_Name feEnv)) c2)"

section \<open>Modules\<close>

lemma slashed_ends: "HasPrefix (slashed p) ''/''" "HasSuffix (slashed p) ''/''"
  by (auto simp: slashed_def Let_def HasPrefix_iff_prefix HasSuffix_iff_suffix suffix_def)

lemma slashed_fixed: "HasPrefix p ''/'' \<Longrightarrow> HasSuffix p ''/'' \<Longrightarrow> slashed p = p"
  by (simp add: slashed_def)

lemma slashed_slashed [simp]: "slashed (slashed p) = slashed p"
  using slashed_ends by (rule slashed_fixed)

text \<open>The name a frontend publishes under.\<close>

definition publishedName :: "Frontend \<Rightarrow> string" where
  "publishedName fe =
     (case fs_Module (fe_Spec fe) of
        None \<Rightarrow> ToCamelCase (fe_Name fe)
      | Some m \<Rightarrow> if fm_ModuleID m = [] then ToCamelCase (fe_Name fe) else fm_ModuleID m)"

lemma publishedName_model: "publishesModule fe \<Longrightarrow> fedModuleName fe (the (fs_Module (fe_Spec fe))) = publishedName fe"
  by (auto simp: publishedName_def fedModuleName_def publishesModule_def)

text \<open>The CDN path of a path: one slash in front and one at the end.\<close>

definition withSlashes :: "string \<Rightarrow> string" where
  "withSlashes p =
     (if p = [] \<or> p = ''/'' then ''/''
      else (if hd p = CHR ''/'' then [] else ''/'') @ p @ (if last p = CHR ''/'' then [] else ''/''))"

lemma slashed_withSlashes: "slashed p = withSlashes p"
proof -
  have pre: "HasPrefix q ''/'' \<longleftrightarrow> q \<noteq> [] \<and> hd q = CHR ''/''" for q
    by (cases q) (auto simp: HasPrefix_iff_prefix)
  have suf: "HasSuffix q ''/'' \<longleftrightarrow> q \<noteq> [] \<and> last q = CHR ''/''" for q
    by (cases q rule: rev_cases) (auto simp: HasSuffix_iff_suffix suffix_def)
  show ?thesis by (auto simp: slashed_def withSlashes_def pre suf Let_def)
qed

lemma addFedModule_cases:
  assumes "addFedModule putJSON sso fe ms = Inr ms'"
  obtains (silent) "\<not> publishesModule fe" "ms' = ms"
    | (added) m where "publishesModule fe"
        "buildFedModule putJSON sso fe (the (fs_Module (fe_Spec fe))) = Inr m"
        "ms' = AList.update (publishedName fe) m ms"
  using assms publishedName_model [of fe] by (auto simp: addFedModule_def Let_def bindR_Inr split: if_splits)

text \<open>With distinct names the modules are listed as they come, so the order of the frontends changes
  the order of the entries only.\<close>

definition moduleEntry :: "jsonPut \<Rightarrow> string \<Rightarrow> Frontend \<Rightarrow> string \<times> FedModule" where
  "moduleEntry putJSON sso fe = (publishedName fe, projr (buildFedModule putJSON sso fe (the (fs_Module (fe_Spec fe)))))"

lemma update_new: "k \<notin> fst ` set m \<Longrightarrow> AList.update k v m = m @ [(k, v)]"
  by (induction m) auto

lemma fedModules_listed:
  assumes "foldR (addFedModule putJSON sso) feList ms = Inr ms'"
    and "distinct (map fst ms @ map publishedName (filter publishesModule feList))"
  shows "ms' = ms @ map (moduleEntry putJSON sso) (filter publishesModule feList) \<and>
    (\<forall>fe \<in> set feList. publishesModule fe \<longrightarrow> (\<exists>m. buildFedModule putJSON sso fe (the (fs_Module (fe_Spec fe))) = Inr m))"
  using assms
proof (induction feList arbitrary: ms)
  case (Cons fe feList)
  then obtain m1 where m1: "addFedModule putJSON sso fe ms = Inr m1"
    "foldR (addFedModule putJSON sso) feList m1 = Inr ms'" by (auto simp: bindR_Inr)
  from m1(1) show ?case
  proof (cases rule: addFedModule_cases)
    case silent
    with Cons.IH [OF m1(2)] Cons.prems(2) show ?thesis by auto
  next
    case (added m)
    with Cons.prems(2) have m1': "m1 = ms @ [moduleEntry putJSON sso fe]"
      by (auto simp: update_new moduleEntry_def image_iff)
    have "distinct (map fst m1 @ map publishedName (filter publishesModule feList))"
      using Cons.prems(2) added(1) unfolding m1' by (auto simp: moduleEntry_def)
    from Cons.IH [OF m1(2) this] added(1,2) show ?thesis unfolding m1' by simp
  qed
qed simp

lemma fedModules_list:
  assumes "\<forall>fe \<in> set feList. publishesModule fe \<longrightarrow> (\<exists>m. buildFedModule putJSON sso fe (the (fs_Module (fe_Spec fe))) = Inr m)"
    and "distinct (map fst ms @ map publishedName (filter publishesModule feList))"
  shows "foldR (addFedModule putJSON sso) feList ms = Inr (ms @ map (moduleEntry putJSON sso) (filter publishesModule feList))"
  using assms
proof (induction feList arbitrary: ms)
  case (Cons fe feList)
  show ?case
  proof (cases "publishesModule fe")
    case True
    with Cons.prems(1) obtain m where m: "buildFedModule putJSON sso fe (the (fs_Module (fe_Spec fe))) = Inr m" by auto
    have "addFedModule putJSON sso fe ms = Inr (ms @ [moduleEntry putJSON sso fe])"
      using True m Cons.prems(2) publishedName_model [OF True]
      by (auto simp: addFedModule_def Let_def update_new moduleEntry_def image_iff)
    with True Cons show ?thesis by (auto simp: moduleEntry_def)
  next
    case False
    with Cons show ?thesis by (simp add: addFedModule_def)
  qed
qed simp

lemma setupFedModules_perm:
  assumes "mset feList' = mset feList" and "distinct (map publishedName (filter publishesModule feList))"
    and "setupFedModules putJSON env feList [] = Inr ms"
  shows "\<exists>ms'. setupFedModules putJSON env feList' [] = Inr ms' \<and> mset ms' = mset ms \<and> distinct (map fst ms)"
proof -
  have perm: "mset (filter publishesModule feList') = mset (filter publishesModule feList)" using assms(1) by simp
  have d': "distinct (map publishedName (filter publishesModule feList'))"
    using assms(2) perm by (metis mset_map mset_eq_imp_distinct_iff)
  have ms: "ms = map (moduleEntry putJSON (env_SSO (fenv_Spec env))) (filter publishesModule feList)"
    "\<forall>fe \<in> set feList. publishesModule fe \<longrightarrow>
       (\<exists>m. buildFedModule putJSON (env_SSO (fenv_Spec env)) fe (the (fs_Module (fe_Spec fe))) = Inr m)"
    using fedModules_listed [of putJSON "env_SSO (fenv_Spec env)" feList "[]" ms] assms(2,3)
    by (simp_all add: setupFedModules_def)
  have "setupFedModules putJSON env feList' [] =
      Inr (map (moduleEntry putJSON (env_SSO (fenv_Spec env))) (filter publishesModule feList'))"
    using fedModules_list [of feList' putJSON "env_SSO (fenv_Spec env)" "[]"] ms(2) d' assms(1)
    by (simp add: setupFedModules_def set_mset_mset [symmetric] del: set_mset_mset)
  moreover have "distinct (map fst ms)" using assms(2) by (simp add: ms(1) moduleEntry_def comp_def)
  ultimately show ?thesis using perm ms(1) by simp
qed

lemma fedModules_kept:
  assumes "foldR (addFedModule putJSON sso) feList ms = Inr ms'"
    and "\<forall>fe \<in> set feList. publishesModule fe \<longrightarrow> publishedName fe \<noteq> name"
  shows "map_of ms' name = map_of ms name"
  using assms
proof (induction feList arbitrary: ms)
  case (Cons fe feList)
  then obtain m1 where m1: "addFedModule putJSON sso fe ms = Inr m1"
    "foldR (addFedModule putJSON sso) feList m1 = Inr ms'" by (auto simp: bindR_Inr)
  have "map_of m1 name = map_of ms name"
    using m1(1) Cons.prems(2) by (cases rule: addFedModule_cases) auto
  with Cons.IH [OF m1(2)] Cons.prems(2) show ?case by simp
qed simp

lemma fedModules_published:
  assumes "foldR (addFedModule putJSON sso) feList ms = Inr ms'"
    and "fe \<in> set feList" and "publishesModule fe"
    and "distinct (map publishedName (filter publishesModule feList))"
  shows "\<exists>m. buildFedModule putJSON sso fe (the (fs_Module (fe_Spec fe))) = Inr m \<and>
    map_of ms' (publishedName fe) = Some m"
  using assms
proof (induction feList arbitrary: ms)
  case (Cons x feList)
  then obtain m1 where m1: "addFedModule putJSON sso x ms = Inr m1"
    "foldR (addFedModule putJSON sso) feList m1 = Inr ms'" by (auto simp: bindR_Inr)
  show ?case
  proof (cases "fe = x")
    case True
    from m1(1) Cons.prems(3) True obtain m where
      m: "buildFedModule putJSON sso fe (the (fs_Module (fe_Spec fe))) = Inr m"
      "m1 = AList.update (publishedName fe) m ms" by (cases rule: addFedModule_cases) auto
    have "\<forall>y \<in> set feList. publishesModule y \<longrightarrow> publishedName y \<noteq> publishedName fe"
      using Cons.prems(3,4) True by (auto simp: image_iff)
    from fedModules_kept [OF m1(2) this] m show ?thesis by simp
  next
    case False
    with Cons.prems m1(2) show ?thesis by (intro Cons.IH) (auto split: if_splits)
  qed
qed simp

text \<open>What is published of a module: every field of it, the profile flag made explicit, the CDN path, and for
  chrome the configuration with the SSO URL put in.\<close>

definition publishedModule :: "Frontend \<Rightarrow> FedModule \<Rightarrow> FedModule \<Rightarrow> bool" where
  "publishedModule fe m b =
     (fm_ManifestLocation b = fm_ManifestLocation m \<and> fm_Modules b = fm_Modules m \<and> fm_ModuleID b = fm_ModuleID m \<and>
      fm_ModuleConfig b = fm_ModuleConfig m \<and> fm_DefaultDocumentTitle b = fm_DefaultDocumentTitle m \<and>
      fm_IsFedramp b = fm_IsFedramp m \<and> fm_Analytics b = fm_Analytics m \<and>
      fm_FullProfile b = Some (fm_FullProfile m = Some True) \<and>
      fm_CDNPath b = (case fi_Paths (fs_Frontend (fe_Spec fe)) of [] \<Rightarrow> fm_CDNPath m | p # _ \<Rightarrow> withSlashes p))"

definition publishedConfig :: "jsonPut \<Rightarrow> string \<Rightarrow> Frontend \<Rightarrow> FedModule \<Rightarrow> FedModule \<Rightarrow> bool" where
  "publishedConfig putJSON sso fe m b =
     (if fe_Name fe = ''chrome''
      then (\<exists>config. fm_Config b = Some config \<and>
        putJSON (case fm_Config m of None \<Rightarrow> ''{}'' | Some raw \<Rightarrow> raw) ''ssoUrl'' sso = Inr config)
      else fm_Config b = fm_Config m)"

lemma buildFedModule_published:
  assumes "buildFedModule putJSON sso fe m = Inr b"
  shows "publishedModule fe m b \<and> publishedConfig putJSON sso fe m b"
  using assms
  by (auto simp: buildFedModule_def Let_def cdnPath_def fullProfile_def chromeConfig_def bindR_Inr
      publishedModule_def publishedConfig_def slashed_withSlashes split: if_splits list.splits)

section \<open>Properties\<close>

text \<open>C36: provided that no two frontends publish under one name, \<^verbatim>\<open>fed-modules.json\<close> has an entry for exactly
  the published names, which are the module ID, or the frontend's name in camel case where there is none.
  The entry of a frontend is its own module, field by field: the profile flag is made explicit, the CDN path
  is, if the frontend has a path, its first path with one slash put in front and at the end where it is
  missing, and the configuration is the module's own, for chrome with the environment's SSO URL put in.\<close>

theorem setupFedModules_correct:
  assumes "setupFedModules putJSON feEnv feList [] = Inr ms"
    and "distinct (map publishedName (filter publishesModule feList))"
  shows "set (map fst ms) = publishedName ` {fe \<in> set feList. publishesModule fe} \<and>
    (\<forall>fe \<in> set feList. publishesModule fe \<longrightarrow>
      (\<exists>m. map_of ms (publishedName fe) = Some m \<and> publishedModule fe (the (fs_Module (fe_Spec fe))) m \<and>
        publishedConfig putJSON (env_SSO (fenv_Spec feEnv)) fe (the (fs_Module (fe_Spec fe))) m))"
proof (intro conjI ballI impI)
  note run = assms(1) [unfolded setupFedModules_def]
  have "name \<in> publishedName ` {fe \<in> set feList. publishesModule fe}" if "name \<in> set (map fst ms)" for name
  proof (rule ccontr)
    assume "name \<notin> publishedName ` {fe \<in> set feList. publishesModule fe}"
    then have "map_of ms name = None" using fedModules_kept [OF run, of name] by force
    with that show False by (simp add: map_of_eq_None_iff)
  qed
  moreover have "publishedName fe \<in> set (map fst ms)" if "fe \<in> set feList" "publishesModule fe" for fe
    using fedModules_published [OF run that assms(2)] by (metis map_of_eq_None_iff option.distinct(1) set_map)
  ultimately show "set (map fst ms) = publishedName ` {fe \<in> set feList. publishesModule fe}" by blast
next
  fix fe
  assume "fe \<in> set feList" "publishesModule fe"
  then obtain m where m: "buildFedModule putJSON (env_SSO (fenv_Spec feEnv)) fe (the (fs_Module (fe_Spec fe))) = Inr m"
    "map_of ms (publishedName fe) = Some m"
    using fedModules_published [OF assms(1) [unfolded setupFedModules_def]] assms(2) by blast
  with buildFedModule_published [OF m(1)]
  show "\<exists>m. map_of ms (publishedName fe) = Some m \<and> publishedModule fe (the (fs_Module (fe_Spec fe))) m \<and>
        publishedConfig putJSON (env_SSO (fenv_Spec feEnv)) fe (the (fs_Module (fe_Spec fe))) m" by blast
qed

definition demoModule :: FedModule where
  "demoModule = \<lparr>fm_ManifestLocation = ''/m.json'', fm_Modules = [], fm_ModuleID = [], fm_Config = None,
     fm_ModuleConfig = None, fm_FullProfile = None, fm_DefaultDocumentTitle = [], fm_IsFedramp = None,
     fm_Analytics = None, fm_CDNPath = []\<rparr>"

definition moduleDemo :: "string \<Rightarrow> string list \<Rightarrow> Frontend" where
  "moduleDemo name paths = (emptyFrontend name)\<lparr>fe_Spec := emptySpec\<lparr>fs_FeoConfigEnabled := True,
     fs_Frontend := \<lparr>fi_Paths = paths\<rparr>, fs_Module := Some demoModule\<rparr>\<rparr>"

definition demoModules :: FedModules where
  "demoModules =
     [(''chrome'', demoModule\<lparr>fm_FullProfile := Some False, fm_Config := Some ''{}''\<rparr>),
      (''myApp'', demoModule\<lparr>fm_FullProfile := Some False, fm_CDNPath := ''/apps/my/''\<rparr>)]"

theorem setupFedModules_correct_witness:
  "set (map fst demoModules) = publishedName ` {fe \<in> set [moduleDemo ''chrome'' [], moduleDemo ''my-app'' [''apps/my'']].
      publishesModule fe} \<and>
   (\<exists>m. map_of demoModules (publishedName (moduleDemo ''my-app'' [''apps/my''])) = Some m \<and>
      publishedModule (moduleDemo ''my-app'' [''apps/my'']) demoModule m)"
proof -
  let ?l = "[moduleDemo ''chrome'' [], moduleDemo ''my-app'' [''apps/my'']]"
  have h: "setupFedModules (\<lambda>raw k v. Inr raw) emptyEnv ?l [] = Inr demoModules"
    "distinct (map publishedName (filter publishesModule ?l))" by code_simp+
  have "publishesModule (moduleDemo ''my-app'' [''apps/my''])" by code_simp
  moreover have "the (fs_Module (fe_Spec (moduleDemo ''my-app'' [''apps/my'']))) = demoModule" by (simp add: moduleDemo_def)
  ultimately show ?thesis using setupFedModules_correct [OF h] by fastforce
qed

text \<open>Module names are not unique: the frontends app-1 and app1 publish under one name and one of
  the two modules is lost.\<close>

theorem setupFedModules_name_clash:
  "bindR (setupFedModules putJSON env [moduleDemo ''app-1'' [''one''], moduleDemo ''app1'' [''two'']] [])
     (\<lambda>ms. Inr (map (\<lambda>p. (fst p, fm_CDNPath (snd p))) ms)) = Inr [(''app1'', ''/two/'')]"
proof -
  have "ToCamelCase ''app-1'' = ''app1''" "ToCamelCase ''app1'' = ''app1''"
    "slashed ''one'' = ''/one/''" "slashed ''two'' = ''/two/''" by code_simp+
  then show ?thesis
    by (simp add: setupFedModules_def addFedModule_def publishesModule_def moduleDemo_def emptyFrontend_def
        emptyMeta_def fedModuleName_def buildFedModule_def cdnPath_def demoModule_def fullProfile_def
        emptySpec_def)
qed

text \<open>The SSO mapping is read through a map, so only its contents matter.\<close>

lemma map_of_foldl_update:
  "map_of (foldl (\<lambda>m k. AList.update k (g k) m) m ks) = (\<lambda>k. if k \<in> set ks then Some (g k) else map_of m k)"
  by (induction ks arbitrary: m) auto

text \<open>The SSO configuration repeats the environment's SSO mapping exactly, under sorted host
  names, and is the same for every order in which Go may visit the map.\<close>

lemma setupSSOConfig_mapping:
  assumes "env_SSOMapping (fenv_Spec env) = Some kvs" and "distinct (map fst kvs)" and "kvs \<noteq> []"
    and "env_SSOMapping (fenv_Spec env') = Some kvs'" and "mset kvs' = mset kvs"
    and "env_SSO (fenv_Spec env') = env_SSO (fenv_Spec env)" and "fenv_Name env' = fenv_Name env"
  shows "(\<exists>sorted_kvs. map_of (setupSSOConfig env) ''ssoMapping'' = Some (SSOMap sorted_kvs) \<and>
      map_of sorted_kvs = map_of kvs) \<and> setupSSOConfig env' = setupSSOConfig env"
proof -
  let ?m = "\<lambda>kvs. foldl (\<lambda>m k. AList.update k (lookup0 (Some kvs) k) m) [] (sort (map fst kvs))"
  have "map_of (?m kvs) k = map_of kvs k" for k
  proof (cases "map_of kvs k")
    case None
    then show ?thesis by (simp add: map_of_foldl_update) (simp add: map_of_eq_None_iff)
  next
    case (Some v)
    then have "k \<in> fst ` set kvs" by (metis map_of_eq_None_iff option.distinct(1))
    with Some show ?thesis by (simp add: map_of_foldl_update lookup0_def)
  qed
  then have "map_of (?m kvs) = map_of kvs" ..
  moreover have ne: "0 < mapLen (Some kvs)" "0 < mapLen (Some kvs')"
    using assms(3,5) by (auto simp: mapLen_def)
  moreover have "map_of kvs' = map_of kvs"
    using assms(2,5) by (metis map_of_inject_set mset_eq_setD mset_map mset_eq_imp_distinct_iff)
  then have "lookup0 (Some kvs') = lookup0 (Some kvs)" by (simp add: lookup0_def fun_eq_iff)
  moreover have "sort (map fst kvs') = sort (map fst kvs)"
    using assms(5) by (metis mset_map sorted_list_of_multiset_mset)
  ultimately show ?thesis
    using assms(1,4,6,7) by (simp add: setupSSOConfig_def Let_def)
qed

end
