(* ===== verification/Kube_Types.thy ===== *)
theory Kube_Types
  imports Api_Types
begin

text \<open>
  The Kubernetes objects the operator writes, one record per API type with the fields the code
  sets or reads, and the interface to the API server.

  \<^item> A \<^verbatim>\<open>VolumeSource\<close> has one pointer set, so it is a datatype. Ports and seconds are
    \<^typ>\<open>32 word\<close>, the \<^verbatim>\<open>int32\<close> of the API. An \<^verbatim>\<open>IntOrString\<close> that the code always builds
    from an integer is that integer.
  \<^item> The API server is not code of the repository: a \<open>resource\<close> is the record of the calls the code
    makes for one kind of object, over an unknown world \<open>'w\<close>. The locale \<open>api_resource\<close> states what
    the code relies on: a call that reports success has done what it says, and a read does not
    write. Calls may fail at any time. What is stored need not be what was sent: the server fills in
    defaults where a field was left unset, and it adds labels to the pods of a job. \<open>sameDeployment\<close>,
    \<open>sameService\<close>, \<open>sameIngress\<close> and \<open>sameJob\<close> say what it keeps: the fields that were set.
    \<open>answering_resource\<close> adds that calls with acceptable objects succeed. \<open>storeResource\<close>, behind
    \<open>admitting\<close> for the kinds with defaults, is a server that keeps the contract.
\<close>

section \<open>Objects\<close>

record EnvVar =
  ev_Name :: string
  ev_Value :: string

record VolumeMount =
  vm_Name :: string
  vm_MountPath :: string
  vm_SubPath :: string

record KeyToPath =
  kp_Key :: string
  kp_Path :: string

datatype VolumeSource =
    ConfigMapSource string "KeyToPath list"
  | SecretSource string
  | EmptyDirSource

record Volume =
  vo_Name :: string
  vo_Source :: VolumeSource

record ContainerPort =
  cp_Name :: string
  cp_ContainerPort :: "32 word"
  cp_Protocol :: string

record Probe =
  pr_Path :: string
  pr_Port :: "32 word"
  pr_Scheme :: string
  pr_InitialDelaySeconds :: "32 word"
  pr_PeriodSeconds :: "32 word"
  pr_FailureThreshold :: "32 word"

record ResourceRequirements =
  rr_Requests :: strmap
  rr_Limits :: strmap

record Container =
  c_Name :: string
  c_Image :: string
  c_Command :: "string list"
  c_Ports :: "ContainerPort list"
  c_Env :: "EnvVar list"
  c_VolumeMounts :: "VolumeMount list"
  c_Resources :: ResourceRequirements
  c_LivenessProbe :: "Probe option"
  c_ReadinessProbe :: "Probe option"

record PodSpec =
  ps_InitContainers :: "Container list"
  ps_Containers :: "Container list"
  ps_Volumes :: "Volume list"
  ps_RestartPolicy :: string

record PodTemplateSpec =
  pt_Meta :: ObjectMeta
  pt_Spec :: PodSpec

record RollingUpdate =
  ru_MaxUnavailable :: "32 word"
  ru_MaxSurge :: "32 word"

record DeploymentSpec =
  ds_Replicas :: "32 word option"
  ds_Strategy :: string
  ds_RollingUpdate :: "RollingUpdate option"
  ds_Selector :: "strmap option"
  ds_Template :: PodTemplateSpec

record Deployment =
  d_Meta :: ObjectMeta
  d_Spec :: DeploymentSpec

record JobSpec =
  js_Completions :: "32 word option"
  js_Template :: PodTemplateSpec

record Job =
  j_Meta :: ObjectMeta
  j_Spec :: JobSpec

record ServicePort =
  sp_Name :: string
  sp_Port :: "32 word"
  sp_TargetPort :: "32 word"
  sp_Protocol :: string
  sp_AppProtocol :: "string option"

record ServiceSpec =
  ss_Ports :: "ServicePort list"
  ss_Selector :: "strmap option"

record Service =
  s_Meta :: ObjectMeta
  s_Spec :: ServiceSpec

record IngressServiceBackend =
  ib_Name :: string
  ib_PortNumber :: "32 word"

record HTTPIngressPath =
  ip_Path :: string
  ip_PathType :: "string option"
  ip_Service :: "IngressServiceBackend option"

record IngressRule =
  ir_Host :: string
  ir_HTTP :: "HTTPIngressPath list option"

record IngressTLS =
  it_Hosts :: "string list"
  it_SecretName :: string

record IngressSpec =
  is_IngressClassName :: "string option"
  is_TLS :: "IngressTLS list"
  is_Rules :: "IngressRule list"

record Ingress =
  i_Meta :: ObjectMeta
  i_Spec :: IngressSpec

record ConfigMap =
  cm_Meta :: ObjectMeta
  cm_Data :: "strmap option"

record Secret =
  sec_Meta :: ObjectMeta
  sec_Data :: "strmap option"

record ServiceEndpoint =
  ep_Path :: string
  ep_Port :: string
  ep_Interval :: string

record ServiceMonitor =
  sm_Meta :: ObjectMeta
  sm_Endpoints :: "ServiceEndpoint list"
  sm_NamespaceSelector :: "string list"
  sm_Selector :: "strmap option"

abbreviation nameOf :: "ObjectMeta \<Rightarrow> NamespacedName" where
  "nameOf m \<equiv> \<lparr>nn_Namespace = om_Namespace m, nn_Name = om_Name m\<rparr>"

definition noResources :: ResourceRequirements where
  "noResources = \<lparr>rr_Requests = [], rr_Limits = []\<rparr>"

definition emptyPodSpec :: PodSpec where
  "emptyPodSpec = \<lparr>ps_InitContainers = [], ps_Containers = [], ps_Volumes = [], ps_RestartPolicy = []\<rparr>"

definition emptyTemplate :: PodTemplateSpec where
  "emptyTemplate = \<lparr>pt_Meta = emptyMeta, pt_Spec = emptyPodSpec\<rparr>"

section \<open>Actions\<close>

text \<open>A call that may change the world and may fail.\<close>

type_synonym ('w, 'a) act = "'w \<Rightarrow> 'a result \<times> 'w"

definition returnA :: "'a \<Rightarrow> ('w, 'a) act" where
  "returnA x w = (Inr x, w)"

definition failA :: "go_error \<Rightarrow> ('w, 'a) act" where
  "failA e w = (Inl e, w)"

definition liftA :: "'a result \<Rightarrow> ('w, 'a) act" where
  "liftA r w = (r, w)"

definition bindA :: "('w, 'a) act \<Rightarrow> ('a \<Rightarrow> ('w, 'b) act) \<Rightarrow> ('w, 'b) act" where
  "bindA m f w = (case m w of (Inl e, w') \<Rightarrow> (Inl e, w') | (Inr x, w') \<Rightarrow> f x w')"

text \<open>Inspecting an error instead of passing it on.\<close>

definition handleA :: "('w, 'a) act \<Rightarrow> ('a \<Rightarrow> ('w, 'b) act) \<Rightarrow> (go_error \<Rightarrow> ('w, 'b) act) \<Rightarrow> ('w, 'b) act" where
  "handleA m f h w = (case m w of (Inl e, w') \<Rightarrow> h e w' | (Inr x, w') \<Rightarrow> f x w')"

fun IsNotFound :: "go_error \<Rightarrow> bool" where
  "IsNotFound (ApiError (NotFound m)) = True"
| "IsNotFound _ = False"

fun IsAlreadyExists :: "go_error \<Rightarrow> bool" where
  "IsAlreadyExists (ApiError (AlreadyExists m)) = True"
| "IsAlreadyExists _ = False"

lemma act_simps [simp]:
  "returnA x w = (Inr x, w)" "failA e w = (Inl e, w)" "liftA r w = (r, w)"
  by (simp_all add: returnA_def failA_def liftA_def)

lemma bindA_Inr:
  "bindA m f w = (Inr y, w2) \<longleftrightarrow> (\<exists>x w1. m w = (Inr x, w1) \<and> f x w1 = (Inr y, w2))"
  by (auto simp: bindA_def split: prod.splits sum.splits)

text \<open>What every step of an action leaves alone, the action leaves alone.\<close>

lemma handleA_keeps:
  assumes "\<And>w. view (snd (m w)) = view w" and "\<And>x w. view (snd (f x w)) = view w" and "\<And>e w. view (snd (h e w)) = view w"
  shows "view (snd (handleA m f h w)) = view w"
  using assms(1) [of w] assms(2,3) by (auto simp: handleA_def split: prod.split sum.split)

lemma bindA_keeps:
  assumes "\<And>w. view (snd (m w)) = view w" and "\<And>x w. view (snd (f x w)) = view w"
  shows "view (snd (bindA m f w)) = view w"
  using assms(1) [of w] assms(2) by (auto simp: bindA_def split: prod.split sum.split)

section \<open>The API server\<close>

record ('w, 'o) resource =
  rs_Get :: "NamespacedName \<Rightarrow> 'w \<Rightarrow> 'o result \<times> 'w"
  rs_Create :: "'o \<Rightarrow> 'w \<Rightarrow> unit result \<times> 'w"
  rs_Update :: "'o \<Rightarrow> 'w \<Rightarrow> unit result \<times> 'w"
  rs_Delete :: "'o \<Rightarrow> 'w \<Rightarrow> unit result \<times> 'w"

locale api_resource =
  fixes ops :: "('w, 'o) resource"
    and view :: "'w \<Rightarrow> NamespacedName \<Rightarrow> 'o option"
    and name :: "'o \<Rightarrow> NamespacedName"
    and same :: "'o \<Rightarrow> 'o \<Rightarrow> bool"
  assumes view_name: "view w nn = Some x \<Longrightarrow> name x = nn"
    and get_found: "rs_Get ops nn w = (Inr x, w') \<Longrightarrow> view w nn = Some x"
    and get_missing: "rs_Get ops nn w = (Inl e, w') \<Longrightarrow> IsNotFound e \<Longrightarrow> view w nn = None"
    and get_reads: "rs_Get ops nn w = (r, w') \<Longrightarrow> view w' = view w"
    and create_stores: "rs_Create ops x w = (Inr (), w') \<Longrightarrow>
      \<exists>y. same x y \<and> view w' = (view w)(name x \<mapsto> y)"
    and update_stores: "rs_Update ops x w = (Inr (), w') \<Longrightarrow>
      \<exists>y. same x y \<and> view w' = (view w)(name x \<mapsto> y)"
    and delete_removes: "rs_Delete ops x w = (Inr (), w') \<Longrightarrow> view w' = (view w)(name x := None)"
begin

text \<open>Get-or-create, then act on what was found: the pattern of the reconcilers. On success the
  object is there, either as it was created or as the second branch left it.\<close>

lemma update_ensures:
  "rs_Update ops x w = (Inr (), w') \<Longrightarrow> name x = nn \<Longrightarrow> (\<And>y. same x y \<Longrightarrow> P y) \<Longrightarrow>
     \<exists>y. view w' nn = Some y \<and> P y"
  using update_stores by fastforce

lemma create_ensures:
  "rs_Create ops x w = (Inr (), w') \<Longrightarrow> name x = nn \<Longrightarrow> (\<And>y. same x y \<Longrightarrow> P y) \<Longrightarrow>
     \<exists>y. view w' nn = Some y \<and> P y"
  using create_stores by fastforce

lemma ensure_stored:
  assumes run: "handleA (rs_Get ops nn) onFound
      (\<lambda>e. if IsNotFound e then bindA (liftA build) (rs_Create ops) else failA e) w = (Inr (), w')"
    and name: "\<And>d. build = Inr d \<Longrightarrow> name d = nn"
    and new: "\<And>d y. build = Inr d \<Longrightarrow> same d y \<Longrightarrow> P y"
    and found: "\<And>x w1 w2. view w1 nn = Some x \<Longrightarrow> onFound x w1 = (Inr (), w2) \<Longrightarrow>
      \<exists>y. view w2 nn = Some y \<and> P y"
  shows "\<exists>y. view w' nn = Some y \<and> P y"
proof (cases "rs_Get ops nn w")
  case (Pair r w1)
  show ?thesis
  proof (cases r)
    case (Inl e)
    with run Pair obtain d where "build = Inr d" "rs_Create ops d w1 = (Inr (), w')"
      by (auto simp: handleA_def bindA_Inr split: if_splits)
    with name new show ?thesis by (intro create_ensures)
  next
    case (Inr x)
    with Pair get_found get_reads have "view w1 nn = Some x" by metis
    with run Pair Inr found show ?thesis by (simp add: handleA_def)
  qed
qed

text \<open>When the object found needs no work, nothing is written.\<close>

lemma settled:
  assumes "view w nn = Some x" and "\<And>w1. onFound x w1 = (Inr (), w1)"
    and "handleA (rs_Get ops nn) onFound h w = (r, w')" and "\<And>e. \<not> IsNotFound e \<Longrightarrow> h e = failA e"
  shows "view w' = view w"
proof (cases "rs_Get ops nn w")
  case (Pair g w1)
  show ?thesis
  proof (cases g)
    case (Inl e)
    with Pair assms(1) get_missing have "\<not> IsNotFound e" by fastforce
    with Pair Inl assms(3,4) get_reads show ?thesis by (auto simp: handleA_def)
  next
    case (Inr y)
    with Pair get_found assms(1) have "y = x" by fastforce
    with Pair Inr assms(2,3) get_reads show ?thesis by (auto simp: handleA_def)
  qed
qed

end

text \<open>A server that is up: a read finds the object or reports that it is missing, and a write of an object
  that validation and admission accept, given what is stored under its name, succeeds.\<close>

locale answering_resource = api_resource ops view name same
  for ops :: "('w, 'o) resource" and view :: "'w \<Rightarrow> NamespacedName \<Rightarrow> 'o option"
    and name :: "'o \<Rightarrow> NamespacedName" and same :: "'o \<Rightarrow> 'o \<Rightarrow> bool" +
  fixes accepts :: "'o option \<Rightarrow> 'o \<Rightarrow> bool"
  assumes get_answers: "rs_Get ops nn w = (Inl e, w') \<Longrightarrow> IsNotFound e"
    and create_answers: "view w (name x) = None \<Longrightarrow> accepts None x \<Longrightarrow> \<exists>w'. rs_Create ops x w = (Inr (), w')"
    and update_answers: "view w (name x) = Some y \<Longrightarrow> accepts (Some y) x \<Longrightarrow> \<exists>w'. rs_Update ops x w = (Inr (), w')"
begin

lemma ensure_succeeds:
  assumes build: "build = Inr d" "name d = nn" and new: "view w nn = None \<Longrightarrow> accepts None d"
    and found: "\<And>x w1. view w nn = Some x \<Longrightarrow> view w1 = view w \<Longrightarrow> \<exists>w2. onFound x w1 = (Inr (), w2)"
  shows "\<exists>w'. handleA (rs_Get ops nn) onFound
    (\<lambda>e. if IsNotFound e then bindA (liftA build) (rs_Create ops) else failA e) w = (Inr (), w')"
proof (cases "rs_Get ops nn w")
  case (Pair g w1)
  then have keep: "view w1 = view w" by (rule get_reads)
  show ?thesis
  proof (cases g)
    case (Inl e)
    with Pair have e: "IsNotFound e" using get_answers by blast
    with Pair Inl have "view w nn = None" using get_missing by blast
    with build new keep have "\<exists>w'. rs_Create ops d w1 = (Inr (), w')" by (intro create_answers) simp_all
    with Pair Inl e build show ?thesis by (simp add: handleA_def bindA_def)
  next
    case (Inr x)
    with Pair have "view w nn = Some x" using get_found by blast
    with found keep have "\<exists>w2. onFound x w1 = (Inr (), w2)" by blast
    with Pair Inr show ?thesis by (simp add: handleA_def)
  qed
qed

end

text \<open>A server that keeps the objects of a kind in a map inside the world.\<close>

definition storeView :: "('w \<Rightarrow> (NamespacedName \<times> 'o) list) \<Rightarrow> ('o \<Rightarrow> NamespacedName) \<Rightarrow>
    'w \<Rightarrow> NamespacedName \<Rightarrow> 'o option" where
  "storeView rd name w nn = (case map_of (rd w) nn of
     None \<Rightarrow> None | Some x \<Rightarrow> if name x = nn then Some x else None)"

definition storeResource ::
  "('w \<Rightarrow> (NamespacedName \<times> 'o) list) \<Rightarrow> ((NamespacedName \<times> 'o) list \<Rightarrow> 'w \<Rightarrow> 'w) \<Rightarrow>
     ('o \<Rightarrow> NamespacedName) \<Rightarrow> ('w, 'o) resource"
where
  "storeResource rd wr name =
     \<lparr>rs_Get = (\<lambda>nn w. case storeView rd name w nn of
          None \<Rightarrow> (Inl (ApiError (NotFound (nn_Name nn))), w) | Some x \<Rightarrow> (Inr x, w)),
      rs_Create = (\<lambda>x w. if storeView rd name w (name x) = None
          then (Inr (), wr (AList.update (name x) x (rd w)) w)
          else (Inl (ApiError (AlreadyExists (nn_Name (name x)))), w)),
      rs_Update = (\<lambda>x w. if storeView rd name w (name x) = None
          then (Inl (ApiError (NotFound (nn_Name (name x)))), w)
          else (Inr (), wr (AList.update (name x) x (rd w)) w)),
      rs_Delete = (\<lambda>x w. if storeView rd name w (name x) = None
          then (Inl (ApiError (NotFound (nn_Name (name x)))), w)
          else (Inr (), wr (AList.delete (name x) (rd w)) w))\<rparr>"

lemma storeView_self: "storeView rd name w nn = Some x \<Longrightarrow> storeView rd name w (name x) = Some x"
  by (auto simp: storeView_def split: option.splits if_splits)

lemma storeView_simps:
  assumes "\<And>m w. rd (wr m w) = m"
  shows "storeView rd name (wr (AList.update (name x) x m) w) = (storeView rd name (wr m w))(name x \<mapsto> x)"
    and "storeView rd name (wr (AList.delete k m) w) = (storeView rd name (wr m w))(k := None)"
    and "storeView rd name (wr (rd w) w) = storeView rd name w"
  by (auto simp: storeView_def assms delete_conv' fun_eq_iff)

lemma storeResource_api:
  assumes lens: "\<And>m w. rd (wr m w) = m" and same: "\<And>x. same x x"
  shows "api_resource (storeResource rd wr name) (storeView rd name) name same"
proof
  have put: "storeView rd name (wr (AList.update (name x) x (rd w)) w) = (storeView rd name w)(name x \<mapsto> x)" for x w
    by (simp add: storeView_simps [of rd wr, OF lens])
  show "\<exists>y. same x y \<and> storeView rd name w' = (storeView rd name w)(name x \<mapsto> y)"
    if "rs_Create (storeResource rd wr name) x w = (Inr (), w')" for x w w'
    using that put same by (auto simp: storeResource_def split: if_splits)
  show "\<exists>y. same x y \<and> storeView rd name w' = (storeView rd name w)(name x \<mapsto> y)"
    if "rs_Update (storeResource rd wr name) x w = (Inr (), w')" for x w w'
    using that put same by (auto simp: storeResource_def split: if_splits)
  show "storeView rd name w' = (storeView rd name w)(name x := None)"
    if "rs_Delete (storeResource rd wr name) x w = (Inr (), w')" for x w w'
    using that by (auto simp: storeResource_def storeView_simps [of rd wr, OF lens] split: if_splits)
qed (auto simp: storeResource_def storeView_def split: option.splits if_splits)

lemma storeResource_answers:
  assumes "\<And>m w. rd (wr m w) = m" and "\<And>x. same x x"
  shows "answering_resource (storeResource rd wr name) (storeView rd name) name same (\<lambda>_ _. True)"
proof (rule answering_resource.intro)
  show "api_resource (storeResource rd wr name) (storeView rd name) name same"
    using assms by (rule storeResource_api)
  show "answering_resource_axioms (storeResource rd wr name) (storeView rd name) name (\<lambda>_ _. True)"
    by unfold_locales (auto simp: storeResource_def split: option.splits)
qed

text \<open>Admission in front of a server: what is written is filled in first.\<close>

definition admitting :: "('o \<Rightarrow> 'o) \<Rightarrow> ('w, 'o) resource \<Rightarrow> ('w, 'o) resource" where
  "admitting fill ops = ops\<lparr>rs_Create := \<lambda>x. rs_Create ops (fill x), rs_Update := \<lambda>x. rs_Update ops (fill x)\<rparr>"

lemma admitting_answers:
  assumes "answering_resource ops view name (\<lambda>x y. y = x) (\<lambda>_ _. True)"
    and fill: "\<And>x. name (fill x) = name x" "\<And>x. same x (fill x)"
  shows "answering_resource (admitting fill ops) view name same (\<lambda>_ _. True)"
proof -
  note api = answering_resource.axioms(1) [OF assms(1)]
  show ?thesis
  proof (rule answering_resource.intro)
    show "api_resource (admitting fill ops) view name same"
      using api_resource.view_name [OF api] api_resource.get_found [OF api] api_resource.get_missing [OF api]
        api_resource.get_reads [OF api] api_resource.create_stores [OF api] api_resource.update_stores [OF api]
        api_resource.delete_removes [OF api] fill
      by unfold_locales (fastforce simp: admitting_def)+
    show "answering_resource_axioms (admitting fill ops) view name (\<lambda>_ _. True)"
      using answering_resource.get_answers [OF assms(1)] answering_resource.create_answers [OF assms(1)]
        answering_resource.update_answers [OF assms(1)] fill(1)
      by unfold_locales (fastforce simp: admitting_def)+
  qed
qed

text \<open>Calls on one kind of object leave the other kinds alone.\<close>

definition keepsView :: "('w, 'o) resource \<Rightarrow> ('w \<Rightarrow> 'v) \<Rightarrow> bool" where
  "keepsView ops view = (\<forall>nn x w. view (snd (rs_Get ops nn w)) = view w \<and>
     view (snd (rs_Create ops x w)) = view w \<and> view (snd (rs_Update ops x w)) = view w \<and>
     view (snd (rs_Delete ops x w)) = view w)"

lemma storeResource_keeps: "(\<And>m w. view (wr m w) = view w) \<Longrightarrow> keepsView (storeResource rd wr name) view"
  by (simp add: keepsView_def storeResource_def split: option.split)

lemma admitting_keeps: "keepsView ops view \<Longrightarrow> keepsView (admitting fill ops) view"
  by (simp add: keepsView_def admitting_def)

section \<open>What the server keeps\<close>

text \<open>A field that was set is stored as it was sent; one that was left unset may be filled in. A nil map and
  an empty one are stored alike.\<close>

definition keepsString :: "string \<Rightarrow> string \<Rightarrow> bool" where
  "keepsString sent stored = (sent = [] \<or> stored = sent)"

definition keepsNumber :: "32 word \<Rightarrow> 32 word \<Rightarrow> bool" where
  "keepsNumber sent stored = (sent = 0 \<or> stored = sent)"

definition keepsOption :: "'a option \<Rightarrow> 'a option \<Rightarrow> bool" where
  "keepsOption sent stored = (sent = None \<or> stored = sent)"

definition keepsEntries :: "strmap \<Rightarrow> strmap \<Rightarrow> bool" where
  "keepsEntries sent stored = (\<forall>k \<in> set (map fst sent). map_of stored k = map_of sent k)"

definition sameMap :: "strmap option \<Rightarrow> strmap option \<Rightarrow> bool" where
  "sameMap sent stored = (entries stored = entries sent)"

definition keepsPort :: "ContainerPort \<Rightarrow> ContainerPort \<Rightarrow> bool" where
  "keepsPort a b = (cp_Name b = cp_Name a \<and> cp_ContainerPort b = cp_ContainerPort a \<and>
     keepsString (cp_Protocol a) (cp_Protocol b))"

definition keepsProbe :: "Probe \<Rightarrow> Probe \<Rightarrow> bool" where
  "keepsProbe a b = (keepsString (pr_Path a) (pr_Path b) \<and> pr_Port b = pr_Port a \<and>
     keepsString (pr_Scheme a) (pr_Scheme b) \<and> keepsNumber (pr_InitialDelaySeconds a) (pr_InitialDelaySeconds b) \<and>
     keepsNumber (pr_PeriodSeconds a) (pr_PeriodSeconds b) \<and> keepsNumber (pr_FailureThreshold a) (pr_FailureThreshold b))"

definition keepsContainer :: "Container \<Rightarrow> Container \<Rightarrow> bool" where
  "keepsContainer a b = (c_Name b = c_Name a \<and> c_Image b = c_Image a \<and> c_Command b = c_Command a \<and>
     c_Env b = c_Env a \<and> c_VolumeMounts b = c_VolumeMounts a \<and> list_all2 keepsPort (c_Ports a) (c_Ports b) \<and>
     keepsEntries (rr_Requests (c_Resources a)) (rr_Requests (c_Resources b)) \<and>
     keepsEntries (rr_Limits (c_Resources a)) (rr_Limits (c_Resources b)) \<and>
     rel_option keepsProbe (c_LivenessProbe a) (c_LivenessProbe b) \<and>
     rel_option keepsProbe (c_ReadinessProbe a) (c_ReadinessProbe b))"

definition keepsPodSpec :: "PodSpec \<Rightarrow> PodSpec \<Rightarrow> bool" where
  "keepsPodSpec a b = (list_all2 keepsContainer (ps_InitContainers a) (ps_InitContainers b) \<and>
     list_all2 keepsContainer (ps_Containers a) (ps_Containers b) \<and> ps_Volumes b = ps_Volumes a \<and>
     keepsString (ps_RestartPolicy a) (ps_RestartPolicy b))"

text \<open>A pod template keeps its annotations; labels may be added to it, as the server does for jobs.\<close>

definition keepsTemplate :: "PodTemplateSpec \<Rightarrow> PodTemplateSpec \<Rightarrow> bool" where
  "keepsTemplate a b = (keepsEntries (entries (om_Labels (pt_Meta a))) (entries (om_Labels (pt_Meta b))) \<and>
     sameMap (om_Annotations (pt_Meta a)) (om_Annotations (pt_Meta b)) \<and> keepsPodSpec (pt_Spec a) (pt_Spec b))"

text \<open>The metadata of the object itself: name, namespace, owners, and the labels and annotations, all of
  them for services and ingresses, at least those that were sent for deployments and jobs. Versions,
  UIDs and times are the server's own.\<close>

definition keepsMeta :: "ObjectMeta \<Rightarrow> ObjectMeta \<Rightarrow> bool" where
  "keepsMeta a b = (om_Name b = om_Name a \<and> om_Namespace b = om_Namespace a \<and>
     om_OwnerReferences b = om_OwnerReferences a \<and>
     keepsEntries (entries (om_Labels a)) (entries (om_Labels b)) \<and>
     keepsEntries (entries (om_Annotations a)) (entries (om_Annotations b)))"

definition sameMeta :: "ObjectMeta \<Rightarrow> ObjectMeta \<Rightarrow> bool" where
  "sameMeta a b = (om_Name b = om_Name a \<and> om_Namespace b = om_Namespace a \<and>
     om_OwnerReferences b = om_OwnerReferences a \<and> sameMap (om_Labels a) (om_Labels b) \<and>
     sameMap (om_Annotations a) (om_Annotations b))"

definition sameDeployment :: "Deployment \<Rightarrow> Deployment \<Rightarrow> bool" where
  "sameDeployment a b = (keepsMeta (d_Meta a) (d_Meta b) \<and>
     keepsOption (ds_Replicas (d_Spec a)) (ds_Replicas (d_Spec b)) \<and>
     keepsString (ds_Strategy (d_Spec a)) (ds_Strategy (d_Spec b)) \<and>
     keepsOption (ds_RollingUpdate (d_Spec a)) (ds_RollingUpdate (d_Spec b)) \<and>
     sameMap (ds_Selector (d_Spec a)) (ds_Selector (d_Spec b)) \<and>
     keepsTemplate (ds_Template (d_Spec a)) (ds_Template (d_Spec b)))"

definition keepsServicePort :: "ServicePort \<Rightarrow> ServicePort \<Rightarrow> bool" where
  "keepsServicePort a b = (sp_Name b = sp_Name a \<and> sp_Port b = sp_Port a \<and>
     keepsNumber (sp_TargetPort a) (sp_TargetPort b) \<and> keepsString (sp_Protocol a) (sp_Protocol b) \<and>
     sp_AppProtocol b = sp_AppProtocol a)"

definition sameService :: "Service \<Rightarrow> Service \<Rightarrow> bool" where
  "sameService a b = (sameMeta (s_Meta a) (s_Meta b) \<and>
     list_all2 keepsServicePort (ss_Ports (s_Spec a)) (ss_Ports (s_Spec b)) \<and>
     sameMap (ss_Selector (s_Spec a)) (ss_Selector (s_Spec b)))"

definition sameIngress :: "Ingress \<Rightarrow> Ingress \<Rightarrow> bool" where
  "sameIngress a b = (sameMeta (i_Meta a) (i_Meta b) \<and>
     keepsOption (is_IngressClassName (i_Spec a)) (is_IngressClassName (i_Spec b)) \<and>
     is_TLS (i_Spec b) = is_TLS (i_Spec a) \<and> is_Rules (i_Spec b) = is_Rules (i_Spec a))"

definition sameJob :: "Job \<Rightarrow> Job \<Rightarrow> bool" where
  "sameJob a b = (keepsMeta (j_Meta a) (j_Meta b) \<and>
     keepsOption (js_Completions (j_Spec a)) (js_Completions (j_Spec b)) \<and>
     keepsTemplate (js_Template (j_Spec a)) (js_Template (j_Spec b)))"

lemmas keeps_defs = keepsString_def keepsNumber_def keepsOption_def keepsEntries_def sameMap_def

lemma keepsEntries_append [simp]: "keepsEntries xs (xs @ ys)"
  by (auto simp: keepsEntries_def map_add_def map_of_eq_None_iff image_iff split: option.split)

lemma keepsEntries_lookup:
  "keepsEntries (entries a) (entries b) \<Longrightarrow> map_of (entries a) k = Some v \<Longrightarrow> map_of (entries b) k = Some v"
  unfolding keepsEntries_def by (metis image_set map_of_eq_None_iff option.distinct(1))

section \<open>A server with defaults\<close>

text \<open>Defaults of the Kubernetes API for the fields of the model, and the label that the server puts on the
  pods of a job.\<close>

definition orElse :: "string \<Rightarrow> string \<Rightarrow> string" where
  "orElse s d = (if s = [] then d else s)"

definition defaultProbe :: "Probe \<Rightarrow> Probe" where
  "defaultProbe p = p\<lparr>pr_Path := orElse (pr_Path p) ''/'', pr_Scheme := orElse (pr_Scheme p) ''HTTP'',
     pr_PeriodSeconds := (if pr_PeriodSeconds p = 0 then 10 else pr_PeriodSeconds p),
     pr_FailureThreshold := (if pr_FailureThreshold p = 0 then 3 else pr_FailureThreshold p)\<rparr>"

definition defaultPort :: "ContainerPort \<Rightarrow> ContainerPort" where
  "defaultPort p = p\<lparr>cp_Protocol := orElse (cp_Protocol p) ''TCP''\<rparr>"

definition defaultContainer :: "Container \<Rightarrow> Container" where
  "defaultContainer c = c\<lparr>c_Ports := map defaultPort (c_Ports c),
     c_LivenessProbe := map_option defaultProbe (c_LivenessProbe c),
     c_ReadinessProbe := map_option defaultProbe (c_ReadinessProbe c)\<rparr>"

definition defaultTemplate :: "strmap \<Rightarrow> PodTemplateSpec \<Rightarrow> PodTemplateSpec" where
  "defaultTemplate labels t = t\<lparr>pt_Meta := (pt_Meta t)\<lparr>om_Labels := Some (entries (om_Labels (pt_Meta t)) @ labels)\<rparr>,
     pt_Spec := (pt_Spec t)\<lparr>ps_InitContainers := map defaultContainer (ps_InitContainers (pt_Spec t)),
       ps_Containers := map defaultContainer (ps_Containers (pt_Spec t)),
       ps_RestartPolicy := orElse (ps_RestartPolicy (pt_Spec t)) ''Always''\<rparr>\<rparr>"

definition defaultDeployment :: "Deployment \<Rightarrow> Deployment" where
  "defaultDeployment d = d\<lparr>d_Spec := (d_Spec d)
     \<lparr>ds_Replicas := (case ds_Replicas (d_Spec d) of None \<Rightarrow> Some 1 | Some n \<Rightarrow> Some n),
      ds_Strategy := orElse (ds_Strategy (d_Spec d)) ''RollingUpdate'',
      ds_Template := defaultTemplate [] (ds_Template (d_Spec d))\<rparr>\<rparr>"

definition defaultService :: "Service \<Rightarrow> Service" where
  "defaultService s = s\<lparr>s_Spec := (s_Spec s)\<lparr>ss_Ports := map (\<lambda>p. p
     \<lparr>sp_TargetPort := (if sp_TargetPort p = 0 then sp_Port p else sp_TargetPort p),
      sp_Protocol := orElse (sp_Protocol p) ''TCP''\<rparr>) (ss_Ports (s_Spec s))\<rparr>\<rparr>"

definition defaultJob :: "Job \<Rightarrow> Job" where
  "defaultJob j = j\<lparr>j_Spec := (j_Spec j)
     \<lparr>js_Completions := (case js_Completions (j_Spec j) of None \<Rightarrow> Some 1 | Some n \<Rightarrow> Some n),
      js_Template := defaultTemplate [(''job-name'', om_Name (j_Meta j))] (js_Template (j_Spec j))\<rparr>\<rparr>"

lemma keepsEntries_refl [simp]: "keepsEntries xs xs"
  by (simp add: keepsEntries_def)

lemma default_probe: "rel_option keepsProbe p (map_option defaultProbe p)"
  by (cases p) (simp_all add: keepsProbe_def defaultProbe_def orElse_def keepsString_def keepsNumber_def)

lemma default_port: "keepsPort p (defaultPort p)"
  by (simp add: keepsPort_def defaultPort_def orElse_def keepsString_def)

lemma default_container: "keepsContainer c (defaultContainer c)"
  by (simp add: keepsContainer_def defaultContainer_def default_probe default_port list.rel_map list.rel_refl)

lemma default_template: "keepsTemplate t (defaultTemplate labels t)"
  by (simp add: keepsTemplate_def defaultTemplate_def keepsPodSpec_def default_container list.rel_map list.rel_refl
      entries_def orElse_def keepsString_def sameMap_def)

lemma keeps_refl [simp]: "keepsMeta m m" "sameMeta m m" "keepsOption a a"
  by (simp_all add: keepsMeta_def sameMeta_def sameMap_def keepsOption_def)

lemma default_kept:
  "sameDeployment d (defaultDeployment d)" "sameService s (defaultService s)" "sameIngress i i"
  "sameJob j (defaultJob j)"
  by (simp_all add: sameDeployment_def defaultDeployment_def sameService_def defaultService_def sameIngress_def
      sameJob_def defaultJob_def default_template list.rel_map list.rel_refl keepsServicePort_def keepsOption_def
      keepsNumber_def keepsString_def orElse_def sameMap_def split: option.split)

text \<open>A cluster of such maps.\<close>

record Cluster =
  cl_Deployments :: "(NamespacedName \<times> Deployment) list"
  cl_Services :: "(NamespacedName \<times> Service) list"
  cl_Ingresses :: "(NamespacedName \<times> Ingress) list"
  cl_Jobs :: "(NamespacedName \<times> Job) list"
  cl_ConfigMaps :: "(NamespacedName \<times> ConfigMap) list"
  cl_Monitors :: "(NamespacedName \<times> ServiceMonitor) list"
  cl_Secrets :: "(NamespacedName \<times> Secret) list"
  cl_Frontends :: "(NamespacedName \<times> Frontend) list"
  cl_Environments :: "(NamespacedName \<times> FrontendEnvironment) list"
  cl_Bundles :: "(NamespacedName \<times> Bundle) list"

definition emptyCluster :: Cluster where
  "emptyCluster = \<lparr>cl_Deployments = [], cl_Services = [], cl_Ingresses = [], cl_Jobs = [], cl_ConfigMaps = [],
     cl_Monitors = [], cl_Secrets = [], cl_Frontends = [], cl_Environments = [], cl_Bundles = []\<rparr>"

definition clusterDeployments :: "(Cluster, Deployment) resource" where
  "clusterDeployments = admitting defaultDeployment
     (storeResource cl_Deployments (\<lambda>m w. w\<lparr>cl_Deployments := m\<rparr>) (\<lambda>d. nameOf (d_Meta d)))"

definition clusterServices :: "(Cluster, Service) resource" where
  "clusterServices = admitting defaultService
     (storeResource cl_Services (\<lambda>m w. w\<lparr>cl_Services := m\<rparr>) (\<lambda>s. nameOf (s_Meta s)))"

definition clusterIngresses :: "(Cluster, Ingress) resource" where
  "clusterIngresses = storeResource cl_Ingresses (\<lambda>m w. w\<lparr>cl_Ingresses := m\<rparr>) (\<lambda>i. nameOf (i_Meta i))"

definition clusterJobs :: "(Cluster, Job) resource" where
  "clusterJobs = admitting defaultJob
     (storeResource cl_Jobs (\<lambda>m w. w\<lparr>cl_Jobs := m\<rparr>) (\<lambda>j. nameOf (j_Meta j)))"

definition clusterConfigMaps :: "(Cluster, ConfigMap) resource" where
  "clusterConfigMaps = storeResource cl_ConfigMaps (\<lambda>m w. w\<lparr>cl_ConfigMaps := m\<rparr>) (\<lambda>c. nameOf (cm_Meta c))"

lemma default_names:
  "d_Meta (defaultDeployment d) = d_Meta d" "s_Meta (defaultService s) = s_Meta s" "j_Meta (defaultJob j) = j_Meta j"
  by (simp_all add: defaultDeployment_def defaultService_def defaultJob_def)

interpretation deployments: answering_resource clusterDeployments "storeView cl_Deployments (\<lambda>x. nameOf (d_Meta x))"
    "\<lambda>x. nameOf (d_Meta x)" sameDeployment "\<lambda>_ _. True"
  unfolding clusterDeployments_def
  by (rule admitting_answers [OF storeResource_answers]) (simp_all add: default_names default_kept)

interpretation services: answering_resource clusterServices "storeView cl_Services (\<lambda>x. nameOf (s_Meta x))"
    "\<lambda>x. nameOf (s_Meta x)" sameService "\<lambda>_ _. True"
  unfolding clusterServices_def
  by (rule admitting_answers [OF storeResource_answers]) (simp_all add: default_names default_kept)

interpretation ingresses: answering_resource clusterIngresses "storeView cl_Ingresses (\<lambda>x. nameOf (i_Meta x))"
    "\<lambda>x. nameOf (i_Meta x)" sameIngress "\<lambda>_ _. True"
  unfolding clusterIngresses_def by (rule storeResource_answers) (simp_all add: default_kept)

interpretation jobs: answering_resource clusterJobs "storeView cl_Jobs (\<lambda>x. nameOf (j_Meta x))"
    "\<lambda>x. nameOf (j_Meta x)" sameJob "\<lambda>_ _. True"
  unfolding clusterJobs_def
  by (rule admitting_answers [OF storeResource_answers]) (simp_all add: default_names default_kept)

end
