(* ===== verification/Edge_Config.thy ===== *)
theory Edge_Config
  imports Api_Types
begin

text \<open>
  The pure text and configuration helpers of \<^verbatim>\<open>controllers/reconcile.go\<close>: the list of URLs to purge
  from the edge cache, the Akamai credentials file, the header block of the Caddyfile and the
  object store settings from the operator's environment.

  \<^verbatim>\<open>os.Getenv\<close> is the argument \<open>getenv\<close>, the empty string for a variable that is not set.
\<close>

section \<open>The model\<close>

definition newline :: string where
  "newline = [CHR 0x0A]"

subsection \<open>Purge paths\<close>

fun containsPath :: "string list \<Rightarrow> string \<Rightarrow> bool" where
  "containsPath [] item = False"
| "containsPath (existing # rest) item = (if existing = item then True else containsPath rest item)"

definition addPath :: "string \<Rightarrow> string list \<Rightarrow> string list" where
  "addPath path purgePaths = (if \<not> containsPath purgePaths path then purgePaths @ [path] else purgePaths)"

definition purgeHost :: "string \<Rightarrow> string" where
  "purgeHost cacheBustURL = TrimSuffix (''https://'' @ TrimPrefix cacheBustURL ''https://'') ''/''"

definition fullPath :: "string \<Rightarrow> string \<Rightarrow> string" where
  "fullPath host path =
     (if HasPrefix path ''http://'' \<or> HasPrefix path ''https://'' then path
      else host @ (if \<not> HasPrefix path ''/'' then ''/'' @ path else path))"

definition cacheBustUrls :: "FrontendEnvironment \<Rightarrow> string list" where
  "cacheBustUrls env = env_AkamaiCacheBustURLs (fenv_Spec env) @
     (if env_AkamaiCacheBustURL (fenv_Spec env) \<noteq> [] then [env_AkamaiCacheBustURL (fenv_Spec env)] else [])"

definition purgeUrl :: "Frontend \<Rightarrow> string \<Rightarrow> string list \<Rightarrow> string list" where
  "purgeUrl frontend cacheBustURL purgePaths =
     (let host = purgeHost cacheBustURL
      in case fs_AkamaiCacheBustPaths (fe_Spec frontend) of
           None \<Rightarrow> addPath (host @ ''/apps/'' @ fe_Name frontend @ ''/fed-mods.json'') purgePaths
         | Some paths \<Rightarrow> fold (\<lambda>path. addPath (fullPath host path)) paths purgePaths)"

definition createCachePurgePathList :: "Frontend \<Rightarrow> FrontendEnvironment \<Rightarrow> string list" where
  "createCachePurgePathList frontend frontendEnvironment =
     (if length (cacheBustUrls frontendEnvironment) = 0 then []
      else fold (purgeUrl frontend) (cacheBustUrls frontendEnvironment) [])"

subsection \<open>Akamai credentials\<close>

definition getAkamaiSecretName :: "FrontendEnvironment \<Rightarrow> string" where
  "getAkamaiSecretName env =
     (if env_AkamaiSecretName (fenv_Spec env) = [] then ''akamai'' else env_AkamaiSecretName (fenv_Spec env))"

definition edgercSection :: "strmap option \<Rightarrow> string" where
  "edgercSection secretData =
     ''host = '' @ lookup0 secretData ''host'' @ newline @
     ''access_token = '' @ lookup0 secretData ''access_token'' @ newline @
     ''client_token = '' @ lookup0 secretData ''client_token'' @ newline @
     ''client_secret = '' @ lookup0 secretData ''client_secret'' @ newline"

definition makeAkamaiEdgercFileFromSecret :: "strmap option \<Rightarrow> string" where
  "makeAkamaiEdgercFileFromSecret secretData =
     ''[default]'' @ newline @ edgercSection secretData @ ''[ccu]'' @ newline @ edgercSection secretData"

subsection \<open>Caddyfile headers\<close>

definition createCaddyfileHeaderBlock :: "strmap option \<Rightarrow> string" where
  "createCaddyfileHeaderBlock httpHeaders =
     (if mapLen httpHeaders = 0 then []
      else ''header {'' @ newline @
        concat (map (\<lambda>key. key @ '' '' @ lookup0 httpHeaders key @ newline)
          (sort (map fst (entries httpHeaders)))) @ ''}'')"

subsection \<open>Object store\<close>

record ObjectStoreBucket =
  ob_AccessKey :: "string option"
  ob_SecretKey :: "string option"
  ob_Name :: "string option"
  ob_Region :: "string option"
  ob_Endpoint :: "string option"
  ob_Port :: "string option"
  ob_TLS :: "bool option"

definition notSet :: "string \<Rightarrow> go_error" where
  "notSet var = Errorf (''required environment variable '' @ var @ '' is not set'')"

definition ExtractBucketConfigFromEnv :: "(string \<Rightarrow> string) \<Rightarrow> ObjectStoreBucket result" where
  "ExtractBucketConfigFromEnv getenv =
     (let accessKeyID = getenv ''PUSHCACHE_AWS_ACCESS_KEY_ID'' in
      if accessKeyID = [] then Inl (notSet ''PUSHCACHE_AWS_ACCESS_KEY_ID'') else
      let secretAccessKey = getenv ''PUSHCACHE_AWS_SECRET_ACCESS_KEY'' in
      if secretAccessKey = [] then Inl (notSet ''PUSHCACHE_AWS_SECRET_ACCESS_KEY'') else
      let bucketName = getenv ''PUSHCACHE_AWS_BUCKET_NAME'' in
      if bucketName = [] then Inl (notSet ''PUSHCACHE_AWS_BUCKET_NAME'') else
      let region = getenv ''PUSHCACHE_AWS_REGION'' in
      if region = [] then Inl (notSet ''PUSHCACHE_AWS_REGION'') else
      let endpoint = getenv ''PUSHCACHE_AWS_ENDPOINT'' in
      if endpoint = [] then Inl (notSet ''PUSHCACHE_AWS_ENDPOINT'') else
      let port = (if getenv ''PUSHCACHE_AWS_PORT'' = [] then ''443'' else getenv ''PUSHCACHE_AWS_PORT'') in
      Inr \<lparr>ob_AccessKey = Some accessKeyID, ob_SecretKey = Some secretAccessKey,
        ob_Name = Some bucketName, ob_Region = Some region, ob_Endpoint = Some endpoint,
        ob_Port = Some port, ob_TLS = Some True\<rparr>)"

section \<open>Purge paths without repetition\<close>

text \<open>The specification: all paths of all hosts, each at its first occurrence.\<close>

definition firsts :: "'a list \<Rightarrow> 'a list" where
  "firsts xs = rev (remdups (rev xs))"

text \<open>The host of a configured URL, always with https and without a slash at the end, and the URL of a path
  under it, written out character by character.\<close>

definition httpsHost :: "string \<Rightarrow> string" where
  "httpsHost url =
     (let host = ''https://'' @ (if take 8 url = ''https://'' then drop 8 url else url)
      in if last host = CHR ''/'' then butlast host else host)"

definition urlUnder :: "string \<Rightarrow> string \<Rightarrow> string" where
  "urlUnder url path =
     (if take 7 path = ''http://'' \<or> take 8 path = ''https://'' then path
      else if path \<noteq> [] \<and> hd path = CHR ''/'' then httpsHost url @ path
      else httpsHost url @ CHR ''/'' # path)"

definition hostPaths :: "Frontend \<Rightarrow> string \<Rightarrow> string list" where
  "hostPaths fe url = (case fs_AkamaiCacheBustPaths (fe_Spec fe) of
     None \<Rightarrow> [urlUnder url (''/apps/'' @ fe_Name fe @ ''/fed-mods.json'')]
   | Some paths \<Rightarrow> map (urlUnder url) paths)"

definition configuredUrls :: "FrontendEnvironment \<Rightarrow> string list" where
  "configuredUrls env = env_AkamaiCacheBustURLs (fenv_Spec env) @
     filter (\<lambda>url. url \<noteq> []) [env_AkamaiCacheBustURL (fenv_Spec env)]"

lemma HasPrefix_take: "HasPrefix s p \<longleftrightarrow> take (length p) s = p"
  by (simp add: HasPrefix_iff_prefix prefix_def) (metis append_take_drop_id append_eq_conv_conj)

lemma prefix_texts:
  "HasPrefix s ''http://'' \<longleftrightarrow> take 7 s = ''http://''" "HasPrefix s ''https://'' \<longleftrightarrow> take 8 s = ''https://''"
  "HasPrefix s ''/'' \<longleftrightarrow> s \<noteq> [] \<and> hd s = CHR ''/''"
  by (simp_all add: HasPrefix_take eval_nat_numeral, cases s, simp_all)

lemma purgeHost_httpsHost: "purgeHost url = httpsHost url"
proof -
  have slash: "TrimSuffix (''https://'' @ h) ''/'' =
      (if last (''https://'' @ h) = CHR ''/'' then butlast (''https://'' @ h) else ''https://'' @ h)" for h
    by (cases h rule: rev_cases) (auto simp: TrimSuffix_def HasSuffix_iff_suffix suffix_def butlast_append)
  have "TrimPrefix url ''https://'' = (if take 8 url = ''https://'' then drop 8 url else url)"
    by (simp add: TrimPrefix_def prefix_texts(2)) (simp add: eval_nat_numeral)
  then show ?thesis unfolding purgeHost_def httpsHost_def Let_def slash by simp
qed

lemma fullPath_urlUnder: "fullPath (purgeHost url) path = urlUnder url path"
  by (simp add: fullPath_def urlUnder_def prefix_texts purgeHost_httpsHost)

lemma hostPaths_model:
  "hostPaths fe url = (case fs_AkamaiCacheBustPaths (fe_Spec fe) of
     None \<Rightarrow> [purgeHost url @ ''/apps/'' @ fe_Name fe @ ''/fed-mods.json'']
   | Some paths \<Rightarrow> map (fullPath (purgeHost url)) paths)"
proof -
  have "fullPath (purgeHost url) = urlUnder url" using fullPath_urlUnder by blast
  then show ?thesis by (simp add: hostPaths_def urlUnder_def purgeHost_httpsHost split: option.split)
qed

lemma configuredUrls_model: "cacheBustUrls env = configuredUrls env"
  by (simp add: cacheBustUrls_def configuredUrls_def)

lemma containsPath_iff: "containsPath xs x \<longleftrightarrow> x \<in> set xs"
  by (induction xs) auto

lemma addPath_firsts: "addPath x (firsts xs) = firsts (xs @ [x])"
  by (simp add: addPath_def containsPath_iff firsts_def)

lemma fold_addPath: "fold addPath ys (firsts xs) = firsts (xs @ ys)"
  by (induction ys arbitrary: xs) (simp_all add: addPath_firsts)

lemma purgeUrl_paths: "purgeUrl fe url xs = fold addPath (hostPaths fe url) xs"
  by (simp add: purgeUrl_def hostPaths_model fold_map comp_def split: option.split)

lemma fold_purgeUrl:
  "fold (purgeUrl fe) urls (firsts xs) = firsts (xs @ concat (map (hostPaths fe) urls))"
  by (induction urls arbitrary: xs) (simp_all add: purgeUrl_paths fold_addPath)

lemma firsts_simps [simp]: "set (firsts xs) = set xs" "distinct (firsts xs)" "firsts [] = []"
  by (simp_all add: firsts_def)

lemma purge_list:
  "createCachePurgePathList fe env = firsts (concat (map (hostPaths fe) (cacheBustUrls env)))"
  using fold_purgeUrl [of fe "cacheBustUrls env" "[]"] by (simp add: createCachePurgePathList_def)

lemma under_https: "take 8 (urlUnder url path) = ''https://'' \<or> urlUnder url path = path \<and> take 7 path = ''http://''"
proof -
  have https: "take 8 (httpsHost url @ CHR ''/'' # q) = ''https://''" for q
  proof -
    let ?h = "''https://'' @ (if take 8 url = ''https://'' then drop 8 url else url)"
    have "?h \<noteq> []" by simp
    then have last: "last ?h = CHR ''/'' \<Longrightarrow> butlast ?h @ ''/'' = ?h" by (metis append_butlast_last_id)
    show ?thesis
    proof (cases "last ?h = CHR ''/''")
      case True
      then have "httpsHost url = butlast ?h" unfolding httpsHost_def Let_def by (rule if_P)
      then have "httpsHost url @ CHR ''/'' # q = (butlast ?h @ ''/'') @ q" by (simp only: append_assoc append_Cons append_Nil)
      also have "\<dots> = ?h @ q" by (simp only: last [OF True])
      finally have "take 8 (httpsHost url @ CHR ''/'' # q) = take 8 (?h @ q)" by (rule arg_cong)
      also have "\<dots> = ''https://''" by simp
      finally show ?thesis .
    next
      case False
      then have "httpsHost url = ?h" unfolding httpsHost_def Let_def by (rule if_not_P)
      then have "take 8 (httpsHost url @ CHR ''/'' # q) = take 8 (?h @ CHR ''/'' # q)" by (simp only:)
      also have "\<dots> = ''https://''" by simp
      finally show ?thesis .
    qed
  qed
  show ?thesis
  proof (cases "path \<noteq> [] \<and> hd path = CHR ''/''")
    case True
    then obtain q where "path = CHR ''/'' # q" by (cases path) auto
    with https [of q] show ?thesis by (auto simp: urlUnder_def)
  next
    case False
    with https [of path] show ?thesis by (auto simp: urlUnder_def)
  qed
qed

section \<open>Properties\<close>


text \<open>The object store settings are complete or an error: the call succeeds exactly when the five
  required variables are set, and then every pointer of the result is set, to the variable's value,
  with port 443 when none is given. This is what lets the callers dereference the fields unchecked.\<close>

lemma ExtractBucketConfigFromEnv_correct:
  "(\<exists>b. ExtractBucketConfigFromEnv getenv = Inr b) =
     (\<forall>v. v \<in> {''PUSHCACHE_AWS_ACCESS_KEY_ID'', ''PUSHCACHE_AWS_SECRET_ACCESS_KEY'',
        ''PUSHCACHE_AWS_BUCKET_NAME'', ''PUSHCACHE_AWS_REGION'', ''PUSHCACHE_AWS_ENDPOINT''} \<longrightarrow> getenv v \<noteq> []) \<and>
   (\<forall>b. ExtractBucketConfigFromEnv getenv = Inr b \<longrightarrow>
      ob_AccessKey b = Some (getenv ''PUSHCACHE_AWS_ACCESS_KEY_ID'') \<and>
      ob_SecretKey b = Some (getenv ''PUSHCACHE_AWS_SECRET_ACCESS_KEY'') \<and>
      ob_Name b = Some (getenv ''PUSHCACHE_AWS_BUCKET_NAME'') \<and>
      ob_Region b = Some (getenv ''PUSHCACHE_AWS_REGION'') \<and>
      ob_Endpoint b = Some (getenv ''PUSHCACHE_AWS_ENDPOINT'') \<and>
      (\<exists>p. ob_Port b = Some p \<and> p \<noteq> []) \<and>
      (getenv ''PUSHCACHE_AWS_PORT'' = [] \<longrightarrow> ob_Port b = Some ''443''))"
  by (auto simp: ExtractBucketConfigFromEnv_def Let_def split: if_splits)

text \<open>The header block lists every configured header on a line of its own in the order of the
  names, and does not depend on the order in which Go visits the map.\<close>

lemma createCaddyfileHeaderBlock_order_free:
  assumes "distinct (map fst kvs)" and "mset kvs' = mset kvs" and "kvs \<noteq> []"
  shows "createCaddyfileHeaderBlock (Some kvs') = createCaddyfileHeaderBlock (Some kvs) \<and>
    createCaddyfileHeaderBlock (Some kvs) = ''header {'' @ newline @
      concat (map (\<lambda>(k, v). k @ '' '' @ v @ newline) (sort_key fst kvs)) @ ''}''"
proof -
  have d': "distinct (map fst kvs')" using assms(1,2) by (metis mset_map mset_eq_imp_distinct_iff)
  have keys: "map fst (sort_key fst m) = sort (map fst m)" for m :: strmap
    by (rule sym, rule properties_for_sort) simp_all
  have line: "createCaddyfileHeaderBlock (Some m) = ''header {'' @ newline @
      concat (map (\<lambda>(k, v). k @ '' '' @ v @ newline) (sort_key fst m)) @ ''}''"
    if "distinct (map fst m)" "m \<noteq> []" for m
  proof -
    have "map (\<lambda>key. key @ '' '' @ lookup0 (Some m) key @ newline) (sort (map fst m)) =
        map (\<lambda>(k, v). k @ '' '' @ v @ newline) (sort_key fst m)"
      using that by (auto simp: lookup0_def simp flip: keys)
    with that(2) show ?thesis
      unfolding createCaddyfileHeaderBlock_def by (simp only: entries_simps) (simp add: mapLen_def)
  qed
  have "map fst (sort_key fst kvs') = map fst (sort_key fst kvs)"
    using assms(2) by (simp add: keys properties_for_sort)
  moreover have "set kvs' = set kvs" using assms(2) by (metis set_mset_mset)
  ultimately have "sort_key fst kvs' = sort_key fst kvs"
    using assms(1) by (simp add: inj_on_map_eq_map distinct_map)
  moreover have "kvs' \<noteq> []" using assms(2,3) by auto
  ultimately show ?thesis using line [OF assms(1,3)] line [OF d'] by simp
qed

end
