(* ===== verification/Reverse_Proxy.thy ===== *)
theory Reverse_Proxy
  imports Kube_Types Edge_Config
begin

text \<open>
  \<^verbatim>\<open>controllers/reconcile_reverse_proxy.go\<close>: the desired deployment, service and ingress of the
  reverse proxy, the comparisons of an existing object with the desired one, and the reconcilers
  that create or update the three objects.

  The fields of \<open>ReverseProxyReconciliation\<close> that the code reads are the record
  \<open>ProxyReconciliation\<close>, with the API server's resources and the process environment. The
  environment pointer of a reconciliation is never nil (\<open>Reconcile\<close> sets it), so it is a value.
  Logging is left out. The reason texts of \<open>compareIngressFields\<close> are kept; where the code ranges
  over a map to find a wrong annotation, the first one in insertion order is reported.
\<close>

section \<open>Numbers in texts\<close>

fun itoa :: "nat \<Rightarrow> string" where
  "itoa n = (if n < 10 then [char_of (48 + n)] else itoa (n div 10) @ [char_of (48 + n mod 10)])"

declare itoa.simps [simp del]

definition formatInt :: "int \<Rightarrow> string" where
  "formatInt i = (if i < 0 then ''-'' @ itoa (nat (- i)) else itoa (nat i))"

section \<open>The desired objects\<close>

record 'w ProxyReconciliation =
  rp_Deployments :: "('w, Deployment) resource"
  rp_Services :: "('w, Service) resource"
  rp_Ingresses :: "('w, Ingress) resource"
  rp_Getenv :: "string \<Rightarrow> string"
  rp_Namespace :: string
  rp_Env :: FrontendEnvironment

definition ReverseProxyPort :: "32 word" where
  "ReverseProxyPort = 8080"

definition ReverseProxyReplicas :: "32 word" where
  "ReverseProxyReplicas = 3"

definition getReverseProxyOwnerRef :: "FrontendEnvironment \<Rightarrow> OwnerReference" where
  "getReverseProxyOwnerRef env = \<lparr>or_APIVersion = fenv_APIVersion env, or_Kind = fenv_Kind env,
     or_Name = fenv_Name env, or_UID = om_UID (fenv_Meta env), or_Controller = None\<rparr>"

definition getReverseProxyLabels :: "FrontendEnvironment \<Rightarrow> strmap option" where
  "getReverseProxyLabels env =
     mapPut (mapPut (mapPut (Some []) ''environment'' (fenv_Name env))
       ''app'' ''reverse-proxy'') ''component'' ''reverse-proxy''"

definition createReverseProxyVolumes :: "FrontendEnvironment \<Rightarrow> Volume list" where
  "createReverseProxyVolumes env =
     (if env_SSL (fenv_Spec env)
      then [\<lparr>vo_Name = ''certs'', vo_Source = SecretSource ''reverse-proxy-cert''\<rparr>] else [])"

definition upstreamURL :: "string \<Rightarrow> string \<Rightarrow> string" where
  "upstreamURL minioPort minioEndpoint =
     (if minioPort = ''443'' then ''https://'' else ''http://'') @ minioEndpoint @ '':'' @ minioPort"

definition orDefault :: "string \<Rightarrow> string \<Rightarrow> string" where
  "orDefault s d = (if s = [] then d else s)"

definition proxyEnvVars :: "FrontendEnvironment \<Rightarrow> string \<Rightarrow> string \<Rightarrow> string \<Rightarrow> string \<Rightarrow> string \<Rightarrow> EnvVar list" where
  "proxyEnvVars env minioUpstreamURL region bucketPathPrefix accessKeyID secretAccessKey =
     [\<lparr>ev_Name = ''SERVER_PORT'', ev_Value = formatInt (sint ReverseProxyPort)\<rparr>,
      \<lparr>ev_Name = ''MINIO_UPSTREAM_URL'', ev_Value = minioUpstreamURL\<rparr>,
      \<lparr>ev_Name = ''AWS_REGION'', ev_Value = region\<rparr>,
      \<lparr>ev_Name = ''BUCKET_PATH_PREFIX'', ev_Value = bucketPathPrefix\<rparr>,
      \<lparr>ev_Name = ''SPA_ENTRYPOINT_PATH'',
        ev_Value = orDefault (env_ReverseProxySPAEntrypointPath (fenv_Spec env)) ''/index.html''\<rparr>,
      \<lparr>ev_Name = ''LOG_LEVEL'', ev_Value = orDefault (env_ReverseProxyLogLevel (fenv_Spec env)) ''DEBUG''\<rparr>,
      \<lparr>ev_Name = ''PUSHCACHE_AWS_ACCESS_KEY_ID'', ev_Value = accessKeyID\<rparr>,
      \<lparr>ev_Name = ''PUSHCACHE_AWS_SECRET_ACCESS_KEY'', ev_Value = secretAccessKey\<rparr>] @
     (if env_SSL (fenv_Spec env) then
        [\<lparr>ev_Name = ''TLS_CERT_FILE'', ev_Value = ''/opt/certs/tls.crt''\<rparr>,
         \<lparr>ev_Name = ''TLS_KEY_FILE'', ev_Value = ''/opt/certs/tls.key''\<rparr>] else [])"

definition healthProbe :: "FrontendEnvironment \<Rightarrow> Probe" where
  "healthProbe env = \<lparr>pr_Path = ''/healthz'', pr_Port = ReverseProxyPort,
     pr_Scheme = (if env_SSL (fenv_Spec env) then ''HTTPS'' else ''HTTP''),
     pr_InitialDelaySeconds = 0, pr_PeriodSeconds = 0, pr_FailureThreshold = 0\<rparr>"

definition createReverseProxyContainer :: "(string \<Rightarrow> string) \<Rightarrow> FrontendEnvironment \<Rightarrow> Container result" where
  "createReverseProxyContainer getenv env =
     bindR (ExtractBucketConfigFromEnv getenv) (\<lambda>objectStoreInfo.
     bindR (deref (ob_Port objectStoreInfo)) (\<lambda>minioPort.
     bindR (deref (ob_Endpoint objectStoreInfo)) (\<lambda>minioEndpoint.
     bindR (deref (ob_Name objectStoreInfo)) (\<lambda>bucketPathPrefix.
     bindR (deref (ob_AccessKey objectStoreInfo)) (\<lambda>accessKeyID.
     bindR (deref (ob_SecretKey objectStoreInfo)) (\<lambda>secretAccessKey.
     bindR (deref (ob_Region objectStoreInfo)) (\<lambda>region.
       Inr \<lparr>c_Name = ''reverse-proxy'', c_Image = env_ReverseProxyImage (fenv_Spec env), c_Command = [],
         c_Ports = [\<lparr>cp_Name = ''http'', cp_ContainerPort = ReverseProxyPort, cp_Protocol = ''TCP''\<rparr>],
         c_Env = proxyEnvVars env (upstreamURL minioPort minioEndpoint) region bucketPathPrefix
           accessKeyID secretAccessKey,
         c_VolumeMounts = (if env_SSL (fenv_Spec env)
           then [\<lparr>vm_Name = ''certs'', vm_MountPath = ''/opt/certs'', vm_SubPath = []\<rparr>] else []),
         c_Resources = \<lparr>rr_Requests = [(''cpu'', ''250m''), (''memory'', ''256Mi'')],
           rr_Limits = [(''cpu'', ''500m''), (''memory'', ''512Mi'')]\<rparr>,
         c_LivenessProbe = Some ((healthProbe env)\<lparr>pr_InitialDelaySeconds := 10,
           pr_PeriodSeconds := 30, pr_FailureThreshold := 3\<rparr>),
         c_ReadinessProbe = Some ((healthProbe env)\<lparr>pr_InitialDelaySeconds := 5,
           pr_PeriodSeconds := 10\<rparr>)\<rparr>)))))))"

definition buildReverseProxyDeployment :: "'w ProxyReconciliation \<Rightarrow> Deployment result" where
  "buildReverseProxyDeployment r =
     (let labels = getReverseProxyLabels (rp_Env r)
      in bindR (createReverseProxyContainer (rp_Getenv r) (rp_Env r)) (\<lambda>container.
           Inr \<lparr>d_Meta = emptyMeta\<lparr>om_Name := ''reverse-proxy'', om_Namespace := rp_Namespace r,
               om_Labels := labels,
               om_Annotations := Some [(''kube-linter.io/ignore-all'', ''we don't need no any checking'')],
               om_OwnerReferences := [getReverseProxyOwnerRef (rp_Env r)]\<rparr>,
             d_Spec = \<lparr>ds_Replicas = Some ReverseProxyReplicas, ds_Strategy = ''RollingUpdate'',
               ds_RollingUpdate = Some \<lparr>ru_MaxUnavailable = 0, ru_MaxSurge = 1\<rparr>,
               ds_Selector = labels,
               ds_Template = \<lparr>pt_Meta = emptyMeta\<lparr>om_Labels := labels\<rparr>,
                 pt_Spec = emptyPodSpec\<lparr>ps_Containers := [container],
                   ps_Volumes := createReverseProxyVolumes (rp_Env r)\<rparr>\<rparr>\<rparr>\<rparr>))"

definition createReverseProxyServiceConfig :: "'w ProxyReconciliation \<Rightarrow> Service result" where
  "createReverseProxyServiceConfig r =
     (let labels = getReverseProxyLabels (rp_Env r);
          annotations = (if env_SSL (fenv_Spec (rp_Env r))
            then mapPut (Some []) ''service.beta.openshift.io/serving-cert-secret-name'' ''reverse-proxy-cert''
            else None)
      in Inr \<lparr>s_Meta = emptyMeta\<lparr>om_Name := ''reverse-proxy'', om_Namespace := rp_Namespace r,
             om_Labels := labels, om_Annotations := annotations,
             om_OwnerReferences := [getReverseProxyOwnerRef (rp_Env r)]\<rparr>,
           s_Spec = \<lparr>ss_Ports = [\<lparr>sp_Name = ''http'', sp_Port = ReverseProxyPort,
               sp_TargetPort = ReverseProxyPort, sp_Protocol = ''TCP'', sp_AppProtocol = Some ''http''\<rparr>],
             ss_Selector = labels\<rparr>\<rparr>)"

definition hostnameError :: go_error where
  "hostnameError = Errorf ''reverseProxyHostname must be specified in FrontendEnvironment spec when reverse proxy is enabled''"

definition whitelistAnnotations :: "FrontendEnvironment \<Rightarrow> strmap option \<Rightarrow> strmap option" where
  "whitelistAnnotations env annotations =
     (if length (env_Whitelist (fenv_Spec env)) \<noteq> 0 then
        mapPut (mapPut annotations ''haproxy.router.openshift.io/ip_whitelist''
            (Join (env_Whitelist (fenv_Spec env)) '' ''))
          ''nginx.ingress.kubernetes.io/whitelist-source-range'' (Join (env_Whitelist (fenv_Spec env)) '','')
      else annotations)"

definition sslAnnotations :: "FrontendEnvironment \<Rightarrow> strmap option \<Rightarrow> strmap option" where
  "sslAnnotations env annotations =
     (if env_SSL (fenv_Spec env)
      then mapPut annotations ''route.openshift.io/termination'' ''reencrypt'' else annotations)"

definition buildReverseProxyIngress :: "'w ProxyReconciliation \<Rightarrow> Ingress result" where
  "buildReverseProxyIngress r =
     (let env = rp_Env r; host = env_ReverseProxyHostname (fenv_Spec env) in
      if host = [] then Inl hostnameError
      else Inr \<lparr>i_Meta = emptyMeta\<lparr>om_Name := ''reverse-proxy'', om_Namespace := rp_Namespace r,
            om_Labels := getReverseProxyLabels env,
            om_Annotations := sslAnnotations env (whitelistAnnotations env (Some [])),
            om_OwnerReferences := [getReverseProxyOwnerRef env]\<rparr>,
          i_Spec = \<lparr>is_IngressClassName = Some (orDefault (env_IngressClass (fenv_Spec env)) ''nginx''),
            is_TLS = (if env_SSL (fenv_Spec env) then [\<lparr>it_Hosts = [], it_SecretName = []\<rparr>] else []),
            is_Rules = [\<lparr>ir_Host = host, ir_HTTP = Some [\<lparr>ip_Path = ''/'', ip_PathType = Some ''Prefix'',
              ip_Service = Some \<lparr>ib_Name = ''reverse-proxy'', ib_PortNumber = ReverseProxyPort\<rparr>\<rparr>]\<rparr>]\<rparr>\<rparr>)"

section \<open>Comparisons\<close>

definition compareEnvVars :: "EnvVar list \<Rightarrow> EnvVar list \<Rightarrow> bool" where
  "compareEnvVars existing desired =
     (if length existing \<noteq> length desired then False
      else let existingMap = fold (\<lambda>e. AList.update (ev_Name e) (ev_Value e)) existing []
           in list_all (\<lambda>e. map_of existingMap (ev_Name e) = Some (ev_Value e)) desired)"

definition portDiffers :: "ServicePort \<Rightarrow> ServicePort \<Rightarrow> bool" where
  "portDiffers currentPort desiredPort =
     (if sp_Name currentPort \<noteq> sp_Name desiredPort \<or> sp_Port currentPort \<noteq> sp_Port desiredPort \<or>
         sp_TargetPort currentPort \<noteq> sp_TargetPort desiredPort \<or>
         sp_Protocol currentPort \<noteq> sp_Protocol desiredPort then True
      else if (sp_AppProtocol currentPort = None) \<noteq> (sp_AppProtocol desiredPort = None) then True
      else sp_AppProtocol currentPort \<noteq> None \<and> sp_AppProtocol desiredPort \<noteq> None \<and>
        the (sp_AppProtocol currentPort) \<noteq> the (sp_AppProtocol desiredPort))"

fun portsDiffer :: "ServicePort list \<Rightarrow> ServicePort list \<Rightarrow> bool" where
  "portsDiffer [] desired = False"
| "portsDiffer (c # cs) [] = True"
| "portsDiffer (c # cs) (d # ds) = (if portDiffers c d then True else portsDiffer cs ds)"

text \<open>Every entry of the first map is in the second.\<close>

definition entriesIn :: "strmap option \<Rightarrow> strmap option \<Rightarrow> bool" where
  "entriesIn m m' = list_all (\<lambda>(k, v). map_of (entries m') k = Some v) (entries m)"

definition importantLabels :: "string list" where
  "importantLabels = [''app'', ''component'', ''environment'']"

definition compareService :: "Service \<Rightarrow> Service \<Rightarrow> bool" where
  "compareService current desired =
     (if length (ss_Ports (s_Spec current)) \<noteq> length (ss_Ports (s_Spec desired)) then True
      else if portsDiffer (ss_Ports (s_Spec current)) (ss_Ports (s_Spec desired)) then True
      else if mapLen (om_Annotations (s_Meta current)) \<noteq> mapLen (om_Annotations (s_Meta desired)) then True
      else if \<not> entriesIn (om_Annotations (s_Meta desired)) (om_Annotations (s_Meta current)) then True
      else if mapLen (ss_Selector (s_Spec current)) \<noteq> mapLen (ss_Selector (s_Spec desired)) then True
      else if \<not> entriesIn (ss_Selector (s_Spec current)) (ss_Selector (s_Spec desired)) then True
      else list_ex (\<lambda>label. lookup0 (om_Labels (s_Meta current)) label \<noteq>
        lookup0 (om_Labels (s_Meta desired)) label) importantLabels)"

definition requiredAnnotations :: "FrontendEnvironment \<Rightarrow> strmap" where
  "requiredAnnotations env = entries (sslAnnotations env (whitelistAnnotations env (Some [])))"

fun wrongAnnotation :: "strmap option \<Rightarrow> strmap \<Rightarrow> string option" where
  "wrongAnnotation annotations [] = None"
| "wrongAnnotation annotations ((key, expectedValue) # rest) =
     (if annotations = None \<or> lookup0 annotations key \<noteq> expectedValue
      then Some (''annotation '' @ key @ '' changed from '' @
        (if annotations = None then ''<none>'' else lookup0 annotations key) @ '' to '' @ expectedValue)
      else wrongAnnotation annotations rest)"

fun staleAnnotation :: "strmap option \<Rightarrow> string list \<Rightarrow> string option" where
  "staleAnnotation annotations [] = None"
| "staleAnnotation annotations (key # keys) =
     (if annotations \<noteq> None \<and> lookup0 annotations key \<noteq> []
      then Some (''whitelist annotation '' @ key @ '' should be removed'')
      else staleAnnotation annotations keys)"

fun wrongLabel :: "strmap option \<Rightarrow> strmap option \<Rightarrow> string list \<Rightarrow> string option" where
  "wrongLabel current desired [] = None"
| "wrongLabel current desired (label # labels) =
     (if lookup0 current label \<noteq> lookup0 desired label
      then Some (''label '' @ label @ '' changed from '' @ lookup0 current label @ '' to '' @ lookup0 desired label)
      else wrongLabel current desired labels)"

definition compareTLS :: "FrontendEnvironment \<Rightarrow> IngressTLS list \<Rightarrow> bool \<times> string" where
  "compareTLS env tls =
     (let sslEnabled = env_SSL (fenv_Spec env); hasTLS = 0 < length tls in
      if sslEnabled \<and> \<not> hasTLS then (True, ''SSL enabled but TLS configuration missing'')
      else if \<not> sslEnabled \<and> hasTLS then (True, ''SSL disabled but TLS configuration present'')
      else if sslEnabled \<and> hasTLS then
        (if length tls \<noteq> 1 then (True, ''expected 1 TLS entry, found '' @ itoa (length tls))
         else if length (it_Hosts (tls ! 0)) \<noteq> 0
           then (True, ''expected empty hosts array in TLS, found '' @ itoa (length (it_Hosts (tls ! 0))) @ '' hosts'')
           else (False, []))
      else (False, []))"

definition compareBackend :: "IngressServiceBackend option \<Rightarrow> string option" where
  "compareBackend service =
     (case service of
        None \<Rightarrow> Some ''missing service backend''
      | Some backend \<Rightarrow>
          if ib_Name backend \<noteq> ''reverse-proxy''
          then Some (''service name changed from '' @ ib_Name backend @ '' to reverse-proxy'')
          else if ib_PortNumber backend \<noteq> ReverseProxyPort
          then Some (''service port changed from '' @ formatInt (sint (ib_PortNumber backend)) @ '' to '' @
            formatInt (sint ReverseProxyPort))
          else None)"

definition comparePath :: "HTTPIngressPath \<Rightarrow> string option" where
  "comparePath path =
     (if ip_Path path \<noteq> ''/'' then Some (''path changed from '' @ ip_Path path @ '' to /'')
      else if ip_PathType path \<noteq> Some ''Prefix'' then
        Some (''path type changed from '' @
          (case ip_PathType path of None \<Rightarrow> ''<none>'' | Some t \<Rightarrow> t) @ '' to Prefix'')
      else compareBackend (ip_Service path))"

definition compareRules :: "IngressRule list \<Rightarrow> string \<Rightarrow> string option" where
  "compareRules rules desiredHost =
     (if length rules \<noteq> 1 then Some (''expected 1 rule, found '' @ itoa (length rules))
      else let rule = rules ! 0 in
        if ir_Host rule \<noteq> desiredHost
        then Some (''hostname changed from '' @ ir_Host rule @ '' to '' @ desiredHost)
        else case ir_HTTP rule of
            None \<Rightarrow> Some ''missing HTTP configuration in rule''
          | Some paths \<Rightarrow>
              if length paths \<noteq> 1 then Some (''expected 1 path, found '' @ itoa (length paths))
              else comparePath (paths ! 0))"

definition compareIngressFields ::
  "FrontendEnvironment \<Rightarrow> Ingress \<Rightarrow> string \<Rightarrow> strmap option \<Rightarrow> bool \<times> string"
where
  "compareIngressFields env current desiredHost desiredLabels =
     (let desiredIngressClass = orDefault (env_IngressClass (fenv_Spec env)) ''nginx'';
          currentIngressClass = (case is_IngressClassName (i_Spec current) of None \<Rightarrow> [] | Some c \<Rightarrow> c)
      in if currentIngressClass \<noteq> desiredIngressClass
         then (True, ''ingress class changed from '' @ currentIngressClass @ '' to '' @ desiredIngressClass)
         else case compareRules (is_Rules (i_Spec current)) desiredHost of
           Some reason \<Rightarrow> (True, reason)
         | None \<Rightarrow>
         (case wrongAnnotation (om_Annotations (i_Meta current)) (requiredAnnotations env) of
           Some reason \<Rightarrow> (True, reason)
         | None \<Rightarrow>
         (case (if length (env_Whitelist (fenv_Spec env)) = 0
                then staleAnnotation (om_Annotations (i_Meta current))
                  [''haproxy.router.openshift.io/ip_whitelist'', ''nginx.ingress.kubernetes.io/whitelist-source-range'']
                else None) of
           Some reason \<Rightarrow> (True, reason)
         | None \<Rightarrow>
         (case wrongLabel (om_Labels (i_Meta current)) desiredLabels importantLabels of
           Some reason \<Rightarrow> (True, reason)
         | None \<Rightarrow> compareTLS env (is_TLS (i_Spec current))))))"

section \<open>Reconcilers\<close>

definition proxyKey :: "'w ProxyReconciliation \<Rightarrow> NamespacedName" where
  "proxyKey r = \<lparr>nn_Namespace = rp_Namespace r, nn_Name = ''reverse-proxy''\<rparr>"

definition createReverseProxyDeployment :: "'w ProxyReconciliation \<Rightarrow> ('w, unit) act" where
  "createReverseProxyDeployment r =
     bindA (liftA (buildReverseProxyDeployment r)) (rs_Create (rp_Deployments r))"

definition updateReverseProxyDeployment :: "'w ProxyReconciliation \<Rightarrow> Deployment \<Rightarrow> ('w, unit) act" where
  "updateReverseProxyDeployment r existing =
     bindA (liftA (buildReverseProxyDeployment r)) (\<lambda>desired.
       rs_Update (rp_Deployments r) (desired\<lparr>d_Meta := (d_Meta desired)
         \<lparr>om_ResourceVersion := om_ResourceVersion (d_Meta existing),
          om_UID := om_UID (d_Meta existing),
          om_CreationTimestamp := om_CreationTimestamp (d_Meta existing)\<rparr>\<rparr>))"

definition reconcileDeployment :: "'w ProxyReconciliation \<Rightarrow> ('w, unit) act" where
  "reconcileDeployment r =
     handleA (rs_Get (rp_Deployments r) (proxyKey r)) (updateReverseProxyDeployment r)
       (\<lambda>e. if IsNotFound e then createReverseProxyDeployment r else failA e)"

definition createReverseProxyService :: "'w ProxyReconciliation \<Rightarrow> ('w, unit) act" where
  "createReverseProxyService r =
     bindA (liftA (createReverseProxyServiceConfig r)) (rs_Create (rp_Services r))"

definition updateReverseProxyService :: "'w ProxyReconciliation \<Rightarrow> Service \<Rightarrow> ('w, unit) act" where
  "updateReverseProxyService r service =
     bindA (liftA (createReverseProxyServiceConfig r)) (\<lambda>desiredService.
       if compareService service desiredService then
         rs_Update (rp_Services r) (service
           \<lparr>s_Spec := (s_Spec service)\<lparr>ss_Ports := ss_Ports (s_Spec desiredService),
              ss_Selector := ss_Selector (s_Spec desiredService)\<rparr>,
            s_Meta := (s_Meta service)\<lparr>om_Labels := om_Labels (s_Meta desiredService),
              om_Annotations := om_Annotations (s_Meta desiredService)\<rparr>\<rparr>)
       else returnA ())"

definition reconcileService :: "'w ProxyReconciliation \<Rightarrow> ('w, unit) act" where
  "reconcileService r =
     handleA (rs_Get (rp_Services r) (proxyKey r)) (updateReverseProxyService r)
       (\<lambda>e. if IsNotFound e then createReverseProxyService r else failA e)"

definition createReverseProxyIngress :: "'w ProxyReconciliation \<Rightarrow> ('w, unit) act" where
  "createReverseProxyIngress r =
     bindA (liftA (buildReverseProxyIngress r)) (rs_Create (rp_Ingresses r))"

definition updateReverseProxyIngress :: "'w ProxyReconciliation \<Rightarrow> Ingress \<Rightarrow> ('w, unit) act" where
  "updateReverseProxyIngress r ingress =
     (let host = env_ReverseProxyHostname (fenv_Spec (rp_Env r)) in
      if host = [] then failA hostnameError
      else if fst (compareIngressFields (rp_Env r) ingress host (getReverseProxyLabels (rp_Env r))) then
        bindA (liftA (buildReverseProxyIngress r)) (\<lambda>desiredIngress.
          rs_Update (rp_Ingresses r) (ingress
            \<lparr>i_Meta := (i_Meta ingress)\<lparr>om_Labels := om_Labels (i_Meta desiredIngress),
               om_Annotations := om_Annotations (i_Meta desiredIngress)\<rparr>,
             i_Spec := i_Spec desiredIngress\<rparr>))
      else returnA ())"

definition reconcileIngress :: "'w ProxyReconciliation \<Rightarrow> ('w, unit) act" where
  "reconcileIngress r =
     handleA (rs_Get (rp_Ingresses r) (proxyKey r)) (updateReverseProxyIngress r)
       (\<lambda>e. if IsNotFound e then createReverseProxyIngress r else failA e)"

definition runReverseProxy :: "'w ProxyReconciliation \<Rightarrow> ('w, unit) act" where
  "runReverseProxy r =
     bindA (reconcileDeployment r) (\<lambda>_. bindA (reconcileService r) (\<lambda>_. reconcileIngress r))"

text \<open>\<open>Reconcile\<close> of \<^verbatim>\<open>controllers/reverse_proxy_controller.go\<close>: the environment named by the request is
  fetched, and the namespace of the proxy is the environment's name. The result is the requeue
  flag beside the error.\<close>

definition proxyReconcile ::
  "(NamespacedName \<Rightarrow> ('w, FrontendEnvironment) act) \<Rightarrow> 'w ProxyReconciliation \<Rightarrow> NamespacedName \<Rightarrow>
     'w \<Rightarrow> (bool \<times> unit result) \<times> 'w"
where
  "proxyReconcile getEnv r req w =
     (case getEnv req w of
        (Inl e, w1) \<Rightarrow> if IsNotFound e then ((False, Inr ()), w1) else ((False, Inl e), w1)
      | (Inr fe, w1) \<Rightarrow>
          if \<not> env_EnablePushCache (fenv_Spec fe) \<or> env_ReverseProxyImage (fenv_Spec fe) = []
          then ((False, Inr ()), w1)
          else (case runReverseProxy (r\<lparr>rp_Namespace := fenv_Name fe, rp_Env := fe\<rparr>) w1 of
                  (Inl e, w2) \<Rightarrow> ((True, Inl e), w2)
                | (Inr _, w2) \<Rightarrow> ((False, Inr ()), w2)))"

end
