(* ===== verification/Reconciliation.thy ===== *)
theory Reconciliation
  imports Bundles Index_Data Service_Tiles Fed_Modules Reverse_Proxy
begin

text \<open>
  The state of a reconciliation, \<open>FrontendReconciliation\<close> of \<^verbatim>\<open>controllers/reconcile.go\<close>, and the
  interfaces it works through.

  \<^item> The resource cache and the helper functions of the library \<^verbatim>\<open>rhc-osdk-utils\<close> are not part of the
    repository. They are fields of the state: \<open>cached\<close> for \<open>Create\<close> and \<open>Update\<close> of the cache on one
    kind of object, \<open>OsdkUtils\<close> for the labeler, \<open>MakeService\<close> and \<open>UpdateAnnotations\<close>. The locales
    \<open>object_cache\<close> and \<open>osdk_utils\<close> state what the code relies on.
  \<^item> The JSON encoder is a field as well, one function per type that is encoded; so is the hash.
  \<^item> A step that may also not return (the expansion of navigation references) is a \<open>prog\<close>.
  \<^item> \<open>GetLabels\<close> stores a default label in its receiver. The label is the same at every call
    (\<open>getLabels_again\<close>), and the code reads the receiver's labels only through \<open>GetLabels\<close>, so the
    reconciliation keeps its \<open>Frontend\<close> and reads \<^term>\<open>fst (GetLabels fe)\<close>.
\<close>

section \<open>Programs\<close>

type_synonym ('w, 'a) prog = "'w \<Rightarrow> ('a result \<times> 'w) option"

definition actP :: "('w, 'a) act \<Rightarrow> ('w, 'a) prog" where
  "actP a w = Some (a w)"

definition runP :: "'a run \<Rightarrow> ('w, 'a) prog" where
  "runP m w = (case m of None \<Rightarrow> None | Some r \<Rightarrow> Some (r, w))"

definition bindP :: "('w, 'a) prog \<Rightarrow> ('a \<Rightarrow> ('w, 'b) prog) \<Rightarrow> ('w, 'b) prog" where
  "bindP m f w = (case m w of None \<Rightarrow> None | Some (Inl e, w') \<Rightarrow> Some (Inl e, w') | Some (Inr x, w') \<Rightarrow> f x w')"

lemma actP_apply [simp]: "actP a w = Some (a w)"
  by (simp add: actP_def)

lemma bindP_Inr:
  "bindP m f w = Some (Inr y, w2) \<longleftrightarrow> (\<exists>x w1. m w = Some (Inr x, w1) \<and> f x w1 = Some (Inr y, w2))"
  by (auto simp: bindP_def split: option.splits prod.splits sum.splits)

lemma runP_Inr: "runP m w = Some (Inr x, w') \<longleftrightarrow> m = Some (Inr x) \<and> w' = w"
  by (auto simp: runP_def split: option.splits)

section \<open>Labels\<close>

lemma getLabels_again: "getLabels key (snd (getLabels key i)) = getLabels key i"
  by (auto simp: getLabels_def Let_def mapPut_def entries_def split: if_splits option.splits)

abbreviation frontendLabels :: "Frontend \<Rightarrow> strmap" where
  "frontendLabels fe \<equiv> fst (GetLabels fe)"

lemma GetLabels_again: "GetLabels (snd (GetLabels fe)) = GetLabels fe"
  using getLabels_again [of "''frontend''" "fe_Meta fe"] by (auto simp: GetLabels_def split: prod.splits)

section \<open>The utility library\<close>

datatype Owner = FrontendOwner Frontend | EnvironmentOwner FrontendEnvironment

record OsdkUtils =
  ou_GetCustomLabeler :: "strmap \<Rightarrow> NamespacedName \<Rightarrow> Owner \<Rightarrow> ObjectMeta \<Rightarrow> ObjectMeta"
  ou_MakeService :: "Service \<Rightarrow> NamespacedName \<Rightarrow> strmap \<Rightarrow> ServicePort list \<Rightarrow> Frontend \<Rightarrow> bool \<Rightarrow> Service"
  ou_UpdateAnnotations :: "PodTemplateSpec \<Rightarrow> strmap list \<Rightarrow> PodTemplateSpec"

locale osdk_utils =
  fixes u :: OsdkUtils
  assumes labeler_name: "om_Name (ou_GetCustomLabeler u labels nn owner m) = nn_Name nn"
    and labeler_namespace: "om_Namespace (ou_GetCustomLabeler u labels nn owner m) = nn_Namespace nn"
    and labeler_labels: "map_of labels k = Some v \<Longrightarrow>
      map_of (entries (om_Labels (ou_GetCustomLabeler u labels nn owner m))) k = Some v"
    and labeler_annotations: "om_Annotations (ou_GetCustomLabeler u labels nn owner m) = om_Annotations m"
    and service_name: "nameOf (s_Meta (ou_MakeService u s nn labels ports fe nodePort)) = nn"
    and service_labels: "map_of labels k = Some v \<Longrightarrow>
      map_of (entries (om_Labels (s_Meta (ou_MakeService u s nn labels ports fe nodePort)))) k = Some v"
    and service_annotations: "om_Annotations (s_Meta (ou_MakeService u s nn labels ports fe nodePort)) =
      om_Annotations (s_Meta s)"
    and service_spec: "s_Spec (ou_MakeService u s nn labels ports fe nodePort) =
      \<lparr>ss_Ports = ports, ss_Selector = Some labels\<rparr>"
    and annotations_spec: "pt_Spec (ou_UpdateAnnotations u t ms) = pt_Spec t"
    and annotations_labels: "om_Labels (pt_Meta (ou_UpdateAnnotations u t ms)) = om_Labels (pt_Meta t)"
    and annotations_put: "map_of kvs k = Some v \<Longrightarrow>
      map_of (entries (om_Annotations (pt_Meta (ou_UpdateAnnotations u t [kvs])))) k = Some v"

text \<open>Functions that keep the contract.\<close>

definition ownerLabels :: "Owner \<Rightarrow> strmap" where
  "ownerLabels owner = (case owner of FrontendOwner fe \<Rightarrow> fst (GetLabels fe) | EnvironmentOwner e \<Rightarrow> fst (GetEnvLabels e))"

definition ownerReference :: "Owner \<Rightarrow> OwnerReference" where
  "ownerReference owner =
     (case owner of FrontendOwner fe \<Rightarrow> MakeOwnerReference fe | EnvironmentOwner e \<Rightarrow> MakeEnvOwnerReference e)"

definition mergeInto :: "strmap \<Rightarrow> strmap \<Rightarrow> strmap" where
  "mergeInto m = fold (\<lambda>(k, v). AList.update k v) (rev m)"

definition labelMeta :: "strmap \<Rightarrow> NamespacedName \<Rightarrow> Owner \<Rightarrow> ObjectMeta \<Rightarrow> ObjectMeta" where
  "labelMeta labels nn owner m = m\<lparr>om_Name := nn_Name nn, om_Namespace := nn_Namespace nn,
     om_Labels := Some (mergeInto labels (ownerLabels owner)), om_OwnerReferences := [ownerReference owner]\<rparr>"

definition mergingUtils :: OsdkUtils where
  "mergingUtils = \<lparr>ou_GetCustomLabeler = labelMeta,
     ou_MakeService = (\<lambda>s nn labels ports fe nodePort. \<lparr>s_Meta = labelMeta labels nn (FrontendOwner fe) (s_Meta s),
       s_Spec = \<lparr>ss_Ports = ports, ss_Selector = Some labels\<rparr>\<rparr>),
     ou_UpdateAnnotations = (\<lambda>t ms. t\<lparr>pt_Meta := (pt_Meta t)\<lparr>om_Annotations :=
       Some (fold mergeInto ms (entries (om_Annotations (pt_Meta t))))\<rparr>\<rparr>)\<rparr>"

lemma mergeInto_get: "map_of (mergeInto m base) k = (case map_of m k of None \<Rightarrow> map_of base k | Some v \<Rightarrow> Some v)"
  by (induction m arbitrary: base) (auto simp: mergeInto_def update_conv')

interpretation merging: osdk_utils mergingUtils
  by unfold_locales (simp_all add: mergingUtils_def labelMeta_def mergeInto_get)

section \<open>The object cache\<close>

text \<open>\<open>Create\<close> returns the object as the server has it, or the empty one; \<open>Update\<close> stages the object
  that is written when the cache is applied.\<close>

record ('w, 'o) cached =
  ca_Create :: "NamespacedName \<Rightarrow> 'w \<Rightarrow> 'o result \<times> 'w"
  ca_Update :: "'o \<Rightarrow> 'w \<Rightarrow> unit result \<times> 'w"

locale object_cache =
  fixes ops :: "('w, 'o) cached"
    and staged :: "'w \<Rightarrow> NamespacedName \<Rightarrow> 'o option"
    and name :: "'o \<Rightarrow> NamespacedName"
  assumes create_keeps: "ca_Create ops nn w = (r, w') \<Longrightarrow> staged w' = staged w"
    and update_stages: "ca_Update ops x w = (Inr (), w') \<Longrightarrow> staged w' = (staged w)(name x \<mapsto> x)"
begin

text \<open>Fetch, rebuild, stage: the pattern of every \<open>create\<close> operation.\<close>

lemma staged_after:
  assumes "ca_Create ops nn w = (Inr x, w1)" and "staged w2 = staged w1"
    and "ca_Update ops y w2 = (Inr (), w3)" and "name y = nn"
  shows "staged w3 = (staged w)(nn \<mapsto> y)"
  using create_keeps [OF assms(1)] update_stages [OF assms(3)] assms(2,4) by simp

end

text \<open>A cache over the maps of a cluster that writes through.\<close>

definition throughCache ::
  "('w \<Rightarrow> (NamespacedName \<times> 'o) list) \<Rightarrow> ((NamespacedName \<times> 'o) list \<Rightarrow> 'w \<Rightarrow> 'w) \<Rightarrow>
     ('o \<Rightarrow> NamespacedName) \<Rightarrow> 'o \<Rightarrow> ('w, 'o) cached"
where
  "throughCache rd wr name zero =
     \<lparr>ca_Create = (\<lambda>nn w. (Inr (case storeView rd name w nn of None \<Rightarrow> zero | Some x \<Rightarrow> x), w)),
      ca_Update = (\<lambda>x w. (Inr (), wr (AList.update (name x) x (rd w)) w))\<rparr>"

lemma throughCache_contract:
  assumes "\<And>m w. rd (wr m w) = m"
  shows "object_cache (throughCache rd wr name zero) (storeView rd name) name"
  by unfold_locales (auto simp: throughCache_def storeView_simps(1,3) [of rd wr, OF assms])

section \<open>The state\<close>

record JsonEncoder =
  je_FedModules :: "FedModules \<Rightarrow> string result"
  je_SearchIndex :: "SearchEntry list \<Rightarrow> string result"
  je_Tiles :: "FrontendServiceCategoryGenerated list \<Rightarrow> string result"
  je_Bundles :: "FrontendBundlesGenerated list \<Rightarrow> string result"
  je_Specs :: "APISpecInfo list \<Rightarrow> string result"
  je_Widgets :: "WidgetModuleFederationMetadata list \<Rightarrow> string result"
  je_Templates :: "BaseWidgetDashboardTemplate list \<Rightarrow> string result"
  je_SSO :: "(string \<times> SSOValue) list \<Rightarrow> string result"
  je_HashBase :: "strmap option list \<Rightarrow> string result"

record 'w FrontendReconciliation =
  fr_Deployments :: "('w, Deployment) cached"
  fr_Services :: "('w, Service) cached"
  fr_Ingresses :: "('w, Ingress) cached"
  fr_Configs :: "('w, ConfigMap) cached"
  fr_Monitors :: "('w, ServiceMonitor) cached"
  fr_Jobs :: "('w, Job) resource"
  fr_ConfigMaps :: "('w, ConfigMap) resource"
  fr_GetSecret :: "NamespacedName \<Rightarrow> 'w \<Rightarrow> Secret result \<times> 'w"
  fr_ListSecrets :: "string \<Rightarrow> 'w \<Rightarrow> Secret list result \<times> 'w"
  fr_ListFrontends :: "string \<Rightarrow> 'w \<Rightarrow> FrontendList result \<times> 'w"
  fr_ListBundles :: "string \<Rightarrow> 'w \<Rightarrow> Bundle list result \<times> 'w"
  fr_Getenv :: "string \<Rightarrow> string"
  fr_Utils :: OsdkUtils
  fr_Json :: JsonEncoder
  fr_PutJSON :: jsonPut
  fr_Sha256 :: "string \<Rightarrow> string"
  fr_PathOrder :: "PathMap \<Rightarrow> PathMap"
  fr_Residue :: SliceResidue
  fr_CaddyFile :: string
  fr_Env :: FrontendEnvironment
  fr_Frontend :: Frontend

section \<open>A reconciliation over a cluster\<close>

definition emptyDeployment :: Deployment where
  "emptyDeployment = \<lparr>d_Meta = emptyMeta, d_Spec = \<lparr>ds_Replicas = None, ds_Strategy = [],
     ds_RollingUpdate = None, ds_Selector = None, ds_Template = emptyTemplate\<rparr>\<rparr>"

definition emptyService :: Service where
  "emptyService = \<lparr>s_Meta = emptyMeta, s_Spec = \<lparr>ss_Ports = [], ss_Selector = None\<rparr>\<rparr>"

definition emptyIngress :: Ingress where
  "emptyIngress = \<lparr>i_Meta = emptyMeta, i_Spec = \<lparr>is_IngressClassName = None, is_TLS = [], is_Rules = []\<rparr>\<rparr>"

definition emptyConfigMap :: ConfigMap where
  "emptyConfigMap = \<lparr>cm_Meta = emptyMeta, cm_Data = None\<rparr>"

definition emptyMonitor :: ServiceMonitor where
  "emptyMonitor = \<lparr>sm_Meta = emptyMeta, sm_Endpoints = [], sm_NamespaceSelector = [], sm_Selector = None\<rparr>"

text \<open>An encoder for the cluster: it writes the number of entries of what it is given.\<close>

definition countingEncoder :: JsonEncoder where
  "countingEncoder = \<lparr>je_FedModules = (\<lambda>x. Inr (itoa (length x))), je_SearchIndex = (\<lambda>x. Inr (itoa (length x))),
     je_Tiles = (\<lambda>x. Inr (itoa (length x))), je_Bundles = (\<lambda>x. Inr (itoa (length x))),
     je_Specs = (\<lambda>x. Inr (itoa (length x))), je_Widgets = (\<lambda>x. Inr (itoa (length x))),
     je_Templates = (\<lambda>x. Inr (itoa (length x))), je_SSO = (\<lambda>x. Inr (itoa (length x))),
     je_HashBase = (\<lambda>x. Inr (itoa (length x)))\<rparr>"

definition cacheDeployments :: "(Cluster, Deployment) cached" where
  "cacheDeployments = throughCache cl_Deployments (\<lambda>m w. w\<lparr>cl_Deployments := m\<rparr>) (\<lambda>x. nameOf (d_Meta x)) emptyDeployment"

definition cacheServices :: "(Cluster, Service) cached" where
  "cacheServices = throughCache cl_Services (\<lambda>m w. w\<lparr>cl_Services := m\<rparr>) (\<lambda>x. nameOf (s_Meta x)) emptyService"

definition cacheIngresses :: "(Cluster, Ingress) cached" where
  "cacheIngresses = throughCache cl_Ingresses (\<lambda>m w. w\<lparr>cl_Ingresses := m\<rparr>) (\<lambda>x. nameOf (i_Meta x)) emptyIngress"

definition cacheConfigs :: "(Cluster, ConfigMap) cached" where
  "cacheConfigs = throughCache cl_ConfigMaps (\<lambda>m w. w\<lparr>cl_ConfigMaps := m\<rparr>) (\<lambda>x. nameOf (cm_Meta x)) emptyConfigMap"

definition cacheMonitors :: "(Cluster, ServiceMonitor) cached" where
  "cacheMonitors = throughCache cl_Monitors (\<lambda>m w. w\<lparr>cl_Monitors := m\<rparr>) (\<lambda>x. nameOf (sm_Meta x)) emptyMonitor"

lemmas cache_defs = cacheDeployments_def cacheServices_def cacheIngresses_def cacheConfigs_def cacheMonitors_def

interpretation staged_deployments: object_cache cacheDeployments
  "storeView cl_Deployments (\<lambda>x. nameOf (d_Meta x))" "\<lambda>x. nameOf (d_Meta x)"
  unfolding cacheDeployments_def by (rule throughCache_contract) simp

interpretation staged_services: object_cache cacheServices
  "storeView cl_Services (\<lambda>x. nameOf (s_Meta x))" "\<lambda>x. nameOf (s_Meta x)"
  unfolding cacheServices_def by (rule throughCache_contract) simp

interpretation staged_ingresses: object_cache cacheIngresses
  "storeView cl_Ingresses (\<lambda>x. nameOf (i_Meta x))" "\<lambda>x. nameOf (i_Meta x)"
  unfolding cacheIngresses_def by (rule throughCache_contract) simp

interpretation staged_configs: object_cache cacheConfigs
  "storeView cl_ConfigMaps (\<lambda>x. nameOf (cm_Meta x))" "\<lambda>x. nameOf (cm_Meta x)"
  unfolding cacheConfigs_def by (rule throughCache_contract) simp

interpretation staged_monitors: object_cache cacheMonitors
  "storeView cl_Monitors (\<lambda>x. nameOf (sm_Meta x))" "\<lambda>x. nameOf (sm_Meta x)"
  unfolding cacheMonitors_def by (rule throughCache_contract) simp

lemma cache_calls:
  "\<exists>x. ca_Create cacheDeployments nn w = (Inr x, w)" "\<exists>w'. ca_Update cacheDeployments d w = (Inr (), w')"
  "\<exists>x. ca_Create cacheServices nn w = (Inr x, w)" "\<exists>w'. ca_Update cacheServices s w = (Inr (), w')"
  "\<exists>x. ca_Create cacheIngresses nn w = (Inr x, w)" "\<exists>w'. ca_Update cacheIngresses i w = (Inr (), w')"
  "\<exists>x. ca_Create cacheConfigs nn w = (Inr x, w)" "\<exists>w'. ca_Update cacheConfigs c w = (Inr (), w')"
  by (simp_all add: cache_defs throughCache_def)

definition clusterReconciliation :: "(string \<Rightarrow> string) \<Rightarrow> FrontendEnvironment \<Rightarrow> Frontend \<Rightarrow> Cluster FrontendReconciliation" where
  "clusterReconciliation getenv env fe =
     \<lparr>fr_Deployments = cacheDeployments, fr_Services = cacheServices, fr_Ingresses = cacheIngresses,
      fr_Configs = cacheConfigs, fr_Monitors = cacheMonitors,
      fr_Jobs = clusterJobs, fr_ConfigMaps = clusterConfigMaps,
      fr_GetSecret = (\<lambda>nn w. case map_of (cl_Secrets w) nn of
        None \<Rightarrow> (Inl (ApiError (NotFound (nn_Name nn))), w) | Some x \<Rightarrow> (Inr x, w)),
      fr_ListSecrets = (\<lambda>ns w. (Inr (map snd (filter (\<lambda>(nn, x). nn_Namespace nn = ns) (cl_Secrets w))), w)),
      fr_ListFrontends = (\<lambda>envName w. (Inr (filter (\<lambda>f. fs_EnvName (fe_Spec f) = envName) (map snd (cl_Frontends w))), w)),
      fr_ListBundles = (\<lambda>envName w. (Inr (map snd (cl_Bundles w)), w)),
      fr_Getenv = getenv, fr_Utils = mergingUtils, fr_Json = countingEncoder,
      fr_PutJSON = (\<lambda>raw k v. Inr raw), fr_Sha256 = (\<lambda>s. s), fr_PathOrder = (\<lambda>m. m),
      fr_Residue = (\<lambda>segs cache i. case bs_NavItems (segs ! i) of None \<Rightarrow> [] | Some its \<Rightarrow> its), fr_CaddyFile = ''{}'',
      fr_Env = env, fr_Frontend = fe\<rparr>"

lemma clusterReconciliation_fields [simp]:
  "fr_Jobs (clusterReconciliation getenv env fe) = clusterJobs"
  "fr_ConfigMaps (clusterReconciliation getenv env fe) = clusterConfigMaps"
  "fr_Env (clusterReconciliation getenv env fe) = env" "fr_Frontend (clusterReconciliation getenv env fe) = fe"
  "fr_Utils (clusterReconciliation getenv env fe) = mergingUtils"
  "fr_Getenv (clusterReconciliation getenv env fe) = getenv"
  "fr_Deployments (clusterReconciliation getenv env fe) = cacheDeployments"
  "fr_Services (clusterReconciliation getenv env fe) = cacheServices"
  "fr_Ingresses (clusterReconciliation getenv env fe) = cacheIngresses"
  "fr_Configs (clusterReconciliation getenv env fe) = cacheConfigs"
  "fr_Monitors (clusterReconciliation getenv env fe) = cacheMonitors"
  "fr_Json (clusterReconciliation getenv env fe) = countingEncoder"
  by (simp_all add: clusterReconciliation_def)

end
