(* ===== verification/Interference.thy ===== *)
theory Interference
  imports Reconciliation
begin

text \<open>
  How far a program may move the world. \<open>withinA R a\<close> and \<open>withinP R p\<close> say that every run of the action
  \<open>a\<close> or the program \<open>p\<close>, failing ones included, goes from a world \<open>w\<close> to a world \<open>w'\<close> with \<open>R w w'\<close>. For
  a reflexive and transitive \<open>R\<close>, the locale \<open>rely\<close>, a program is within \<open>R\<close> when its calls are.

  With \<open>R\<close> the equality of a view this is a frame rule: \<open>same_view\<close>. With \<open>R\<close> what other clients of the
  API server may do meanwhile it is the interference a program has to live with.
\<close>

named_theorems within

definition withinA :: "('w \<Rightarrow> 'w \<Rightarrow> bool) \<Rightarrow> ('w, 'a) act \<Rightarrow> bool" where
  "withinA R a = (\<forall>w. R w (snd (a w)))"

definition withinP :: "('w \<Rightarrow> 'w \<Rightarrow> bool) \<Rightarrow> ('w, 'a) prog \<Rightarrow> bool" where
  "withinP R p = (\<forall>w x w'. p w = Some (x, w') \<longrightarrow> R w w')"

definition cacheWithin :: "('w \<Rightarrow> 'w \<Rightarrow> bool) \<Rightarrow> ('w, 'o) cached \<Rightarrow> bool" where
  "cacheWithin R ops = ((\<forall>nn. withinA R (ca_Create ops nn)) \<and> (\<forall>x. withinA R (ca_Update ops x)))"

definition resourceWithin :: "('w \<Rightarrow> 'w \<Rightarrow> bool) \<Rightarrow> ('w, 'o) resource \<Rightarrow> bool" where
  "resourceWithin R ops = ((\<forall>nn. withinA R (rs_Get ops nn)) \<and> (\<forall>x. withinA R (rs_Create ops x)) \<and>
     (\<forall>x. withinA R (rs_Update ops x)) \<and> (\<forall>x. withinA R (rs_Delete ops x)))"

lemma withinA_D: "withinA R a \<Longrightarrow> a w = (x, w') \<Longrightarrow> R w w'"
  by (metis withinA_def snd_conv)

lemma withinP_D: "withinP R p \<Longrightarrow> p w = Some (x, w') \<Longrightarrow> R w w'"
  by (simp add: withinP_def)

lemma withinP_act [within]: "withinA R a \<Longrightarrow> withinP R (actP a)"
  by (auto simp: withinP_def dest: withinA_D)

lemma cacheWithin_calls [within]:
  "cacheWithin R ops \<Longrightarrow> withinA R (ca_Create ops nn)" "cacheWithin R ops \<Longrightarrow> withinA R (ca_Update ops x)"
  by (simp_all add: cacheWithin_def)

lemma resourceWithin_calls [within]:
  "resourceWithin R ops \<Longrightarrow> withinA R (rs_Get ops nn)" "resourceWithin R ops \<Longrightarrow> withinA R (rs_Create ops x)"
  "resourceWithin R ops \<Longrightarrow> withinA R (rs_Update ops x)" "resourceWithin R ops \<Longrightarrow> withinA R (rs_Delete ops x)"
  by (simp_all add: resourceWithin_def)

locale rely =
  fixes R :: "'w \<Rightarrow> 'w \<Rightarrow> bool"
  assumes rely_refl: "R w w"
    and rely_trans: "R u v \<Longrightarrow> R v w \<Longrightarrow> R u w"
begin

lemma withinA_pure [within]: "withinA R (returnA x)" "withinA R (failA e)" "withinA R (liftA g)"
  by (simp_all add: withinA_def rely_refl)

lemma withinA_bind [within]:
  assumes "withinA R m" and "\<And>x. withinA R (f x)"
  shows "withinA R (bindA m f)"
  unfolding withinA_def
proof
  fix w
  have "R w (snd (m w))" using assms(1) by (simp add: withinA_def)
  moreover have "R (snd (m w)) (snd (f x (snd (m w))))" for x using assms(2) by (simp add: withinA_def)
  ultimately show "R w (snd (bindA m f w))"
    using rely_trans by (auto simp: bindA_def split: prod.split sum.split)
qed

lemma withinA_handle [within]:
  assumes "withinA R m" and "\<And>x. withinA R (f x)" and "\<And>e. withinA R (h e)"
  shows "withinA R (handleA m f h)"
  unfolding withinA_def
proof
  fix w
  have "R w (snd (m w))" using assms(1) by (simp add: withinA_def)
  moreover have "R (snd (m w)) (snd (f x (snd (m w))))" "R (snd (m w)) (snd (h e (snd (m w))))" for x e
    using assms(2,3) by (simp_all add: withinA_def)
  ultimately show "R w (snd (handleA m f h w))"
    using rely_trans by (auto simp: handleA_def split: prod.split sum.split)
qed

lemma withinA_if [within]: "withinA R a \<Longrightarrow> withinA R b \<Longrightarrow> withinA R (if c then a else b)"
  by simp

lemma withinP_run [within]: "withinP R (runP g)"
  by (auto simp: withinP_def runP_def rely_refl split: option.splits)

lemma withinP_bind [within]:
  assumes "withinP R m" and "\<And>x. withinP R (f x)"
  shows "withinP R (bindP m f)"
  unfolding withinP_def
proof (intro allI impI)
  fix w y w'
  assume run: "bindP m f w = Some (y, w')"
  then obtain x w1 where m: "m w = Some (x, w1)" by (auto simp: bindP_def split: option.splits)
  with assms(1) have "R w w1" by (rule withinP_D)
  moreover have "R w1 w'"
  proof (cases x)
    case (Inl e)
    with m run show ?thesis by (simp add: bindP_def rely_refl)
  next
    case (Inr z)
    with m run have "f z w1 = Some (y, w')" by (simp add: bindP_def)
    with assms(2) show ?thesis by (rule withinP_D)
  qed
  ultimately show "R w w'" by (rule rely_trans)
qed

end

text \<open>Leaving a view of the world alone.\<close>

abbreviation sameView :: "('w \<Rightarrow> 'v) \<Rightarrow> 'w \<Rightarrow> 'w \<Rightarrow> bool" where
  "sameView view w w' \<equiv> view w' = view w"

interpretation same_view: rely "sameView view" for view
  by unfold_locales simp_all

lemma throughCache_within: "(\<And>m w. view (wr m w) = view w) \<Longrightarrow> cacheWithin (sameView view) (throughCache rd wr name zero)"
  by (simp add: cacheWithin_def withinA_def throughCache_def)

lemma storeResource_within:
  "(\<And>m w. view (wr m w) = view w) \<Longrightarrow> resourceWithin (sameView view) (storeResource rd wr name)"
  by (simp add: resourceWithin_def withinA_def storeResource_def split: option.split)

lemma admitting_within: "resourceWithin R ops \<Longrightarrow> resourceWithin R (admitting fill ops)"
  by (simp add: resourceWithin_def withinA_def admitting_def)

end
