(* ===== verification/Workload.thy ===== *)
theory Workload
  imports Interference
begin

text \<open>
  The objects a Frontend runs as, from \<^verbatim>\<open>controllers/reconcile.go\<close>: deployment, service, ingress and
  service monitor. Each \<open>create\<close> operation fetches the object through the cache, overwrites the
  fields it cares about and stages the result; the pure part is a definition \<open>build\<dots>\<close> of its own.
  Quantities are kept as their text.

  The properties are about how the objects fit together: mounts name volumes of the pod, the
  deployment selects its own pods, the service selects them too, the ingress leads to a port of the
  service and the monitor finds the service.
\<close>

section \<open>Deployment\<close>

definition populateContainerVolumeMounts :: "FrontendEnvironment \<Rightarrow> Frontend \<Rightarrow> VolumeMount list" where
  "populateContainerVolumeMounts env fe =
     (if env_GenerateNavJSON (fenv_Spec env)
      then [\<lparr>vm_Name = ''config'', vm_MountPath = ''/opt/app-root/src/build/chrome'', vm_SubPath = []\<rparr>] else []) @
     [\<lparr>vm_Name = ''config'', vm_MountPath = ''/opt/app-root/src/build/stable/operator-generated'', vm_SubPath = []\<rparr>] @
     (if env_OverwriteCaddyConfig (fenv_Spec env) \<and> fe_Name fe \<noteq> ''chrome''
      then [\<lparr>vm_Name = ''caddy'', vm_MountPath = ''/opt/app-root/src/Caddyfile'', vm_SubPath = ''Caddyfile''\<rparr>] else []) @
     (if env_SSL (fenv_Spec env)
      then [\<lparr>vm_Name = ''certs'', vm_MountPath = ''/opt/certs'', vm_SubPath = []\<rparr>] else []) @
     [\<lparr>vm_Name = ''config-chrome'', vm_MountPath = ''/srv/dist/operator-generated/fed-modules.json'',
       vm_SubPath = ''fed-modules.json''\<rparr>]"

definition quantityOr :: "strmap option \<Rightarrow> string \<Rightarrow> string \<Rightarrow> string" where
  "quantityOr quantities resource d = (case quantities of None \<Rightarrow> d | Some m \<Rightarrow>
     (case map_of m resource of None \<Rightarrow> d | Some q \<Rightarrow> q))"

definition GetResourceRequirements :: "FrontendEnvironment \<Rightarrow> string \<times> string \<times> string \<times> string" where
  "GetResourceRequirements env =
     (let requests = env_Requests (fenv_Spec env); limits = env_Limits (fenv_Spec env) in
      (quantityOr requests ''cpu'' ''30m'', quantityOr requests ''memory'' ''50Mi'',
       quantityOr limits ''cpu'' ''40m'', quantityOr limits ''memory'' ''100Mi''))"

definition populateContainer :: "Deployment \<Rightarrow> Frontend \<Rightarrow> FrontendEnvironment \<Rightarrow> Deployment" where
  "populateContainer d fe env =
     (let (cpuRequests, memoryRequests, cpuLimit, memoryLimit) = GetResourceRequirements env;
          probe = \<lparr>pr_Path = ''/'', pr_Port = 8000,
            pr_Scheme = (if env_SSL (fenv_Spec env) then ''HTTPS'' else ''HTTP''),
            pr_InitialDelaySeconds = 10, pr_PeriodSeconds = 0, pr_FailureThreshold = 0\<rparr>;
          container = \<lparr>c_Name = ''fe-image'', c_Image = fs_Image (fe_Spec fe), c_Command = [],
            c_Ports = [\<lparr>cp_Name = ''web'', cp_ContainerPort = 80, cp_Protocol = ''TCP''\<rparr>,
              \<lparr>cp_Name = ''metrics'', cp_ContainerPort = 9000, cp_Protocol = ''TCP''\<rparr>],
            c_Env = [], c_VolumeMounts = populateContainerVolumeMounts env fe,
            c_Resources = \<lparr>rr_Requests = [(''cpu'', cpuRequests), (''memory'', memoryRequests)],
              rr_Limits = [(''cpu'', cpuLimit), (''memory'', memoryLimit)]\<rparr>,
            c_LivenessProbe = Some (probe\<lparr>pr_PeriodSeconds := 60, pr_FailureThreshold := 3\<rparr>),
            c_ReadinessProbe = Some probe\<rparr>
      in d\<lparr>d_Meta := (d_Meta d)\<lparr>om_OwnerReferences := [MakeOwnerReference fe]\<rparr>,
           d_Spec := (d_Spec d)\<lparr>ds_Template := (ds_Template (d_Spec d))
             \<lparr>pt_Spec := (pt_Spec (ds_Template (d_Spec d)))\<lparr>ps_Containers := [container]\<rparr>\<rparr>\<rparr>\<rparr>)"

definition populateVolumes :: "Deployment \<Rightarrow> Frontend \<Rightarrow> FrontendEnvironment \<Rightarrow> Deployment" where
  "populateVolumes d fe env =
     (let envName = fs_EnvName (fe_Spec fe);
          volumes = [\<lparr>vo_Name = ''config'', vo_Source = ConfigMapSource envName []\<rparr>,
            \<lparr>vo_Name = ''caddy'',
              vo_Source = ConfigMapSource envName [\<lparr>kp_Key = ''Caddyfile'', kp_Path = ''Caddyfile''\<rparr>]\<rparr>,
            \<lparr>vo_Name = ''config-chrome'',
              vo_Source = ConfigMapSource envName [\<lparr>kp_Key = ''fed-modules.json'', kp_Path = ''fed-modules.json''\<rparr>]\<rparr>] @
            (if env_SSL (fenv_Spec env)
             then [\<lparr>vo_Name = ''certs'', vo_Source = SecretSource (fe_Name fe @ ''-cert'')\<rparr>] else [])
      in d\<lparr>d_Spec := (d_Spec d)\<lparr>ds_Template := (ds_Template (d_Spec d))
           \<lparr>pt_Spec := (pt_Spec (ds_Template (d_Spec d)))\<lparr>ps_Volumes := volumes\<rparr>\<rparr>\<rparr>\<rparr>)"

definition frontendEnvVars :: "Frontend \<Rightarrow> FrontendEnvironment \<Rightarrow> EnvVar list" where
  "frontendEnvVars fe env =
     (if env_SSL (fenv_Spec env) then
        [\<lparr>ev_Name = ''CADDY_TLS_MODE'', ev_Value = ''https_port 8000''\<rparr>,
         \<lparr>ev_Name = ''CADDY_TLS_CERT'', ev_Value = ''tls /opt/certs/tls.crt /opt/certs/tls.key''\<rparr>] else []) @
     (if env_HTTPHeaders (fenv_Spec env) \<noteq> None then
        [\<lparr>ev_Name = ''CADDY_HTTP_HEADERS'',
          ev_Value = createCaddyfileHeaderBlock (env_HTTPHeaders (fenv_Spec env))\<rparr>] else []) @
     [\<lparr>ev_Name = ''APP_NAME'', ev_Value = fe_Name fe\<rparr>,
      \<lparr>ev_Name = ''ROUTE_PATH'', ev_Value = ''/apps/$(APP_NAME)''\<rparr>,
      \<lparr>ev_Name = ''BETA_ROUTE_PATH'', ev_Value = ''/beta$(ROUTE_PATH)''\<rparr>,
      \<lparr>ev_Name = ''PREVIEW_ROUTE_PATH'', ev_Value = ''/preview$(ROUTE_PATH)''\<rparr>]"

text \<open>\<open>Containers[0].Env = envVars\<close>: an index out of range is a panic.\<close>

definition populateEnvVars :: "Frontend \<Rightarrow> Deployment \<Rightarrow> FrontendEnvironment \<Rightarrow> Deployment result" where
  "populateEnvVars fe d env =
     (case ps_Containers (pt_Spec (ds_Template (d_Spec d))) of
        [] \<Rightarrow> Inl IndexOutOfRange
      | c # cs \<Rightarrow> Inr (d\<lparr>d_Spec := (d_Spec d)\<lparr>ds_Template := (ds_Template (d_Spec d))
          \<lparr>pt_Spec := (pt_Spec (ds_Template (d_Spec d)))
            \<lparr>ps_Containers := c\<lparr>c_Env := frontendEnvVars fe env\<rparr> # cs\<rparr>\<rparr>\<rparr>\<rparr>))"

definition replicasFor :: "Frontend \<Rightarrow> FrontendEnvironment \<Rightarrow> 32 word option" where
  "replicasFor fe env =
     (if fs_Replicas (fe_Spec fe) \<noteq> None then fs_Replicas (fe_Spec fe)
      else if env_DefaultReplicas (fenv_Spec env) \<noteq> None then env_DefaultReplicas (fenv_Spec env)
      else Some 1)"

definition deploymentKey :: "Frontend \<Rightarrow> NamespacedName" where
  "deploymentKey fe = \<lparr>nn_Namespace = om_Namespace (fe_Meta fe), nn_Name = fe_Name fe @ ''-frontend''\<rparr>"

definition buildFrontendDeployment ::
  "OsdkUtils \<Rightarrow> Frontend \<Rightarrow> FrontendEnvironment \<Rightarrow> strmap list \<Rightarrow> Deployment \<Rightarrow> Deployment result"
where
  "buildFrontendDeployment u fe env annotationHashes d0 =
     (let labels = fst (GetLabels fe);
          d1 = d0\<lparr>d_Meta := ou_GetCustomLabeler u labels (deploymentKey fe) (FrontendOwner fe) (d_Meta d0)\<rparr>;
          d2 = d1\<lparr>d_Spec := (d_Spec d1)\<lparr>ds_Replicas := replicasFor fe env\<rparr>\<rparr>;
          d3 = populateContainer (populateVolumes d2 fe env) fe env
      in bindR (populateEnvVars fe d3 env) (\<lambda>d4.
         let t1 = (ds_Template (d_Spec d4))\<lparr>pt_Meta := (pt_Meta (ds_Template (d_Spec d4)))\<lparr>om_Labels := Some labels\<rparr>\<rparr>;
             t2 = ou_UpdateAnnotations u t1 annotationHashes
         in Inr (d4\<lparr>d_Spec := (d_Spec d4)\<lparr>ds_Template := t2, ds_Selector := Some labels\<rparr>,
              d_Meta := (d_Meta d4)\<lparr>om_Annotations := mapPut (om_Annotations (d_Meta d4))
                ''kube-linter.io/ignore-all'' ''we don't need no any checking''\<rparr>\<rparr>)))"

definition createFrontendDeployment :: "'w FrontendReconciliation \<Rightarrow> strmap list \<Rightarrow> ('w, unit) act" where
  "createFrontendDeployment r annotationHashes =
     bindA (ca_Create (fr_Deployments r) (deploymentKey (fr_Frontend r))) (\<lambda>d.
     bindA (liftA (buildFrontendDeployment (fr_Utils r) (fr_Frontend r) (fr_Env r) annotationHashes d))
       (ca_Update (fr_Deployments r)))"

section \<open>Service\<close>

definition createPorts :: "ServicePort list" where
  "createPorts =
     [\<lparr>sp_Name = ''public'', sp_Port = 8000, sp_TargetPort = 8000, sp_Protocol = ''TCP'', sp_AppProtocol = Some ''http''\<rparr>,
      \<lparr>sp_Name = ''metrics'', sp_Port = 9000, sp_TargetPort = 9000, sp_Protocol = ''TCP'', sp_AppProtocol = Some ''http''\<rparr>]"

definition frontendKey :: "Frontend \<Rightarrow> NamespacedName" where
  "frontendKey fe = \<lparr>nn_Namespace = om_Namespace (fe_Meta fe), nn_Name = fe_Name fe\<rparr>"

definition buildFrontendService :: "OsdkUtils \<Rightarrow> Frontend \<Rightarrow> FrontendEnvironment \<Rightarrow> Service \<Rightarrow> Service" where
  "buildFrontendService u fe env s0 =
     (let s1 = (if env_SSL (fenv_Spec env) then s0\<lparr>s_Meta := (s_Meta s0)\<lparr>om_Annotations :=
            mapPut (om_Annotations (s_Meta s0)) ''service.beta.openshift.io/serving-cert-secret-name''
              (fe_Name fe @ ''-'' @ ''cert'')\<rparr>\<rparr> else s0);
          labels = [(''frontend'', fe_Name fe)];
          s2 = s1\<lparr>s_Meta := (ou_GetCustomLabeler u labels (frontendKey fe) (FrontendOwner fe) (s_Meta s1))
            \<lparr>om_OwnerReferences := [MakeOwnerReference fe]\<rparr>\<rparr>;
          s3 = s2\<lparr>s_Spec := (s_Spec s2)\<lparr>ss_Selector := Some labels\<rparr>\<rparr>
      in ou_MakeService u s3 (frontendKey fe) labels createPorts fe False)"

definition createFrontendService :: "'w FrontendReconciliation \<Rightarrow> ('w, unit) act" where
  "createFrontendService r =
     bindA (ca_Create (fr_Services r) (frontendKey (fr_Frontend r))) (\<lambda>s.
       ca_Update (fr_Services r) (buildFrontendService (fr_Utils r) (fr_Frontend r) (fr_Env r) s))"

section \<open>Ingress\<close>

definition createNewIngressPath :: "string \<Rightarrow> string \<Rightarrow> HTTPIngressPath" where
  "createNewIngressPath a serviceName = \<lparr>ip_Path = a, ip_PathType = Some ''Prefix'',
     ip_Service = Some \<lparr>ib_Name = serviceName, ib_PortNumber = 8000\<rparr>\<rparr>"

definition defaultNetSpec :: "string \<Rightarrow> string \<Rightarrow> HTTPIngressPath list \<Rightarrow> IngressSpec" where
  "defaultNetSpec ingressClass host ingressPaths = \<lparr>is_IngressClassName = Some ingressClass,
     is_TLS = [\<lparr>it_Hosts = [], it_SecretName = []\<rparr>], is_Rules = [\<lparr>ir_Host = host, ir_HTTP = Some ingressPaths\<rparr>]\<rparr>"

definition getFrontendPaths :: "Frontend \<Rightarrow> string list" where
  "getFrontendPaths fe =
     (let frontendPaths = fi_Paths (fs_Frontend (fe_Spec fe));
          defaultPath = (if fs_AssetsPrefix (fe_Spec fe) \<noteq> []
            then ''/'' @ fs_AssetsPrefix (fe_Spec fe) @ ''/'' @ fe_Name fe else ''/apps/'' @ fe_Name fe)
      in if \<not> HasPath (fs_Frontend (fe_Spec fe)) defaultPath then frontendPaths @ [defaultPath] else frontendPaths)"

definition populateConsoleDotIngress :: "Frontend \<Rightarrow> FrontendEnvironment \<Rightarrow> Ingress \<Rightarrow> string \<Rightarrow> string \<Rightarrow> Ingress" where
  "populateConsoleDotIngress fe env netobj ingressClass serviceName =
     (let ingressPaths = map (\<lambda>a. createNewIngressPath a serviceName) (getFrontendPaths fe);
          host = orDefault (env_Hostname (fenv_Spec env)) (fs_EnvName (fe_Spec fe))
      in netobj\<lparr>i_Spec := defaultNetSpec ingressClass host ingressPaths\<rparr>)"

definition extraAnnotations :: "FrontendEnvironment \<Rightarrow> strmap option \<Rightarrow> strmap option" where
  "extraAnnotations env annotations =
     (case env_IngressAnnotations (fenv_Spec env) of
        None \<Rightarrow> annotations
      | Some extra \<Rightarrow> Some (fold (\<lambda>(k, v). AList.update k v) extra (entries annotations)))"

definition createAnnotationsAndPopulate :: "Frontend \<Rightarrow> FrontendEnvironment \<Rightarrow> NamespacedName \<Rightarrow> Ingress \<Rightarrow> Ingress" where
  "createAnnotationsAndPopulate fe env nn netobj =
     (let ingressClass = orDefault (env_IngressClass (fenv_Spec env)) ''nginx'';
          annotations = sslAnnotations env (whitelistAnnotations env (extraAnnotations env (om_Annotations (i_Meta netobj))));
          netobj1 = netobj\<lparr>i_Meta := (i_Meta netobj)\<lparr>om_Annotations := annotations\<rparr>\<rparr>
      in if fs_Image (fe_Spec fe) \<noteq> [] then populateConsoleDotIngress fe env netobj1 ingressClass (nn_Name nn)
         else populateConsoleDotIngress fe env netobj1 ingressClass (fs_Service (fe_Spec fe)))"

definition buildFrontendIngress :: "OsdkUtils \<Rightarrow> Frontend \<Rightarrow> FrontendEnvironment \<Rightarrow> Ingress \<Rightarrow> Ingress" where
  "buildFrontendIngress u fe env netobj =
     createAnnotationsAndPopulate fe env (frontendKey fe)
       (netobj\<lparr>i_Meta := (ou_GetCustomLabeler u (fst (GetLabels fe)) (frontendKey fe) (FrontendOwner fe) (i_Meta netobj))
         \<lparr>om_OwnerReferences := [MakeOwnerReference fe]\<rparr>\<rparr>)"

definition createFrontendIngress :: "'w FrontendReconciliation \<Rightarrow> ('w, unit) act" where
  "createFrontendIngress r =
     bindA (ca_Create (fr_Ingresses r) (frontendKey (fr_Frontend r))) (\<lambda>netobj.
       ca_Update (fr_Ingresses r) (buildFrontendIngress (fr_Utils r) (fr_Frontend r) (fr_Env r) netobj))"

section \<open>Service monitor\<close>

definition monitorKey :: "MonitoringConfig \<Rightarrow> Frontend \<Rightarrow> NamespacedName" where
  "monitorKey monitoring fe = \<lparr>nn_Namespace = (if mon_Mode monitoring = ''local'' then om_Namespace (fe_Meta fe)
     else ''openshift-customer-monitoring''), nn_Name = fe_Name fe\<rparr>"

definition buildServiceMonitor ::
  "OsdkUtils \<Rightarrow> Frontend \<Rightarrow> FrontendEnvironment \<Rightarrow> NamespacedName \<Rightarrow> ServiceMonitor \<Rightarrow> ServiceMonitor"
where
  "buildServiceMonitor u fe env nn m =
     \<lparr>sm_Meta = (ou_GetCustomLabeler u [(''prometheus'', fenv_Name env)] nn (FrontendOwner fe) (sm_Meta m))
         \<lparr>om_OwnerReferences := [MakeOwnerReference fe]\<rparr>,
      sm_Endpoints = [\<lparr>ep_Path = ''/metrics'', ep_Port = ''metrics'', ep_Interval = ''15s''\<rparr>],
      sm_NamespaceSelector = [om_Namespace (fe_Meta fe)],
      sm_Selector = Some [(''frontend'', fe_Name fe)]\<rparr>"

definition createServiceMonitor :: "'w FrontendReconciliation \<Rightarrow> ('w, unit) act" where
  "createServiceMonitor r =
     bindA (liftA (deref (env_Monitoring (fenv_Spec (fr_Env r))))) (\<lambda>monitoring.
     let nn = monitorKey monitoring (fr_Frontend r) in
     bindA (ca_Create (fr_Monitors r) nn) (\<lambda>svcMonitor.
       ca_Update (fr_Monitors r) (buildServiceMonitor (fr_Utils r) (fr_Frontend r) (fr_Env r) nn svcMonitor)))"

section \<open>The deployment\<close>

lemma mount_volumes:
  "vm_Name ` set (populateContainerVolumeMounts env fe) \<subseteq>
     vo_Name ` set (ps_Volumes (pt_Spec (ds_Template (d_Spec (populateVolumes d fe env)))))"
  by (auto simp: populateContainerVolumeMounts_def populateVolumes_def Let_def)

lemma frontendEnvVars_distinct: "distinct (map ev_Name (frontendEnvVars fe env))"
  by (auto simp: frontendEnvVars_def)

text \<open>What a pod template needs to be accepted and run.\<close>

definition wfContainer :: "Volume list \<Rightarrow> Container \<Rightarrow> bool" where
  "wfContainer volumes c = (vm_Name ` set (c_VolumeMounts c) \<subseteq> vo_Name ` set volumes \<and>
     distinct (map vm_MountPath (c_VolumeMounts c)) \<and> distinct (map ev_Name (c_Env c)))"

definition wfPodSpec :: "PodSpec \<Rightarrow> bool" where
  "wfPodSpec p = (distinct (map vo_Name (ps_Volumes p)) \<and>
     list_all (wfContainer (ps_Volumes p)) (ps_Containers p) \<and> list_all (wfContainer (ps_Volumes p)) (ps_InitContainers p))"

lemma frontend_pod_wf:
  assumes "ps_Volumes p = ps_Volumes (pt_Spec (ds_Template (d_Spec (populateVolumes d fe env))))"
    and "ps_Containers p = [c]" and "c_VolumeMounts c = populateContainerVolumeMounts env fe"
    and "c_Env c = frontendEnvVars fe env"
  shows "wfPodSpec p = list_all (wfContainer (ps_Volumes p)) (ps_InitContainers p)"
proof -
  have "distinct (map vo_Name (ps_Volumes p))"
    unfolding assms(1) by (simp add: populateVolumes_def Let_def)
  moreover have "vm_Name ` set (c_VolumeMounts c) \<subseteq> vo_Name ` set (ps_Volumes p)"
    unfolding assms(1,3) by (rule mount_volumes)
  moreover have "distinct (map vm_MountPath (c_VolumeMounts c))"
    unfolding assms(3) by (auto simp: populateContainerVolumeMounts_def)
  ultimately show ?thesis
    using assms(2,4) frontendEnvVars_distinct by (simp add: wfPodSpec_def wfContainer_def)
qed

context osdk_utils
begin

lemma deployment_built:
  "\<exists>d c. buildFrontendDeployment u fe env hashes d0 = Inr d \<and> nameOf (d_Meta d) = deploymentKey fe \<and>
     ds_Replicas (d_Spec d) = replicasFor fe env \<and> ds_Selector (d_Spec d) = Some (frontendLabels fe) \<and>
     om_Labels (pt_Meta (ds_Template (d_Spec d))) = Some (frontendLabels fe) \<and>
     ps_Containers (pt_Spec (ds_Template (d_Spec d))) = [c] \<and> c_Image c = fs_Image (fe_Spec fe) \<and>
     c_VolumeMounts c = populateContainerVolumeMounts env fe \<and> c_Env c = frontendEnvVars fe env \<and>
     ps_Volumes (pt_Spec (ds_Template (d_Spec d))) =
       ps_Volumes (pt_Spec (ds_Template (d_Spec (populateVolumes d0 fe env)))) \<and>
     ps_InitContainers (pt_Spec (ds_Template (d_Spec d))) = ps_InitContainers (pt_Spec (ds_Template (d_Spec d0)))"
  by (simp add: buildFrontendDeployment_def populateContainer_def populateVolumes_def
      GetResourceRequirements_def populateEnvVars_def Let_def labeler_name labeler_namespace deploymentKey_def
      annotations_spec annotations_labels)

lemma deployment_annotation:
  "buildFrontendDeployment u fe env [kvs] d0 = Inr d \<Longrightarrow> map_of kvs k = Some v \<Longrightarrow>
     map_of (entries (om_Annotations (pt_Meta (ds_Template (d_Spec d))))) k = Some v"
  by (auto simp: buildFrontendDeployment_def Let_def bindR_Inr intro: annotations_put)

lemma service_built:
  "nameOf (s_Meta (buildFrontendService u fe env s0)) = frontendKey fe"
  "s_Spec (buildFrontendService u fe env s0) = \<lparr>ss_Ports = createPorts, ss_Selector = Some [(''frontend'', fe_Name fe)]\<rparr>"
  "map_of (entries (om_Labels (s_Meta (buildFrontendService u fe env s0)))) ''frontend'' = Some (fe_Name fe)"
  by (simp_all only: buildFrontendService_def Let_def service_name service_spec) (rule service_labels, simp)

lemma ingress_meta:
  "om_Annotations (i_Meta (buildFrontendIngress u fe env i0)) =
     sslAnnotations env (whitelistAnnotations env (extraAnnotations env (om_Annotations (i_Meta i0))))"
  "nameOf (i_Meta (buildFrontendIngress u fe env i0)) = frontendKey fe"
  by (simp_all add: buildFrontendIngress_def createAnnotationsAndPopulate_def populateConsoleDotIngress_def Let_def
      labeler_name labeler_namespace labeler_annotations frontendKey_def)

end

text \<open>The built objects have the name they were fetched by, so staging replaces them.\<close>

lemma ingress_spec:
  "i_Spec (buildFrontendIngress u fe env i0) =
     defaultNetSpec (orDefault (env_IngressClass (fenv_Spec env)) ''nginx'')
       (orDefault (env_Hostname (fenv_Spec env)) (fs_EnvName (fe_Spec fe)))
       (map (\<lambda>a. createNewIngressPath a (if fs_Image (fe_Spec fe) \<noteq> [] then fe_Name fe else fs_Service (fe_Spec fe)))
         (getFrontendPaths fe))"
  by (simp add: buildFrontendIngress_def createAnnotationsAndPopulate_def populateConsoleDotIngress_def Let_def
      frontendKey_def)

lemma getFrontendPaths_set:
  "set (getFrontendPaths fe) = insert (if fs_AssetsPrefix (fe_Spec fe) \<noteq> []
     then ''/'' @ fs_AssetsPrefix (fe_Spec fe) @ ''/'' @ fe_Name fe else ''/apps/'' @ fe_Name fe)
       (set (fi_Paths (fs_Frontend (fe_Spec fe))))"
  by (auto simp: getFrontendPaths_def Let_def HasPath_iff)

lemma getFrontendPaths_distinct:
  "distinct (getFrontendPaths fe) = distinct (fi_Paths (fs_Frontend (fe_Spec fe)))"
  by (auto simp: getFrontendPaths_def Let_def HasPath_iff)

lemma frontend_label:
  "map_of (frontendLabels fe) ''frontend'' =
     Some (case map_of (entries (om_Labels (fe_Meta fe))) ''frontend'' of None \<Rightarrow> fe_Name fe | Some v \<Rightarrow> v)"
  using getLabels_has_key [of "''frontend''" "fe_Meta fe"] by (auto simp: GetLabels_def split: prod.splits)

text \<open>The annotations the environment sets: its own, the whitelist when it has one, the termination mode when
  it has SSL.\<close>

definition environmentAnnotations :: "FrontendEnvironment \<Rightarrow> string list" where
  "environmentAnnotations env = map fst (entries (env_IngressAnnotations (fenv_Spec env))) @
     (if env_Whitelist (fenv_Spec env) = [] then []
      else [''haproxy.router.openshift.io/ip_whitelist'', ''nginx.ingress.kubernetes.io/whitelist-source-range'']) @
     (if env_SSL (fenv_Spec env) then [''route.openshift.io/termination''] else [])"

lemma annotations_kept:
  assumes "k \<notin> set (environmentAnnotations env)"
  shows "map_of (entries (sslAnnotations env (whitelistAnnotations env (extraAnnotations env m)))) k = map_of (entries m) k"
proof -
  have skip: "map_of (fold (\<lambda>(k, v). AList.update k v) extra m0) k = map_of m0 k" if "k \<notin> fst ` set extra"
    for extra m0 :: strmap
    using that by (induction extra arbitrary: m0) (auto simp: update_conv')
  have "map_of (entries (extraAnnotations env m)) k = map_of (entries m) k"
  proof (cases "env_IngressAnnotations (fenv_Spec env)")
    case (Some extra)
    with skip [of extra "entries m"] assms show ?thesis by (simp add: extraAnnotations_def environmentAnnotations_def)
  qed (simp add: extraAnnotations_def)
  moreover have "map_of (entries (whitelistAnnotations env x)) k = map_of (entries x) k" for x
    using assms by (auto simp: whitelistAnnotations_def environmentAnnotations_def update_conv' split: if_splits)
  moreover have "map_of (entries (sslAnnotations env x)) k = map_of (entries x) k" for x
    using assms by (auto simp: sslAnnotations_def environmentAnnotations_def update_conv' split: if_splits)
  ultimately show ?thesis by simp
qed

text \<open>Frontends to apply the properties to.\<close>

definition relabelled :: Frontend where
  "relabelled = (emptyFrontend ''app'')\<lparr>fe_Meta := emptyMeta\<lparr>om_Name := ''app'', om_Labels := Some [(''frontend'', ''other'')]\<rparr>\<rparr>"

definition servedFrontend :: Frontend where
  "servedFrontend = (emptyFrontend ''app'')\<lparr>fe_Spec := emptySpec\<lparr>fs_Image := ''img''\<rparr>\<rparr>"

lemma emptyDeployment_plain: "ps_InitContainers (pt_Spec (ds_Template (d_Spec emptyDeployment))) = []"
  by (simp add: emptyDeployment_def emptyTemplate_def emptyPodSpec_def)

section \<open>Properties\<close>

text \<open>C25: building the deployment never fails. The result is named after the frontend, runs one
  container of the frontend's image with the replicas asked for, selects exactly the labels it gives
  its pods, and keeps the init containers of the deployment that was read (the code adds none). Its pod is
  well formed (volume names, mount paths and variable names do not repeat and every mount names a volume of
  the pod) exactly when these init containers are, over the volumes that the code puts in place of the old
  ones: for a deployment without init containers always.\<close>

theorem buildFrontendDeployment_correct:
  assumes "osdk_utils u"
  shows "\<exists>d c pod. buildFrontendDeployment u fe env hashes d0 = Inr d \<and> nameOf (d_Meta d) = deploymentKey fe \<and>
    pod = pt_Spec (ds_Template (d_Spec d)) \<and> ps_Containers pod = [c] \<and> c_Image c = fs_Image (fe_Spec fe) \<and>
    ds_Replicas (d_Spec d) = replicasFor fe env \<and>
    ds_Selector (d_Spec d) = om_Labels (pt_Meta (ds_Template (d_Spec d))) \<and>
    ps_InitContainers pod = ps_InitContainers (pt_Spec (ds_Template (d_Spec d0))) \<and>
    wfPodSpec pod = list_all (wfContainer (ps_Volumes pod)) (ps_InitContainers pod)"
proof -
  obtain d c where d: "buildFrontendDeployment u fe env hashes d0 = Inr d" "nameOf (d_Meta d) = deploymentKey fe"
      "ds_Replicas (d_Spec d) = replicasFor fe env" "ds_Selector (d_Spec d) = Some (frontendLabels fe)"
      "om_Labels (pt_Meta (ds_Template (d_Spec d))) = Some (frontendLabels fe)"
    and c: "ps_Containers (pt_Spec (ds_Template (d_Spec d))) = [c]" "c_Image c = fs_Image (fe_Spec fe)"
      "c_VolumeMounts c = populateContainerVolumeMounts env fe" "c_Env c = frontendEnvVars fe env"
    and v: "ps_Volumes (pt_Spec (ds_Template (d_Spec d))) =
        ps_Volumes (pt_Spec (ds_Template (d_Spec (populateVolumes d0 fe env))))"
      "ps_InitContainers (pt_Spec (ds_Template (d_Spec d))) = ps_InitContainers (pt_Spec (ds_Template (d_Spec d0)))"
    using osdk_utils.deployment_built [OF assms] by blast
  note wf = frontend_pod_wf [OF v(1) c(1,3,4)]
  show ?thesis
    by (rule exI [of _ d], rule exI [of _ c], rule exI [of _ "pt_Spec (ds_Template (d_Spec d))"])
      (use d c v(2) wf in simp)
qed

theorem buildFrontendDeployment_correct_witness:
  "\<exists>d. buildFrontendDeployment mergingUtils (emptyFrontend ''app'') emptyEnv [[(''configHash'', ''x'')]] emptyDeployment = Inr d \<and>
     wfPodSpec (pt_Spec (ds_Template (d_Spec d)))"
  using buildFrontendDeployment_correct [OF merging.osdk_utils_axioms, of "emptyFrontend ''app''" emptyEnv
      "[[(''configHash'', ''x'')]]" emptyDeployment]
  by (auto simp: emptyDeployment_plain)

text \<open>C26: the service of a frontend selects the pods of its deployment exactly when the resource
  carries no label "frontend" of its own or carries its own name there. Any other value of that label
  goes to the pods and not to the selector, and the service has no endpoints.\<close>

theorem service_selects_pods:
  assumes "osdk_utils u" and "buildFrontendDeployment u fe env hashes d0 = Inr d"
  shows "entriesIn (ss_Selector (s_Spec (buildFrontendService u fe env s0))) (om_Labels (pt_Meta (ds_Template (d_Spec d)))) =
    (map_of (entries (om_Labels (fe_Meta fe))) ''frontend'' \<in> {None, Some (fe_Name fe)})"
proof -
  have "om_Labels (pt_Meta (ds_Template (d_Spec d))) = Some (frontendLabels fe)"
    using osdk_utils.deployment_built [OF assms(1), of fe env hashes d0] assms(2) by auto
  then show ?thesis
    by (simp add: entriesIn_def osdk_utils.service_built(2) [OF assms(1)] frontend_label split: option.split)
qed

theorem service_selects_pods_witness:
  "\<exists>d. buildFrontendDeployment mergingUtils relabelled emptyEnv [] emptyDeployment = Inr d \<and>
     \<not> entriesIn (ss_Selector (s_Spec (buildFrontendService mergingUtils relabelled emptyEnv emptyService)))
       (om_Labels (pt_Meta (ds_Template (d_Spec d))))"
proof -
  obtain d where d: "buildFrontendDeployment mergingUtils relabelled emptyEnv [] emptyDeployment = Inr d"
    using merging.deployment_built by blast
  have "map_of (entries (om_Labels (fe_Meta relabelled))) ''frontend'' \<notin> {None, Some (fe_Name relabelled)}"
    by (simp add: relabelled_def emptyFrontend_def)
  with d service_selects_pods [OF merging.osdk_utils_axioms d, of emptyService] show ?thesis by blast
qed

text \<open>C27: with an image set, every declared path and the default path of the frontend lead to the
  frontend's own service, in its namespace and on a port that the service has. No path is routed twice
  unless the resource declares it twice.\<close>

theorem ingress_routes_to_service:
  assumes "osdk_utils u" and "fs_Image (fe_Spec fe) \<noteq> []"
  shows "\<exists>host paths b. is_Rules (i_Spec (buildFrontendIngress u fe env i0)) = [\<lparr>ir_Host = host, ir_HTTP = Some paths\<rparr>] \<and>
    set (map ip_Path paths) = insert (if fs_AssetsPrefix (fe_Spec fe) \<noteq> []
      then ''/'' @ fs_AssetsPrefix (fe_Spec fe) @ ''/'' @ fe_Name fe else ''/apps/'' @ fe_Name fe)
        (set (fi_Paths (fs_Frontend (fe_Spec fe)))) \<and>
    distinct (map ip_Path paths) = distinct (fi_Paths (fs_Frontend (fe_Spec fe))) \<and>
    ip_Service ` set paths = {Some b} \<and>
    \<lparr>nn_Namespace = om_Namespace (i_Meta (buildFrontendIngress u fe env i0)), nn_Name = ib_Name b\<rparr> =
      nameOf (s_Meta (buildFrontendService u fe env s0)) \<and>
    ib_PortNumber b \<in> sp_Port ` set (ss_Ports (s_Spec (buildFrontendService u fe env s0)))"
proof -
  let ?paths = "map (\<lambda>a. createNewIngressPath a (fe_Name fe)) (getFrontendPaths fe)"
  have rules: "is_Rules (i_Spec (buildFrontendIngress u fe env i0)) =
      [\<lparr>ir_Host = orDefault (env_Hostname (fenv_Spec env)) (fs_EnvName (fe_Spec fe)), ir_HTTP = Some ?paths\<rparr>]"
    using assms(2) by (simp add: ingress_spec defaultNetSpec_def)
  have paths: "map ip_Path ?paths = getFrontendPaths fe"
    by (simp add: createNewIngressPath_def comp_def)
  have backend: "ip_Service ` set ?paths = {Some \<lparr>ib_Name = fe_Name fe, ib_PortNumber = 8000\<rparr>}"
    using getFrontendPaths_set [of fe] by (auto simp: createNewIngressPath_def)
  show ?thesis
    unfolding rules
    by (rule exI, rule exI [of _ ?paths], rule exI, intro conjI, rule refl,
        simp only: paths getFrontendPaths_set, simp only: paths getFrontendPaths_distinct, rule backend)
      (use osdk_utils.service_built [OF assms(1)] osdk_utils.ingress_meta(2) [OF assms(1)]
        in \<open>simp_all add: frontendKey_def createPorts_def\<close>)
qed

theorem ingress_routes_to_service_witness:
  "fs_Image (fe_Spec servedFrontend) \<noteq> [] \<and>
   (\<exists>host paths. is_Rules (i_Spec (buildFrontendIngress mergingUtils servedFrontend emptyEnv emptyIngress)) =
      [\<lparr>ir_Host = host, ir_HTTP = Some paths\<rparr>] \<and> distinct (map ip_Path paths))"
proof -
  have image: "fs_Image (fe_Spec servedFrontend) \<noteq> []" by (simp add: servedFrontend_def)
  show ?thesis
    using image ingress_routes_to_service [OF merging.osdk_utils_axioms image, of emptyEnv emptyIngress emptyService]
    by (fastforce simp: servedFrontend_def emptySpec_def)
qed

text \<open>C38: the service monitor finds the service of the frontend: its selector is among the service's
  labels, the service's namespace is one it looks in, and the port it scrapes is a port of the
  service.\<close>

theorem monitor_finds_service:
  assumes "osdk_utils u"
  shows "entriesIn (sm_Selector (buildServiceMonitor u fe env nn m))
      (om_Labels (s_Meta (buildFrontendService u fe env s0))) \<and>
    om_Namespace (s_Meta (buildFrontendService u fe env s0)) \<in> set (sm_NamespaceSelector (buildServiceMonitor u fe env nn m)) \<and>
    ep_Port ` set (sm_Endpoints (buildServiceMonitor u fe env nn m)) \<subseteq>
      sp_Name ` set (ss_Ports (s_Spec (buildFrontendService u fe env s0)))"
  using osdk_utils.service_built [OF assms]
  by (simp add: buildServiceMonitor_def frontendKey_def createPorts_def entriesIn_def)

theorem monitor_finds_service_witness:
  "map_of (entries (om_Labels (s_Meta (buildFrontendService mergingUtils servedFrontend emptyEnv emptyService))))
     ''frontend'' = Some ''app''"
  using monitor_finds_service [OF merging.osdk_utils_axioms, of servedFrontend emptyEnv]
  by (auto simp: buildServiceMonitor_def servedFrontend_def emptyFrontend_def entriesIn_def)

text \<open>C37: an annotation that the ingress already has is kept unless the environment sets it: by its own
  ingress annotations, by its whitelist when that is not empty, or by the termination mode when SSL is on. So
  a whitelist that was written once stays on the ingress when the whitelist of the environment is emptied,
  with SSL on or off, and so does the termination mode when SSL is switched off.\<close>

theorem ingress_keeps_annotations:
  assumes "osdk_utils u"
    and "k \<notin> set (map fst (entries (env_IngressAnnotations (fenv_Spec env))))"
    and "k \<in> {''haproxy.router.openshift.io/ip_whitelist'', ''nginx.ingress.kubernetes.io/whitelist-source-range''} \<Longrightarrow>
      env_Whitelist (fenv_Spec env) = []"
    and "k = ''route.openshift.io/termination'' \<Longrightarrow> \<not> env_SSL (fenv_Spec env)"
  shows "map_of (entries (om_Annotations (i_Meta (buildFrontendIngress u fe env i0)))) k =
    map_of (entries (om_Annotations (i_Meta i0))) k"
proof -
  have "k \<notin> set (environmentAnnotations env)" using assms(2-4) by (auto simp: environmentAnnotations_def)
  then show ?thesis using annotations_kept by (simp add: osdk_utils.ingress_meta(1) [OF assms(1)])
qed

theorem ingress_keeps_annotations_witness:
  "map_of (entries (om_Annotations (i_Meta (buildFrontendIngress mergingUtils servedFrontend
     (emptyEnv\<lparr>fenv_Spec := emptyEnvSpec\<lparr>env_SSL := True\<rparr>\<rparr>)
     (emptyIngress\<lparr>i_Meta := emptyMeta\<lparr>om_Annotations := Some [(''haproxy.router.openshift.io/ip_whitelist'', ''10.0.0.1'')]\<rparr>\<rparr>)))))
     ''haproxy.router.openshift.io/ip_whitelist'' = Some ''10.0.0.1''"
  by (subst ingress_keeps_annotations [OF merging.osdk_utils_axioms]) (simp_all add: emptyEnvSpec_def)

end
