(* ===== verification/Jobs.thy ===== *)
theory Jobs
  imports Workload
begin

text \<open>
  The two jobs of a frontend in \<^verbatim>\<open>controllers/reconcile.go\<close>: the Akamai cache-bust job and the
  push-cache job. \<open>createOrUpdateJob\<close> keeps a job that is current, deletes one that is not and creates
  a new one. The two \<open>populate\<close> functions fill the pod of a new job and create a config map on the
  way.

  A job's creation time is the text that the code compares, \<^verbatim>\<open>2006-01-02T15:04:05Z\<close>.
\<close>

section \<open>Pods of the jobs\<close>

definition templateAnnotations :: "Job \<Rightarrow> strmap option" where
  "templateAnnotations j = om_Annotations (pt_Meta (js_Template (j_Spec j)))"

definition setTemplate :: "Job \<Rightarrow> PodSpec \<Rightarrow> strmap option \<Rightarrow> Job" where
  "setTemplate j p annotations = j\<lparr>j_Spec := (j_Spec j)\<lparr>js_Template :=
     \<lparr>pt_Meta = (pt_Meta (js_Template (j_Spec j)))\<lparr>om_Annotations := annotations\<rparr>, pt_Spec = p\<rparr>\<rparr>\<rparr>"

definition podOf :: "Job \<Rightarrow> PodSpec" where
  "podOf j = pt_Spec (js_Template (j_Spec j))"

definition createIfAbsent :: "'w FrontendReconciliation \<Rightarrow> ConfigMap \<Rightarrow> ('w, unit) act" where
  "createIfAbsent r configMap =
     handleA (rs_Create (fr_ConfigMaps r) configMap) returnA (\<lambda>e. if IsAlreadyExists e then returnA () else failA e)"

text \<open>The config map both functions prepare: named, labelled, owned by the frontend.\<close>

definition jobConfigMap :: "'w FrontendReconciliation \<Rightarrow> string \<Rightarrow> strmap option \<Rightarrow> ConfigMap" where
  "jobConfigMap r name data =
     (let nn = \<lparr>nn_Namespace = om_Namespace (fe_Meta (fr_Frontend r)), nn_Name = name\<rparr>;
          named = emptyMeta\<lparr>om_Name := name, om_Namespace := om_Namespace (fe_Meta (fr_Frontend r))\<rparr>;
          labelled = ou_GetCustomLabeler (fr_Utils r) (fst (GetEnvLabels (fr_Env r))) nn (EnvironmentOwner (fr_Env r)) named
      in \<lparr>cm_Meta = labelled\<lparr>om_OwnerReferences := [MakeOwnerReference (fr_Frontend r)]\<rparr>, cm_Data = data\<rparr>)"

definition getAkamaiSecret :: "'w FrontendReconciliation \<Rightarrow> string \<Rightarrow> ('w, Secret) act" where
  "getAkamaiSecret r secretName =
     fr_GetSecret r \<lparr>nn_Namespace = om_Namespace (fe_Meta (fr_Frontend r)), nn_Name = secretName\<rparr>"

definition plainContainer :: "string \<Rightarrow> string \<Rightarrow> VolumeMount list \<Rightarrow> string list \<Rightarrow> Container" where
  "plainContainer name img mounts command = \<lparr>c_Name = name, c_Image = img, c_Command = command, c_Ports = [],
     c_Env = [], c_VolumeMounts = mounts, c_Resources = noResources, c_LivenessProbe = None, c_ReadinessProbe = None\<rparr>"

definition cacheBustPod :: "Frontend \<Rightarrow> FrontendEnvironment \<Rightarrow> PodSpec \<Rightarrow> PodSpec" where
  "cacheBustPod fe env p =
     p\<lparr>ps_Volumes := [\<lparr>vo_Name = ''akamai-edgerc'', vo_Source = ConfigMapSource ''akamai-edgerc'' []\<rparr>],
       ps_Containers := [plainContainer ''akamai-cache-bust'' (env_AkamaiCacheBustImage (fenv_Spec env))
         [\<lparr>vm_Name = ''akamai-edgerc'', vm_MountPath = ''/opt/app-root/edgerc'', vm_SubPath = ''edgerc''\<rparr>]
         [''/bin/bash'', ''-c'',
          ''sleep 120; /cli/.akamai-cli/src/cli-purge/bin/akamai-purge --edgerc /opt/app-root/edgerc delete '' @
            Join (createCachePurgePathList fe env) '' '']],
       ps_RestartPolicy := ''Never''\<rparr>"

definition populateCacheBustContainer :: "'w FrontendReconciliation \<Rightarrow> Job \<Rightarrow> ('w, Job) act" where
  "populateCacheBustContainer r j =
     bindA (getAkamaiSecret r (getAkamaiSecretName (fr_Env r))) (\<lambda>secret.
     bindA (createIfAbsent r (jobConfigMap r ''akamai-edgerc''
         (Some [(''edgerc'', makeAkamaiEdgercFileFromSecret (sec_Data secret))]))) (\<lambda>_.
       returnA (setTemplate j (cacheBustPod (fr_Frontend r) (fr_Env r) (podOf j))
         (mapPut (templateAnnotations j) ''kube-linter.io/ignore-all'' ''we don't need no any checking''))))"

definition valpopError :: go_error where
  "valpopError = Errorf ''ValpopImage must be specified in the FrontendEnvironment when PushCache is enabled''"

definition pushCacheCommand :: "Frontend \<Rightarrow> string \<Rightarrow> string \<Rightarrow> string \<Rightarrow> string \<Rightarrow> string \<Rightarrow> string \<Rightarrow> string" where
  "pushCacheCommand fe valpopImage bucketName hostname port awsUsername awsPassword =
     ''valpop populate -r '' @ fe_Name fe @ '' -s /assets -i '' @ fs_Image (fe_Spec fe) @
     '' --valpop-image '' @ valpopImage @ '' --timeout 172800 --bucket '' @ bucketName @
     '' --hostname '' @ hostname @ '' --port '' @ port @
     '' --username '' @ awsUsername @ '' --password '' @ awsPassword"

definition pushCachePod :: "Frontend \<Rightarrow> string \<Rightarrow> string \<Rightarrow> PodSpec \<Rightarrow> PodSpec" where
  "pushCachePod fe valpopImage command p =
     (let assets = \<lparr>vm_Name = ''frontend-assets'', vm_MountPath = ''/assets'', vm_SubPath = []\<rparr> in
      p\<lparr>ps_Volumes := [\<lparr>vo_Name = ''pushcache-volume'', vo_Source = ConfigMapSource (fs_EnvName (fe_Spec fe)) []\<rparr>,
          \<lparr>vo_Name = ''frontend-assets'', vo_Source = EmptyDirSource\<rparr>],
        ps_InitContainers := [plainContainer ''copy-frontend-assets'' (fs_Image (fe_Spec fe)) [assets]
          [''/bin/sh'', ''-c'', ''cp -r /srv/dist/* /assets/'']],
        ps_Containers := [plainContainer ''valpop-pushcache'' valpopImage
          [\<lparr>vm_Name = ''pushcache-volume'', vm_MountPath = ''/opt/pushcache-volume'', vm_SubPath = []\<rparr>, assets]
          [''/bin/bash'', ''-c'', command]],
        ps_RestartPolicy := ''Never''\<rparr>)"

definition populatePushCacheContainer :: "'w FrontendReconciliation \<Rightarrow> Job \<Rightarrow> ('w, Job) act" where
  "populatePushCacheContainer r j =
     bindA (createIfAbsent r (jobConfigMap r ''pushcache'' None)) (\<lambda>_.
     bindA (fr_ListSecrets r (om_Namespace (fe_Meta (fr_Frontend r)))) (\<lambda>_.
     bindA (liftA (ExtractBucketConfigFromEnv (fr_Getenv r))) (\<lambda>objectStoreInfo.
     let valpopImage = env_ValpopImage (fenv_Spec (fr_Env r)) in
     if valpopImage = [] then failA valpopError
     else
     bindA (liftA (deref (ob_Name objectStoreInfo))) (\<lambda>bucketName.
     bindA (liftA (deref (ob_Endpoint objectStoreInfo))) (\<lambda>hostname.
     bindA (liftA (deref (ob_Port objectStoreInfo))) (\<lambda>port.
     bindA (liftA (deref (ob_AccessKey objectStoreInfo))) (\<lambda>awsUsername.
     bindA (liftA (deref (ob_SecretKey objectStoreInfo))) (\<lambda>awsPassword.
       returnA (setTemplate j
         (pushCachePod (fr_Frontend r) valpopImage
           (pushCacheCommand (fr_Frontend r) valpopImage bucketName hostname port awsUsername awsPassword) (podOf j))
         (mapPut (mapPut (templateAnnotations j) ''valpop-image'' valpopImage)
           ''kube-linter.io/ignore-all'' ''we don't need no any checking'')))))))))) "

section \<open>Life cycle\<close>

definition generateCacheBustJobName :: "Frontend \<Rightarrow> string" where
  "generateCacheBustJobName fe = fe_Name fe @ ''-frontend-cachebust''"

definition generatePushCacheJobName :: "Frontend \<Rightarrow> string" where
  "generatePushCacheJobName fe = fe_Name fe @ ''-frontend-pushcache''"

definition jobKey :: "'w FrontendReconciliation \<Rightarrow> string \<Rightarrow> NamespacedName" where
  "jobKey r jobName = \<lparr>nn_Namespace = om_Namespace (fe_Meta (fr_Frontend r)), nn_Name = jobName\<rparr>"

definition getExistingJob :: "'w FrontendReconciliation \<Rightarrow> string \<Rightarrow> ('w, Job option) act" where
  "getExistingJob r jobName =
     handleA (rs_Get (fr_Jobs r) (jobKey r jobName)) (\<lambda>j. returnA (Some j))
       (\<lambda>e. if IsNotFound e then returnA None else failA e)"

definition isJobFromCurrentFrontendImage :: "'w FrontendReconciliation \<Rightarrow> Job \<Rightarrow> bool" where
  "isJobFromCurrentFrontendImage r j =
     (lookup0 (templateAnnotations j) ''frontend-image'' = fs_Image (fe_Spec (fr_Frontend r)))"

definition isJobFromCurrentValpopImage :: "'w FrontendReconciliation \<Rightarrow> Job \<Rightarrow> bool" where
  "isJobFromCurrentValpopImage r j =
     (case map_of (entries (templateAnnotations j)) ''valpop-image'' of
        None \<Rightarrow> False | Some valpopImage \<Rightarrow> valpopImage = env_ValpopImage (fenv_Spec (fr_Env r)))"

definition isJobBehindCutoffTimestamp :: "Job \<Rightarrow> string \<Rightarrow> string \<Rightarrow> bool" where
  "isJobBehindCutoffTimestamp j jobName deployCutoffTimestamp =
     (if deployCutoffTimestamp = [] \<or> \<not> Contains jobName ''pushcache'' then False
      else om_CreationTimestamp (j_Meta j) < deployCutoffTimestamp)"

definition jobIsCurrent :: "'w FrontendReconciliation \<Rightarrow> string \<Rightarrow> Job \<Rightarrow> bool" where
  "jobIsCurrent r jobName j =
     (\<not> (\<not> isJobFromCurrentFrontendImage r j \<or> \<not> isJobFromCurrentValpopImage r j \<or>
        isJobBehindCutoffTimestamp j jobName (env_DeployCutoffTimestampPushCache (fenv_Spec (fr_Env r)))))"

definition manageExistingJob :: "'w FrontendReconciliation \<Rightarrow> string \<Rightarrow> ('w, bool) act" where
  "manageExistingJob r jobName =
     bindA (getExistingJob r jobName) (\<lambda>existing.
       case existing of
         None \<Rightarrow> returnA False
       | Some j \<Rightarrow>
           if \<not> jobIsCurrent r jobName j then bindA (rs_Delete (fr_Jobs r) j) (\<lambda>_. returnA False)
           else returnA True)"

definition newJob :: "'w FrontendReconciliation \<Rightarrow> string \<Rightarrow> Job" where
  "newJob r jobName =
     (let named = emptyMeta\<lparr>om_Name := jobName, om_Namespace := om_Namespace (fe_Meta (fr_Frontend r))\<rparr>;
          labelled = ou_GetCustomLabeler (fr_Utils r) (fst (GetLabels (fr_Frontend r))) (jobKey r jobName)
            (FrontendOwner (fr_Frontend r)) named
      in \<lparr>j_Meta = labelled\<lparr>om_OwnerReferences := [MakeOwnerReference (fr_Frontend r)]\<rparr>,
          j_Spec = \<lparr>js_Completions = Some 1,
            js_Template = \<lparr>pt_Meta = emptyMeta\<lparr>om_Annotations :=
                mapPut (mapPut (Some []) ''frontend-image'' (fs_Image (fe_Spec (fr_Frontend r))))
                  ''kube-linter.io/ignore-all'' ''we don't need no any checking''\<rparr>,
              pt_Spec = emptyPodSpec\<lparr>ps_RestartPolicy := ''Never''\<rparr>\<rparr>\<rparr>\<rparr>)"

definition createOrUpdateJob :: "'w FrontendReconciliation \<Rightarrow> string \<Rightarrow> (Job \<Rightarrow> ('w, Job) act) \<Rightarrow> ('w, unit) act" where
  "createOrUpdateJob r jobName populate =
     bindA (manageExistingJob r jobName) (\<lambda>skipUpdate.
       if skipUpdate then returnA ()
       else bindA (populate (newJob r jobName)) (rs_Create (fr_Jobs r)))"

section \<open>What a run over a job does\<close>

abbreviation jobName :: "Job \<Rightarrow> NamespacedName" where
  "jobName j \<equiv> nameOf (j_Meta j)"

lemma setTemplate_simps [simp]:
  "j_Meta (setTemplate j p a) = j_Meta j" "podOf (setTemplate j p a) = p" "templateAnnotations (setTemplate j p a) = a"
  by (simp_all add: setTemplate_def podOf_def templateAnnotations_def)

lemma populateCacheBust_result:
  assumes "populateCacheBustContainer r j w = (Inr j', w')"
  shows "j' = setTemplate j (cacheBustPod (fr_Frontend r) (fr_Env r) (podOf j))
    (mapPut (templateAnnotations j) ''kube-linter.io/ignore-all'' ''we don't need no any checking'')"
  using assms by (auto simp: populateCacheBustContainer_def bindA_Inr)

lemma populatePushCache_result:
  assumes "populatePushCacheContainer r j w = (Inr j', w')"
  shows "\<exists>command. env_ValpopImage (fenv_Spec (fr_Env r)) \<noteq> [] \<and>
    j' = setTemplate j (pushCachePod (fr_Frontend r) (env_ValpopImage (fenv_Spec (fr_Env r))) command (podOf j))
      (mapPut (mapPut (templateAnnotations j) ''valpop-image'' (env_ValpopImage (fenv_Spec (fr_Env r))))
        ''kube-linter.io/ignore-all'' ''we don't need no any checking'')"
  using assms by (auto simp: populatePushCacheContainer_def bindA_Inr Let_def split: if_splits)

lemma newJob_annotations:
  "templateAnnotations (newJob r n) = mapPut (mapPut (Some []) ''frontend-image'' (fs_Image (fe_Spec (fr_Frontend r))))
     ''kube-linter.io/ignore-all'' ''we don't need no any checking''"
  by (simp add: newJob_def templateAnnotations_def Let_def)

lemma newJob_pod: "podOf (newJob r n) = emptyPodSpec\<lparr>ps_RestartPolicy := ''Never''\<rparr>"
  by (simp add: newJob_def podOf_def Let_def)

context osdk_utils
begin

lemma newJob_name: "fr_Utils r = u \<Longrightarrow> nameOf (j_Meta (newJob r n)) = jobKey r n"
  by (simp add: newJob_def Let_def labeler_name labeler_namespace jobKey_def)

end

text \<open>The server as the job code uses it.\<close>

locale job_api =
  fixes r :: "'w FrontendReconciliation"
    and jview :: "'w \<Rightarrow> NamespacedName \<Rightarrow> Job option"
  assumes jobs_api: "api_resource (fr_Jobs r) jview jobName sameJob"
    and configs_frame: "keepsView (fr_ConfigMaps r) jview"
    and secret_frame: "jview (snd (fr_GetSecret r nn w)) = jview w"
    and secrets_frame: "jview (snd (fr_ListSecrets r ns w)) = jview w"
    and utils: "osdk_utils (fr_Utils r)"
begin

lemma populate_keeps:
  "jview (snd (populateCacheBustContainer r j w)) = jview w"
  "jview (snd (populatePushCacheContainer r j w)) = jview w"
proof -
  have "jview (snd (createIfAbsent r c w)) = jview w" for c w
    unfolding createIfAbsent_def by (rule handleA_keeps) (use configs_frame in \<open>auto simp: keepsView_def\<close>)
  then show "jview (snd (populateCacheBustContainer r j w)) = jview w"
    "jview (snd (populatePushCacheContainer r j w)) = jview w"
    unfolding populateCacheBustContainer_def populatePushCacheContainer_def getAkamaiSecret_def Let_def
    by (auto simp: secret_frame secrets_frame intro!: bindA_keeps)
qed

lemma getExisting:
  assumes "getExistingJob r n w = (Inr x, w')"
  shows "x = jview w (jobKey r n)" and "jview w' = jview w"
proof -
  obtain g w1 where g: "rs_Get (fr_Jobs r) (jobKey r n) w = (g, w1)" by fastforce
  then have keep: "jview w1 = jview w" by (rule api_resource.get_reads [OF jobs_api])
  show "x = jview w (jobKey r n)"
  proof (cases g)
    case (Inl e)
    with g assms have "IsNotFound e" "x = None" by (auto simp: getExistingJob_def handleA_def split: if_splits)
    with g Inl show ?thesis using api_resource.get_missing [OF jobs_api] by simp
  next
    case (Inr j)
    with g assms show ?thesis using api_resource.get_found [OF jobs_api] by (simp add: getExistingJob_def handleA_def)
  qed
  show "jview w' = jview w"
    using g assms keep by (auto simp: getExistingJob_def handleA_def split: sum.splits if_splits)
qed

lemma manage:
  assumes "manageExistingJob r n w = (Inr skip, w')"
  shows "if skip then (\<exists>j. jview w (jobKey r n) = Some j \<and> jobIsCurrent r n j) \<and> jview w' = jview w
    else jview w' = (jview w)(jobKey r n := None) \<and>
      (\<forall>j. jview w (jobKey r n) = Some j \<longrightarrow> \<not> jobIsCurrent r n j)"
proof -
  from assms obtain x w1 where get: "getExistingJob r n w = (Inr x, w1)"
    and rest: "(case x of None \<Rightarrow> returnA False | Some j \<Rightarrow> if \<not> jobIsCurrent r n j
        then bindA (rs_Delete (fr_Jobs r) j) (\<lambda>_. returnA False) else returnA True) w1 = (Inr skip, w')"
    unfolding manageExistingJob_def bindA_Inr by blast
  note x = getExisting [OF get]
  show ?thesis
  proof (cases x)
    case None
    with rest x show ?thesis by (auto simp: fun_upd_idem)
  next
    case (Some j)
    show ?thesis
    proof (cases "jobIsCurrent r n j")
      case True
      with Some rest x show ?thesis by auto
    next
      case False
      with Some rest have del: "rs_Delete (fr_Jobs r) j w1 = (Inr (), w')" and "\<not> skip"
        by (auto simp: bindA_Inr)
      moreover have "jobName j = jobKey r n"
        using x Some api_resource.view_name [OF jobs_api] by metis
      ultimately show ?thesis
        using api_resource.delete_removes [OF jobs_api del] False x Some by auto
    qed
  qed
qed

lemma createOrUpdate:
  assumes run: "createOrUpdateJob r n populate w = (Inr (), w')"
    and keeps: "\<And>j w. jview (snd (populate j w)) = jview w"
    and names: "\<And>j w1 w2. populate (newJob r n) w1 = (Inr j, w2) \<Longrightarrow> j_Meta j = j_Meta (newJob r n)"
  obtains (kept) j where "jview w (jobKey r n) = Some j" "jobIsCurrent r n j" "jview w' = jview w"
    | (created) j j' w1 w2 where "populate (newJob r n) w1 = (Inr j, w2)" "sameJob j j'"
        "jview w' = (jview w)(jobKey r n \<mapsto> j')"
proof -
  from run obtain skip w1 where m: "manageExistingJob r n w = (Inr skip, w1)"
    and rest: "(if skip then returnA () else bindA (populate (newJob r n)) (rs_Create (fr_Jobs r))) w1 = (Inr (), w')"
    unfolding createOrUpdateJob_def bindA_Inr by blast
  show ?thesis
  proof (cases skip)
    case True
    with manage [OF m] rest kept show ?thesis by auto
  next
    case False
    with rest obtain j w2 where p: "populate (newJob r n) w1 = (Inr j, w2)"
      and c: "rs_Create (fr_Jobs r) j w2 = (Inr (), w')" by (auto simp: bindA_Inr)
    from api_resource.create_stores [OF jobs_api c] obtain j' where
      j': "sameJob j j'" "jview w' = (jview w2)(jobName j \<mapsto> j')" by blast
    have "jobName j = jobKey r n" using names [OF p] osdk_utils.newJob_name [OF utils refl] by simp
    moreover have "jview w2 = (jview w)(jobKey r n := None)"
      using keeps [of "newJob r n" w1] p manage [OF m] False by simp
    ultimately show ?thesis using created [OF p j'(1)] j'(2) by simp
  qed
qed

end

interpretation cluster_jobs: job_api "clusterReconciliation getenv env fe" "storeView cl_Jobs jobName"
  for getenv env fe
proof (rule job_api.intro)
  show "keepsView (fr_ConfigMaps (clusterReconciliation getenv env fe)) (storeView cl_Jobs jobName)"
    by (simp add: clusterReconciliation_def clusterConfigMaps_def storeResource_keeps storeView_def fun_eq_iff)
qed (simp_all add: clusterReconciliation_def jobs.api_resource_axioms merging.osdk_utils_axioms split: option.split)

section \<open>Consequences\<close>

text \<open>The annotations of the pods are kept as they were sent, and so are the images.\<close>

lemma sameJob_annotations:
  "sameJob a b \<Longrightarrow> entries (templateAnnotations b) = entries (templateAnnotations a)"
  by (simp add: sameJob_def keepsTemplate_def sameMap_def templateAnnotations_def)

lemma sameJob_images:
  assumes "sameJob a b"
  shows "map c_Image (ps_InitContainers (podOf b)) = map c_Image (ps_InitContainers (podOf a))"
    and "map c_Image (ps_Containers (podOf b)) = map c_Image (ps_Containers (podOf a))"
    and "map c_Command (ps_Containers (podOf b)) = map c_Command (ps_Containers (podOf a))"
proof -
  have same: "map f ys = map f xs" if "list_all2 keepsContainer xs ys" "\<And>x y. keepsContainer x y \<Longrightarrow> f y = f x"
    for xs ys and f :: "Container \<Rightarrow> 'x"
    using that(1) by induction (simp_all add: that(2))
  have "list_all2 keepsContainer (ps_InitContainers (podOf a)) (ps_InitContainers (podOf b))"
    "list_all2 keepsContainer (ps_Containers (podOf a)) (ps_Containers (podOf b))"
    using assms by (simp_all add: sameJob_def keepsTemplate_def keepsPodSpec_def podOf_def)
  then show "map c_Image (ps_InitContainers (podOf b)) = map c_Image (ps_InitContainers (podOf a))"
    "map c_Image (ps_Containers (podOf b)) = map c_Image (ps_Containers (podOf a))"
    "map c_Command (ps_Containers (podOf b)) = map c_Command (ps_Containers (podOf a))"
    by (auto intro!: same simp: keepsContainer_def)
qed

text \<open>What a push-cache job is made from: its annotations name the two images, and its pod copies the
  assets out of the frontend image and runs the valpop image.\<close>

definition annotatedWith :: "string \<Rightarrow> string \<Rightarrow> Job \<Rightarrow> bool" where
  "annotatedWith frontendImage valpopImage j =
     (lookup0 (templateAnnotations j) ''frontend-image'' = frontendImage \<and>
      map_of (entries (templateAnnotations j)) ''valpop-image'' = Some valpopImage)"

definition runsImages :: "string \<Rightarrow> string \<Rightarrow> Job \<Rightarrow> bool" where
  "runsImages frontendImage valpopImage j =
     (map c_Image (ps_InitContainers (podOf j)) = [frontendImage] \<and> map c_Image (ps_Containers (podOf j)) = [valpopImage])"

lemma current_annotated:
  "jobIsCurrent r n j \<Longrightarrow> annotatedWith (fs_Image (fe_Spec (fr_Frontend r))) (env_ValpopImage (fenv_Spec (fr_Env r))) j"
  by (auto simp: jobIsCurrent_def annotatedWith_def isJobFromCurrentFrontendImage_def isJobFromCurrentValpopImage_def
      split: option.splits)

lemma annotated_current:
  "annotatedWith (fs_Image (fe_Spec (fr_Frontend r))) (env_ValpopImage (fenv_Spec (fr_Env r))) j \<Longrightarrow>
     env_DeployCutoffTimestampPushCache (fenv_Spec (fr_Env r)) = [] \<Longrightarrow> jobIsCurrent r n j"
  by (simp add: jobIsCurrent_def annotatedWith_def isJobFromCurrentFrontendImage_def isJobFromCurrentValpopImage_def
      isJobBehindCutoffTimestamp_def)

lemma pushCache_job_fresh:
  assumes "populatePushCacheContainer r (newJob r n) w1 = (Inr j, w2)" and "sameJob j j'"
  shows "annotatedWith (fs_Image (fe_Spec (fr_Frontend r))) (env_ValpopImage (fenv_Spec (fr_Env r))) j'"
    and "runsImages (fs_Image (fe_Spec (fr_Frontend r))) (env_ValpopImage (fenv_Spec (fr_Env r))) j'"
  using populatePushCache_result [OF assms(1)] sameJob_annotations [OF assms(2)] sameJob_images [OF assms(2)]
  by (auto simp: annotatedWith_def runsImages_def lookup0_entries newJob_annotations update_conv' pushCachePod_def
      plainContainer_def Let_def)

lemma cacheBust_job_unmarked:
  assumes "populateCacheBustContainer r (newJob r n) w1 = (Inr j, w2)" and "sameJob j j'"
  shows "map_of (entries (templateAnnotations j')) ''valpop-image'' = None"
  using populateCacheBust_result [OF assms(1)] sameJob_annotations [OF assms(2)]
  by (simp add: newJob_annotations update_conv')

context job_api
begin

lemma pushCache_established:
  assumes "createOrUpdateJob r n (populatePushCacheContainer r) w = (Inr (), w')"
  shows "\<exists>j. jview w' (jobKey r n) = Some j \<and>
    annotatedWith (fs_Image (fe_Spec (fr_Frontend r))) (env_ValpopImage (fenv_Spec (fr_Env r))) j \<and>
    (runsImages (fs_Image (fe_Spec (fr_Frontend r))) (env_ValpopImage (fenv_Spec (fr_Env r))) j \<or>
      jview w (jobKey r n) = Some j \<and> jobIsCurrent r n j)"
  using assms populate_keeps(2)
proof (rule createOrUpdate)
  show "j_Meta j = j_Meta (newJob r n)" if "populatePushCacheContainer r (newJob r n) w1 = (Inr j, w2)" for j w1 w2
    using populatePushCache_result [OF that] by auto
next
  fix j assume "jview w (jobKey r n) = Some j" "jobIsCurrent r n j" "jview w' = jview w"
  then show ?thesis using current_annotated by auto
next
  fix j j' w1 w2
  assume new: "populatePushCacheContainer r (newJob r n) w1 = (Inr j, w2)" "sameJob j j'"
    and "jview w' = (jview w)(jobKey r n \<mapsto> j')"
  with pushCache_job_fresh [OF new] show ?thesis by simp
qed

lemma current_kept:
  assumes "jview w (jobKey r n) = Some j" and "jobIsCurrent r n j" and "createOrUpdateJob r n populate w = (u, w')"
  shows "jview w' = jview w"
proof (cases "manageExistingJob r n w")
  case (Pair skip w1)
  show ?thesis
  proof (cases skip)
    case (Inl e)
    obtain g w2 where g: "getExistingJob r n w = (g, w2)" by fastforce
    have "jview w2 = jview w"
    proof (cases g)
      case (Inl e')
      obtain h w3 where h: "rs_Get (fr_Jobs r) (jobKey r n) w = (h, w3)" by fastforce
      then have "w2 = w3" using g by (auto simp: getExistingJob_def handleA_def split: sum.splits if_splits)
      with h show ?thesis using api_resource.get_reads [OF jobs_api] by blast
    next
      case (Inr x)
      with g getExisting(2) show ?thesis by simp
    qed
    moreover have "w1 = w2"
      using Pair Inl g assms(1,2) getExisting(1) by (auto simp: manageExistingJob_def bindA_def split: sum.splits)
    ultimately show ?thesis using assms(3) Pair Inl by (simp add: createOrUpdateJob_def bindA_def)
  next
    case (Inr b)
    with Pair manage [of n w b w1] assms have "b" "jview w1 = jview w" by (auto split: if_splits)
    with assms(3) Pair Inr show ?thesis by (simp add: createOrUpdateJob_def bindA_def)
  qed
qed

text \<open>A job without the valpop annotation is deleted and another one is created.\<close>

lemma unmarked_replaced:
  assumes run: "createOrUpdateJob r n populate w = (Inr (), w')"
    and unmarked: "\<And>j. jview w (jobKey r n) = Some j \<Longrightarrow> map_of (entries (templateAnnotations j)) ''valpop-image'' = None"
  obtains wd j wp where "manageExistingJob r n w = (Inr False, wd)" "jview wd = (jview w)(jobKey r n := None)"
    "populate (newJob r n) wd = (Inr j, wp)" "rs_Create (fr_Jobs r) j wp = (Inr (), w')"
proof -
  from run obtain skip wd where m: "manageExistingJob r n w = (Inr skip, wd)"
    and rest: "(if skip then returnA () else bindA (populate (newJob r n)) (rs_Create (fr_Jobs r))) wd = (Inr (), w')"
    unfolding createOrUpdateJob_def bindA_Inr by blast
  have "\<not> jobIsCurrent r n j" if "jview w (jobKey r n) = Some j" for j
    using unmarked [OF that] by (simp add: jobIsCurrent_def isJobFromCurrentValpopImage_def)
  with manage [OF m] have "\<not> skip" "jview wd = (jview w)(jobKey r n := None)" by (auto split: if_splits)
  with m rest that show thesis by (auto simp: bindA_Inr)
qed

end

section \<open>Runs on the cluster store\<close>

definition demoJobs :: "Cluster FrontendReconciliation" where
  "demoJobs = clusterReconciliation (\<lambda>_. ''x'') (emptyEnv\<lparr>fenv_Spec := emptyEnvSpec\<lparr>env_ValpopImage := ''v''\<rparr>\<rparr>) servedFrontend"

definition secretCluster :: Cluster where
  "secretCluster = emptyCluster\<lparr>cl_Secrets := [(\<lparr>nn_Namespace = [], nn_Name = ''akamai''\<rparr>,
     \<lparr>sec_Meta = emptyMeta, sec_Data = None\<rparr>)]\<rparr>"

lemmas job_run_defs = demoJobs_def clusterReconciliation_def createOrUpdateJob_def manageExistingJob_def
  getExistingJob_def handleA_def bindA_def clusterJobs_def clusterConfigMaps_def storeResource_def admitting_def storeView_def
  populatePushCacheContainer_def populateCacheBustContainer_def createIfAbsent_def getAkamaiSecret_def
  getAkamaiSecretName_def jobConfigMap_def jobKey_def emptyCluster_def secretCluster_def

lemma demoPush_runs:
  "\<exists>w1. createOrUpdateJob demoJobs ''p'' (populatePushCacheContainer demoJobs) emptyCluster = (Inr (), w1)"
  by (simp add: job_run_defs ExtractBucketConfigFromEnv_def deref_def Let_def)

lemma demoCacheBust_runs:
  "\<exists>w1. createOrUpdateJob demoJobs ''c'' (populateCacheBustContainer demoJobs) secretCluster = (Inr (), w1)"
  by (simp add: job_run_defs servedFrontend_def emptyFrontend_def emptyMeta_def emptyEnvSpec_def)

text \<open>A cluster in which a cache-bust job is there already.\<close>

definition bustedJob :: Job where
  "bustedJob = \<lparr>j_Meta = emptyMeta\<lparr>om_Name := ''c''\<rparr>, j_Spec = \<lparr>js_Completions = Some 1, js_Template = \<lparr>pt_Meta = emptyMeta\<lparr>
     om_Annotations := Some [(''frontend-image'', ''img'')]\<rparr>, pt_Spec = emptyPodSpec\<rparr>\<rparr>\<rparr>"

definition bustedCluster :: Cluster where
  "bustedCluster = secretCluster\<lparr>cl_Jobs := [(\<lparr>nn_Namespace = [], nn_Name = ''c''\<rparr>, bustedJob)]\<rparr>"

lemma busted_runs:
  "\<exists>w1. createOrUpdateJob demoJobs ''c'' (populateCacheBustContainer demoJobs) bustedCluster = (Inr (), w1)"
  by (simp add: job_run_defs bustedCluster_def bustedJob_def servedFrontend_def emptyFrontend_def emptyMeta_def emptyEnvSpec_def
      jobIsCurrent_def isJobFromCurrentValpopImage_def templateAnnotations_def)

lemma busted_job:
  "storeView cl_Jobs jobName bustedCluster (jobKey demoJobs ''c'') = Some bustedJob"
  "map_of (entries (templateAnnotations bustedJob)) ''valpop-image'' = None"
  by (simp_all add: storeView_def bustedCluster_def bustedJob_def jobKey_def demoJobs_def clusterReconciliation_def
      servedFrontend_def emptyFrontend_def emptyMeta_def templateAnnotations_def)

lemma demoJobs_api: "job_api demoJobs (storeView cl_Jobs jobName)"
  unfolding demoJobs_def by (rule cluster_jobs.job_api_axioms)

text \<open>A job that is current while no valpop image is set.\<close>

definition unsetJobs :: "Cluster FrontendReconciliation" where
  "unsetJobs = clusterReconciliation (\<lambda>_. ''x'') emptyEnv servedFrontend"

definition unsetCluster :: Cluster where
  "unsetCluster = emptyCluster\<lparr>cl_Jobs := [(\<lparr>nn_Namespace = [], nn_Name = ''p''\<rparr>,
     \<lparr>j_Meta = emptyMeta\<lparr>om_Name := ''p''\<rparr>, j_Spec = \<lparr>js_Completions = None, js_Template = \<lparr>pt_Meta = emptyMeta\<lparr>
       om_Annotations := Some [(''frontend-image'', ''img''), (''valpop-image'', [])]\<rparr>, pt_Spec = emptyPodSpec\<rparr>\<rparr>\<rparr>)]\<rparr>"

lemma unsetJobs_kept:
  "\<exists>w'. createOrUpdateJob unsetJobs ''p'' (populatePushCacheContainer unsetJobs) unsetCluster = (Inr (), w')"
  by (simp add: job_run_defs unsetJobs_def unsetCluster_def servedFrontend_def emptyFrontend_def emptyMeta_def
      emptyEnv_def emptyEnvSpec_def jobIsCurrent_def isJobFromCurrentFrontendImage_def isJobFromCurrentValpopImage_def
      isJobBehindCutoffTimestamp_def templateAnnotations_def lookup0_def)

lemma unsetJobs_api: "job_api unsetJobs (storeView cl_Jobs jobName)"
  unfolding unsetJobs_def by (rule cluster_jobs.job_api_axioms)

section \<open>Properties\<close>

text \<open>C9: over an API server that stores what it reports as stored, adding defaults and pod labels
  (\<open>job_api\<close>), a successful run over the push-cache job leaves a job whose pod annotations name the
  frontend image and the valpop image of the environment. Unless that job was there before and was
  current, its pod takes the assets from the frontend image and runs the valpop image. When no cutoff
  timestamp is set, a further run, failing or not, leaves every job as it is.\<close>

theorem pushCache_job_converges:
  assumes "job_api r jview" and "createOrUpdateJob r n (populatePushCacheContainer r) w = (Inr (), w1)"
    and "img = fs_Image (fe_Spec (fr_Frontend r))" and "valpop = env_ValpopImage (fenv_Spec (fr_Env r))"
  shows "(\<exists>j. jview w1 (jobKey r n) = Some j \<and>
      lookup0 (templateAnnotations j) ''frontend-image'' = img \<and>
      map_of (entries (templateAnnotations j)) ''valpop-image'' = Some valpop \<and>
      (map c_Image (ps_InitContainers (podOf j)) = [img] \<and> map c_Image (ps_Containers (podOf j)) = [valpop] \<or>
        jview w (jobKey r n) = Some j \<and> jobIsCurrent r n j)) \<and>
    (env_DeployCutoffTimestampPushCache (fenv_Spec (fr_Env r)) = [] \<longrightarrow>
      jview (snd (createOrUpdateJob r n (populatePushCacheContainer r) w1)) = jview w1)"
proof -
  from job_api.pushCache_established [OF assms(1,2)] obtain j where j: "jview w1 (jobKey r n) = Some j"
    "annotatedWith img valpop j" "runsImages img valpop j \<or> jview w (jobKey r n) = Some j \<and> jobIsCurrent r n j"
    unfolding assms(3,4) by blast
  have "jview (snd (createOrUpdateJob r n (populatePushCacheContainer r) w1)) = jview w1"
    if "env_DeployCutoffTimestampPushCache (fenv_Spec (fr_Env r)) = []"
  proof -
    have "jobIsCurrent r n j" using j(2) that unfolding assms(3,4) by (rule annotated_current)
    from job_api.current_kept [OF assms(1) j(1) this prod.collapse [symmetric]] show ?thesis .
  qed
  then show ?thesis
    by (intro conjI impI exI [where x = j]) (use j in \<open>simp_all add: annotatedWith_def runsImages_def\<close>)
qed

theorem pushCache_job_converges_witness:
  "\<exists>w1 j. createOrUpdateJob demoJobs ''p'' (populatePushCacheContainer demoJobs) emptyCluster = (Inr (), w1) \<and>
     storeView cl_Jobs jobName w1 (jobKey demoJobs ''p'') = Some j \<and> map c_Image (ps_Containers (podOf j)) = [''v'']"
proof -
  have v: "env_ValpopImage (fenv_Spec (fr_Env demoJobs)) = ''v''"
    by (simp add: demoJobs_def clusterReconciliation_def emptyEnv_def emptyEnvSpec_def)
  obtain w1 where run: "createOrUpdateJob demoJobs ''p'' (populatePushCacheContainer demoJobs) emptyCluster = (Inr (), w1)"
    using demoPush_runs by blast
  from pushCache_job_converges [OF demoJobs_api run refl refl, THEN conjunct1, unfolded v]
  obtain j where j: "storeView cl_Jobs jobName w1 (jobKey demoJobs ''p'') = Some j"
    "map c_Image (ps_Containers (podOf j)) = [''v''] \<or> storeView cl_Jobs jobName emptyCluster (jobKey demoJobs ''p'') = Some j"
    by (elim exE conjE disjE) simp_all
  have "storeView cl_Jobs jobName emptyCluster k = None" for k by (simp add: emptyCluster_def storeView_def)
  with j have "map c_Image (ps_Containers (podOf j)) = [''v'']" by simp
  with run j(1) show ?thesis by (intro exI conjI)
qed

text \<open>C24: the cache-bust job is never recognised as current. Whenever a run finds no job or one without the
  valpop annotation and succeeds, it has deleted the job it found, created another one, and left one without
  the annotation again: every following run does the same, although neither image has changed. The API
  server is as in the property above.\<close>

theorem cacheBust_job_never_current:
  assumes "job_api r jview" and "createOrUpdateJob r n (populateCacheBustContainer r) w = (Inr (), w')"
    and "\<And>j. jview w (jobKey r n) = Some j \<Longrightarrow> map_of (entries (templateAnnotations j)) ''valpop-image'' = None"
  shows "\<exists>wd j wp j'. manageExistingJob r n w = (Inr False, wd) \<and> jview wd = (jview w)(jobKey r n := None) \<and>
    populateCacheBustContainer r (newJob r n) wd = (Inr j, wp) \<and> rs_Create (fr_Jobs r) j wp = (Inr (), w') \<and>
    jview w' (jobKey r n) = Some j' \<and> map_of (entries (templateAnnotations j')) ''valpop-image'' = None"
proof -
  obtain wd j wp where run: "manageExistingJob r n w = (Inr False, wd)" "jview wd = (jview w)(jobKey r n := None)"
    "populateCacheBustContainer r (newJob r n) wd = (Inr j, wp)" "rs_Create (fr_Jobs r) j wp = (Inr (), w')"
    using assms(2,3) by (rule job_api.unmarked_replaced [OF assms(1)])
  have "jobName j = jobKey r n"
    using populateCacheBust_result [OF run(3)] osdk_utils.newJob_name [OF job_api.utils [OF assms(1)] refl] by simp
  then obtain j' where "jview w' (jobKey r n) = Some j'" "sameJob j j'"
    using api_resource.create_ensures [OF job_api.jobs_api [OF assms(1)] run(4), of "jobKey r n" "sameJob j"] by blast
  with run cacheBust_job_unmarked [OF run(3)] show ?thesis by blast
qed

theorem cacheBust_job_never_current_witness:
  "\<exists>w' wd. createOrUpdateJob demoJobs ''c'' (populateCacheBustContainer demoJobs) bustedCluster = (Inr (), w') \<and>
     manageExistingJob demoJobs ''c'' bustedCluster = (Inr False, wd) \<and>
     storeView cl_Jobs jobName bustedCluster (jobKey demoJobs ''c'') \<noteq> None \<and>
     storeView cl_Jobs jobName wd (jobKey demoJobs ''c'') = None \<and> storeView cl_Jobs jobName w' (jobKey demoJobs ''c'') \<noteq> None"
proof -
  obtain w' where run: "createOrUpdateJob demoJobs ''c'' (populateCacheBustContainer demoJobs) bustedCluster = (Inr (), w')"
    using busted_runs by blast
  have "\<exists>wd j'. manageExistingJob demoJobs ''c'' bustedCluster = (Inr False, wd) \<and>
      storeView cl_Jobs jobName wd = (storeView cl_Jobs jobName bustedCluster)(jobKey demoJobs ''c'' := None) \<and>
      storeView cl_Jobs jobName w' (jobKey demoJobs ''c'') = Some j'"
    using cacheBust_job_never_current [OF demoJobs_api run] busted_job by fastforce
  with run busted_job show ?thesis by auto
qed

text \<open>Without a valpop image the push-cache job is never made: the run fails unless a current job is
  already there.\<close>

theorem pushCache_needs_valpop:
  assumes "job_api r jview" and "env_ValpopImage (fenv_Spec (fr_Env r)) = []"
    and "createOrUpdateJob r n (populatePushCacheContainer r) w = (Inr (), w')"
  shows "\<exists>j. jview w (jobKey r n) = Some j \<and> jobIsCurrent r n j \<and> jview w' = jview w"
  using assms(3) job_api.populate_keeps(2) [OF assms(1)]
  by (rule job_api.createOrUpdate [OF assms(1)]) (use populatePushCache_result assms(2) in fastforce)+

theorem pushCache_needs_valpop_witness:
  "\<exists>j w'. createOrUpdateJob unsetJobs ''p'' (populatePushCacheContainer unsetJobs) unsetCluster = (Inr (), w') \<and>
     storeView cl_Jobs jobName unsetCluster (jobKey unsetJobs ''p'') = Some j \<and> jobIsCurrent unsetJobs ''p'' j"
proof -
  obtain w' where w': "createOrUpdateJob unsetJobs ''p'' (populatePushCacheContainer unsetJobs) unsetCluster = (Inr (), w')"
    using unsetJobs_kept by blast
  have "env_ValpopImage (fenv_Spec (fr_Env unsetJobs)) = []"
    by (simp add: unsetJobs_def clusterReconciliation_def emptyEnv_def emptyEnvSpec_def)
  from pushCache_needs_valpop [OF unsetJobs_api this w'] w' show ?thesis by blast
qed

text \<open>The pods of both jobs are well formed: every mount names a volume of the pod.\<close>

theorem job_pods_wellformed:
  assumes "populate \<in> {populateCacheBustContainer r, populatePushCacheContainer r}"
    and "populate (newJob r n) w = (Inr j, w')"
  shows "wfPodSpec (podOf j) \<and> ps_RestartPolicy (podOf j) = ''Never'' \<and> ps_Containers (podOf j) \<noteq> []"
  using assms(1)
proof (elim insertE)
  assume "populate = populateCacheBustContainer r"
  with populateCacheBust_result [of r "newJob r n" w j w'] assms(2) show ?thesis
    by (simp add: cacheBustPod_def newJob_pod emptyPodSpec_def wfPodSpec_def wfContainer_def plainContainer_def)
next
  assume "populate = populatePushCacheContainer r"
  with populatePushCache_result [of r "newJob r n" w j w'] assms(2) show ?thesis
    by (auto simp: pushCachePod_def newJob_pod emptyPodSpec_def wfPodSpec_def wfContainer_def plainContainer_def Let_def)
qed simp

theorem job_pods_wellformed_witness:
  "\<exists>j w'. populatePushCacheContainer demoJobs (newJob demoJobs ''p'') emptyCluster = (Inr j, w') \<and> wfPodSpec (podOf j)"
proof -
  obtain j w' where "populatePushCacheContainer demoJobs (newJob demoJobs ''p'') emptyCluster = (Inr j, w')"
    by (simp add: job_run_defs ExtractBucketConfigFromEnv_def deref_def Let_def)
  with job_pods_wellformed [of "populatePushCacheContainer demoJobs" demoJobs "''p''" emptyCluster j w'] show ?thesis
    by auto
qed

end
