(* ===== verification/Config_Maps.thy ===== *)
theory Config_Maps
  imports Jobs
begin

text \<open>
  The config maps of an environment and the whole reconciliation, from \<^verbatim>\<open>controllers/reconcile.go\<close>:
  \<open>setupConfigMaps\<close> with the three functions that fill a config map, the hash of their contents, and
  \<open>run\<close>, which creates every object of a frontend.

  \<open>generateData\<close> is the pure part of \<open>populateConfigMap\<close>: the generated files by name. It returns
  \<^const>\<open>None\<close> when the expansion of navigation references does not end. The renaming that
  \<open>setupBaseWidgetDashboardTemplates\<close> does in the list of frontends is not read again: it is the
  last of the generators. Logging is left out.
\<close>

section \<open>Generated files\<close>

fun errorText :: "go_error \<Rightarrow> string" where
  "errorText (ApiError (NotFound m)) = m"
| "errorText (ApiError (AlreadyExists m)) = m"
| "errorText (ApiError (Conflict m)) = m"
| "errorText (ApiError (OtherError m)) = m"
| "errorText (Errorf m) = m"
| "errorText NilDereference = ''invalid memory address or nil pointer dereference''"
| "errorText IndexOutOfRange = ''index out of range''"

text \<open>Wrapping an error; a panic is not an error value and passes through.\<close>

definition wrapError :: "string \<Rightarrow> 'a result \<Rightarrow> 'a result" where
  "wrapError ctx r = (case r of Inl e \<Rightarrow> if isPanic e then Inl e else Inl (Errorf (ctx @ errorText e)) | Inr x \<Rightarrow> Inr x)"

definition putUnlessEmpty :: "'a list \<Rightarrow> string \<Rightarrow> string \<Rightarrow> strmap \<Rightarrow> strmap" where
  "putUnlessEmpty xs file content data = (if 0 < length xs then AList.update file content data else data)"

definition generateData :: "'w FrontendReconciliation \<Rightarrow> FrontendList \<Rightarrow> strmap run" where
  "generateData r feList =
     (let env = fr_Env r; json = fr_Json r in
      bindF (Some (wrapError ''error setting up fedModules: '' (setupFedModules (fr_PutJSON r) env feList []))) (\<lambda>fedModules.
      bindF (Some (setupSearchIndex feList)) (\<lambda>searchIndex.
      bindF (Some (setupServiceTilesData feList env)) (\<lambda>tiles.
      bindF (setupBundlesData (fr_Residue r) (fr_PathOrder r) feList env) (\<lambda>bundles.
      bindF (Some (setupAPISpecs feList)) (\<lambda>apiSpecs.
      bindF (Some (je_FedModules json fedModules)) (\<lambda>fedModulesJSON.
      bindF (Some (je_SearchIndex json searchIndex)) (\<lambda>searchIndexJSON.
      bindF (Some (je_Tiles json (fst tiles))) (\<lambda>tilesJSON.
      bindF (Some (je_Bundles json (fst bundles))) (\<lambda>bundlesJSON.
      bindF (Some (je_Specs json apiSpecs)) (\<lambda>apiSpecsJSON.
      let d1 = AList.update ''fed-modules.json'' fedModulesJSON [];
          d2 = AList.update ''Caddyfile'' (fr_CaddyFile r) d1;
          d3 = putUnlessEmpty searchIndex ''search-index.json'' searchIndexJSON d2;
          d4 = putUnlessEmpty (fst tiles) ''service-tiles.json'' tilesJSON d3;
          d5 = putUnlessEmpty (fst bundles) ''bundles.json'' bundlesJSON d4;
          d6 = putUnlessEmpty apiSpecs ''api-specs.json'' apiSpecsJSON d5
      in bindF (Some (je_SSO json (setupSSOConfig env))) (\<lambda>ssoJSON.
           returnF (AList.update ''sso-config.json'' ssoJSON d6)))))))))))))"

definition widgetData :: "'w FrontendReconciliation \<Rightarrow> FrontendList \<Rightarrow> strmap result" where
  "widgetData r feList =
     bindR (setupWidgetRegistry feList) (\<lambda>widgetRegistry.
     bindR (je_Widgets (fr_Json r) widgetRegistry) (\<lambda>json.
       Inr (putUnlessEmpty widgetRegistry ''widget-registry.json'' json [])))"

definition templateData :: "'w FrontendReconciliation \<Rightarrow> FrontendList \<Rightarrow> strmap result" where
  "templateData r feList =
     bindR (setupBaseWidgetDashboardTemplates feList) (\<lambda>templates.
     bindR (je_Templates (fr_Json r) (fst templates)) (\<lambda>json.
       Inr (putUnlessEmpty (fst templates) ''base-widget-dashboard-templates.json'' json [])))"

section \<open>Config maps\<close>

definition setupConfigMapWithLabels :: "'w FrontendReconciliation \<Rightarrow> NamespacedName \<Rightarrow> bool \<Rightarrow> ConfigMap" where
  "setupConfigMapWithLabels r nn markForRestart =
     (let meta = (if markForRestart
            then emptyMeta\<lparr>om_Annotations := mapPut (Some []) ''qontract.recycle'' ''true''\<rparr> else emptyMeta)
      in \<lparr>cm_Meta = ou_GetCustomLabeler (fr_Utils r) (fst (GetEnvLabels (fr_Env r))) nn (EnvironmentOwner (fr_Env r)) meta,
          cm_Data = None\<rparr>)"

text \<open>\<open>setupBundleData\<close> lists the bundles of the environment and sorts their names; the result is not
  used.\<close>

definition setupBundleData :: "'w FrontendReconciliation \<Rightarrow> ('w, unit) act" where
  "setupBundleData r =
     bindA (fr_ListBundles r (fs_EnvName (fe_Spec (fr_Frontend r)))) (\<lambda>bundleList.
       let keys = sort (map (\<lambda>b. om_Name (bu_Meta b)) bundleList) in returnA ())"

definition populateConfigMap ::
  "'w FrontendReconciliation \<Rightarrow> ConfigMap \<Rightarrow> FrontendList \<Rightarrow> ConfigMap option \<Rightarrow> ('w, ConfigMap) prog"
where
  "populateConfigMap r cfgMap feList sourceConfigMap =
     (let cfg = cfgMap\<lparr>cm_Meta := (cm_Meta cfgMap)\<lparr>om_OwnerReferences := [MakeEnvOwnerReference (fr_Env r)]\<rparr>,
            cm_Data := Some []\<rparr>
      in case sourceConfigMap of
           Some source \<Rightarrow> actP (returnA (cfg\<lparr>cm_Data := cm_Data source\<rparr>))
         | None \<Rightarrow>
             bindP (actP (if env_GenerateNavJSON (fenv_Spec (fr_Env r)) then setupBundleData r else returnA ())) (\<lambda>_.
             bindP (runP (generateData r feList)) (\<lambda>data.
               actP (returnA (cfg\<lparr>cm_Data := Some data\<rparr>)))))"

definition createConfigMap ::
  "'w FrontendReconciliation \<Rightarrow> NamespacedName \<Rightarrow> FrontendList \<Rightarrow> bool \<Rightarrow> ConfigMap option \<Rightarrow> ('w, ConfigMap) prog"
where
  "createConfigMap r nn feList markForRestart sourceConfigMap =
     bindP (actP (ca_Create (fr_Configs r) nn)) (\<lambda>_.
     bindP (populateConfigMap r (setupConfigMapWithLabels r nn markForRestart) feList sourceConfigMap) (\<lambda>cfgMap.
     bindP (actP (ca_Update (fr_Configs r) cfgMap)) (\<lambda>_. actP (returnA cfgMap))))"

text \<open>The two other functions differ in the generator.\<close>

definition createDataConfigMap ::
  "'w FrontendReconciliation \<Rightarrow> NamespacedName \<Rightarrow> bool \<Rightarrow> ConfigMap option \<Rightarrow> strmap result \<Rightarrow> ('w, ConfigMap) prog"
where
  "createDataConfigMap r nn markForRestart sourceConfigMap generated =
     bindP (actP (ca_Create (fr_Configs r) nn)) (\<lambda>_.
     let cfg = setupConfigMapWithLabels r nn markForRestart in
     bindP (actP (case sourceConfigMap of
         Some source \<Rightarrow> returnA (cfg\<lparr>cm_Data := cm_Data source\<rparr>)
       | None \<Rightarrow> bindA (liftA generated) (\<lambda>data. returnA (cfg\<lparr>cm_Data := Some data\<rparr>)))) (\<lambda>cfgMap.
     bindP (actP (ca_Update (fr_Configs r) cfgMap)) (\<lambda>_. actP (returnA cfgMap))))"

definition createWidgetRegistryConfigMap ::
  "'w FrontendReconciliation \<Rightarrow> NamespacedName \<Rightarrow> FrontendList \<Rightarrow> bool \<Rightarrow> ConfigMap option \<Rightarrow> ('w, ConfigMap) prog"
where
  "createWidgetRegistryConfigMap r nn feList markForRestart sourceConfigMap =
     createDataConfigMap r nn markForRestart sourceConfigMap (widgetData r feList)"

definition createBaseWidgetDashboardTemplatesConfigMap ::
  "'w FrontendReconciliation \<Rightarrow> NamespacedName \<Rightarrow> FrontendList \<Rightarrow> bool \<Rightarrow> ConfigMap option \<Rightarrow> ('w, ConfigMap) prog"
where
  "createBaseWidgetDashboardTemplatesConfigMap r nn feList markForRestart sourceConfigMap =
     createDataConfigMap r nn markForRestart sourceConfigMap (templateData r feList)"

definition contextName :: "Frontend \<Rightarrow> string" where
  "contextName fe = (if Contains (om_Namespace (fe_Meta fe)) ''beta'' then ''feo-context-cfg-beta'' else ''feo-context-cfg'')"

definition inNamespace :: "string \<Rightarrow> string \<Rightarrow> NamespacedName" where
  "inNamespace ns name = \<lparr>nn_Namespace = ns, nn_Name = name\<rparr>"

fun copyConfigMaps ::
  "'w FrontendReconciliation \<Rightarrow> FrontendList \<Rightarrow> ConfigMap \<Rightarrow> ConfigMap \<Rightarrow> ConfigMap \<Rightarrow> string list \<Rightarrow> ('w, unit) prog"
where
  "copyConfigMaps r feList config widgets layouts [] = actP (returnA ())"
| "copyConfigMaps r feList config widgets layouts (n # ns) =
     bindP (createConfigMap r (inNamespace n (contextName (fr_Frontend r))) feList True (Some config)) (\<lambda>_.
     bindP (createWidgetRegistryConfigMap r (inNamespace n ''widget-registry-cfg'') feList True (Some widgets)) (\<lambda>_.
     bindP (createBaseWidgetDashboardTemplatesConfigMap r (inNamespace n ''base-widget-dashboard-templates-cfg'')
         feList True (Some layouts)) (\<lambda>_.
       copyConfigMaps r feList config widgets layouts ns)))"

definition setupConfigMaps :: "'w FrontendReconciliation \<Rightarrow> ('w, ConfigMap list) prog" where
  "setupConfigMaps r =
     (let fe = fr_Frontend r; envName = fs_EnvName (fe_Spec fe); ns = om_Namespace (fe_Meta fe) in
      bindP (actP (fr_ListFrontends r envName)) (\<lambda>feList.
      bindP (createConfigMap r (inNamespace ns envName) feList True None) (\<lambda>config.
      bindP (createWidgetRegistryConfigMap r (inNamespace ns (envName @ ''-widget-registry'')) feList True None) (\<lambda>widgets.
      bindP (createBaseWidgetDashboardTemplatesConfigMap r
          (inNamespace ns (envName @ ''-base-widget-dashboard-templates'')) feList True None) (\<lambda>layouts.
      bindP (copyConfigMaps r feList config widgets layouts (env_TargetNamespaces (fenv_Spec (fr_Env r)))) (\<lambda>_.
        actP (returnA [config, widgets, layouts])))))))"

definition createConfigmapHash :: "'w FrontendReconciliation \<Rightarrow> strmap option list \<Rightarrow> string result" where
  "createConfigmapHash r hashBase = bindR (je_HashBase (fr_Json r) hashBase) (\<lambda>hashData. Inr (fr_Sha256 r hashData))"

section \<open>The reconciliation\<close>

definition whenA :: "bool \<Rightarrow> ('w, unit) act \<Rightarrow> ('w, unit) act" where
  "whenA c a = (if c then a else returnA ())"

definition runWorkload :: "'w FrontendReconciliation \<Rightarrow> strmap list \<Rightarrow> ('w, unit) act" where
  "runWorkload r annotationHashes =
     (let fe = fr_Frontend r; spec = fenv_Spec (fr_Env r) in
      bindA (createFrontendDeployment r annotationHashes) (\<lambda>_.
      bindA (createFrontendService r) (\<lambda>_.
      bindA (whenA (env_EnableAkamaiCacheBust spec \<and> env_AkamaiCacheBustImage spec \<noteq> [] \<and> \<not> fs_AkamaiCacheBustDisable (fe_Spec fe))
        (createOrUpdateJob r (generateCacheBustJobName fe) (populateCacheBustContainer r))) (\<lambda>_.
      whenA (env_EnablePushCache spec \<and> fs_Image (fe_Spec fe) \<noteq> [])
        (createOrUpdateJob r (generatePushCacheJobName fe) (populatePushCacheContainer r))))))"

definition monitored :: "'w FrontendReconciliation \<Rightarrow> bool" where
  "monitored r = (case env_Monitoring (fenv_Spec (fr_Env r)) of
     None \<Rightarrow> False
   | Some monitoring \<Rightarrow> \<not> smc_Disabled (fs_ServiceMonitor (fe_Spec (fr_Frontend r))) \<and> \<not> mon_Disabled monitoring)"

definition run :: "'w FrontendReconciliation \<Rightarrow> ('w, unit) prog" where
  "run r =
     bindP (setupConfigMaps r) (\<lambda>configMaps.
     bindP (runP (Some (createConfigmapHash r (map cm_Data configMaps)))) (\<lambda>configHash.
     actP (bindA (whenA (fs_Image (fe_Spec (fr_Frontend r)) \<noteq> []) (runWorkload r [[(''configHash'', configHash)]])) (\<lambda>_.
       bindA (createFrontendIngress r) (\<lambda>_.
       whenA (monitored r) (createServiceMonitor r))))))"

section \<open>What the config map functions stage\<close>

abbreviation configName :: "ConfigMap \<Rightarrow> NamespacedName" where
  "configName c \<equiv> nameOf (cm_Meta c)"

text \<open>The data of a config map: copied, or generated.\<close>

definition dataFrom :: "ConfigMap option \<Rightarrow> strmap run \<Rightarrow> ConfigMap \<Rightarrow> bool" where
  "dataFrom source generated c = (case source of
     Some s \<Rightarrow> cm_Data c = cm_Data s
   | None \<Rightarrow> (\<exists>data. generated = returnF data \<and> cm_Data c = Some data))"

locale config_api =
  fixes r :: "'w FrontendReconciliation"
    and cview :: "'w \<Rightarrow> NamespacedName \<Rightarrow> ConfigMap option"
  assumes configs: "object_cache (fr_Configs r) cview configName"
    and utils: "osdk_utils (fr_Utils r)"
    and frontends_frame: "cview (snd (fr_ListFrontends r envName w)) = cview w"
    and bundles_frame: "cview (snd (fr_ListBundles r envName w)) = cview w"
begin

lemma labelled_name: "configName (setupConfigMapWithLabels r nn m) = nn"
  by (simp add: setupConfigMapWithLabels_def Let_def osdk_utils.labeler_name [OF utils]
      osdk_utils.labeler_namespace [OF utils])

lemma bundleData_keeps: "cview (snd (setupBundleData r w)) = cview w"
  unfolding setupBundleData_def Let_def by (rule bindA_keeps) (simp_all add: bundles_frame)

lemma populateConfigMap_result:
  assumes "populateConfigMap r cfg feList source w = Some (Inr c, w')"
  shows "configName c = configName cfg \<and> cview w' = cview w \<and> dataFrom source (generateData r feList) c"
proof (cases source)
  case (Some s)
  with assms show ?thesis by (auto simp: populateConfigMap_def dataFrom_def Let_def)
next
  case None
  let ?nav = "if env_GenerateNavJSON (fenv_Spec (fr_Env r)) then setupBundleData r else returnA ()"
  from assms None obtain w1 data where "?nav w = (Inr (), w1)" "generateData r feList = returnF data" "w' = w1"
    "c = cfg\<lparr>cm_Meta := (cm_Meta cfg)\<lparr>om_OwnerReferences := [MakeEnvOwnerReference (fr_Env r)]\<rparr>, cm_Data := Some data\<rparr>"
    by (auto simp: populateConfigMap_def bindP_Inr runP_Inr Let_def)
  with None bundleData_keeps [of w] show ?thesis by (auto simp: dataFrom_def split: if_splits)
qed

lemmas stage = object_cache.staged_after [OF configs]

lemma createConfigMap_staged:
  assumes "createConfigMap r nn feList m source w = Some (Inr c, w')"
  shows "cview w' = (cview w)(nn \<mapsto> c) \<and> dataFrom source (generateData r feList) c"
proof -
  from assms obtain x w1 w2 where c: "ca_Create (fr_Configs r) nn w = (Inr x, w1)"
    and p: "populateConfigMap r (setupConfigMapWithLabels r nn m) feList source w1 = Some (Inr c, w2)"
    and u: "ca_Update (fr_Configs r) c w2 = (Inr (), w')"
    unfolding createConfigMap_def by (auto simp: bindP_Inr)
  from populateConfigMap_result [OF p] have "configName c = nn" "cview w2 = cview w1"
    "dataFrom source (generateData r feList) c" by (simp_all only: labelled_name)
  with stage [OF c _ u] show ?thesis by blast
qed

lemma createDataConfigMap_staged:
  assumes "createDataConfigMap r nn m source generated w = Some (Inr c, w')"
  shows "cview w' = (cview w)(nn \<mapsto> c) \<and> dataFrom source (Some generated) c"
proof -
  let ?fill = "case source of Some s \<Rightarrow> returnA ((setupConfigMapWithLabels r nn m)\<lparr>cm_Data := cm_Data s\<rparr>)
    | None \<Rightarrow> bindA (liftA generated) (\<lambda>data. returnA ((setupConfigMapWithLabels r nn m)\<lparr>cm_Data := Some data\<rparr>))"
  from assms obtain x w1 w2 where 1: "ca_Create (fr_Configs r) nn w = (Inr x, w1)" "?fill w1 = (Inr c, w2)"
    "ca_Update (fr_Configs r) c w2 = (Inr (), w')"
    unfolding createDataConfigMap_def Let_def by (auto simp: bindP_Inr)
  have 2: "configName c = nn \<and> w2 = w1 \<and> dataFrom source (Some generated) c"
    using 1(2) labelled_name by (cases source) (auto simp: dataFrom_def bindA_Inr)
  with stage [OF 1(1) _ 1(3)] show ?thesis by simp
qed

lemma copyConfigMaps_staged:
  assumes "copyConfigMaps r feList config widgets layouts ns w = Some (Inr (), w')"
  shows "(n \<in> set ns \<longrightarrow> (\<exists>a b c.
      cview w' (inNamespace n (contextName (fr_Frontend r))) = Some a \<and> cm_Data a = cm_Data config \<and>
      cview w' (inNamespace n ''widget-registry-cfg'') = Some b \<and> cm_Data b = cm_Data widgets \<and>
      cview w' (inNamespace n ''base-widget-dashboard-templates-cfg'') = Some c \<and> cm_Data c = cm_Data layouts)) \<and>
    (n \<notin> set ns \<longrightarrow> (\<forall>name. cview w' (inNamespace n name) = cview w (inNamespace n name)))"
  using assms
proof (induction ns arbitrary: w)
  case (Cons n' ns)
  from Cons.prems obtain a b c w1 w2 w3 where
    a: "createConfigMap r (inNamespace n' (contextName (fr_Frontend r))) feList True (Some config) w = Some (Inr a, w1)" and
    b: "createDataConfigMap r (inNamespace n' ''widget-registry-cfg'') True (Some widgets) (widgetData r feList) w1 = Some (Inr b, w2)" and
    c: "createDataConfigMap r (inNamespace n' ''base-widget-dashboard-templates-cfg'') True (Some layouts) (templateData r feList) w2 = Some (Inr c, w3)" and
    rest: "copyConfigMaps r feList config widgets layouts ns w3 = Some (Inr (), w')"
    by (auto simp: bindP_Inr createWidgetRegistryConfigMap_def createBaseWidgetDashboardTemplatesConfigMap_def)
  note staged = createConfigMap_staged [OF a] createDataConfigMap_staged [OF b] createDataConfigMap_staged [OF c]
  show ?case
  proof (cases "n \<in> set ns")
    case True
    with Cons.IH [OF rest] show ?thesis by simp
  next
    case False
    with Cons.IH [OF rest] have rest: "\<forall>name. cview w' (inNamespace n name) = cview w3 (inNamespace n name)" by blast
    have "contextName (fr_Frontend r) \<noteq> ''widget-registry-cfg''"
      "contextName (fr_Frontend r) \<noteq> ''base-widget-dashboard-templates-cfg''" by (simp_all add: contextName_def)
    then show ?thesis
      using rest staged False by (cases "n = n'") (auto simp: inNamespace_def dataFrom_def)
  qed
qed simp

lemma setupConfigMaps_result:
  assumes "setupConfigMaps r w = Some (Inr cms, w')"
  shows "\<exists>feList w0 config widgets layouts. fr_ListFrontends r (fs_EnvName (fe_Spec (fr_Frontend r))) w = (Inr feList, w0) \<and>
    cms = [config, widgets, layouts] \<and> dataFrom None (generateData r feList) config \<and>
    dataFrom None (Some (widgetData r feList)) widgets \<and> dataFrom None (Some (templateData r feList)) layouts \<and>
    (\<exists>w3. copyConfigMaps r feList config widgets layouts (env_TargetNamespaces (fenv_Spec (fr_Env r))) w3 = Some (Inr (), w'))"
proof -
  let ?ns = "om_Namespace (fe_Meta (fr_Frontend r))" and ?env = "fs_EnvName (fe_Spec (fr_Frontend r))"
  from assms obtain feList w0 config w1 widgets w2 layouts w3 where
    list: "fr_ListFrontends r ?env w = (Inr feList, w0)" and
    a: "createConfigMap r (inNamespace ?ns ?env) feList True None w0 = Some (Inr config, w1)" and
    b: "createDataConfigMap r (inNamespace ?ns (?env @ ''-widget-registry'')) True None (widgetData r feList) w1 = Some (Inr widgets, w2)" and
    c: "createDataConfigMap r (inNamespace ?ns (?env @ ''-base-widget-dashboard-templates'')) True None (templateData r feList) w2 = Some (Inr layouts, w3)" and
    rest: "copyConfigMaps r feList config widgets layouts (env_TargetNamespaces (fenv_Spec (fr_Env r))) w3 = Some (Inr (), w')"
      "cms = [config, widgets, layouts]"
    unfolding setupConfigMaps_def Let_def createWidgetRegistryConfigMap_def createBaseWidgetDashboardTemplatesConfigMap_def
    by (auto simp: bindP_Inr)
  show ?thesis
    using list rest createConfigMap_staged [OF a] createDataConfigMap_staged [OF b] createDataConfigMap_staged [OF c]
    by blast
qed

end

section \<open>What a run may touch\<close>

text \<open>The calls of a reconciliation, those on deployments apart.\<close>

definition callsWithin :: "('w \<Rightarrow> 'w \<Rightarrow> bool) \<Rightarrow> 'w FrontendReconciliation \<Rightarrow> bool" where
  "callsWithin R r = (cacheWithin R (fr_Services r) \<and> cacheWithin R (fr_Ingresses r) \<and> cacheWithin R (fr_Configs r) \<and>
     cacheWithin R (fr_Monitors r) \<and> resourceWithin R (fr_Jobs r) \<and> resourceWithin R (fr_ConfigMaps r) \<and>
     (\<forall>nn. withinA R (fr_GetSecret r nn)) \<and> (\<forall>ns. withinA R (fr_ListSecrets r ns)) \<and>
     (\<forall>envName. withinA R (fr_ListFrontends r envName)) \<and> (\<forall>envName. withinA R (fr_ListBundles r envName)))"

lemma callsWithin_D [within]:
  assumes "callsWithin R r"
  shows "cacheWithin R (fr_Services r)" "cacheWithin R (fr_Ingresses r)" "cacheWithin R (fr_Configs r)"
    "cacheWithin R (fr_Monitors r)" "resourceWithin R (fr_Jobs r)" "resourceWithin R (fr_ConfigMaps r)"
    "withinA R (fr_GetSecret r nn)" "withinA R (fr_ListSecrets r ns)" "withinA R (fr_ListFrontends r envName)"
    "withinA R (fr_ListBundles r envName)"
  using assms by (simp_all add: callsWithin_def)

context rely
begin

lemma configMaps_within:
  assumes "callsWithin R r"
  shows "withinP R (setupConfigMaps r)"
proof -
  note calls = callsWithin_D [OF assms]
  have bundles: "withinA R (setupBundleData r)"
    unfolding setupBundleData_def Let_def by (intro within calls)
  have "withinP R (populateConfigMap r cfg feList source)" for cfg feList source
    unfolding populateConfigMap_def Let_def by (cases source; simp only: option.case; intro within bundles)
  then have create: "withinP R (createConfigMap r nn feList m source)" for nn feList m source
    unfolding createConfigMap_def by (intro within calls)
  have data: "withinP R (createDataConfigMap r nn m source g)" for nn m source g
    unfolding createDataConfigMap_def Let_def by (cases source; simp only: option.case; intro within calls)
  have copy: "withinP R (copyConfigMaps r feList config widgets layouts ns)" for feList config widgets layouts ns
    by (induction ns; simp only: copyConfigMaps.simps createWidgetRegistryConfigMap_def
        createBaseWidgetDashboardTemplatesConfigMap_def; intro within create data)
  show ?thesis
    unfolding setupConfigMaps_def Let_def createWidgetRegistryConfigMap_def createBaseWidgetDashboardTemplatesConfigMap_def
    by (intro within create data copy calls)
qed

lemma jobs_within:
  assumes "callsWithin R r"
  shows "withinA R (createOrUpdateJob r n (populateCacheBustContainer r))"
    and "withinA R (createOrUpdateJob r n (populatePushCacheContainer r))"
proof -
  note calls = callsWithin_D [OF assms]
  have "withinA R (manageExistingJob r n)"
    unfolding manageExistingJob_def getExistingJob_def
    by (intro within calls; simp split: option.split; intro conjI impI allI within calls)
  moreover have "withinA R (createIfAbsent r c)" for c
    unfolding createIfAbsent_def by (intro within calls)
  ultimately show "withinA R (createOrUpdateJob r n (populateCacheBustContainer r))"
    "withinA R (createOrUpdateJob r n (populatePushCacheContainer r))"
    unfolding createOrUpdateJob_def populateCacheBustContainer_def populatePushCacheContainer_def getAkamaiSecret_def Let_def
    by (auto intro!: within calls)
qed

lemma objects_within:
  assumes "callsWithin R r"
  shows "withinA R (createFrontendService r)" "withinA R (createFrontendIngress r)" "withinA R (createServiceMonitor r)"
  unfolding createFrontendService_def createFrontendIngress_def createServiceMonitor_def Let_def
  by (intro within callsWithin_D [OF assms])+

lemma withinA_when [within]: "withinA R a \<Longrightarrow> withinA R (whenA b a)"
  by (simp add: whenA_def withinA_pure)

lemma rest_within:
  assumes "callsWithin R r"
  shows "withinA R (bindA (createFrontendIngress r) (\<lambda>_. whenA (monitored r) (createServiceMonitor r)))"
    and "withinA R (bindA (createFrontendService r) (\<lambda>_. bindA (whenA b
      (createOrUpdateJob r n (populateCacheBustContainer r))) (\<lambda>_. whenA b' (createOrUpdateJob r n' (populatePushCacheContainer r)))))"
  by (intro within objects_within [OF assms] jobs_within [OF assms])+

lemma run_within:
  assumes "callsWithin R r" and "cacheWithin R (fr_Deployments r)"
  shows "withinP R (run r)"
proof -
  have "withinA R (createFrontendDeployment r hashes)" for hashes
    unfolding createFrontendDeployment_def by (intro within assms(2))
  then have "withinA R (runWorkload r hashes)" for hashes
    unfolding runWorkload_def Let_def by (intro withinA_bind rest_within(2) [OF assms(1)])
  then show ?thesis
    unfolding run_def by (intro within configMaps_within rest_within(1) assms(1))
qed

end

text \<open>The interfaces as \<open>run\<close> uses them, seen from the deployments.\<close>

locale run_api =
  fixes r :: "'w FrontendReconciliation"
    and dview :: "'w \<Rightarrow> NamespacedName \<Rightarrow> Deployment option"
  assumes deployments: "object_cache (fr_Deployments r) dview (\<lambda>x. nameOf (d_Meta x))"
    and utils: "osdk_utils (fr_Utils r)"
    and frames: "callsWithin (sameView dview) r"
begin

lemma deployment_staged:
  assumes "createFrontendDeployment r [kvs] w = (Inr (), w')" and "map_of kvs k = Some v"
  shows "\<exists>d. dview w' = (dview w)(deploymentKey (fr_Frontend r) \<mapsto> d) \<and>
    map_of (entries (om_Annotations (pt_Meta (ds_Template (d_Spec d))))) k = Some v"
proof -
  from assms(1) obtain d0 w1 d where c: "ca_Create (fr_Deployments r) (deploymentKey (fr_Frontend r)) w = (Inr d0, w1)"
    and d: "buildFrontendDeployment (fr_Utils r) (fr_Frontend r) (fr_Env r) [kvs] d0 = Inr d"
    and u: "ca_Update (fr_Deployments r) d w1 = (Inr (), w')"
    unfolding createFrontendDeployment_def by (auto simp: bindA_Inr)
  have "nameOf (d_Meta d) = deploymentKey (fr_Frontend r)"
    using osdk_utils.deployment_built [OF utils, of "fr_Frontend r" "fr_Env r" "[kvs]" d0] d by auto
  moreover have "map_of (entries (om_Annotations (pt_Meta (ds_Template (d_Spec d))))) k = Some v"
    using osdk_utils.deployment_annotation [OF utils d assms(2)] .
  ultimately show ?thesis
    using object_cache.staged_after [OF deployments c refl u] by auto
qed

lemma workload_staged:
  assumes "runWorkload r [kvs] w = (Inr (), w')" and "map_of kvs k = Some v"
  shows "\<exists>d. dview w' = (dview w)(deploymentKey (fr_Frontend r) \<mapsto> d) \<and>
    map_of (entries (om_Annotations (pt_Meta (ds_Template (d_Spec d))))) k = Some v"
proof -
  let ?rest = "bindA (createFrontendService r) (\<lambda>_.
      bindA (whenA (env_EnableAkamaiCacheBust (fenv_Spec (fr_Env r)) \<and>
          env_AkamaiCacheBustImage (fenv_Spec (fr_Env r)) \<noteq> [] \<and> \<not> fs_AkamaiCacheBustDisable (fe_Spec (fr_Frontend r)))
        (createOrUpdateJob r (generateCacheBustJobName (fr_Frontend r)) (populateCacheBustContainer r))) (\<lambda>_.
      whenA (env_EnablePushCache (fenv_Spec (fr_Env r)) \<and> fs_Image (fe_Spec (fr_Frontend r)) \<noteq> [])
        (createOrUpdateJob r (generatePushCacheJobName (fr_Frontend r)) (populatePushCacheContainer r))))"
  from assms(1) obtain w1 where dep: "createFrontendDeployment r [kvs] w = (Inr (), w1)" and rest: "?rest w1 = (Inr (), w')"
    unfolding runWorkload_def Let_def by (auto simp: bindA_Inr)
  have "dview (snd (?rest w1)) = dview w1"
    using same_view.rest_within(2) [OF frames] by (simp add: withinA_def)
  with rest deployment_staged [OF dep assms(2)] show ?thesis by simp
qed

lemma run_steps:
  assumes "run r w = Some (Inr (), w')"
  shows "\<exists>cms w1 hash w2. setupConfigMaps r w = Some (Inr cms, w1) \<and>
    createConfigmapHash r (map cm_Data cms) = Inr hash \<and> dview w1 = dview w \<and> dview w' = dview w2 \<and>
    whenA (fs_Image (fe_Spec (fr_Frontend r)) \<noteq> []) (runWorkload r [[(''configHash'', hash)]]) w1 = (Inr (), w2)"
proof -
  from assms obtain cms w1 hash w2 where s: "setupConfigMaps r w = Some (Inr cms, w1)"
    and h: "createConfigmapHash r (map cm_Data cms) = Inr hash"
    and w: "whenA (fs_Image (fe_Spec (fr_Frontend r)) \<noteq> []) (runWorkload r [[(''configHash'', hash)]]) w1 = (Inr (), w2)"
    and rest: "bindA (createFrontendIngress r) (\<lambda>_. whenA (monitored r) (createServiceMonitor r)) w2 = (Inr (), w')"
    unfolding run_def by (auto simp: bindP_Inr runP_Inr bindA_Inr)
  have "dview (snd (bindA (createFrontendIngress r) (\<lambda>_. whenA (monitored r) (createServiceMonitor r)) w2)) = dview w2"
    using same_view.rest_within(1) [OF frames] by (simp add: withinA_def)
  moreover have "dview w1 = dview w" using same_view.configMaps_within [OF frames] s by (rule withinP_D)
  ultimately show ?thesis using s h w rest by auto
qed

lemma run_annotates:
  assumes "run r w = Some (Inr (), w')" and "fs_Image (fe_Spec (fr_Frontend r)) \<noteq> []"
  shows "\<exists>cms w1 hash d. setupConfigMaps r w = Some (Inr cms, w1) \<and> createConfigmapHash r (map cm_Data cms) = Inr hash \<and>
    dview w' (deploymentKey (fr_Frontend r)) = Some d \<and>
    map_of (entries (om_Annotations (pt_Meta (ds_Template (d_Spec d))))) ''configHash'' = Some hash"
proof -
  from run_steps [OF assms(1)] obtain cms w1 hash w2 where s: "setupConfigMaps r w = Some (Inr cms, w1)"
    "createConfigmapHash r (map cm_Data cms) = Inr hash" "dview w' = dview w2"
    and w: "whenA (fs_Image (fe_Spec (fr_Frontend r)) \<noteq> []) (runWorkload r [[(''configHash'', hash)]]) w1 = (Inr (), w2)"
    by blast
  from w assms(2) have "runWorkload r [[(''configHash'', hash)]] w1 = (Inr (), w2)" by (simp add: whenA_def)
  from workload_staged [OF this, of "''configHash''" hash] s show ?thesis by auto
qed

end

interpretation cluster_configs: config_api "clusterReconciliation getenv env fe" "storeView cl_ConfigMaps configName"
  for getenv env fe
  by (rule config_api.intro)
    (simp_all add: clusterReconciliation_def staged_configs.object_cache_axioms merging.osdk_utils_axioms)

lemma cluster_calls_within:
  assumes "\<And>m w. view (w\<lparr>cl_Services := m\<rparr>) = view w" "\<And>m w. view (w\<lparr>cl_Ingresses := m\<rparr>) = view w"
    "\<And>m w. view (w\<lparr>cl_ConfigMaps := m\<rparr>) = view w" "\<And>m w. view (w\<lparr>cl_Monitors := m\<rparr>) = view w"
    "\<And>m w. view (w\<lparr>cl_Jobs := m\<rparr>) = view w"
  shows "callsWithin (sameView view) (clusterReconciliation getenv env fe)"
  by (simp add: callsWithin_def clusterReconciliation_def cache_defs clusterJobs_def clusterConfigMaps_def
      throughCache_within storeResource_within admitting_within assms withinA_def split: option.split)

interpretation cluster_run: run_api "clusterReconciliation getenv env fe" "storeView cl_Deployments (\<lambda>x. nameOf (d_Meta x))"
  for getenv env fe
proof (rule run_api.intro)
  show "object_cache (fr_Deployments (clusterReconciliation getenv env fe)) (storeView cl_Deployments (\<lambda>x. nameOf (d_Meta x)))
      (\<lambda>x. nameOf (d_Meta x))"
    by (simp add: staged_deployments.object_cache_axioms)
  show "osdk_utils (fr_Utils (clusterReconciliation getenv env fe))" by (simp add: merging.osdk_utils_axioms)
  show "callsWithin (sameView (storeView cl_Deployments (\<lambda>x. nameOf (d_Meta x)))) (clusterReconciliation getenv env fe)"
    by (rule cluster_calls_within) (simp_all add: storeView_def fun_eq_iff)
qed

section \<open>Progress on the cluster store\<close>

lemma cluster_createConfigMap:
  assumes "source \<noteq> None \<or> generateData (clusterReconciliation getenv env fe) feList = returnF data"
    and "\<not> env_GenerateNavJSON (fenv_Spec env)"
  shows "\<exists>c w'. createConfigMap (clusterReconciliation getenv env fe) nn feList m source w = Some (Inr c, w')"
proof -
  obtain x where x: "ca_Create cacheConfigs nn w = (Inr x, w)" using cache_calls(7) by blast
  obtain c where c: "populateConfigMap (clusterReconciliation getenv env fe)
      (setupConfigMapWithLabels (clusterReconciliation getenv env fe) nn m) feList source w = Some (Inr c, w)"
    using assms by (cases source) (auto simp: populateConfigMap_def bindP_def runP_def Let_def)
  obtain w' where "ca_Update cacheConfigs c w = (Inr (), w')" using cache_calls(8) by blast
  with x c show ?thesis by (simp add: createConfigMap_def bindP_def)
qed

lemma cluster_createData:
  assumes "source \<noteq> None \<or> generated = Inr data"
  shows "\<exists>c w'. createDataConfigMap (clusterReconciliation getenv env fe) nn m source generated w = Some (Inr c, w')"
proof -
  obtain x where x: "ca_Create cacheConfigs nn w = (Inr x, w)" using cache_calls(7) by blast
  obtain c where c: "(case source of
        Some s \<Rightarrow> returnA ((setupConfigMapWithLabels (clusterReconciliation getenv env fe) nn m)\<lparr>cm_Data := cm_Data s\<rparr>)
      | None \<Rightarrow> bindA (liftA generated) (\<lambda>data. returnA
          ((setupConfigMapWithLabels (clusterReconciliation getenv env fe) nn m)\<lparr>cm_Data := Some data\<rparr>))) w = (Inr c, w)"
    using assms by (cases source) (auto simp: bindA_def)
  obtain w' where "ca_Update cacheConfigs c w = (Inr (), w')" using cache_calls(8) by blast
  with x c show ?thesis by (simp add: createDataConfigMap_def bindP_def Let_def)
qed

lemma cluster_copies:
  assumes "\<not> env_GenerateNavJSON (fenv_Spec env)"
  shows "\<exists>w'. copyConfigMaps (clusterReconciliation getenv env fe) feList config widgets layouts ns w = Some (Inr (), w')"
proof (induction ns arbitrary: w)
  case (Cons n ns)
  let ?r = "clusterReconciliation getenv env fe"
  obtain a w1 where "createConfigMap ?r (inNamespace n (contextName fe)) feList True (Some config) w = Some (Inr a, w1)"
    using cluster_createConfigMap [of "Some config"] assms by blast
  moreover obtain b w2 where "createDataConfigMap ?r (inNamespace n ''widget-registry-cfg'') True (Some widgets)
      (widgetData ?r feList) w1 = Some (Inr b, w2)"
    using cluster_createData [of "Some widgets"] by blast
  moreover obtain c w3 where "createDataConfigMap ?r (inNamespace n ''base-widget-dashboard-templates-cfg'') True (Some layouts)
      (templateData ?r feList) w2 = Some (Inr c, w3)"
    using cluster_createData [of "Some layouts"] by blast
  ultimately show ?case
    using Cons.IH [of w3]
    by (simp add: bindP_def createWidgetRegistryConfigMap_def createBaseWidgetDashboardTemplatesConfigMap_def)
qed simp

lemma cluster_setup_succeeds:
  assumes list: "fr_ListFrontends (clusterReconciliation getenv env fe) (fs_EnvName (fe_Spec fe)) w = (Inr feList, w)"
    and gen: "generateData (clusterReconciliation getenv env fe) feList = returnF data"
      "widgetData (clusterReconciliation getenv env fe) feList = Inr wdata"
      "templateData (clusterReconciliation getenv env fe) feList = Inr tdata"
    and nav: "\<not> env_GenerateNavJSON (fenv_Spec env)"
  shows "\<exists>cms w'. setupConfigMaps (clusterReconciliation getenv env fe) w = Some (Inr cms, w')"
proof -
  let ?r = "clusterReconciliation getenv env fe"
  let ?ns = "om_Namespace (fe_Meta fe)" and ?env = "fs_EnvName (fe_Spec fe)"
  obtain a w1 where "createConfigMap ?r (inNamespace ?ns ?env) feList True None w = Some (Inr a, w1)"
    using cluster_createConfigMap gen(1) nav by blast
  moreover obtain b w2 where "createDataConfigMap ?r (inNamespace ?ns (?env @ ''-widget-registry'')) True None
      (widgetData ?r feList) w1 = Some (Inr b, w2)"
    using cluster_createData gen(2) by blast
  moreover obtain c w3 where "createDataConfigMap ?r (inNamespace ?ns (?env @ ''-base-widget-dashboard-templates'')) True None
      (templateData ?r feList) w2 = Some (Inr c, w3)"
    using cluster_createData gen(3) by blast
  moreover obtain w4 where "copyConfigMaps ?r feList a b c (env_TargetNamespaces (fenv_Spec env)) w3 = Some (Inr (), w4)"
    using cluster_copies nav by blast
  ultimately show ?thesis
    using list by (simp add: setupConfigMaps_def Let_def bindP_def createWidgetRegistryConfigMap_def
        createBaseWidgetDashboardTemplatesConfigMap_def)
qed

lemma cluster_workload_succeeds:
  assumes "\<not> env_EnableAkamaiCacheBust (fenv_Spec env)" and "\<not> env_EnablePushCache (fenv_Spec env)"
  shows "\<exists>w'. runWorkload (clusterReconciliation getenv env fe) hashes w = (Inr (), w')"
proof -
  obtain d0 where d0: "ca_Create cacheDeployments (deploymentKey fe) w = (Inr d0, w)" using cache_calls(1) by blast
  obtain d where d: "buildFrontendDeployment mergingUtils fe env hashes d0 = Inr d"
    using merging.deployment_built by blast
  obtain w1 where w1: "ca_Update cacheDeployments d w = (Inr (), w1)" using cache_calls(2) by blast
  obtain s0 where s0: "ca_Create cacheServices (frontendKey fe) w1 = (Inr s0, w1)" using cache_calls(3) by blast
  obtain w2 where "ca_Update cacheServices (buildFrontendService mergingUtils fe env s0) w1 = (Inr (), w2)"
    using cache_calls(4) by blast
  with d0 d w1 s0 assms show ?thesis
    by (simp add: runWorkload_def createFrontendDeployment_def createFrontendService_def bindA_def whenA_def Let_def)
qed

lemma cluster_ingress_succeeds: "\<exists>w'. createFrontendIngress (clusterReconciliation getenv env fe) w = (Inr (), w')"
proof -
  obtain i0 where i0: "ca_Create cacheIngresses (frontendKey fe) w = (Inr i0, w)" using cache_calls(5) by blast
  obtain w' where "ca_Update cacheIngresses (buildFrontendIngress mergingUtils fe env i0) w = (Inr (), w')"
    using cache_calls(6) by blast
  with i0 show ?thesis by (simp add: createFrontendIngress_def bindA_def)
qed

lemma cluster_run_succeeds:
  assumes cfg: "setupConfigMaps (clusterReconciliation getenv env fe) w = Some (Inr cms, w1)"
    and off: "\<not> env_EnableAkamaiCacheBust (fenv_Spec env)" "\<not> env_EnablePushCache (fenv_Spec env)"
      "\<not> monitored (clusterReconciliation getenv env fe)"
  shows "\<exists>w'. run (clusterReconciliation getenv env fe) w = Some (Inr (), w')"
proof -
  let ?r = "clusterReconciliation getenv env fe"
  obtain hash where hash: "createConfigmapHash ?r (map cm_Data cms) = Inr hash"
    by (simp add: createConfigmapHash_def countingEncoder_def)
  obtain w2 where w2: "whenA (fs_Image (fe_Spec fe) \<noteq> []) (runWorkload ?r [[(''configHash'', hash)]]) w1 = (Inr (), w2)"
    using cluster_workload_succeeds [OF off(1,2), of getenv fe "[[(''configHash'', hash)]]" w1]
    by (cases "fs_Image (fe_Spec fe) = []") (auto simp: whenA_def)
  obtain w3 where "createFrontendIngress ?r w2 = (Inr (), w3)" using cluster_ingress_succeeds by blast
  with cfg hash w2 off(3) show ?thesis by (simp add: run_def bindP_def runP_def bindA_def whenA_def)
qed

definition demoRunEnv :: FrontendEnvironment where
  "demoRunEnv = emptyEnv\<lparr>fenv_Spec := emptyEnvSpec\<lparr>env_TargetNamespaces := [''t'']\<rparr>\<rparr>"

definition demoRun :: "Cluster FrontendReconciliation" where
  "demoRun = clusterReconciliation (\<lambda>_. []) demoRunEnv servedFrontend"

lemma demoRun_off:
  "\<not> env_GenerateNavJSON (fenv_Spec demoRunEnv)" "\<not> env_EnableAkamaiCacheBust (fenv_Spec demoRunEnv)"
  "\<not> env_EnablePushCache (fenv_Spec demoRunEnv)"
  by (simp_all add: demoRunEnv_def emptyEnvSpec_def)

lemma demoRun_lists: "fr_ListFrontends demoRun (fs_EnvName (fe_Spec servedFrontend)) emptyCluster = (Inr [], emptyCluster)"
  by (simp add: demoRun_def clusterReconciliation_def emptyCluster_def)

lemma demoRun_generates:
  "\<exists>data. generateData demoRun [] = returnF data" "\<exists>wdata. widgetData demoRun [] = Inr wdata"
  "\<exists>tdata. templateData demoRun [] = Inr tdata"
  by (simp_all add: demoRun_def generateData_def widgetData_def templateData_def countingEncoder_def Let_def wrapError_def
      setupFedModules_def setupSearchIndex_def setupServiceTilesData_def setupBundlesData_def setupAPISpecs_def
      setupWidgetRegistry_def setupBaseWidgetDashboardTemplates_def indexOf_def demoRunEnv_def emptyEnvSpec_def)

lemma demoRun_setup: "\<exists>cms w'. setupConfigMaps demoRun emptyCluster = Some (Inr cms, w')"
proof -
  obtain data wdata tdata where "generateData demoRun [] = returnF data" "widgetData demoRun [] = Inr wdata"
    "templateData demoRun [] = Inr tdata" using demoRun_generates by blast
  from cluster_setup_succeeds [OF demoRun_lists [unfolded demoRun_def] this [unfolded demoRun_def] demoRun_off(1)]
  show ?thesis unfolding demoRun_def .
qed

lemma demoRun_succeeds: "\<exists>w'. run demoRun emptyCluster = Some (Inr (), w')"
proof -
  obtain cms w1 where "setupConfigMaps demoRun emptyCluster = Some (Inr cms, w1)" using demoRun_setup by blast
  from cluster_run_succeeds [OF this [unfolded demoRun_def] demoRun_off(2,3)] show ?thesis
    unfolding demoRun_def by (simp add: monitored_def demoRunEnv_def emptyEnvSpec_def)
qed

section \<open>Properties\<close>

text \<open>C17: after a successful set-up, every target namespace of the environment has the three context
  config maps, with the contents of the frontend's own ones, and those are the generated files.\<close>

theorem target_namespaces_share_config:
  assumes "config_api r cview" and "setupConfigMaps r w = Some (Inr cms, w')"
    and "n \<in> set (env_TargetNamespaces (fenv_Spec (fr_Env r)))"
  shows "\<exists>feList w0 data wdata tdata a b c.
    fr_ListFrontends r (fs_EnvName (fe_Spec (fr_Frontend r))) w = (Inr feList, w0) \<and>
    generateData r feList = returnF data \<and> widgetData r feList = Inr wdata \<and> templateData r feList = Inr tdata \<and>
    map cm_Data cms = [Some data, Some wdata, Some tdata] \<and>
    cview w' (inNamespace n (contextName (fr_Frontend r))) = Some a \<and> cm_Data a = Some data \<and>
    cview w' (inNamespace n ''widget-registry-cfg'') = Some b \<and> cm_Data b = Some wdata \<and>
    cview w' (inNamespace n ''base-widget-dashboard-templates-cfg'') = Some c \<and> cm_Data c = Some tdata"
proof -
  from config_api.setupConfigMaps_result [OF assms(1,2)] obtain feList w0 config widgets layouts w3 where
    1: "fr_ListFrontends r (fs_EnvName (fe_Spec (fr_Frontend r))) w = (Inr feList, w0)" "cms = [config, widgets, layouts]"
      "dataFrom None (generateData r feList) config" "dataFrom None (Some (widgetData r feList)) widgets"
      "dataFrom None (Some (templateData r feList)) layouts"
    and 2: "copyConfigMaps r feList config widgets layouts (env_TargetNamespaces (fenv_Spec (fr_Env r))) w3 = Some (Inr (), w')"
    by blast
  from 1(3-5) obtain data wdata tdata where 3: "generateData r feList = returnF data" "cm_Data config = Some data"
    "widgetData r feList = Inr wdata" "cm_Data widgets = Some wdata"
    "templateData r feList = Inr tdata" "cm_Data layouts = Some tdata"
    by (auto simp: dataFrom_def)
  from config_api.copyConfigMaps_staged [OF assms(1) 2, of n] assms(3) 1(1,2) 3 show ?thesis by simp
qed

theorem target_namespaces_share_config_witness:
  "\<exists>cms w' data a. setupConfigMaps demoRun emptyCluster = Some (Inr cms, w') \<and> generateData demoRun [] = returnF data \<and>
     storeView cl_ConfigMaps configName w' (inNamespace ''t'' ''feo-context-cfg'') = Some a \<and> cm_Data a = Some data"
proof -
  obtain cms w' where run: "setupConfigMaps demoRun emptyCluster = Some (Inr cms, w')" using demoRun_setup by blast
  have api: "config_api demoRun (storeView cl_ConfigMaps configName)"
    unfolding demoRun_def by (rule cluster_configs.config_api_axioms)
  have n: "''t'' \<in> set (env_TargetNamespaces (fenv_Spec (fr_Env demoRun)))" by (simp add: demoRun_def demoRunEnv_def)
  have fe: "fr_Frontend demoRun = servedFrontend" "contextName servedFrontend = ''feo-context-cfg''"
    by (simp_all add: demoRun_def contextName_def servedFrontend_def emptyFrontend_def emptyMeta_def)
  from target_namespaces_share_config [OF api run n] run demoRun_lists show ?thesis unfolding fe by auto
qed

text \<open>C8: after a successful run for a frontend with an image, the pod template of its deployment
  carries the hash of exactly the config maps that this run produced; without an image the run leaves
  all deployments alone.\<close>

theorem run_annotates_pods:
  assumes "run_api r dview" and "run r w = Some (Inr (), w')"
  shows "if fs_Image (fe_Spec (fr_Frontend r)) \<noteq> [] then
      \<exists>cms w1 hash d. setupConfigMaps r w = Some (Inr cms, w1) \<and> createConfigmapHash r (map cm_Data cms) = Inr hash \<and>
        dview w' (deploymentKey (fr_Frontend r)) = Some d \<and>
        map_of (entries (om_Annotations (pt_Meta (ds_Template (d_Spec d))))) ''configHash'' = Some hash
    else dview w' = dview w"
proof (cases "fs_Image (fe_Spec (fr_Frontend r)) = []")
  case True
  with run_api.run_steps [OF assms] show ?thesis by (auto simp: whenA_def)
next
  case False
  with run_api.run_annotates [OF assms] show ?thesis by simp
qed

theorem run_annotates_pods_witness:
  "\<exists>w' hash d. run demoRun emptyCluster = Some (Inr (), w') \<and>
     storeView cl_Deployments (\<lambda>x. nameOf (d_Meta x)) w' (deploymentKey servedFrontend) = Some d \<and>
     map_of (entries (om_Annotations (pt_Meta (ds_Template (d_Spec d))))) ''configHash'' = Some hash"
proof -
  obtain w' where run: "run demoRun emptyCluster = Some (Inr (), w')" using demoRun_succeeds by blast
  have api: "run_api demoRun (storeView cl_Deployments (\<lambda>x. nameOf (d_Meta x)))"
    unfolding demoRun_def by (rule cluster_run.run_api_axioms)
  have "fr_Frontend demoRun = servedFrontend" "fs_Image (fe_Spec servedFrontend) \<noteq> []"
    by (simp_all add: demoRun_def servedFrontend_def)
  with run_annotates_pods [OF api run] run show ?thesis by auto
qed

end
