(* ===== verification/Config_Hash.thy ===== *)
theory Config_Hash
  imports Config_Maps
begin

text \<open>
  The contents of the config maps do not depend on the order in which the API server lists the
  frontends of an environment, nor on the order in which Go visits a map, provided that no two
  entries tie in a sort, no two frontends claim the same name and no two bundles have the same ID. The lemmas put together what the
  components show of their own file; the property over whole runs is in the root theory.
\<close>

definition unambiguous :: "FrontendEnvironment \<Rightarrow> FrontendList \<Rightarrow> bool" where
  "unambiguous env feList =
     (distinct (map fe_Name feList) \<and> uniqueKeys feList \<and>
      (\<forall>bundles. env_Bundles (fenv_Spec env) = Some bundles \<longrightarrow> distinct (map fb_ID bundles)) \<and>
      distinct (map publishedName (filter publishesModule feList)) \<and>
      inj_on searchKey (\<Union>fe \<in> set feList. set (projr (collectSearch fe))) \<and>
      inj_on widgetSortKey (\<Union>fe \<in> set feList. set (projr (collectWidgets fe))) \<and>
      inj_on templateSortKey (\<Union>fe \<in> set feList. set (projr (collectTemplates fe))) \<and>
      inj_on specKey (\<Union>fe \<in> set feList. set (projr (collectSpecs fe))) \<and>
      (\<forall>cats. env_ServiceCategories (fenv_Spec env) = Some cats \<longrightarrow>
         distinct (groupPaths cats) \<and> (\<forall>fe \<in> set feList. setTiles fe) \<and> inj_on tileKey (set (allTiles feList))))"

text \<open>What the code relies on of the JSON encoder: the members of a map are written in the order of
  their names.\<close>

definition encodesMaps :: "JsonEncoder \<Rightarrow> bool" where
  "encodesMaps json = (\<forall>m m'. mset m' = mset m \<longrightarrow> distinct (map fst m) \<longrightarrow> je_FedModules json m' = je_FedModules json m)"

lemma counting_encodesMaps: "encodesMaps countingEncoder"
  by (auto simp: encodesMaps_def countingEncoder_def dest: mset_eq_length)

lemma bindF_Inr: "bindF m f = returnF y \<longleftrightarrow> (\<exists>x. m = returnF x \<and> f x = returnF y)"
  by (cases m; simp; rename_tac r; case_tac r; simp)

lemma tiles_perm:
  assumes "mset feList' = mset feList" and "unambiguous env feList" and "setupServiceTilesData feList env = Inr t"
  shows "\<exists>t'. setupServiceTilesData feList' env = Inr t' \<and> fst t' = fst t"
proof (cases "env_ServiceCategories (fenv_Spec env)")
  case None
  with assms(3) show ?thesis by (simp add: setupServiceTilesData_def)
next
  case (Some cats)
  with assms(2) have "bindR (setupServiceTilesData feList' env) (\<lambda>p. Inr (fst p, mset (snd p))) =
      bindR (setupServiceTilesData feList env) (\<lambda>p. Inr (fst p, mset (snd p)))"
    using tiles_order_free [OF assms(1) Some] by (simp add: unambiguous_def)
  with assms(3) show ?thesis by (auto simp: bindR_Inr)
qed

lemma bundles_perm:
  assumes "mset feList' = mset feList" and "unambiguous env feList" and "rangeOrder order" and "rangeOrder order'"
    and "setupBundlesData residue order feList env = returnF b"
  shows "\<exists>b'. setupBundlesData residue' order' feList' env = returnF b' \<and> fst b' = fst b"
proof -
  have "bindF (setupBundlesData residue' order' feList' env) (\<lambda>p. returnF (fst p, set (snd p))) =
      bindF (setupBundlesData residue order feList env) (\<lambda>p. returnF (fst p, set (snd p)))"
    using assms(2) by (intro bundles_order_free [OF assms(1) _ _ assms(3,4)]) (simp_all add: unambiguous_def)
  with assms(5) have "bindF (setupBundlesData residue' order' feList' env) (\<lambda>p. returnF (fst p, set (snd p))) =
      returnF (fst b, set (snd b))" by simp
  then show ?thesis unfolding bindF_Inr by auto
qed

lemma index_perm:
  assumes "mset feList' = mset feList" and "unambiguous env feList"
  shows "setupSearchIndex feList' = setupSearchIndex feList" "setupAPISpecs feList' = setupAPISpecs feList"
    "setupWidgetRegistry feList' = setupWidgetRegistry feList"
    "bindR (setupBaseWidgetDashboardTemplates feList') (\<lambda>p. Inr (fst p)) =
       bindR (setupBaseWidgetDashboardTemplates feList) (\<lambda>p. Inr (fst p))"
  using index_files_order_free [OF assms(1)] assms(2) by (simp_all add: unambiguous_def)

lemma generateData_steps:
  assumes "generateData r feList = returnF data"
  obtains ms t b where "setupFedModules (fr_PutJSON r) (fr_Env r) feList [] = Inr ms"
    "setupServiceTilesData feList (fr_Env r) = Inr t" "setupBundlesData (fr_Residue r) (fr_PathOrder r) feList (fr_Env r) = returnF b"
proof -
  from assms obtain ms where ms: "setupFedModules (fr_PutJSON r) (fr_Env r) feList [] = Inr ms"
    by (cases "setupFedModules (fr_PutJSON r) (fr_Env r) feList []")
      (simp_all add: generateData_def wrapError_def split: if_splits)
  from assms obtain idx where idx: "setupSearchIndex feList = Inr idx"
    by (cases "setupSearchIndex feList") (simp_all add: generateData_def wrapError_def ms)
  from assms obtain t where t: "setupServiceTilesData feList (fr_Env r) = Inr t"
    by (cases "setupServiceTilesData feList (fr_Env r)") (simp_all add: generateData_def wrapError_def ms idx)
  from assms have "\<exists>b. setupBundlesData (fr_Residue r) (fr_PathOrder r) feList (fr_Env r) = returnF b"
    by (simp only: generateData_def wrapError_def ms idx t Let_def sum.case bindF.simps bindF_Inr) blast
  with ms t that show ?thesis by blast
qed

lemma generateData_perm:
  assumes perm: "mset feList' = mset feList" and un: "unambiguous (fr_Env r) feList" and json: "encodesMaps (fr_Json r)"
    and order: "rangeOrder (fr_PathOrder r)" "rangeOrder order'"
    and gen: "generateData r feList = returnF data"
  shows "generateData (r\<lparr>fr_PathOrder := order', fr_Residue := residue'\<rparr>) feList' = returnF data"
proof -
  from gen obtain ms t b where ms: "setupFedModules (fr_PutJSON r) (fr_Env r) feList [] = Inr ms"
    and t: "setupServiceTilesData feList (fr_Env r) = Inr t"
    and b: "setupBundlesData (fr_Residue r) (fr_PathOrder r) feList (fr_Env r) = returnF b"
    by (rule generateData_steps)
  obtain ms' where ms': "setupFedModules (fr_PutJSON r) (fr_Env r) feList' [] = Inr ms'" "mset ms' = mset ms" "distinct (map fst ms)"
    using setupFedModules_perm [OF perm _ ms] un unfolding unambiguous_def by blast
  obtain t' where t': "setupServiceTilesData feList' (fr_Env r) = Inr t'" "fst t' = fst t"
    using tiles_perm [OF perm un t] by blast
  obtain b' where b': "setupBundlesData residue' order' feList' (fr_Env r) = returnF b'" "fst b' = fst b"
    using bundles_perm [OF perm un order b] by blast
  have json': "je_FedModules (fr_Json r) ms' = je_FedModules (fr_Json r) ms"
    using json ms'(2,3) unfolding encodesMaps_def by blast
  show ?thesis
    using gen by (simp add: generateData_def Let_def wrapError_def ms ms'(1) t t' b b' json' index_perm [OF perm un])
qed

lemma widgetData_perm:
  "mset feList' = mset feList \<Longrightarrow> unambiguous env feList \<Longrightarrow> widgetData r feList' = widgetData r feList"
  unfolding widgetData_def by (drule (1) index_perm(3), simp only:)

lemma templateData_perm:
  assumes "mset feList' = mset feList" and "unambiguous env feList"
  shows "templateData r feList' = templateData r feList"
proof -
  have "templateData r l = bindR (bindR (setupBaseWidgetDashboardTemplates l) (\<lambda>p. Inr (fst p)))
      (\<lambda>templates. bindR (je_Templates (fr_Json r) templates) (\<lambda>json.
        Inr (putUnlessEmpty templates ''base-widget-dashboard-templates.json'' json [])))" for l
    by (simp add: templateData_def bindR_assoc)
  then show ?thesis using index_perm(4) [OF assms] by simp
qed


text \<open>Two reconciliations that generate for the same environment, whichever frontend they are for.\<close>

definition sameGenerator :: "'w FrontendReconciliation \<Rightarrow> 'v FrontendReconciliation \<Rightarrow> bool" where
  "sameGenerator r r' = (fr_Env r' = fr_Env r \<and> fr_Json r' = fr_Json r \<and> fr_PutJSON r' = fr_PutJSON r \<and>
     fr_CaddyFile r' = fr_CaddyFile r \<and> fr_Sha256 r' = fr_Sha256 r)"

lemma sameGenerator_data:
  assumes "sameGenerator r r'"
  shows "generateData r' l = generateData (r\<lparr>fr_PathOrder := fr_PathOrder r', fr_Residue := fr_Residue r'\<rparr>) l" "widgetData r' l = widgetData r l"
    "templateData r' l = templateData r l" "createConfigmapHash r' = createConfigmapHash r"
proof -
  from assms have same: "fr_Env r' = fr_Env r" "fr_Json r' = fr_Json r" "fr_PutJSON r' = fr_PutJSON r"
    "fr_CaddyFile r' = fr_CaddyFile r" "fr_Sha256 r' = fr_Sha256 r"
    by (simp_all only: sameGenerator_def)
  show "generateData r' l = generateData (r\<lparr>fr_PathOrder := fr_PathOrder r', fr_Residue := fr_Residue r'\<rparr>) l" "widgetData r' l = widgetData r l"
    "templateData r' l = templateData r l"
    by (simp_all add: generateData_def widgetData_def templateData_def same)
  show "createConfigmapHash r' = createConfigmapHash r" by (intro ext) (simp add: createConfigmapHash_def same)
qed

lemma setup_hash_agrees:
  assumes "config_api r cview" and "config_api r' cview'" and same: "sameGenerator r r'"
    and "setupConfigMaps r w = Some (Inr cms, w1)" and "setupConfigMaps r' w' = Some (Inr cms', w1')"
    and "fr_ListFrontends r (fs_EnvName (fe_Spec (fr_Frontend r))) w = (Inr feList, v)"
    and "fr_ListFrontends r' (fs_EnvName (fe_Spec (fr_Frontend r'))) w' = (Inr feList', v')"
    and perm: "mset feList' = mset feList" and un: "unambiguous (fr_Env r) feList" and json: "encodesMaps (fr_Json r)"
    and order: "rangeOrder (fr_PathOrder r)" "rangeOrder (fr_PathOrder r')"
  shows "createConfigmapHash r' (map cm_Data cms') = createConfigmapHash r (map cm_Data cms)"
proof -
  from config_api.setupConfigMaps_result [OF assms(1,4)] assms(6) obtain data wdata tdata where
    1: "generateData r feList = returnF data" "widgetData r feList = Inr wdata" "templateData r feList = Inr tdata"
      "map cm_Data cms = [Some data, Some wdata, Some tdata]"
    by (auto simp: dataFrom_def)
  from config_api.setupConfigMaps_result [OF assms(2,5)] assms(7) obtain data' wdata' tdata' where
    2: "generateData r' feList' = returnF data'" "widgetData r' feList' = Inr wdata'" "templateData r' feList' = Inr tdata'"
      "map cm_Data cms' = [Some data', Some wdata', Some tdata']"
    by (auto simp: dataFrom_def)
  note data = sameGenerator_data [OF same]
  have "data' = data" using generateData_perm [OF perm un json order 1(1)] 2(1) data(1) by simp
  moreover have "wdata' = wdata" using widgetData_perm [OF perm un, of r] 1(2) 2(2) data(2) by simp
  moreover have "tdata' = tdata" using templateData_perm [OF perm un, of r] 1(3) 2(3) data(3) by simp
  ultimately show ?thesis using 1(4) 2(4) data(4) by simp
qed

end
