(* ===== verification/Status.thy ===== *)
theory Status
  imports Config_Maps
begin

text \<open>
  \<^verbatim>\<open>controllers/status.go\<close>: counting the deployments of a frontend and writing its conditions.

  \<^item> The client calls, the counter of \<^verbatim>\<open>rhc-osdk-utils\<close>, \<open>SetStatusCondition\<close>, the deep comparison, the error
    wrappers and \<open>RetryOnConflict\<close> are fields of \<open>StatusClient\<close>. The counter returns Go's \<open>int\<close>; the
    query that it runs is part of it.
  \<^item> The frontend is read again by its name at every attempt, so an attempt depends on the name only.
  \<^item> \<open>newStatus\<close> is the pure part of an attempt. The two readings of the clock in an attempt are one.
  \<^item> The branch the source marks with FIXME tests an error that is nil there, so it is not in the model.
\<close>

section \<open>Model\<close>

record 'w StatusClient =
  sc_GetFrontend :: "NamespacedName \<Rightarrow> 'w \<Rightarrow> Frontend result \<times> 'w"
  sc_GetEnvironment :: "NamespacedName \<Rightarrow> 'w \<Rightarrow> FrontendEnvironment result \<times> 'w"
  sc_ListFrontends :: "string \<Rightarrow> 'w \<Rightarrow> FrontendList result \<times> 'w"
  sc_Count :: "string list \<Rightarrow> string \<Rightarrow> 'w \<Rightarrow> (int \<times> int \<times> string) result \<times> 'w"
  sc_StatusUpdate :: "Frontend \<Rightarrow> 'w \<Rightarrow> unit result \<times> 'w"
  sc_Now :: "'w \<Rightarrow> string"
  sc_SetStatusCondition :: "Condition list \<Rightarrow> Condition \<Rightarrow> Condition list"
  sc_DeepEqual :: "FrontendStatus \<Rightarrow> FrontendStatus \<Rightarrow> bool"
  sc_Wrap :: "string \<Rightarrow> go_error \<Rightarrow> go_error"
  sc_ClowderError :: "string \<Rightarrow> go_error"
  sc_Retry :: "('w, Frontend) prog \<Rightarrow> ('w, Frontend) prog"

definition wrapA :: "'w StatusClient \<Rightarrow> string \<Rightarrow> ('w, 'a) act \<Rightarrow> ('w, 'a) act" where
  "wrapA c msg m = handleA m returnA (\<lambda>e. failA (sc_Wrap c msg e))"

definition GetOurEnv :: "'w StatusClient \<Rightarrow> Frontend \<Rightarrow> ('w, FrontendEnvironment) act" where
  "GetOurEnv c i = sc_GetEnvironment c \<lparr>nn_Namespace = [], nn_Name = fs_EnvName (fe_Spec i)\<rparr>"

definition GetFrontendsInEnv :: "'w StatusClient \<Rightarrow> FrontendEnvironment \<Rightarrow> ('w, FrontendList) act" where
  "GetFrontendsInEnv c i = wrapA c ''could not list apps'' (sc_ListFrontends c (fenv_Name i))"

definition GetNamespacesInEnv :: "'w StatusClient \<Rightarrow> Frontend \<Rightarrow> ('w, string list) act" where
  "GetNamespacesInEnv c i =
     bindA (wrapA c ''get our env: '' (GetOurEnv c i)) (\<lambda>env.
     bindA (wrapA c ''get apps in env: '' (GetFrontendsInEnv c env)) (\<lambda>feList.
     let tmpNamespace = fold (\<lambda>app. AList.update (om_Namespace (fe_Meta app)) True) feList []
     in returnA (map fst tmpNamespace)))"

definition MinInt32 :: int where
  "MinInt32 = - 2147483648"

definition MaxInt32 :: int where
  "MaxInt32 = 2147483647"

definition GetFrontendFigures :: "'w StatusClient \<Rightarrow> Frontend \<Rightarrow> ('w, FrontendDeployments \<times> string) act" where
  "GetFrontendFigures c o1 =
     bindA (wrapA c ''get namespaces: '' (GetNamespacesInEnv c o1)) (\<lambda>namespaces.
     bindA (wrapA c ''count resources: '' (sc_Count c namespaces (om_UID (fe_Meta o1)))) (\<lambda>(managed, ready, broken).
       if managed < MinInt32 \<or> managed > MaxInt32 then failA (sc_ClowderError c ''value out of range for int32'')
       else if ready < MinInt32 \<or> ready > MaxInt32 then failA (sc_ClowderError c ''value out of range for int32'')
       else returnA (\<lparr>fd_ManagedDeployments = word_of_int managed, fd_ReadyDeployments = word_of_int ready\<rparr>, broken)))"

definition GetFrontendResources :: "'w StatusClient \<Rightarrow> Frontend \<Rightarrow> ('w, bool) act" where
  "GetFrontendResources c o1 = bindA (GetFrontendFigures c o1) (\<lambda>(stats, _).
     returnA (fd_ManagedDeployments stats = fd_ReadyDeployments stats))"

abbreviation ReconciliationSuccessful :: string where
  "ReconciliationSuccessful \<equiv> ''ReconciliationSuccessful''"

abbreviation ReconciliationFailed :: string where
  "ReconciliationFailed \<equiv> ''ReconciliationFailed''"

abbreviation FrontendsReady :: string where
  "FrontendsReady \<equiv> ''FrontendsReady''"

definition reconciliationCondition :: "string \<Rightarrow> go_error option \<Rightarrow> string \<Rightarrow> string \<Rightarrow> Condition" where
  "reconciliationCondition state conditionErr now conditionType =
     (let condition = \<lparr>co_Type = conditionType, co_Status = ''False'', co_Reason = ''NoError'', co_Message = [],
            co_LastTransitionTime = now\<rparr>
      in if state = conditionType then
           (case conditionErr of
              None \<Rightarrow> condition\<lparr>co_Status := ''True''\<rparr>
            | Some e \<Rightarrow> condition\<lparr>co_Status := ''True'', co_Message := errorText e, co_Reason := ''Error''\<rparr>)
         else condition)"

definition readyCondition :: "bool \<Rightarrow> string \<Rightarrow> Condition" where
  "readyCondition frontendStatus now = \<lparr>co_Type = FrontendsReady, co_Status = (if frontendStatus then ''True'' else ''False''),
     co_Reason = ''NoError'',
     co_Message = (if frontendStatus then ''All managed deployments ready'' else ''Deployments are not yet ready''),
     co_LastTransitionTime = now\<rparr>"

definition newStatus ::
  "(Condition list \<Rightarrow> Condition \<Rightarrow> Condition list) \<Rightarrow> string \<Rightarrow> go_error option \<Rightarrow> string \<Rightarrow> bool \<Rightarrow>
     FrontendDeployments \<Rightarrow> FrontendStatus \<Rightarrow> FrontendStatus"
where
  "newStatus setCondition state conditionErr now frontendStatus stats old =
     (let conditions = map (reconciliationCondition state conditionErr now)
            [ReconciliationSuccessful, ReconciliationFailed] @ [readyCondition frontendStatus now]
      in old\<lparr>fst_Conditions := foldl setCondition (fst_Conditions old) conditions,
             fst_Ready := frontendStatus,
             fst_Deployments := (fst_Deployments old)\<lparr>fd_ManagedDeployments := fd_ManagedDeployments stats,
               fd_ReadyDeployments := fd_ReadyDeployments stats\<rparr>\<rparr>)"

definition setConditionsOnce ::
  "'w StatusClient \<Rightarrow> NamespacedName \<Rightarrow> string \<Rightarrow> go_error option \<Rightarrow> ('w, Frontend) act"
where
  "setConditionsOnce c nn state conditionErr =
     bindA (sc_GetFrontend c nn) (\<lambda>o1.
     bindA (\<lambda>w. (Inr (sc_Now c w), w)) (\<lambda>now.
     bindA (GetFrontendResources c o1) (\<lambda>frontendStatus.
     bindA (GetFrontendFigures c o1) (\<lambda>(stats, _).
     let o2 = o1\<lparr>fe_Status := newStatus (sc_SetStatusCondition c) state conditionErr now frontendStatus stats (fe_Status o1)\<rparr>
     in if \<not> sc_DeepEqual c (fe_Status o1) (fe_Status o2)
        then bindA (sc_StatusUpdate c o2) (\<lambda>_. returnA o2)
        else returnA o2))))"

definition SetFrontendConditions ::
  "'w StatusClient \<Rightarrow> NamespacedName \<Rightarrow> string \<Rightarrow> go_error option \<Rightarrow> ('w, Frontend) prog"
where
  "SetFrontendConditions c nn state conditionErr = sc_Retry c (actP (setConditionsOnce c nn state conditionErr))"

section \<open>Contracts\<close>

definition findCondition :: "Condition list \<Rightarrow> string \<Rightarrow> Condition option" where
  "findCondition cs ty = find (\<lambda>c. co_Type c = ty) cs"

definition agrees :: "Condition list \<Rightarrow> Condition \<Rightarrow> bool" where
  "agrees cs c = (\<exists>c'. findCondition cs (co_Type c) = Some c' \<and> co_Status c' = co_Status c \<and>
     co_Reason c' = co_Reason c \<and> co_Message c' = co_Message c)"

text \<open>What \<open>SetStatusCondition\<close> documents: it sets the condition of the given type, keeps the others, and keeps
  the transition time of a condition whose status does not change.\<close>

locale condition_setter =
  fixes setc :: "Condition list \<Rightarrow> Condition \<Rightarrow> Condition list"
  assumes set_type: "\<exists>c'. findCondition (setc cs c) (co_Type c) = Some c' \<and> co_Status c' = co_Status c \<and>
      co_Reason c' = co_Reason c \<and> co_Message c' = co_Message c"
    and set_other: "ty \<noteq> co_Type c \<Longrightarrow> findCondition (setc cs c) ty = findCondition cs ty"
    and set_same: "findCondition cs (co_Type c) = Some c' \<Longrightarrow> co_Status c' = co_Status c \<Longrightarrow>
      co_Reason c' = co_Reason c \<Longrightarrow> co_Message c' = co_Message c \<Longrightarrow> setc cs c = cs"
begin

lemma foldl_agrees:
  "distinct (map co_Type xs) \<Longrightarrow> c \<in> set xs \<Longrightarrow> agrees (foldl setc cs xs) c"
proof (induction xs rule: rev_induct)
  case (snoc x xs)
  show ?case
  proof (cases "c = x")
    case True
    with set_type [of "foldl setc cs xs" x] show ?thesis by (simp add: agrees_def)
  next
    case False
    with snoc.prems have "co_Type c \<noteq> co_Type x" by (auto simp: image_iff)
    with snoc False show ?thesis by (simp add: agrees_def set_other)
  qed
qed simp

lemma foldl_settled: "\<forall>c \<in> set xs. agrees cs c \<Longrightarrow> foldl setc cs xs = cs"
proof (induction xs)
  case (Cons x xs)
  then have "setc cs x = cs" using set_same unfolding agrees_def by auto
  with Cons show ?case by simp
qed simp

end

text \<open>A setter that keeps the contract.\<close>

fun putCondition :: "Condition list \<Rightarrow> Condition \<Rightarrow> Condition list" where
  "putCondition [] c = [c]"
| "putCondition (x # xs) c =
     (if co_Type x = co_Type c
      then c\<lparr>co_LastTransitionTime := (if co_Status x = co_Status c then co_LastTransitionTime x else co_LastTransitionTime c)\<rparr> # xs
      else x # putCondition xs c)"

lemma Condition_eqI:
  "co_Type a = co_Type b \<Longrightarrow> co_Status a = co_Status b \<Longrightarrow> co_Reason a = co_Reason b \<Longrightarrow> co_Message a = co_Message b \<Longrightarrow>
     co_LastTransitionTime a = co_LastTransitionTime b \<Longrightarrow> a = (b :: Condition)"
  by simp

interpretation put_condition: condition_setter putCondition
proof
  show "\<exists>c'. findCondition (putCondition cs c) (co_Type c) = Some c' \<and> co_Status c' = co_Status c \<and>
      co_Reason c' = co_Reason c \<and> co_Message c' = co_Message c" for cs c
    by (induction cs) (auto simp: findCondition_def)
  show "findCondition (putCondition cs c) ty = findCondition cs ty" if "ty \<noteq> co_Type c" for cs c ty
    using that by (induction cs) (auto simp: findCondition_def)
  show "putCondition cs c = cs" if "findCondition cs (co_Type c) = Some c'" "co_Status c' = co_Status c"
    "co_Reason c' = co_Reason c" "co_Message c' = co_Message c" for cs c c'
    using that by (induction cs) (auto simp: findCondition_def intro!: Condition_eqI split: if_splits)
qed

text \<open>Retrying: the result is that of the last attempt, and another attempt is made only after a conflict.\<close>

fun IsConflict :: "go_error \<Rightarrow> bool" where
  "IsConflict (ApiError (Conflict m)) = True"
| "IsConflict _ = False"

inductive retried :: "('w, 'a) prog \<Rightarrow> 'w \<Rightarrow> 'a result \<Rightarrow> 'w \<Rightarrow> bool" for f where
  last: "f w = Some (r, w') \<Longrightarrow> retried f w r w'"
| again: "f w = Some (Inl e, w1) \<Longrightarrow> IsConflict e \<Longrightarrow> retried f w1 r w' \<Longrightarrow> retried f w r w'"

inductive_cases retriedE: "retried f w r w'"

locale conflict_retry =
  fixes retry :: "('w, 'a) prog \<Rightarrow> ('w, 'a) prog"
  assumes retry_runs: "retry f w = Some (r, w') \<Longrightarrow> retried f w r w'"
    and retry_calls: "f w = None \<Longrightarrow> retry f w = None"
begin

text \<open>A success is the success of an attempt, in a world that the attempts before it led to.\<close>

lemma retry_success_from:
  assumes "rely R" and "withinP R f" and "retry f w = Some (Inr x, w')"
  shows "\<exists>v. R w v \<and> f v = Some (Inr x, w')"
proof -
  from assms(3) have "retried f w (Inr x) w'" by (rule retry_runs)
  then show ?thesis
  proof (induction w "Inr x :: 'a result" w' rule: retried.induct)
    case (last w w')
    then show ?case using rely.rely_refl [OF assms(1)] by blast
  next
    case (again w e w1 w')
    then show ?case using rely.rely_trans [OF assms(1) withinP_D [OF assms(2)]] by blast
  qed
qed

lemma retry_success: "retry f w = Some (Inr x, w') \<Longrightarrow> \<exists>v. f v = Some (Inr x, w')"
  using retry_success_from [of "\<lambda>_ _. True"] by (auto simp: rely_def withinP_def)

text \<open>How far an attempt may move the world, retrying moves it.\<close>

lemma retry_within:
  assumes "rely R" and "withinP R f"
  shows "withinP R (retry f)"
  unfolding withinP_def
proof (intro allI impI)
  fix w r w' assume "retry f w = Some (r, w')"
  then have "retried f w r w'" by (rule retry_runs)
  then show "R w w'"
    by (induction rule: retried.induct) (use assms in \<open>auto simp: withinP_def intro: rely.rely_trans\<close>)
qed

end

fun retrySteps :: "nat \<Rightarrow> ('w, 'a) prog \<Rightarrow> ('w, 'a) prog" where
  "retrySteps 0 f w = f w"
| "retrySteps (Suc n) f w =
     (case f w of
        None \<Rightarrow> None
      | Some (Inr x, w') \<Rightarrow> Some (Inr x, w')
      | Some (Inl e, w') \<Rightarrow> if IsConflict e then retrySteps n f w' else Some (Inl e, w'))"

lemma retrySteps_runs: "retrySteps n f w = Some (r, w') \<Longrightarrow> retried f w r w'"
  by (induction n arbitrary: w)
    (auto intro: retried.intros split: option.splits prod.splits sum.splits if_splits)

lemma retrySteps_first: "f w = Some (Inr x, w') \<Longrightarrow> retrySteps n f w = Some (Inr x, w')"
  by (cases n) simp_all

lemma retrySteps_calls: "f w = None \<Longrightarrow> retrySteps n f w = None"
  by (cases n) simp_all

interpretation retry_steps: conflict_retry "retrySteps n" for n
  by unfold_locales (erule retrySteps_runs, erule retrySteps_calls)

section \<open>The new status\<close>

lemma condition_types:
  "map co_Type (map (reconciliationCondition state err now) [ReconciliationSuccessful, ReconciliationFailed] @
     [readyCondition ready now]) = [ReconciliationSuccessful, ReconciliationFailed, FrontendsReady]"
  by (simp add: reconciliationCondition_def readyCondition_def Let_def split: option.split)

lemma agrees_time:
  "agrees cs (reconciliationCondition state err now ty) = agrees cs (reconciliationCondition state err now' ty)"
  "agrees cs (readyCondition ready now) = agrees cs (readyCondition ready now')"
  by (simp_all add: agrees_def reconciliationCondition_def readyCondition_def Let_def split: option.split)

context condition_setter
begin

lemma newStatus_agrees:
  "agrees (fst_Conditions (newStatus setc state err now ready stats old)) (reconciliationCondition state err now' ReconciliationSuccessful)"
  "agrees (fst_Conditions (newStatus setc state err now ready stats old)) (reconciliationCondition state err now' ReconciliationFailed)"
  "agrees (fst_Conditions (newStatus setc state err now ready stats old)) (readyCondition ready now')"
proof -
  let ?cs = "map (reconciliationCondition state err now) [ReconciliationSuccessful, ReconciliationFailed] @ [readyCondition ready now]"
  have "distinct (map co_Type ?cs)" unfolding condition_types by simp
  then have "\<forall>c \<in> set ?cs. agrees (foldl setc (fst_Conditions old) ?cs) c" by (blast intro: foldl_agrees)
  then show "agrees (fst_Conditions (newStatus setc state err now ready stats old)) (reconciliationCondition state err now' ReconciliationSuccessful)"
    "agrees (fst_Conditions (newStatus setc state err now ready stats old)) (reconciliationCondition state err now' ReconciliationFailed)"
    "agrees (fst_Conditions (newStatus setc state err now ready stats old)) (readyCondition ready now')"
    unfolding newStatus_def Let_def agrees_time(1) [of _ state err now' _ now] agrees_time(2) [of _ ready now' now] by simp_all
qed

lemma newStatus_settles:
  "newStatus setc state err now' ready stats (newStatus setc state err now ready stats old) =
     newStatus setc state err now ready stats old"
proof -
  let ?new = "newStatus setc state err now ready stats old"
  have "foldl setc (fst_Conditions ?new) (map (reconciliationCondition state err now')
      [ReconciliationSuccessful, ReconciliationFailed] @ [readyCondition ready now']) = fst_Conditions ?new"
    by (rule foldl_settled) (use newStatus_agrees in simp)
  then have "newStatus setc state err now' ready stats ?new = ?new\<lparr>fst_Ready := ready,
      fst_Deployments := (fst_Deployments ?new)\<lparr>fd_ManagedDeployments := fd_ManagedDeployments stats,
        fd_ReadyDeployments := fd_ReadyDeployments stats\<rparr>\<rparr>"
    by (simp add: newStatus_def [of setc state err now'])
  also have "\<dots> = ?new" by (simp add: newStatus_def Let_def)
  finally show ?thesis .
qed

end

lemma sint_int32: "MinInt32 \<le> i \<Longrightarrow> i \<le> MaxInt32 \<Longrightarrow> sint (word_of_int i :: 32 word) = i"
  by (simp add: sint_sbintrunc' MinInt32_def MaxInt32_def signed_take_bit_int_eq_self)

text \<open>A client over a cluster, with the counts given.\<close>

definition clusterStatus :: "int \<Rightarrow> int \<Rightarrow> Cluster StatusClient" where
  "clusterStatus managed ready =
     \<lparr>sc_GetFrontend = (\<lambda>nn w. (case map_of (cl_Frontends w) nn of
        None \<Rightarrow> Inl (ApiError (NotFound (nn_Name nn))) | Some x \<Rightarrow> Inr x, w)),
      sc_GetEnvironment = (\<lambda>nn w. (case map_of (cl_Environments w) nn of
        None \<Rightarrow> Inl (ApiError (NotFound (nn_Name nn))) | Some x \<Rightarrow> Inr x, w)),
      sc_ListFrontends = (\<lambda>envName w. (Inr (filter (\<lambda>f. fs_EnvName (fe_Spec f) = envName) (map snd (cl_Frontends w))), w)),
      sc_Count = (\<lambda>namespaces uid w. (Inr (managed, ready, []), w)),
      sc_StatusUpdate = (\<lambda>fe w. (Inr (), w\<lparr>cl_Frontends := AList.update (nameOf (fe_Meta fe)) fe (cl_Frontends w)\<rparr>)),
      sc_Now = (\<lambda>w. ''now''), sc_SetStatusCondition = putCondition, sc_DeepEqual = (=),
      sc_Wrap = (\<lambda>msg e. Errorf (msg @ errorText e)), sc_ClowderError = Errorf, sc_Retry = retrySteps 4\<rparr>"

definition statusCluster :: "Frontend \<Rightarrow> Cluster" where
  "statusCluster fe = emptyCluster\<lparr>cl_Frontends := [(inNamespace [] ''app'', fe)],
     cl_Environments := [(inNamespace [] [], demoRunEnv)]\<rparr>"

text \<open>A frontend whose status was written before.\<close>

definition settledFrontend :: Frontend where
  "settledFrontend = servedFrontend\<lparr>fe_Status := newStatus putCondition ReconciliationSuccessful None ''earlier'' True
     \<lparr>fd_ManagedDeployments = 1, fd_ReadyDeployments = 1\<rparr> (fe_Status servedFrontend)\<rparr>"

lemma statusCluster_namespaces:
  "\<exists>ns. GetNamespacesInEnv (clusterStatus managed ready) servedFrontend (statusCluster fe) = (Inr ns, statusCluster fe)"
  by (simp add: GetNamespacesInEnv_def GetOurEnv_def GetFrontendsInEnv_def wrapA_def bindA_def handleA_def clusterStatus_def
      statusCluster_def servedFrontend_def emptySpec_def inNamespace_def Let_def)

section \<open>Properties\<close>

text \<open>C28: the counts are written as 32-bit integers only when they fit, and then they are the counts;
  otherwise the call is an error and nothing is truncated.\<close>

theorem GetFrontendFigures_bounds:
  assumes "GetNamespacesInEnv c fe w = (Inr namespaces, w1)"
    and "sc_Count c namespaces (om_UID (fe_Meta fe)) w1 = (Inr (managed, ready, broken), w2)"
  shows "if managed \<in> {- (2 ^ 31)..2 ^ 31 - 1} \<and> ready \<in> {- (2 ^ 31)..2 ^ 31 - 1}
    then \<exists>stats. GetFrontendFigures c fe w = (Inr (stats, broken), w2) \<and>
      sint (fd_ManagedDeployments stats) = managed \<and> sint (fd_ReadyDeployments stats) = ready
    else GetFrontendFigures c fe w = (Inl (sc_ClowderError c ''value out of range for int32''), w2)"
  using assms sint_int32 [of managed] sint_int32 [of ready]
  by (auto simp: GetFrontendFigures_def wrapA_def bindA_def handleA_def MinInt32_def MaxInt32_def)

theorem GetFrontendFigures_bounds_witness:
  "GetFrontendFigures (clusterStatus 2147483648 0) servedFrontend (statusCluster servedFrontend) =
     (Inl (Errorf ''value out of range for int32''), statusCluster servedFrontend)"
proof -
  obtain ns where ns: "GetNamespacesInEnv (clusterStatus 2147483648 0) servedFrontend (statusCluster servedFrontend) =
      (Inr ns, statusCluster servedFrontend)" using statusCluster_namespaces by blast
  have "sc_Count (clusterStatus 2147483648 0) ns (om_UID (fe_Meta servedFrontend)) (statusCluster servedFrontend) =
      (Inr (2147483648, 0, []), statusCluster servedFrontend)" by (simp add: clusterStatus_def)
  from GetFrontendFigures_bounds [OF ns this] show ?thesis by (simp add: clusterStatus_def)
qed

text \<open>C30: the status that an attempt to set the conditions returns says one thing. The attempt reads the
  frontend and counts its deployments twice. Of the two reconciliation conditions exactly the one named by
  the outcome is true; the ready condition and the ready flag are true exactly when the managed and the ready
  deployments of the first count agree; the numbers in the status are those of the second count; and an
  error of the outcome shows as the reason of a condition.\<close>

theorem conditions_consistent:
  assumes "condition_setter (sc_SetStatusCondition c)" and "state \<in> {ReconciliationSuccessful, ReconciliationFailed}"
    and "setConditionsOnce c nn state err w = (Inr fe, w')"
  shows "\<exists>fe0 w1 stats1 broken1 w2 stats broken w3 s f r.
    sc_GetFrontend c nn w = (Inr fe0, w1) \<and> GetFrontendFigures c fe0 w1 = (Inr (stats1, broken1), w2) \<and>
    GetFrontendFigures c fe0 w2 = (Inr (stats, broken), w3) \<and>
    findCondition (fst_Conditions (fe_Status fe)) ReconciliationSuccessful = Some s \<and>
    findCondition (fst_Conditions (fe_Status fe)) ReconciliationFailed = Some f \<and>
    findCondition (fst_Conditions (fe_Status fe)) FrontendsReady = Some r \<and>
    (co_Status s = ''True'') = (state = ReconciliationSuccessful) \<and> (co_Status f = ''True'') = (state = ReconciliationFailed) \<and>
    (co_Status r = ''True'') = (fd_ManagedDeployments stats1 = fd_ReadyDeployments stats1) \<and>
    fst_Ready (fe_Status fe) = (fd_ManagedDeployments stats1 = fd_ReadyDeployments stats1) \<and>
    fst_Deployments (fe_Status fe) = stats \<and>
    (err \<noteq> None) = (co_Reason s = ''Error'' \<or> co_Reason f = ''Error'')"
proof -
  from assms(3) obtain fe0 w1 stats1 broken1 w2 stats broken w3 now where
    run: "sc_GetFrontend c nn w = (Inr fe0, w1)" "GetFrontendFigures c fe0 w1 = (Inr (stats1, broken1), w2)"
      "GetFrontendFigures c fe0 w2 = (Inr (stats, broken), w3)"
    and fe: "fe_Status fe = newStatus (sc_SetStatusCondition c) state err now
      (fd_ManagedDeployments stats1 = fd_ReadyDeployments stats1) stats (fe_Status fe0)"
    by (auto simp: setConditionsOnce_def GetFrontendResources_def bindA_Inr Let_def split: if_splits)
  let ?ready = "fd_ManagedDeployments stats1 = fd_ReadyDeployments stats1"
  note a = condition_setter.newStatus_agrees [OF assms(1), of state err now ?ready stats "fe_Status fe0" now, folded fe]
  have written: "fst_Ready (fe_Status fe) = ?ready" "fst_Deployments (fe_Status fe) = stats"
    by (simp_all add: fe newStatus_def Let_def)
  have "\<exists>s f r. findCondition (fst_Conditions (fe_Status fe)) ReconciliationSuccessful = Some s \<and>
    findCondition (fst_Conditions (fe_Status fe)) ReconciliationFailed = Some f \<and>
    findCondition (fst_Conditions (fe_Status fe)) FrontendsReady = Some r \<and>
    (co_Status s = ''True'') = (state = ReconciliationSuccessful) \<and> (co_Status f = ''True'') = (state = ReconciliationFailed) \<and>
    (co_Status r = ''True'') = ?ready \<and> (err \<noteq> None) = (co_Reason s = ''Error'' \<or> co_Reason f = ''Error'')"
    using a assms(2) by (cases err) (auto simp: agrees_def reconciliationCondition_def readyCondition_def Let_def)
  then obtain s f r where "findCondition (fst_Conditions (fe_Status fe)) ReconciliationSuccessful = Some s"
    "findCondition (fst_Conditions (fe_Status fe)) ReconciliationFailed = Some f"
    "findCondition (fst_Conditions (fe_Status fe)) FrontendsReady = Some r"
    "(co_Status s = ''True'') = (state = ReconciliationSuccessful)" "(co_Status f = ''True'') = (state = ReconciliationFailed)"
    "(co_Status r = ''True'') = ?ready" "(err \<noteq> None) = (co_Reason s = ''Error'' \<or> co_Reason f = ''Error'')"
    by (elim exE conjE)
  with run written show ?thesis by (intro exI conjI)
qed

lemma demo_figures:
  "GetFrontendFigures (clusterStatus 1 1) settledFrontend (statusCluster settledFrontend) =
     (Inr (\<lparr>fd_ManagedDeployments = 1, fd_ReadyDeployments = 1\<rparr>, []), statusCluster settledFrontend)"
  using statusCluster_namespaces [of 1 1 settledFrontend]
  by (auto simp: settledFrontend_def GetFrontendFigures_def GetNamespacesInEnv_def GetOurEnv_def GetFrontendsInEnv_def
      wrapA_def bindA_def handleA_def clusterStatus_def MinInt32_def MaxInt32_def Let_def split: option.splits sum.splits)

lemma demo_conditions_run:
  "\<exists>fe w'. setConditionsOnce (clusterStatus 1 1) (inNamespace [] ''app'') ReconciliationFailed (Some (Errorf ''e''))
     (statusCluster settledFrontend) = (Inr fe, w')"
proof -
  have get: "sc_GetFrontend (clusterStatus 1 1) (inNamespace [] ''app'') (statusCluster settledFrontend) =
      (Inr settledFrontend, statusCluster settledFrontend)"
    by (simp add: clusterStatus_def statusCluster_def)
  have put: "sc_StatusUpdate (clusterStatus 1 1) x w = (Inr (), w\<lparr>cl_Frontends := AList.update (nameOf (fe_Meta x)) x (cl_Frontends w)\<rparr>)"
    for x w by (simp add: clusterStatus_def)
  show ?thesis
    by (simp add: setConditionsOnce_def GetFrontendResources_def bindA_def get put demo_figures Let_def)
qed

theorem conditions_consistent_witness:
  "\<exists>fe w' s. setConditionsOnce (clusterStatus 1 1) (inNamespace [] ''app'') ReconciliationFailed (Some (Errorf ''e''))
      (statusCluster settledFrontend) = (Inr fe, w') \<and>
     findCondition (fst_Conditions (fe_Status fe)) ReconciliationSuccessful = Some s \<and> co_Status s \<noteq> ''True''"
proof -
  obtain fe w' where run: "setConditionsOnce (clusterStatus 1 1) (inNamespace [] ''app'') ReconciliationFailed (Some (Errorf ''e''))
      (statusCluster settledFrontend) = (Inr fe, w')" using demo_conditions_run by blast
  have setter: "condition_setter (sc_SetStatusCondition (clusterStatus 1 1))"
    by (simp add: clusterStatus_def put_condition.condition_setter_axioms)
  obtain s where "findCondition (fst_Conditions (fe_Status fe)) ReconciliationSuccessful = Some s"
    "(co_Status s = ''True'') = (ReconciliationFailed = ReconciliationSuccessful)"
    using conditions_consistent [OF setter _ run] by auto
  with run show ?thesis by (intro exI conjI) simp_all
qed

text \<open>C29: writing the conditions is idempotent. When the stored status is what an earlier call wrote for
  the same outcome and the same counts, a further attempt, at any later time, writes nothing.\<close>

theorem conditions_settle:
  assumes "condition_setter (sc_SetStatusCondition c)" and "\<And>s. sc_DeepEqual c s s"
    and "sc_GetFrontend c nn w = (Inr fe, w)"
    and "fe_Status fe = newStatus (sc_SetStatusCondition c) state err now ready stats old"
    and "GetFrontendResources c fe w = (Inr ready, w)" and "GetFrontendFigures c fe w = (Inr (stats, broken), w)"
  shows "setConditionsOnce c nn state err w = (Inr fe, w)"
proof -
  have "newStatus (sc_SetStatusCondition c) state err (sc_Now c w) ready stats (fe_Status fe) = fe_Status fe"
    unfolding assms(4) by (rule condition_setter.newStatus_settles [OF assms(1)])
  with assms(2,3,5,6) show ?thesis by (simp add: setConditionsOnce_def bindA_def)
qed

theorem conditions_settle_witness:
  "setConditionsOnce (clusterStatus 1 1) (inNamespace [] ''app'') ReconciliationSuccessful None (statusCluster settledFrontend) =
     (Inr settledFrontend, statusCluster settledFrontend)"
proof -
  let ?c = "clusterStatus 1 1" and ?w = "statusCluster settledFrontend"
  have c: "sc_SetStatusCondition ?c = putCondition" "sc_DeepEqual ?c = (=)" by (simp_all add: clusterStatus_def)
  note figures = demo_figures
  have "GetFrontendResources ?c settledFrontend ?w = (Inr True, ?w)"
    by (simp add: GetFrontendResources_def bindA_def figures)
  moreover have "sc_GetFrontend ?c (inNamespace [] ''app'') ?w = (Inr settledFrontend, ?w)"
    by (simp add: clusterStatus_def statusCluster_def)
  moreover have "fe_Status settledFrontend = newStatus putCondition ReconciliationSuccessful None ''earlier'' True
      \<lparr>fd_ManagedDeployments = 1, fd_ReadyDeployments = 1\<rparr> (fe_Status servedFrontend)"
    by (simp add: settledFrontend_def)
  ultimately show ?thesis
    using figures by (intro conditions_settle) (simp_all add: c put_condition.condition_setter_axioms)
qed

end
