(* ===== verification/Frontend_Controller.thy ===== *)
theory Frontend_Controller
  imports Status
begin

text \<open>
  \<^verbatim>\<open>controllers/frontend_controller.go\<close>: \<open>Reconcile\<close> with finalizers, retries and status, and the functions
  that turn a changed bundle or environment into requests.

  \<^item> The client calls, the finalizer helpers of controller-runtime, \<open>utils.Contains\<close> and the resource cache
    are fields of \<open>ControllerClient\<close>. A new cache starts empty: \<open>kc_NewCache\<close>.
  \<^item> \<open>managedFrontends\<close>, a global map from identifiers to true, is the list of its keys, passed and returned.
  \<^item> The result of \<open>Reconcile\<close> is the requeue flag and the error; \<^const>\<open>None\<close> is a run that does not end.
    A panic leaves \<open>Reconcile\<close> as it is.
  \<^item> The frontend that the retried function captures has the requested name whenever it was read, so the
    status is written for that name. The metrics are added in \<^theory_text>\<open>Metrics\<close>; logging is left out.
\<close>

section \<open>Model\<close>

record 'w ControllerClient =
  kc_Status :: "'w StatusClient"
  kc_UpdateFrontend :: "Frontend \<Rightarrow> 'w \<Rightarrow> unit result \<times> 'w"
  kc_GetBundle :: "NamespacedName \<Rightarrow> 'w \<Rightarrow> Bundle result \<times> 'w"
  kc_Contains :: "string list \<Rightarrow> string \<Rightarrow> bool"
  kc_AddFinalizer :: "string list \<Rightarrow> string \<Rightarrow> string list"
  kc_RemoveFinalizer :: "string list \<Rightarrow> string \<Rightarrow> string list"
  kc_NewCache :: "'w \<Rightarrow> 'w"
  kc_Reconciliation :: "Frontend \<Rightarrow> FrontendEnvironment \<Rightarrow> 'w FrontendReconciliation"
  kc_ApplyAll :: "'w \<Rightarrow> unit result \<times> 'w"
  kc_ReconcileCache :: "string \<Rightarrow> string \<Rightarrow> 'w \<Rightarrow> unit result \<times> 'w"

type_synonym outcome = "bool \<times> unit result"

definition frontendFinalizer :: string where
  "frontendFinalizer = ''finalizer.frontend.cloud.redhat.com''"

definition withFinalizers :: "Frontend \<Rightarrow> string list \<Rightarrow> Frontend" where
  "withFinalizers fe fs = fe\<lparr>fe_Meta := (fe_Meta fe)\<lparr>om_Finalizers := fs\<rparr>\<rparr>"

definition finalizeApp :: "Frontend \<Rightarrow> string list \<Rightarrow> string list" where
  "finalizeApp a managedFrontends = removeAll (GetIdent a) managedFrontends"

definition addFinalizer :: "'w ControllerClient \<Rightarrow> Frontend \<Rightarrow> ('w, unit) act" where
  "addFinalizer c a =
     kc_UpdateFrontend c (withFinalizers a (kc_AddFinalizer c (om_Finalizers (fe_Meta a)) frontendFinalizer))"

text \<open>Handling a frontend that is marked for deletion.\<close>

definition handleDeletion ::
  "'w ControllerClient \<Rightarrow> Frontend \<Rightarrow> string list \<Rightarrow> 'w \<Rightarrow> outcome \<times> string list \<times> 'w"
where
  "handleDeletion c fe managedFrontends w =
     (if kc_Contains c (om_Finalizers (fe_Meta fe)) frontendFinalizer then
        (let managed = finalizeApp fe managedFrontends in
         case kc_UpdateFrontend c (withFinalizers fe (kc_RemoveFinalizer c (om_Finalizers (fe_Meta fe)) frontendFinalizer)) w of
           (Inl e, w1) \<Rightarrow> ((False, Inl e), managed, w1)
         | (Inr _, w1) \<Rightarrow> ((False, Inr ()), managed, w1))
      else ((False, Inr ()), managedFrontends, w))"

definition envKey :: "Frontend \<Rightarrow> NamespacedName" where
  "envKey fe = \<lparr>nn_Namespace = [], nn_Name = fs_EnvName (fe_Spec fe)\<rparr>"

text \<open>The function that is retried on a conflict.\<close>

definition reconcileAttempt :: "'w ControllerClient \<Rightarrow> NamespacedName \<Rightarrow> ('w, Frontend) prog" where
  "reconcileAttempt c req =
     bindP (actP (sc_GetFrontend (kc_Status c) req)) (\<lambda>frontend.
     bindP (actP (sc_GetEnvironment (kc_Status c) (envKey frontend))) (\<lambda>fe.
     bindP (actP (\<lambda>w. (Inr (), kc_NewCache c w))) (\<lambda>_.
     bindP (run (kc_Reconciliation c frontend fe)) (\<lambda>_.
     bindP (actP (kc_ApplyAll c)) (\<lambda>_. actP (returnA frontend))))))"

definition reportFailure ::
  "'w ControllerClient \<Rightarrow> NamespacedName \<Rightarrow> string \<Rightarrow> go_error \<Rightarrow> string list \<Rightarrow> 'w \<Rightarrow> (outcome \<times> string list \<times> 'w) option"
where
  "reportFailure c req msg e managedFrontends w =
     (case SetFrontendConditions (kc_Status c) req ReconciliationFailed (Some e) w of
        None \<Rightarrow> None
      | Some (Inl sErr, w1) \<Rightarrow> Some ((True, Inl (Errorf (msg @ errorText sErr))), managedFrontends, w1)
      | Some (Inr _, w1) \<Rightarrow> Some ((True, Inl e), managedFrontends, w1))"

definition addManaged :: "string \<Rightarrow> string list \<Rightarrow> string list" where
  "addManaged ident managedFrontends =
     (if ident \<notin> set managedFrontends then managedFrontends @ [ident] else managedFrontends)"

definition finishReconcile ::
  "'w ControllerClient \<Rightarrow> NamespacedName \<Rightarrow> Frontend \<Rightarrow> string list \<Rightarrow> 'w \<Rightarrow> (outcome \<times> string list \<times> 'w) option"
where
  "finishReconcile c req frontend managedFrontends w =
     (case kc_ReconcileCache c (om_UID (fe_Meta frontend)) (fe_Name frontend) w of
        (Inl e, w1) \<Rightarrow> reportFailure c req ''error setting status after reconcile delete error: '' e managedFrontends w1
      | (Inr _, w1) \<Rightarrow>
          (let managed = addManaged (GetIdent frontend) managedFrontends in
           case SetFrontendConditions (kc_Status c) req ReconciliationSuccessful None w1 of
             None \<Rightarrow> None
           | Some (Inl e, w2) \<Rightarrow> Some ((True, Inr ()), managed, w2)
           | Some (Inr _, w2) \<Rightarrow> Some ((False, Inr ()), managed, w2)))"

definition reconcileLive ::
  "'w ControllerClient \<Rightarrow> NamespacedName \<Rightarrow> Frontend \<Rightarrow> string list \<Rightarrow> 'w \<Rightarrow> (outcome \<times> string list \<times> 'w) option"
where
  "reconcileLive c req frontend managedFrontends w =
     (case (if \<not> kc_Contains c (om_Finalizers (fe_Meta frontend)) frontendFinalizer
            then addFinalizer c frontend w else (Inr (), w)) of
        (Inl e, w1) \<Rightarrow> Some ((False, Inl e), managedFrontends, w1)
      | (Inr _, w1) \<Rightarrow>
          (case sc_GetEnvironment (kc_Status c) (envKey frontend) w1 of
             (Inl e, w2) \<Rightarrow> Some ((False, Inl e), managedFrontends, w2)
           | (Inr _, w2) \<Rightarrow>
               (case sc_Retry (kc_Status c) (reconcileAttempt c req) w2 of
                  None \<Rightarrow> None
                | Some (Inl e, w3) \<Rightarrow>
                    if isPanic e then Some ((False, Inl e), managedFrontends, w3)
                    else reportFailure c req ''error setting status after reconciliation error: '' e managedFrontends w3
                | Some (Inr fe, w3) \<Rightarrow> finishReconcile c req fe managedFrontends w3)))"

definition Reconcile ::
  "'w ControllerClient \<Rightarrow> NamespacedName \<Rightarrow> string list \<Rightarrow> 'w \<Rightarrow> (outcome \<times> string list \<times> 'w) option"
where
  "Reconcile c req managedFrontends w =
     (case sc_GetFrontend (kc_Status c) req w of
        (Inl e, w1) \<Rightarrow> Some (if IsNotFound e then ((False, Inr ()), managedFrontends, w1)
                        else ((False, Inl e), managedFrontends, w1))
      | (Inr frontend, w1) \<Rightarrow>
          if fs_Disabled (fe_Spec frontend)
          then Some ((False, Inl (Errorf ''frontend is disabled'')), managedFrontends, w1)
          else if om_DeletionTimestamp (fe_Meta frontend) \<noteq> None
          then Some (handleDeletion c frontend managedFrontends w1)
          else reconcileLive c req frontend managedFrontends w1)"

section \<open>Requests\<close>

definition requestsFor :: "FrontendList \<Rightarrow> NamespacedName list" where
  "requestsFor feList = map (\<lambda>frontend. nameOf (fe_Meta frontend)) feList"

definition appsToEnqueueUponBundleUpdate :: "'w ControllerClient \<Rightarrow> NamespacedName \<Rightarrow> 'w \<Rightarrow> NamespacedName list \<times> 'w" where
  "appsToEnqueueUponBundleUpdate c obj w =
     (case kc_GetBundle c obj w of
        (Inl e, w1) \<Rightarrow> ([], w1)
      | (Inr bundle, w1) \<Rightarrow>
          (case sc_ListFrontends (kc_Status c) (bsp_EnvName (bu_Spec bundle)) w1 of
             (Inl e, w2) \<Rightarrow> ([], w2)
           | (Inr frontendList, w2) \<Rightarrow> (requestsFor frontendList, w2)))"

definition appsToEnqueueUponFrontendEnvironmentUpdate ::
  "'w ControllerClient \<Rightarrow> NamespacedName \<Rightarrow> 'w \<Rightarrow> NamespacedName list \<times> 'w"
where
  "appsToEnqueueUponFrontendEnvironmentUpdate c obj w =
     (case sc_GetEnvironment (kc_Status c) obj w of
        (Inl e, w1) \<Rightarrow> ([], w1)
      | (Inr fe, w1) \<Rightarrow>
          (case sc_ListFrontends (kc_Status c) (fenv_Name fe) w1 of
             (Inl e, w2) \<Rightarrow> ([], w2)
           | (Inr frontendList, w2) \<Rightarrow> (requestsFor frontendList, w2)))"

section \<open>Contracts\<close>

text \<open>The helpers that edit finalizers, and the store of frontends. A frontend that is marked for deletion
  goes away when its last finalizer does.\<close>

locale frontend_store =
  fixes c :: "'w ControllerClient"
    and fview :: "'w \<Rightarrow> NamespacedName \<Rightarrow> Frontend option"
  assumes contains_mem: "kc_Contains c fs f = (f \<in> set fs)"
    and add_finalizer: "set (kc_AddFinalizer c fs f) = insert f (set fs)"
    and remove_finalizer: "set (kc_RemoveFinalizer c fs f) = set fs - {f}"
    and get_name: "sc_GetFrontend (kc_Status c) nn w = (Inr fe, w') \<Longrightarrow>
      nameOf (fe_Meta fe) = nn \<and> fview w nn = Some fe \<and> fview w' = fview w"
    and update_stores: "kc_UpdateFrontend c fe w = (Inr (), w') \<Longrightarrow>
      (\<exists>fe'. fview w' = (fview w)(nameOf (fe_Meta fe) \<mapsto> fe') \<and> om_Finalizers (fe_Meta fe') = om_Finalizers (fe_Meta fe)) \<or>
      om_DeletionTimestamp (fe_Meta fe) \<noteq> None \<and> om_Finalizers (fe_Meta fe) = [] \<and>
        fview w' = (fview w)(nameOf (fe_Meta fe) := None)"
begin

lemma withFinalizers_name [simp]: "nameOf (fe_Meta (withFinalizers fe fs)) = nameOf (fe_Meta fe)"
  "om_Finalizers (fe_Meta (withFinalizers fe fs)) = fs"
  by (simp_all add: withFinalizers_def)

lemma deletion_releases:
  assumes "sc_GetFrontend (kc_Status c) req w = (Inr fe, w0)" and "handleDeletion c fe managed w0 = ((False, Inr ()), managed', w')"
  shows "\<forall>fe'. fview w' req = Some fe' \<longrightarrow> frontendFinalizer \<notin> set (om_Finalizers (fe_Meta fe'))"
proof (cases "frontendFinalizer \<in> set (om_Finalizers (fe_Meta fe))")
  case False
  with assms get_name [OF assms(1)] show ?thesis by (simp add: handleDeletion_def contains_mem)
next
  case True
  with assms(2) have up: "kc_UpdateFrontend c (withFinalizers fe (kc_RemoveFinalizer c (om_Finalizers (fe_Meta fe)) frontendFinalizer)) w0 =
      (Inr (), w')"
    by (auto simp: handleDeletion_def contains_mem Let_def split: prod.splits sum.splits)
  have name: "nameOf (fe_Meta fe) = req" using get_name [OF assms(1)] by blast
  from update_stores [OF up] show ?thesis
  proof (elim disjE exE conjE)
    fix fe' assume "fview w' = (fview w0)(nameOf (fe_Meta (withFinalizers fe (kc_RemoveFinalizer c (om_Finalizers (fe_Meta fe)) frontendFinalizer))) \<mapsto> fe')"
      and "om_Finalizers (fe_Meta fe') = om_Finalizers (fe_Meta (withFinalizers fe (kc_RemoveFinalizer c (om_Finalizers (fe_Meta fe)) frontendFinalizer)))"
    then show ?thesis unfolding withFinalizers_name name by (simp add: remove_finalizer)
  qed (simp only: withFinalizers_name name, simp)
qed

end

lemma finishReconcile_done:
  assumes "finishReconcile c req fe managed w = Some ((False, Inr ()), managed', w')"
  shows "\<exists>w1 o1. kc_ReconcileCache c (om_UID (fe_Meta fe)) (fe_Name fe) w = (Inr (), w1) \<and>
    SetFrontendConditions (kc_Status c) req ReconciliationSuccessful None w1 = Some (Inr o1, w') \<and>
    managed' = addManaged (GetIdent fe) managed"
  using assms unfolding finishReconcile_def reportFailure_def
  by (auto simp: Let_def split: prod.splits sum.splits option.splits)

lemma reconcileLive_done:
  assumes "reconcileLive c req fe0 managed w = Some ((False, Inr ()), managed', w')"
  shows "\<exists>w2 fe w3. sc_Retry (kc_Status c) (reconcileAttempt c req) w2 = Some (Inr fe, w3) \<and>
    finishReconcile c req fe managed w3 = Some ((False, Inr ()), managed', w')"
  using assms unfolding reconcileLive_def reportFailure_def
  by (auto split: prod.splits sum.splits option.splits if_splits)

lemma attempt_done:
  assumes "reconcileAttempt c req v = Some (Inr fe, w)"
  shows "\<exists>env v1 v2 v3 v4. sc_GetFrontend (kc_Status c) req v = (Inr fe, v1) \<and>
    sc_GetEnvironment (kc_Status c) (envKey fe) v1 = (Inr env, v2) \<and>
    run (kc_Reconciliation c fe env) v3 = Some (Inr (), v4) \<and> kc_ApplyAll c v4 = (Inr (), w)"
  using assms unfolding reconcileAttempt_def bindP_Inr by auto

text \<open>The index of the frontends by environment, which \<open>List\<close> reads with a field selector.\<close>

locale env_index =
  fixes c :: "'w ControllerClient"
    and fview :: "'w \<Rightarrow> NamespacedName \<Rightarrow> Frontend option"
  assumes view_name: "fview w nn = Some fe \<Longrightarrow> nameOf (fe_Meta fe) = nn"
    and list_exact: "sc_ListFrontends (kc_Status c) e w = (Inr l, w') \<Longrightarrow>
      set l = {fe. \<exists>nn. fview w nn = Some fe \<and> fs_EnvName (fe_Spec fe) = e}"
    and reads_environment: "sc_GetEnvironment (kc_Status c) nn w = (r, w') \<Longrightarrow> fview w' = fview w"
    and reads_bundle: "kc_GetBundle c nn w = (b, w') \<Longrightarrow> fview w' = fview w"
begin

lemma requests_exact:
  assumes "sc_ListFrontends (kc_Status c) e w = (Inr l, w')"
  shows "set (requestsFor l) = {nn. \<exists>fe. fview w nn = Some fe \<and> fs_EnvName (fe_Spec fe) = e}"
proof -
  have "set (requestsFor l) = (\<lambda>fe. nameOf (fe_Meta fe)) ` {fe. \<exists>nn. fview w nn = Some fe \<and> fs_EnvName (fe_Spec fe) = e}"
    using list_exact [OF assms] by (simp add: requestsFor_def)
  also have "\<dots> = {nn. \<exists>fe. fview w nn = Some fe \<and> fs_EnvName (fe_Spec fe) = e}"
    by (auto simp: image_iff dest: view_name)
  finally show ?thesis .
qed

end

section \<open>A controller over a cluster\<close>

definition clusterController :: "Cluster ControllerClient" where
  "clusterController =
     \<lparr>kc_Status = (clusterStatus 1 1)\<lparr>sc_GetFrontend := (\<lambda>nn w. (case storeView cl_Frontends (\<lambda>x. nameOf (fe_Meta x)) w nn of
        None \<Rightarrow> Inl (ApiError (NotFound (nn_Name nn))) | Some x \<Rightarrow> Inr x, w)),
      sc_ListFrontends := (\<lambda>envName w. (Inr (filter (\<lambda>f. fs_EnvName (fe_Spec f) = envName \<and>
        storeView cl_Frontends (\<lambda>x. nameOf (fe_Meta x)) w (nameOf (fe_Meta f)) = Some f) (map snd (cl_Frontends w))), w)),
      sc_StatusUpdate := (\<lambda>fe w. case storeView cl_Frontends (\<lambda>x. nameOf (fe_Meta x)) w (nameOf (fe_Meta fe)) of
        None \<Rightarrow> (Inl (ApiError (NotFound (fe_Name fe))), w)
      | Some old \<Rightarrow> (Inr (), w\<lparr>cl_Frontends :=
          AList.update (nameOf (fe_Meta fe)) (old\<lparr>fe_Status := fe_Status fe\<rparr>) (cl_Frontends w)\<rparr>))\<rparr>,
      kc_UpdateFrontend = (\<lambda>fe w. (Inr (), if om_DeletionTimestamp (fe_Meta fe) \<noteq> None \<and> om_Finalizers (fe_Meta fe) = []
        then w\<lparr>cl_Frontends := AList.delete (nameOf (fe_Meta fe)) (cl_Frontends w)\<rparr>
        else w\<lparr>cl_Frontends := AList.update (nameOf (fe_Meta fe)) fe (cl_Frontends w)\<rparr>)),
      kc_GetBundle = (\<lambda>nn w. (case map_of (cl_Bundles w) nn of
        None \<Rightarrow> Inl (ApiError (NotFound (nn_Name nn))) | Some x \<Rightarrow> Inr x, w)),
      kc_Contains = (\<lambda>xs x. x \<in> set xs), kc_AddFinalizer = (\<lambda>fs f. if f \<in> set fs then fs else fs @ [f]),
      kc_RemoveFinalizer = (\<lambda>fs f. removeAll f fs),
      kc_NewCache = (\<lambda>w. w), kc_Reconciliation = (\<lambda>fe env. clusterReconciliation (\<lambda>_. []) env fe),
      kc_ApplyAll = returnA (), kc_ReconcileCache = (\<lambda>uid label. returnA ())\<rparr>"

interpretation cluster_store: frontend_store clusterController "storeView cl_Frontends (\<lambda>x. nameOf (fe_Meta x))"
proof
  let ?name = "\<lambda>x. nameOf (fe_Meta x)"
  have put: "storeView cl_Frontends ?name (w\<lparr>cl_Frontends := AList.update (?name fe) fe (cl_Frontends w)\<rparr>) =
      (storeView cl_Frontends ?name w)(?name fe \<mapsto> fe)"
    "storeView cl_Frontends ?name (w\<lparr>cl_Frontends := AList.delete (?name fe) (cl_Frontends w)\<rparr>) =
      (storeView cl_Frontends ?name w)(?name fe := None)" for fe :: Frontend and w :: Cluster
    by (simp_all add: storeView_def fun_eq_iff delete_conv')
  show "(\<exists>fe'. storeView cl_Frontends (\<lambda>x. nameOf (fe_Meta x)) w' =
        (storeView cl_Frontends (\<lambda>x. nameOf (fe_Meta x)) w)(nameOf (fe_Meta fe) \<mapsto> fe') \<and>
        om_Finalizers (fe_Meta fe') = om_Finalizers (fe_Meta fe)) \<or>
      om_DeletionTimestamp (fe_Meta fe) \<noteq> None \<and> om_Finalizers (fe_Meta fe) = [] \<and>
      storeView cl_Frontends (\<lambda>x. nameOf (fe_Meta x)) w' =
        (storeView cl_Frontends (\<lambda>x. nameOf (fe_Meta x)) w)(nameOf (fe_Meta fe) := None)"
    if "kc_UpdateFrontend clusterController fe w = (Inr (), w')" for fe w w'
    using that put [of fe w]
    by (auto simp: clusterController_def split: if_splits)
qed (auto simp: clusterController_def split: option.splits
    dest: storeView_self simp: storeView_def split: if_splits)

interpretation cluster_index: env_index clusterController "storeView cl_Frontends (\<lambda>x. nameOf (fe_Meta x))"
proof
  fix e l and w w' :: Cluster
  let ?view = "storeView cl_Frontends (\<lambda>x. nameOf (fe_Meta x))"
  assume "sc_ListFrontends (kc_Status clusterController) e w = (Inr l, w')"
  then have "l = filter (\<lambda>f. fs_EnvName (fe_Spec f) = e \<and> ?view w (nameOf (fe_Meta f)) = Some f) (map snd (cl_Frontends w))"
    by (simp add: clusterController_def) metis
  moreover have "nameOf (fe_Meta fe) = nn \<and> fe \<in> set (map snd (cl_Frontends w))" if "?view w nn = Some fe" for nn fe
    using that by (force simp: storeView_def dest!: map_of_SomeD split: option.splits if_splits)
  ultimately show "set l = {fe. \<exists>nn. ?view w nn = Some fe \<and> fs_EnvName (fe_Spec fe) = e}"
    by (simp only: set_filter) blast
qed (auto simp: clusterController_def clusterStatus_def storeView_def split: option.splits if_splits)

definition controlled :: "bool \<Rightarrow> string option \<Rightarrow> Frontend" where
  "controlled disabled deletion = servedFrontend\<lparr>fe_Meta := (fe_Meta servedFrontend)\<lparr>om_Finalizers := [frontendFinalizer],
     om_DeletionTimestamp := deletion\<rparr>, fe_Spec := (fe_Spec servedFrontend)\<lparr>fs_Disabled := disabled\<rparr>\<rparr>"

lemma controlled_name: "nameOf (fe_Meta (controlled disabled deletion)) = inNamespace [] ''app''"
  by (simp add: controlled_def servedFrontend_def emptyFrontend_def emptyMeta_def inNamespace_def)

lemma controlled_fields:
  "fs_Disabled (fe_Spec (controlled disabled deletion)) = disabled"
  "om_DeletionTimestamp (fe_Meta (controlled disabled deletion)) = deletion"
  "om_Finalizers (fe_Meta (controlled disabled deletion)) = [frontendFinalizer]"
  by (simp_all add: controlled_def)

lemma cluster_update_succeeds: "\<exists>w'. kc_UpdateFrontend clusterController fe w = (Inr (), w')"
  by (simp add: clusterController_def)

lemma controlled_get:
  "sc_GetFrontend (kc_Status clusterController) (inNamespace [] ''app'') (statusCluster (controlled disabled deletion)) =
     (Inr (controlled disabled deletion), statusCluster (controlled disabled deletion))"
  by (simp add: clusterController_def statusCluster_def storeView_def controlled_name)

text \<open>A controller that always reads the same frontend and environment.\<close>

definition fixedController :: "Cluster ControllerClient" where
  "fixedController = clusterController\<lparr>kc_Status := (clusterStatus 1 1)\<lparr>sc_GetFrontend := (\<lambda>nn w. (Inr servedFrontend, w)),
     sc_GetEnvironment := (\<lambda>nn w. (Inr demoRunEnv, w))\<rparr>, kc_UpdateFrontend := (\<lambda>fe w. (Inr (), w))\<rparr>"

lemma fixed_reads:
  "sc_GetFrontend (kc_Status fixedController) nn w = (Inr servedFrontend, w)"
  "sc_GetEnvironment (kc_Status fixedController) nn w = (Inr demoRunEnv, w)"
  "sc_Retry (kc_Status fixedController) = retrySteps 4"
  by (simp_all add: fixedController_def clusterStatus_def)

lemma fixed_calls:
  "addFinalizer fixedController fe w = (Inr (), w)" "kc_ReconcileCache fixedController uid label w = (Inr (), w)"
  by (simp_all add: addFinalizer_def fixedController_def clusterController_def)

lemma fixed_status:
  "\<exists>o1 w'. SetFrontendConditions (kc_Status fixedController) nn state err w = Some (Inr o1, w')"
proof -
  let ?c = "kc_Status fixedController"
  have ns: "\<exists>ns. GetNamespacesInEnv ?c servedFrontend w = (Inr ns, w)"
    by (simp add: GetNamespacesInEnv_def GetOurEnv_def GetFrontendsInEnv_def wrapA_def bindA_def handleA_def
        fixedController_def clusterStatus_def Let_def)
  then have figures: "GetFrontendFigures ?c servedFrontend w =
      (Inr (\<lparr>fd_ManagedDeployments = 1, fd_ReadyDeployments = 1\<rparr>, []), w)"
    by (auto simp: GetFrontendFigures_def wrapA_def bindA_def handleA_def fixedController_def clusterStatus_def
        MinInt32_def MaxInt32_def)
  let ?new = "servedFrontend\<lparr>fe_Status := newStatus (sc_SetStatusCondition ?c) state err (sc_Now ?c w) True
    \<lparr>fd_ManagedDeployments = 1, fd_ReadyDeployments = 1\<rparr> (fe_Status servedFrontend)\<rparr>"
  obtain w1 where "sc_StatusUpdate ?c ?new w = (Inr (), w1)" by (simp add: fixedController_def clusterStatus_def)
  then have "\<exists>o1 w'. setConditionsOnce ?c nn state err w = (Inr o1, w')"
    by (simp add: setConditionsOnce_def GetFrontendResources_def bindA_def figures Let_def fixed_reads)
  then obtain o1 w' where "setConditionsOnce ?c nn state err w = (Inr o1, w')" by blast
  then show ?thesis unfolding SetFrontendConditions_def fixed_reads
    by (intro exI, intro retrySteps_first) simp
qed

lemma fixed_attempt: "\<exists>w'. reconcileAttempt fixedController req emptyCluster = Some (Inr servedFrontend, w')"
proof -
  obtain w' where "run demoRun emptyCluster = Some (Inr (), w')" using demoRun_succeeds by blast
  moreover have "kc_Reconciliation fixedController servedFrontend demoRunEnv = demoRun"
    "kc_NewCache fixedController w = w" "kc_ApplyAll fixedController = returnA ()" for w
    by (simp_all add: fixedController_def clusterController_def demoRun_def)
  ultimately show ?thesis by (simp add: reconcileAttempt_def bindP_def fixed_reads)
qed

lemma fixedController_reconciles:
  "\<exists>managed' w'. Reconcile fixedController req managed emptyCluster = Some ((False, Inr ()), managed', w')"
proof -
  obtain w1 where "reconcileAttempt fixedController req emptyCluster = Some (Inr servedFrontend, w1)"
    using fixed_attempt by blast
  then have retry: "retrySteps 4 (reconcileAttempt fixedController req) emptyCluster = Some (Inr servedFrontend, w1)"
    by (rule retrySteps_first)
  obtain o1 w2 where status: "SetFrontendConditions (kc_Status fixedController) req ReconciliationSuccessful None w1 = Some (Inr o1, w2)"
    using fixed_status by blast
  have "\<not> fs_Disabled (fe_Spec servedFrontend)" "om_DeletionTimestamp (fe_Meta servedFrontend) = None"
    by (simp_all add: servedFrontend_def emptySpec_def emptyFrontend_def emptyMeta_def)
  with retry status show ?thesis
    by (simp add: Reconcile_def reconcileLive_def finishReconcile_def fixed_reads fixed_calls Let_def)
qed

section \<open>Properties\<close>

text \<open>C18: when \<open>Reconcile\<close> reports success for a frontend that is enabled and marked for deletion, the stored
  frontend is gone or has lost the operator's finalizer; if it had the finalizer, its identifier is no
  longer managed.\<close>

theorem deletion_finalizes:
  assumes "frontend_store c fview" and "sc_GetFrontend (kc_Status c) req w = (Inr fe, w1)"
    and "\<not> fs_Disabled (fe_Spec fe)" and "om_DeletionTimestamp (fe_Meta fe) \<noteq> None"
    and "Reconcile c req managed w = Some ((False, Inr ()), managed', w')"
  shows "(\<forall>fe'. fview w' req = Some fe' \<longrightarrow> frontendFinalizer \<notin> set (om_Finalizers (fe_Meta fe'))) \<and>
    managed' = (if frontendFinalizer \<in> set (om_Finalizers (fe_Meta fe)) then removeAll (GetIdent fe) managed else managed)"
proof -
  from assms(2-5) have h: "handleDeletion c fe managed w1 = ((False, Inr ()), managed', w')"
    by (simp add: Reconcile_def)
  moreover have "managed' = (if frontendFinalizer \<in> set (om_Finalizers (fe_Meta fe)) then removeAll (GetIdent fe) managed else managed)"
    using h by (auto simp: handleDeletion_def frontend_store.contains_mem [OF assms(1)] finalizeApp_def Let_def
        split: prod.splits sum.splits if_splits)
  ultimately show ?thesis using frontend_store.deletion_releases [OF assms(1,2)] by blast
qed

theorem deletion_finalizes_witness:
  "\<exists>w'. Reconcile clusterController (inNamespace [] ''app'') [''.app''] (statusCluster (controlled False (Some ''t''))) =
     Some ((False, Inr ()), [], w')"
proof -
  obtain managed' w' where run: "Reconcile clusterController (inNamespace [] ''app'') [''.app'']
      (statusCluster (controlled False (Some ''t''))) = Some ((False, Inr ()), managed', w')"
    using cluster_update_succeeds [of "withFinalizers (controlled False (Some ''t''))
        (kc_RemoveFinalizer clusterController [frontendFinalizer] frontendFinalizer)" "statusCluster (controlled False (Some ''t''))"]
    by (auto simp: Reconcile_def controlled_get handleDeletion_def Let_def controlled_fields
        cluster_store.contains_mem)
  have "managed' = []"
    using deletion_finalizes [OF cluster_store.frontend_store_axioms controlled_get _ _ run]
    by (simp add: controlled_def GetIdent_def servedFrontend_def emptySpec_def emptyFrontend_def emptyMeta_def)
  with run show ?thesis by blast
qed

text \<open>C5: success means that the work was done. When \<open>Reconcile\<close> returns without an error and without
  asking for a requeue for a frontend that is not being deleted, then its last attempt read the frontend and
  its environment, ran the whole reconciliation and applied the cache, stale objects were removed, the success
  condition was written, and the frontend is managed.\<close>

theorem success_means_applied:
  assumes "conflict_retry (sc_Retry (kc_Status c))" and "sc_GetFrontend (kc_Status c) req w = (Inr fe0, w0)"
    and "om_DeletionTimestamp (fe_Meta fe0) = None"
    and "Reconcile c req managed w = Some ((False, Inr ()), managed', w')"
  shows "\<exists>fe env v v1 v2 v3 v4 v5 v6 o1. sc_GetFrontend (kc_Status c) req v = (Inr fe, v1) \<and>
    sc_GetEnvironment (kc_Status c) (envKey fe) v1 = (Inr env, v2) \<and>
    run (kc_Reconciliation c fe env) v3 = Some (Inr (), v4) \<and> kc_ApplyAll c v4 = (Inr (), v5) \<and>
    kc_ReconcileCache c (om_UID (fe_Meta fe)) (fe_Name fe) v5 = (Inr (), v6) \<and>
    SetFrontendConditions (kc_Status c) req ReconciliationSuccessful None v6 = Some (Inr o1, w') \<and>
    GetIdent fe \<in> set managed'"
proof -
  from assms(2-4) have "reconcileLive c req fe0 managed w0 = Some ((False, Inr ()), managed', w')"
    by (simp add: Reconcile_def split: if_splits)
  from reconcileLive_done [OF this] obtain w2 fe v5 where
    retry: "sc_Retry (kc_Status c) (reconcileAttempt c req) w2 = Some (Inr fe, v5)"
    and finish: "finishReconcile c req fe managed v5 = Some ((False, Inr ()), managed', w')" by blast
  from conflict_retry.retry_success [OF assms(1) retry] obtain v where "reconcileAttempt c req v = Some (Inr fe, v5)" ..
  from attempt_done [OF this] obtain env v1 v2 v3 v4 where
    a: "sc_GetFrontend (kc_Status c) req v = (Inr fe, v1)" "sc_GetEnvironment (kc_Status c) (envKey fe) v1 = (Inr env, v2)"
      "run (kc_Reconciliation c fe env) v3 = Some (Inr (), v4)" "kc_ApplyAll c v4 = (Inr (), v5)" by blast
  from finishReconcile_done [OF finish] obtain v6 o1 where
    b: "kc_ReconcileCache c (om_UID (fe_Meta fe)) (fe_Name fe) v5 = (Inr (), v6)"
      "SetFrontendConditions (kc_Status c) req ReconciliationSuccessful None v6 = Some (Inr o1, w')"
      "managed' = addManaged (GetIdent fe) managed" by blast
  have "GetIdent fe \<in> set managed'" using b(3) by (simp add: addManaged_def)
  then show ?thesis by (intro exI conjI) (rule a b, assumption?)+
qed

theorem success_means_applied_witness:
  "\<exists>managed' w'. Reconcile fixedController (inNamespace [] ''app'') [] emptyCluster = Some ((False, Inr ()), managed', w') \<and>
     ''.app'' \<in> set managed'"
proof -
  obtain managed' w' where run: "Reconcile fixedController (inNamespace [] ''app'') [] emptyCluster =
      Some ((False, Inr ()), managed', w')" using fixedController_reconciles by blast
  have retry: "conflict_retry (sc_Retry (kc_Status fixedController))"
    by (simp add: fixedController_def clusterStatus_def retry_steps.conflict_retry_axioms)
  have get: "sc_GetFrontend (kc_Status fixedController) nn w = (Inr servedFrontend, w)" for nn w
    by (simp add: fixedController_def)
  have "om_DeletionTimestamp (fe_Meta servedFrontend) = None" "GetIdent servedFrontend = ''.app''"
    by (simp_all add: GetIdent_def servedFrontend_def emptySpec_def emptyFrontend_def emptyMeta_def)
  with run success_means_applied [OF retry get _ run] get show ?thesis by auto
qed

text \<open>C20: a change of an environment or of a bundle reaches every frontend concerned. When the server answers,
  the requests are exactly the stored frontends of the environment that was changed, or of the environment
  that the bundle belongs to.\<close>

theorem updates_enqueue_environment:
  assumes "env_index c fview" and "sc_ListFrontends (kc_Status c) e w1 = (Inr l, w2)"
  shows "(sc_GetEnvironment (kc_Status c) obj w = (Inr env, w1) \<and> fenv_Name env = e \<longrightarrow>
      set (fst (appsToEnqueueUponFrontendEnvironmentUpdate c obj w)) =
        {nn. \<exists>fe. fview w nn = Some fe \<and> fs_EnvName (fe_Spec fe) = e}) \<and>
    (kc_GetBundle c obj w = (Inr bundle, w1) \<and> bsp_EnvName (bu_Spec bundle) = e \<longrightarrow>
      set (fst (appsToEnqueueUponBundleUpdate c obj w)) =
        {nn. \<exists>fe. fview w nn = Some fe \<and> fs_EnvName (fe_Spec fe) = e})"
  using env_index.requests_exact [OF assms] assms(2)
    env_index.reads_environment [OF assms(1), of obj w "Inr env" w1] env_index.reads_bundle [OF assms(1), of obj w "Inr bundle" w1]
  by (auto simp: appsToEnqueueUponFrontendEnvironmentUpdate_def appsToEnqueueUponBundleUpdate_def)

theorem updates_enqueue_environment_witness:
  "set (fst (appsToEnqueueUponFrontendEnvironmentUpdate clusterController (inNamespace [] [])
     (statusCluster (controlled False None)))) = {inNamespace [] ''app''}"
proof -
  let ?w = "statusCluster (controlled False None)" and ?view = "storeView cl_Frontends (\<lambda>x. nameOf (fe_Meta x))"
  have view: "?view ?w nn = (if nn = inNamespace [] ''app'' then Some (controlled False None) else None)" for nn
    by (auto simp: storeView_def statusCluster_def controlled_name split: if_splits)
  obtain l where "sc_ListFrontends (kc_Status clusterController) [] ?w = (Inr l, ?w)"
    by (simp add: clusterController_def)
  from updates_enqueue_environment [OF cluster_index.env_index_axioms this, of "inNamespace [] []" ?w demoRunEnv]
  have "set (fst (appsToEnqueueUponFrontendEnvironmentUpdate clusterController (inNamespace [] []) ?w)) =
      {nn. \<exists>fe. ?view ?w nn = Some fe \<and> fs_EnvName (fe_Spec fe) = []}"
    by (simp add: clusterController_def clusterStatus_def statusCluster_def demoRunEnv_def emptyEnv_def emptyMeta_def)
  moreover have "fs_EnvName (fe_Spec (controlled False None)) = []"
    by (simp add: controlled_def servedFrontend_def emptySpec_def)
  ultimately show ?thesis by (auto simp: view split: if_splits)
qed

end
