(* ===== verification/Lifecycle.thy ===== *)
theory Lifecycle
  imports Frontend_Controller
begin

text \<open>
  The operator over time: a sequence of calls of \<open>Reconcile\<close>, restarts, and whatever other clients of the
  API server do in between and meanwhile.

  \<^item> \<open>held w\<close> is the set of the frontends stored with the operator's finalizer, each with its environment.
    The API server keeps an object as long as it has a finalizer, so a held frontend goes only when somebody
    strips the finalizer or moves the frontend to another environment.
  \<^item> The server lets any client do that. The set \<open>D\<close> names the frontends that somebody beside the operator
    does it to; nothing at all is known of them. \<open>heldOr D held\<close> is what is held, together with all that
    concerns the frontends of \<open>D\<close>: by the choice of \<open>D\<close> the other clients only let it grow. This is the
    relation \<open>grows\<close>. With \<open>D\<close> everything, the laws say nothing and hold of every server.
  \<^item> Interference happens at every call: the contract \<open>shared_store\<close> lets each call of the client move the
    world along \<open>grows\<close>. Only the operator's own updates of a frontend may do more.
  \<^item> A read of a frontend outside \<open>D\<close> may be stale, as reads from an informer's cache are: what was read
    unmarked with the finalizer is still held, in the environment that was read.
  \<^item> The state of a run of the operator is the world and \<open>managedFrontends\<close>, which a restart empties.
\<close>

section \<open>Identifiers\<close>

definition identOf :: "NamespacedName \<times> string \<Rightarrow> string" where
  "identOf p = snd p @ ''.'' @ nn_Name (fst p)"

lemma GetIdent_identOf: "GetIdent fe = identOf (nameOf (fe_Meta fe), fs_EnvName (fe_Spec fe))"
  by (simp add: GetIdent_def identOf_def)

section \<open>The ways through a live reconciliation\<close>

definition afterRetry ::
  "'w ControllerClient \<Rightarrow> NamespacedName \<Rightarrow> string list \<Rightarrow> Frontend result \<Rightarrow> 'w \<Rightarrow> outcome \<Rightarrow> string list \<Rightarrow> 'w \<Rightarrow> bool"
where
  "afterRetry c req managed z w out managed' w' = (case z of
     Inl e \<Rightarrow> managed' = managed \<and> w' = w \<or>
       reportFailure c req ''error setting status after reconciliation error: '' e managed w = Some (out, managed', w')
   | Inr fe \<Rightarrow> finishReconcile c req fe managed w = Some (out, managed', w'))"

lemma reconcileLive_cases:
  assumes "reconcileLive c req fe managed w = Some (out, managed', w')"
  obtains x w1 y w2 where "(if \<not> kc_Contains c (om_Finalizers (fe_Meta fe)) frontendFinalizer
        then addFinalizer c fe w else (Inr (), w)) = (x, w1)"
    and "sc_GetEnvironment (kc_Status c) (envKey fe) w1 = (y, w2)"
    and "managed' = managed \<and> w' \<in> {w1, w2} \<or> x = Inr () \<and> (\<exists>z w3.
      sc_Retry (kc_Status c) (reconcileAttempt c req) w2 = Some (z, w3) \<and> afterRetry c req managed z w3 out managed' w')"
proof -
  obtain x w1 where start: "(if \<not> kc_Contains c (om_Finalizers (fe_Meta fe)) frontendFinalizer
      then addFinalizer c fe w else (Inr (), w)) = (x, w1)" by fastforce
  obtain y w2 where env: "sc_GetEnvironment (kc_Status c) (envKey fe) w1 = (y, w2)" by fastforce
  note live = assms [unfolded reconcileLive_def start prod.case env]
  have "managed' = managed \<and> w' \<in> {w1, w2} \<or> x = Inr () \<and> (\<exists>z w3.
      sc_Retry (kc_Status c) (reconcileAttempt c req) w2 = Some (z, w3) \<and> afterRetry c req managed z w3 out managed' w')"
  proof (cases "sc_Retry (kc_Status c) (reconcileAttempt c req) w2")
    case None
    with live show ?thesis by (simp split: sum.splits)
  next
    case (Some p)
    with live show ?thesis
      by (cases p) (auto simp: afterRetry_def split: sum.splits if_splits)
  qed
  with that start env show thesis by blast
qed

section \<open>The contract\<close>

abbreviation grows :: "('w \<Rightarrow> 'a set) \<Rightarrow> 'w \<Rightarrow> 'w \<Rightarrow> bool" where
  "grows held w w' \<equiv> held w \<subseteq> held w'"

interpretation growth: rely "grows held" for held
  by unfold_locales auto

abbreviation finalizing :: "Frontend \<Rightarrow> bool" where
  "finalizing fe \<equiv> frontendFinalizer \<in> set (om_Finalizers (fe_Meta fe))"

abbreviation heldAs :: "Frontend \<Rightarrow> NamespacedName \<times> string" where
  "heldAs fe \<equiv> (nameOf (fe_Meta fe), fs_EnvName (fe_Spec fe))"

text \<open>A set that no call shrinks but, perhaps, the operator's updates of frontends.\<close>

locale shared_calls =
  fixes c :: "'w ControllerClient"
    and held :: "'w \<Rightarrow> 'a set"
  assumes retries: "conflict_retry (sc_Retry (kc_Status c))"
    and get_name: "sc_GetFrontend (kc_Status c) nn w = (Inr fe, w') \<Longrightarrow> nameOf (fe_Meta fe) = nn"
    and status_calls: "withinA (grows held) (sc_GetFrontend (kc_Status c) nn)"
      "withinA (grows held) (sc_GetEnvironment (kc_Status c) nn)" "withinA (grows held) (sc_ListFrontends (kc_Status c) envName)"
      "withinA (grows held) (sc_Count (kc_Status c) namespaces uid)" "withinA (grows held) (sc_StatusUpdate (kc_Status c) fe)"
    and cache_calls: "held w \<subseteq> held (kc_NewCache c w)" "withinA (grows held) (kc_ApplyAll c)"
      "withinA (grows held) (kc_ReconcileCache c uid label)"
    and run_calls: "callsWithin (grows held) (kc_Reconciliation c fe env)"
      "cacheWithin (grows held) (fr_Deployments (kc_Reconciliation c fe env))"
begin

lemma wrapA_grows: "withinA (grows held) m \<Longrightarrow> withinA (grows held) (wrapA (kc_Status c) msg m)"
  unfolding wrapA_def by (intro within)

lemma conditions_grow: "withinP (grows held) (SetFrontendConditions (kc_Status c) nn state err)"
proof -
  have "withinA (grows held) (GetFrontendFigures (kc_Status c) fe)" for fe
    unfolding GetFrontendFigures_def GetNamespacesInEnv_def GetOurEnv_def GetFrontendsInEnv_def Let_def
    by (intro within wrapA_grows status_calls) (auto intro!: within)
  moreover have "withinA (grows held) (\<lambda>w. (Inr (sc_Now (kc_Status c) w), w))" by (simp add: withinA_def)
  ultimately have "withinA (grows held) (setConditionsOnce (kc_Status c) nn state err)"
    unfolding setConditionsOnce_def GetFrontendResources_def Let_def
    by (auto intro!: within status_calls)
  then show ?thesis
    unfolding SetFrontendConditions_def
    by (intro conflict_retry.retry_within [OF retries growth.rely_axioms] within)
qed

lemma attempt_grows: "withinP (grows held) (reconcileAttempt c req)"
  unfolding reconcileAttempt_def
  by (intro within status_calls growth.run_within run_calls cache_calls) (simp add: withinA_def cache_calls)

lemma retried_grows: "withinP (grows held) (sc_Retry (kc_Status c) (reconcileAttempt c req))"
  by (rule conflict_retry.retry_within [OF retries growth.rely_axioms attempt_grows])

lemma reportFailure_grows:
  assumes "reportFailure c req msg e managed w = Some (out, managed', w')"
  shows "managed' = managed \<and> held w \<subseteq> held w'"
  using assms withinP_D [OF conditions_grow]
  by (auto simp: reportFailure_def split: option.splits prod.splits sum.splits)

lemma finish_grows:
  assumes "finishReconcile c req fe managed w = Some (out, managed', w')"
  shows "managed' \<in> {managed, addManaged (GetIdent fe) managed} \<and> held w \<subseteq> held w'"
proof -
  obtain x w1 where cache: "kc_ReconcileCache c (om_UID (fe_Meta fe)) (fe_Name fe) w = (x, w1)" by fastforce
  then have w1: "held w \<subseteq> held w1" by (rule withinA_D [OF cache_calls(3)])
  show ?thesis
  proof (cases x)
    case (Inl e)
    with assms cache have "reportFailure c req ''error setting status after reconcile delete error: '' e managed w1 =
        Some (out, managed', w')"
      by (simp add: finishReconcile_def)
    from reportFailure_grows [OF this] w1 show ?thesis by blast
  next
    case (Inr u)
    with assms cache obtain y where "SetFrontendConditions (kc_Status c) req ReconciliationSuccessful None w1 = Some (y, w')"
      and m: "managed' = addManaged (GetIdent fe) managed"
      by (auto simp: finishReconcile_def Let_def split: option.splits prod.splits sum.splits)
    from withinP_D [OF conditions_grow this(1)] m w1 show ?thesis by blast
  qed
qed

lemma after_grows:
  assumes "afterRetry c req managed z w out managed' w'"
  shows "held w \<subseteq> held w'"
proof (cases z)
  case (Inl e)
  with assms reportFailure_grows [of req _ e managed w out managed' w'] show ?thesis
    unfolding afterRetry_def Inl sum.case by blast
next
  case (Inr fe)
  with assms finish_grows [of req fe managed w out managed' w'] show ?thesis
    unfolding afterRetry_def Inr sum.case by blast
qed

end

text \<open>The frontends that carry the finalizer. Outside \<open>D\<close> only the operator moves or releases them.\<close>

definition heldOr :: "NamespacedName set \<Rightarrow> ('w \<Rightarrow> (NamespacedName \<times> string) set) \<Rightarrow> 'w \<Rightarrow> (NamespacedName \<times> string) set" where
  "heldOr D held w = held w \<union> {p. fst p \<in> D}"

locale shared_store = shared_calls c "heldOr D held"
  for c :: "'w ControllerClient" and D and held :: "'w \<Rightarrow> (NamespacedName \<times> string) set" +
  assumes contains_mem: "kc_Contains c fs f = (f \<in> set fs)"
    and add_finalizer: "set (kc_AddFinalizer c fs f) = insert f (set fs)"
    and get_held: "sc_GetFrontend (kc_Status c) nn w = (Inr fe, w') \<Longrightarrow> nn \<notin> D \<Longrightarrow> finalizing fe \<Longrightarrow>
      om_DeletionTimestamp (fe_Meta fe) = None \<Longrightarrow> heldAs fe \<in> held w'"
    and get_env: "sc_GetFrontend (kc_Status c) nn w = (Inr fe, w') \<Longrightarrow> nn \<notin> D \<Longrightarrow> (nn, e) \<in> held w' \<Longrightarrow>
      fs_EnvName (fe_Spec fe) = e"
    and update_others: "kc_UpdateFrontend c fe w = (r, w') \<Longrightarrow> p \<in> held w \<Longrightarrow> fst p \<notin> D \<Longrightarrow>
      fst p \<noteq> nameOf (fe_Meta fe) \<Longrightarrow> p \<in> held w'"
    and update_keeps: "finalizing fe \<Longrightarrow> kc_UpdateFrontend c fe w = (r, w') \<Longrightarrow> nameOf (fe_Meta fe) \<notin> D \<Longrightarrow>
      heldAs fe \<in> held w \<Longrightarrow> heldAs fe \<in> held w'"
    and update_holds: "finalizing fe \<Longrightarrow> kc_UpdateFrontend c fe w = (Inr (), w') \<Longrightarrow> nameOf (fe_Meta fe) \<notin> D \<Longrightarrow>
      heldAs fe \<in> held w'"
begin

lemma get_accounts:
  assumes "sc_GetFrontend (kc_Status c) nn w = (Inr fe, w')"
  shows "finalizing fe \<Longrightarrow> om_DeletionTimestamp (fe_Meta fe) = None \<Longrightarrow> heldAs fe \<in> heldOr D held w'"
    and "(nn, e) \<in> heldOr D held w' \<Longrightarrow> nn \<in> D \<or> fs_EnvName (fe_Spec fe) = e"
  using get_held [OF assms] get_env [OF assms] get_name [OF assms] by (auto simp: heldOr_def)

lemma addFinalizer_holds:
  assumes "addFinalizer c fe w = (r, w')"
    and "\<And>e. (nameOf (fe_Meta fe), e) \<in> heldOr D held w \<Longrightarrow> nameOf (fe_Meta fe) \<in> D \<or> fs_EnvName (fe_Spec fe) = e"
  shows "heldOr D held w \<subseteq> heldOr D held w'" and "r = Inr () \<Longrightarrow> heldAs fe \<in> heldOr D held w'"
proof -
  let ?fe = "withFinalizers fe (kc_AddFinalizer c (om_Finalizers (fe_Meta fe)) frontendFinalizer)"
  have fin: "finalizing ?fe" and same: "heldAs ?fe = heldAs fe" by (simp_all add: withFinalizers_def add_finalizer)
  from assms(1) have up: "kc_UpdateFrontend c ?fe w = (r, w')" by (simp add: addFinalizer_def)
  show "heldOr D held w \<subseteq> heldOr D held w'"
  proof
    fix p assume p: "p \<in> heldOr D held w"
    show "p \<in> heldOr D held w'"
    proof (cases "fst p \<in> D")
      case False
      with p have "p \<in> held w" by (simp add: heldOr_def)
      moreover have "p = heldAs fe" if "fst p = nameOf (fe_Meta fe)"
        using assms(2) [of "snd p"] p that False by (cases p) auto
      ultimately show ?thesis
        using update_others [OF up, of p] update_keeps [OF fin up] False unfolding same heldOr_def by fastforce
    qed (simp add: heldOr_def)
  qed
  show "heldAs fe \<in> heldOr D held w'" if "r = Inr ()"
    using update_holds [OF fin, of w w'] up that unfolding same heldOr_def by fastforce
qed

lemma start_holds:
  assumes "(if \<not> kc_Contains c (om_Finalizers (fe_Meta fe)) frontendFinalizer
        then addFinalizer c fe w else (Inr (), w)) = (x, w')"
    and "finalizing fe \<Longrightarrow> heldAs fe \<in> heldOr D held w"
    and "\<And>e. (nameOf (fe_Meta fe), e) \<in> heldOr D held w \<Longrightarrow> nameOf (fe_Meta fe) \<in> D \<or> fs_EnvName (fe_Spec fe) = e"
  shows "heldOr D held w \<subseteq> heldOr D held w'" and "x = Inr () \<Longrightarrow> heldAs fe \<in> heldOr D held w'"
proof -
  have "heldOr D held w \<subseteq> heldOr D held w' \<and> (x = Inr () \<longrightarrow> heldAs fe \<in> heldOr D held w')"
  proof (cases "finalizing fe")
    case True
    with assms(1,2) show ?thesis by (simp add: contains_mem)
  next
    case False
    with assms(1) have "addFinalizer c fe w = (x, w')" by (simp add: contains_mem)
    from addFinalizer_holds [OF this assms(3)] show ?thesis by blast
  qed
  then show "heldOr D held w \<subseteq> heldOr D held w'" and "x = Inr () \<Longrightarrow> heldAs fe \<in> heldOr D held w'" by blast+
qed

lemma attempt_reads_held:
  assumes "sc_Retry (kc_Status c) (reconcileAttempt c req) w = Some (Inr fe, w')" and "(req, e) \<in> heldOr D held w"
  shows "heldAs fe \<in> heldOr D held w'"
proof -
  note kept = withinP_D [OF retried_grows assms(1)]
  from conflict_retry.retry_success_from [OF retries growth.rely_axioms attempt_grows assms(1)]
  obtain v where "heldOr D held w \<subseteq> heldOr D held v" and "reconcileAttempt c req v = Some (Inr fe, w')" by blast
  from attempt_done [OF this(2)] obtain v1 where get: "sc_GetFrontend (kc_Status c) req v = (Inr fe, v1)" by blast
  have "(req, e) \<in> heldOr D held v1"
    using assms(2) \<open>heldOr D held w \<subseteq> heldOr D held v\<close> withinA_D [OF status_calls(1) get] by blast
  from get_accounts(2) [OF get this] get_name [OF get] assms(2) kept show ?thesis by (auto simp: heldOr_def)
qed

lemma live_holds:
  assumes run: "reconcileLive c req fe managed w = Some (out, managed', w')"
    and name: "nameOf (fe_Meta fe) = req" and fin: "finalizing fe \<Longrightarrow> heldAs fe \<in> heldOr D held w"
    and read: "\<And>e. (req, e) \<in> heldOr D held w \<Longrightarrow> req \<in> D \<or> fs_EnvName (fe_Spec fe) = e"
  shows "heldOr D held w \<subseteq> heldOr D held w' \<and> (managed' = managed \<or>
    (\<exists>p \<in> heldOr D held w'. managed' = addManaged (identOf p) managed))"
proof -
  obtain x w1 y w2 where start: "(if \<not> kc_Contains c (om_Finalizers (fe_Meta fe)) frontendFinalizer
        then addFinalizer c fe w else (Inr (), w)) = (x, w1)"
    and env: "sc_GetEnvironment (kc_Status c) (envKey fe) w1 = (y, w2)"
    and rest: "managed' = managed \<and> w' \<in> {w1, w2} \<or> x = Inr () \<and> (\<exists>z w3.
        sc_Retry (kc_Status c) (reconcileAttempt c req) w2 = Some (z, w3) \<and> afterRetry c req managed z w3 out managed' w')"
    using run by (rule reconcileLive_cases)
  have read': "nameOf (fe_Meta fe) \<in> D \<or> fs_EnvName (fe_Spec fe) = e" if "(nameOf (fe_Meta fe), e) \<in> heldOr D held w" for e
    using that unfolding name by (rule read)
  have w1: "heldOr D held w \<subseteq> heldOr D held w1" by (rule start_holds(1) [OF start fin read'])
  have held1: "heldAs fe \<in> heldOr D held w1" if "x = Inr ()" by (rule start_holds(2) [OF start fin read' that])
  have w2: "heldOr D held w1 \<subseteq> heldOr D held w2" using withinA_D [OF status_calls(2) env] .
  from rest show ?thesis
  proof (elim disjE conjE exE)
    fix z w3
    assume x: "x = Inr ()" and retry: "sc_Retry (kc_Status c) (reconcileAttempt c req) w2 = Some (z, w3)"
      and after: "afterRetry c req managed z w3 out managed' w'"
    have w3: "heldOr D held w2 \<subseteq> heldOr D held w3" using withinP_D [OF retried_grows retry] .
    have h: "(req, fs_EnvName (fe_Spec fe)) \<in> heldOr D held w2" using held1 [OF x] w2 name by auto
    show ?thesis
    proof (cases z)
      case (Inl e)
      with after have "managed' = managed \<and> heldOr D held w3 \<subseteq> heldOr D held w'"
        using reportFailure_grows [of req _ e managed w3 out managed' w'] unfolding afterRetry_def Inl sum.case by blast
      with w1 w2 w3 show ?thesis by blast
    next
      case (Inr fe')
      have "heldAs fe' \<in> heldOr D held w3" using attempt_reads_held [OF retry [unfolded Inr] h] .
      with finish_grows [of req fe' managed w3 out managed' w'] after w1 w2 w3 show ?thesis
        unfolding afterRetry_def Inr sum.case GetIdent_identOf by blast
    qed
  qed (use w1 w2 in auto)
qed

lemma deletion_keeps:
  assumes run: "handleDeletion c fe managed w = (out, managed', w')" and name: "nameOf (fe_Meta fe) = req"
    and env: "\<And>e. (req, e) \<in> heldOr D held w \<Longrightarrow> req \<in> D \<or> fs_EnvName (fe_Spec fe) = e"
    and managed: "set managed \<subseteq> identOf ` heldOr D held w"
  shows "set managed' \<subseteq> identOf ` heldOr D held w'"
proof (cases "finalizing fe")
  case False
  with run managed show ?thesis by (simp add: handleDeletion_def contains_mem)
next
  case True
  let ?fe = "withFinalizers fe (kc_RemoveFinalizer c (om_Finalizers (fe_Meta fe)) frontendFinalizer)"
  from True run obtain x where up: "kc_UpdateFrontend c ?fe w = (x, w')"
    and m: "managed' = removeAll (GetIdent fe) managed"
    by (auto simp: handleDeletion_def contains_mem finalizeApp_def Let_def split: prod.splits sum.splits)
  show ?thesis
  proof
    fix i assume "i \<in> set managed'"
    with m managed obtain p where p: "p \<in> heldOr D held w" "i = identOf p" "i \<noteq> GetIdent fe" by auto
    have "fst p \<noteq> nameOf (fe_Meta ?fe)" if "fst p \<notin> D"
    proof
      assume "fst p = nameOf (fe_Meta ?fe)"
      then have "fst p = req" using name by (simp add: withFinalizers_def)
      with p(1) env that have "p = (req, fs_EnvName (fe_Spec fe))" by (cases p) auto
      with p(2,3) name show False by (simp add: GetIdent_identOf)
    qed
    with update_others [OF up, of p] p(1,2) show "i \<in> identOf ` heldOr D held w'" by (auto simp: heldOr_def)
  qed
qed

text \<open>Every call of \<open>Reconcile\<close> keeps the managed frontends among these.\<close>

lemma Reconcile_keeps:
  assumes run: "Reconcile c req managed w = Some (out, managed', w')"
    and managed: "set managed \<subseteq> identOf ` heldOr D held w"
  shows "set managed' \<subseteq> identOf ` heldOr D held w'"
proof -
  obtain x w1 where get: "sc_GetFrontend (kc_Status c) req w = (x, w1)" by fastforce
  then have w1: "heldOr D held w \<subseteq> heldOr D held w1" by (rule withinA_D [OF status_calls(1)])
  with managed have m1: "set managed \<subseteq> identOf ` heldOr D held w1" by blast
  show ?thesis
  proof (cases x)
    case (Inl e)
    with run get m1 show ?thesis by (auto simp: Reconcile_def split: if_splits)
  next
    case (Inr fe)
    note name = get_name [OF get [unfolded Inr]] and env = get_accounts(2) [OF get [unfolded Inr]]
    consider (disabled) "managed' = managed" "w' = w1"
      | (deleted) "handleDeletion c fe managed w1 = (out, managed', w')"
      | (live) "om_DeletionTimestamp (fe_Meta fe) = None" "reconcileLive c req fe managed w1 = Some (out, managed', w')"
      using run get Inr by (auto simp: Reconcile_def split: if_splits)
    then show ?thesis
    proof cases
      case disabled
      with m1 show ?thesis by simp
    next
      case deleted
      from this name env m1 show ?thesis by (rule deletion_keeps)
    next
      case live
      from live_holds [OF live(2) name get_accounts(1) [OF get [unfolded Inr] _ live(1)] env]
      have "heldOr D held w1 \<subseteq> heldOr D held w'" and "set managed' \<subseteq> set managed \<union> identOf ` heldOr D held w'"
        by (auto simp: addManaged_def split: if_splits)
      with m1 show ?thesis by blast
    qed
  qed
qed

end

text \<open>The frontends that are disabled, marked for deletion and carry the finalizer.\<close>

locale disabled_store = shared_calls c stuck
  for c :: "'w ControllerClient" and stuck :: "'w \<Rightarrow> NamespacedName set" +
  assumes get_stuck: "sc_GetFrontend (kc_Status c) nn w = (Inr fe, w') \<Longrightarrow> nn \<in> stuck w \<Longrightarrow> fs_Disabled (fe_Spec fe)"
    and update_others: "kc_UpdateFrontend c fe w = (r, w') \<Longrightarrow> nn \<in> stuck w \<Longrightarrow> nn \<noteq> nameOf (fe_Meta fe) \<Longrightarrow> nn \<in> stuck w'"
begin

lemma live_keeps_other:
  assumes "reconcileLive c req fe managed w = Some (out, managed', w')" and "nameOf (fe_Meta fe) = req"
    and "nn \<in> stuck w" and "nn \<noteq> req"
  shows "nn \<in> stuck w'"
  using assms(1)
proof (rule reconcileLive_cases)
  fix x y w1 w2
  assume start: "(if \<not> kc_Contains c (om_Finalizers (fe_Meta fe)) frontendFinalizer
        then addFinalizer c fe w else (Inr (), w)) = (x, w1)"
    and env: "sc_GetEnvironment (kc_Status c) (envKey fe) w1 = (y, w2)"
    and rest: "managed' = managed \<and> w' \<in> {w1, w2} \<or> x = Inr () \<and> (\<exists>z w3.
        sc_Retry (kc_Status c) (reconcileAttempt c req) w2 = Some (z, w3) \<and> afterRetry c req managed z w3 out managed' w')"
  have w1: "nn \<in> stuck w1"
    using start assms(2-4) update_others
    by (auto simp: addFinalizer_def withFinalizers_def split: if_splits)
  have w2: "stuck w1 \<subseteq> stuck w2" using withinA_D [OF status_calls(2) env] .
  from withinP_D [OF retried_grows, of req w2] after_grows rest w1 w2 show "nn \<in> stuck w'" by blast
qed

lemma Reconcile_keeps_stuck:
  assumes run: "Reconcile c req managed w = Some (out, managed', w')" and stuck: "nn \<in> stuck w"
  shows "nn \<in> stuck w'"
proof -
  obtain x w1 where get: "sc_GetFrontend (kc_Status c) req w = (x, w1)" by fastforce
  then have w1: "nn \<in> stuck w1" using withinA_D [OF status_calls(1)] stuck by blast
  show ?thesis
  proof (cases x)
    case (Inl e)
    with run get w1 show ?thesis by (auto simp: Reconcile_def split: if_splits)
  next
    case (Inr fe)
    note name = get_name [OF get [unfolded Inr]]
    have own: "fs_Disabled (fe_Spec fe)" if "nn = req" using get_stuck [OF get [unfolded Inr]] stuck that by simp
    consider (disabled) "w' = w1" | (deleted) "nn \<noteq> req" "handleDeletion c fe managed w1 = (out, managed', w')"
      | (live) "nn \<noteq> req" "reconcileLive c req fe managed w1 = Some (out, managed', w')"
      using run get Inr own by (auto simp: Reconcile_def split: if_splits)
    then show ?thesis
    proof cases
      case deleted
      with w1 name update_others show ?thesis
        by (auto simp: handleDeletion_def withFinalizers_def Let_def split: prod.splits sum.splits if_splits)
    next
      case live
      with live_keeps_other name w1 show ?thesis by blast
    qed (use w1 in simp)
  qed
qed

end

section \<open>The operator as a transition system\<close>

datatype event = Meanwhile | Handle NamespacedName outcome | Restart

type_synonym 'w system = "'w \<times> string list"

inductive step :: "'w ControllerClient \<Rightarrow> ('w \<Rightarrow> 'a set) \<Rightarrow> 'w system \<Rightarrow> event \<Rightarrow> 'w system \<Rightarrow> bool"
  for c held
where
  meanwhile: "held w \<subseteq> held w' \<Longrightarrow> step c held (w, managed) Meanwhile (w', managed)"
| handle: "Reconcile c req managed w = Some (out, managed', w') \<Longrightarrow> step c held (w, managed) (Handle req out) (w', managed')"
| restart: "step c held (w, managed) Restart (w, [])"

inductive_simps step_simps: "step c held (w, managed) e (w', managed')"

inductive steps :: "'w ControllerClient \<Rightarrow> ('w \<Rightarrow> 'a set) \<Rightarrow> 'w system \<Rightarrow> 'w system \<Rightarrow> bool"
  for c held
where
  none: "steps c held s s"
| more: "steps c held s s' \<Longrightarrow> step c held s' e s'' \<Longrightarrow> steps c held s s''"

text \<open>What every step keeps, a run keeps.\<close>

lemma steps_invariant:
  assumes "steps c held s s'" and "I s" and "\<And>w managed e w' managed'. I (w, managed) \<Longrightarrow> step c held (w, managed) e (w', managed') \<Longrightarrow> I (w', managed')"
  shows "I s'"
  using assms(1,2) by (induction rule: steps.induct) (simp, metis assms(3) surj_pair)

text \<open>What a call does to \<open>managedFrontends\<close>: nothing, or enter or remove one identifier. No identifier is
  entered twice.\<close>

lemma reportFailure_managed:
  "reportFailure c req msg e managed w = Some (out, managed', w') \<Longrightarrow> managed' = managed"
  by (auto simp: reportFailure_def split: option.splits prod.splits sum.splits)

lemma finishReconcile_managed:
  "finishReconcile c req fe managed w = Some (out, managed', w') \<Longrightarrow> managed' \<in> {managed, addManaged (GetIdent fe) managed}"
  by (auto simp: finishReconcile_def Let_def dest: reportFailure_managed split: option.splits prod.splits sum.splits)

lemma reconcileLive_managed:
  assumes "reconcileLive c req fe managed w = Some (out, managed', w')"
  shows "managed' = managed \<or> (\<exists>i. managed' = addManaged i managed)"
  using assms
proof (rule reconcileLive_cases)
  have "managed' = managed \<or> (\<exists>i. managed' = addManaged i managed)" if "afterRetry c req managed z w3 out managed' w'" for z w3
    using that by (cases z) (auto simp: afterRetry_def dest: reportFailure_managed finishReconcile_managed)
  then show ?thesis if "managed' = managed \<and> w' \<in> {w1, w2} \<or> x = Inr () \<and> (\<exists>z w3.
      sc_Retry (kc_Status c) (reconcileAttempt c req) w2 = Some (z, w3) \<and> afterRetry c req managed z w3 out managed' w')"
    for x :: "unit result" and w1 w2 using that by blast
qed

lemma Reconcile_managed:
  assumes "Reconcile c req managed w = Some (out, managed', w')"
  shows "managed' = managed \<or> (\<exists>i. managed' = addManaged i managed) \<or> (\<exists>fe. managed' = removeAll (GetIdent fe) managed)"
proof -
  have "managed' = managed \<or> (\<exists>fe. managed' = removeAll (GetIdent fe) managed)"
    if "handleDeletion c fe managed v = (out, managed', w')" for fe v
    using that by (auto simp: handleDeletion_def finalizeApp_def Let_def split: prod.splits sum.splits if_splits)
  then show ?thesis
    using assms by (auto simp: Reconcile_def dest: reconcileLive_managed split: prod.splits sum.splits if_splits)
qed

lemma Reconcile_distinct:
  assumes "Reconcile c req managed w = Some (out, managed', w')" and "distinct managed"
  shows "distinct managed'"
  using Reconcile_managed [OF assms(1)] assms(2) by (auto simp: addManaged_def distinct_removeAll)

section \<open>The operator over a cluster\<close>

abbreviation frontendView :: "Cluster \<Rightarrow> NamespacedName \<Rightarrow> Frontend option" where
  "frontendView \<equiv> storeView cl_Frontends (\<lambda>x. nameOf (fe_Meta x))"

lemma frontendView_put:
  "frontendView (w\<lparr>cl_Frontends := AList.update (nameOf (fe_Meta fe)) fe (cl_Frontends w)\<rparr>) = (frontendView w)(nameOf (fe_Meta fe) \<mapsto> fe)"
  "frontendView (w\<lparr>cl_Frontends := AList.delete nn (cl_Frontends w)\<rparr>) = (frontendView w)(nn := None)"
  by (simp_all add: storeView_def fun_eq_iff delete_conv')

lemma frontendView_name: "frontendView w nn = Some fe \<Longrightarrow> nameOf (fe_Meta fe) = nn"
  by (auto simp: storeView_def split: option.splits if_splits)

lemma cluster_update:
  assumes "kc_UpdateFrontend clusterController fe w = (r, w')"
  shows "frontendView w' = (frontendView w)(nameOf (fe_Meta fe) :=
    (if om_DeletionTimestamp (fe_Meta fe) \<noteq> None \<and> om_Finalizers (fe_Meta fe) = [] then None else Some fe))"
  using assms by (auto simp: clusterController_def frontendView_put split: if_splits)

lemma cluster_reads:
  "sc_GetFrontend (kc_Status clusterController) nn w = (Inr fe, w') \<Longrightarrow> frontendView w nn = Some fe \<and> w' = w"
  by (auto simp: clusterController_def split: option.splits)

lemma cluster_status:
  assumes "\<And>m nn old s. m nn = Some old \<Longrightarrow> held (m(nn \<mapsto> old\<lparr>fe_Status := s\<rparr>)) = held m"
  shows "held (frontendView (snd (sc_StatusUpdate (kc_Status clusterController) fe w))) = held (frontendView w)"
proof (cases "frontendView w (nameOf (fe_Meta fe))")
  case None
  then show ?thesis by (simp add: clusterController_def)
next
  case (Some old)
  then have "nameOf (fe_Meta old) = nameOf (fe_Meta fe)" by (rule frontendView_name)
  then have "frontendView (snd (sc_StatusUpdate (kc_Status clusterController) fe w)) =
      (frontendView w)(nameOf (fe_Meta fe) \<mapsto> old\<lparr>fe_Status := fe_Status fe\<rparr>)"
    using Some frontendView_put(1) [of "old\<lparr>fe_Status := fe_Status fe\<rparr>" w] by (simp add: clusterController_def)
  with assms [of "frontendView w", OF Some] show ?thesis by simp
qed

text \<open>A set that is read off the frontends, their status apart, does not shrink under the calls.\<close>

lemma cluster_shared_calls:
  assumes "\<And>m nn old s. m nn = Some old \<Longrightarrow> held (m(nn \<mapsto> old\<lparr>fe_Status := s\<rparr>)) = held m"
  shows "shared_calls clusterController (\<lambda>w. held (frontendView w))"
proof -
  let ?held = "\<lambda>w. held (frontendView w)"
  have grows: "withinA (sameView cl_Frontends) a \<Longrightarrow> withinA (grows ?held) a" for a :: "(Cluster, 'r) act"
    by (simp add: withinA_def storeView_def [abs_def])
  have calls: "callsWithin (sameView cl_Frontends) (clusterReconciliation getenv env fe)" for getenv env fe
    by (rule cluster_calls_within) simp_all
  have "cacheWithin (sameView cl_Frontends) cacheDeployments"
    unfolding cacheDeployments_def by (rule throughCache_within) simp
  then have deployments: "cacheWithin (grows ?held) cacheDeployments" by (simp add: cacheWithin_def grows)
  show ?thesis
  proof (rule shared_calls.intro)
    show "nameOf (fe_Meta fe) = nn" if "sc_GetFrontend (kc_Status clusterController) nn w = (Inr fe, w')" for nn w fe w'
      using cluster_reads [OF that] frontendView_name by blast
    show "withinA (grows ?held) (sc_StatusUpdate (kc_Status clusterController) fe)" for fe
      by (simp add: withinA_def cluster_status [of held, OF assms])
    show "callsWithin (grows ?held) (kc_Reconciliation clusterController fe env)" for fe env
      using calls by (simp add: clusterController_def callsWithin_def cacheWithin_def resourceWithin_def grows)
  qed (simp_all add: clusterController_def clusterStatus_def withinA_def deployments retry_steps.conflict_retry_axioms)
qed

definition heldIn :: "(NamespacedName \<Rightarrow> Frontend option) \<Rightarrow> (NamespacedName \<times> string) set" where
  "heldIn m = {(nn, e). \<exists>fe. m nn = Some fe \<and> finalizing fe \<and> fs_EnvName (fe_Spec fe) = e}"

abbreviation clusterHeld :: "Cluster \<Rightarrow> (NamespacedName \<times> string) set" where
  "clusterHeld w \<equiv> heldIn (frontendView w)"

lemma heldOr_view: "heldOr D clusterHeld w = (\<lambda>m. heldIn m \<union> {p. fst p \<in> D}) (frontendView w)"
  by (simp add: heldOr_def)

interpretation cluster_operator: shared_store clusterController D clusterHeld for D
proof (rule shared_store.intro)
  have "shared_calls clusterController (\<lambda>w. (\<lambda>m. heldIn m \<union> {p. fst p \<in> D}) (frontendView w))"
    by (rule cluster_shared_calls) (auto simp: heldIn_def split: if_splits)
  then show "shared_calls clusterController (heldOr D clusterHeld)" unfolding heldOr_view [abs_def] .
  show "shared_store_axioms clusterController D clusterHeld"
  proof
    fix fe :: Frontend and w w' r
    assume "kc_UpdateFrontend clusterController fe w = (r, w')"
    note view = cluster_update [OF this]
    show "p \<in> clusterHeld w'" if "p \<in> clusterHeld w" "fst p \<noteq> nameOf (fe_Meta fe)" for p
      using that by (auto simp: heldIn_def view)
    show "heldAs fe \<in> clusterHeld w'" if "finalizing fe"
      using that by (auto simp: heldIn_def view)
  next
    fix fe :: Frontend and w w'
    assume "finalizing fe" and "kc_UpdateFrontend clusterController fe w = (Inr (), w')"
    then show "heldAs fe \<in> clusterHeld w'" using cluster_update by (auto simp: heldIn_def)
  next
    fix nn fe and w w' :: Cluster
    assume "sc_GetFrontend (kc_Status clusterController) nn w = (Inr fe, w')"
    then have read: "frontendView w nn = Some fe" "w' = w" using cluster_reads by blast+
    then show "heldAs fe \<in> clusterHeld w'" if "finalizing fe"
      using that frontendView_name [OF read(1)] by (auto simp: heldIn_def)
    show "fs_EnvName (fe_Spec fe) = e" if "(nn, e) \<in> clusterHeld w'" for e
      using that read by (auto simp: heldIn_def)
  qed (auto simp: clusterController_def)
qed

definition stuckIn :: "(NamespacedName \<Rightarrow> Frontend option) \<Rightarrow> NamespacedName set" where
  "stuckIn m = {nn. \<exists>fe. m nn = Some fe \<and> fs_Disabled (fe_Spec fe) \<and> om_DeletionTimestamp (fe_Meta fe) \<noteq> None \<and> finalizing fe}"

abbreviation clusterStuck :: "Cluster \<Rightarrow> NamespacedName set" where
  "clusterStuck w \<equiv> stuckIn (frontendView w)"

interpretation cluster_disabled: disabled_store clusterController clusterStuck
proof (rule disabled_store.intro)
  show "shared_calls clusterController clusterStuck"
    by (rule cluster_shared_calls) (auto simp: stuckIn_def split: if_splits)
  show "disabled_store_axioms clusterController clusterStuck"
  proof
    fix nn fe and w w' :: Cluster
    assume "sc_GetFrontend (kc_Status clusterController) nn w = (Inr fe, w')" and "nn \<in> clusterStuck w"
    then show "fs_Disabled (fe_Spec fe)" using cluster_reads by (fastforce simp: stuckIn_def)
  next
    fix fe :: Frontend and w w' r nn
    assume "kc_UpdateFrontend clusterController fe w = (r, w')" and "nn \<in> clusterStuck w" "nn \<noteq> nameOf (fe_Meta fe)"
    with cluster_update [OF this(1)] show "nn \<in> clusterStuck w'" by (simp add: stuckIn_def)
  qed
qed

lemma retrySteps_returns: "\<exists>x w'. retrySteps n (actP a) w = Some (x, w')"
  by (induction n arbitrary: w) (auto simp: actP_def split: prod.split sum.split)

lemma cluster_conditions: "\<exists>x w'. SetFrontendConditions (kc_Status clusterController) nn state err w = Some (x, w')"
  using retrySteps_returns by (simp add: SetFrontendConditions_def clusterController_def clusterStatus_def)

text \<open>A frontend of the cluster is handled: the run succeeds, and the frontend is managed.\<close>

lemma controlled_generates:
  fixes r :: "Cluster FrontendReconciliation"
  defines "r \<equiv> clusterReconciliation (\<lambda>_. []) demoRunEnv (controlled False None)"
  shows "\<exists>data. generateData r [controlled False None] = returnF data" "\<exists>wdata. widgetData r [controlled False None] = Inr wdata"
    "\<exists>tdata. templateData r [controlled False None] = Inr tdata"
  by (simp_all add: r_def clusterReconciliation_def generateData_def widgetData_def templateData_def countingEncoder_def Let_def
      wrapError_def setupFedModules_def setupSearchIndex_def setupServiceTilesData_def setupBundlesData_def setupAPISpecs_def
      setupWidgetRegistry_def setupBaseWidgetDashboardTemplates_def indexOf_def demoRunEnv_def emptyEnvSpec_def
      controlled_def servedFrontend_def emptySpec_def emptyFrontend_def addFedModule_def publishesModule_def
      collectSearch_def collectWidgets_def collectTemplates_def collectSpecs_def bindR_Inr sort_slice_def)

lemma controlled_run:
  "\<exists>w'. run (clusterReconciliation (\<lambda>_. []) demoRunEnv (controlled False None)) (statusCluster (controlled False None)) =
     Some (Inr (), w')"
proof -
  let ?w = "statusCluster (controlled False None)" and ?r = "clusterReconciliation (\<lambda>_. []) demoRunEnv (controlled False None)"
  have "fr_ListFrontends ?r (fs_EnvName (fe_Spec (controlled False None))) ?w = (Inr [controlled False None], ?w)"
    by (simp add: clusterReconciliation_def statusCluster_def)
  with controlled_generates obtain cms w1 where "setupConfigMaps ?r ?w = Some (Inr cms, w1)"
    using cluster_setup_succeeds demoRun_off(1) by blast
  from cluster_run_succeeds [OF this demoRun_off(2,3)] show ?thesis
    by (simp add: monitored_def demoRunEnv_def emptyEnvSpec_def)
qed

lemma cluster_handles:
  "\<exists>out w'. Reconcile clusterController (inNamespace [] ''app'') [] (statusCluster (controlled False None)) =
     Some (out, [''.app''], w')"
proof -
  let ?fe = "controlled False None" and ?c = clusterController
  let ?w = "statusCluster ?fe" and ?req = "inNamespace [] ''app''"
  have env: "sc_GetEnvironment (kc_Status ?c) (envKey ?fe) ?w = (Inr demoRunEnv, ?w)"
    by (simp add: clusterController_def clusterStatus_def statusCluster_def envKey_def controlled_def servedFrontend_def
        emptySpec_def inNamespace_def)
  obtain w1 where "run (kc_Reconciliation ?c ?fe demoRunEnv) ?w = Some (Inr (), w1)"
    using controlled_run by (auto simp: clusterController_def)
  then have "reconcileAttempt ?c ?req ?w = Some (Inr ?fe, w1)"
    by (simp add: reconcileAttempt_def bindP_def controlled_get env) (simp add: clusterController_def bindP_def)
  then have retry: "sc_Retry (kc_Status ?c) (reconcileAttempt ?c ?req) ?w = Some (Inr ?fe, w1)"
    by (simp add: clusterController_def clusterStatus_def retrySteps_first)
  obtain x w2 where status: "SetFrontendConditions (kc_Status ?c) ?req ReconciliationSuccessful None w1 = Some (x, w2)"
    using cluster_conditions by blast
  have "kc_ReconcileCache ?c uid label v = (Inr (), v)" for uid label v by (simp add: clusterController_def)
  moreover have "GetIdent ?fe = ''.app''"
    by (simp add: controlled_def GetIdent_def servedFrontend_def emptySpec_def emptyFrontend_def emptyMeta_def)
  ultimately show ?thesis
    using retry status env
    by (cases x; simp add: Reconcile_def controlled_get controlled_fields reconcileLive_def finishReconcile_def
        cluster_operator.contains_mem addManaged_def Let_def; blast)
qed

lemma steps_held:
  assumes "shared_store c D held" and "steps c (heldOr D held) (w0, []) (w, managed)"
  shows "distinct managed" and "set managed \<subseteq> identOf ` heldOr D held w"
proof -
  let ?I = "\<lambda>(w, managed). distinct managed \<and> set managed \<subseteq> identOf ` heldOr D held w"
  from assms(2) have "?I (w, managed)"
  proof (rule steps_invariant)
    fix w managed e w' managed'
    assume I: "?I (w, managed)" and "step c (heldOr D held) (w, managed) e (w', managed')"
    from this(2) show "?I (w', managed')"
      unfolding step_simps
    proof (elim disjE exE conjE)
      fix req out assume run: "Reconcile c req managed w = Some (out, managed', w')"
      from I shared_store.Reconcile_keeps [OF assms(1) run] Reconcile_distinct [OF run] show ?thesis by simp
    next
      assume "managed' = managed" "heldOr D held w \<subseteq> heldOr D held w'"
      with I show ?thesis by (simp, blast)
    qed simp
  qed simp
  then show "distinct managed" "set managed \<subseteq> identOf ` heldOr D held w" by simp_all
qed

section \<open>Properties\<close>

text \<open>C6: in every state that the operator can reach, by any number of calls, restarts and changes that others
  make, no identifier is managed twice, and each managed identifier is of a frontend that is stored with the
  operator's finalizer in the environment that the identifier names, or of one of the frontends \<open>D\<close>, which
  somebody beside the operator has moved to another environment or stripped of the finalizer. Nothing is
  assumed of the frontends of \<open>D\<close>, so that the others may do what the server lets them; that an identifier of
  \<open>D\<close> may really be left over is C23.\<close>

theorem managed_are_held:
  assumes "shared_store c D held" and "steps c (heldOr D held) (w0, []) (w, managed)"
  shows "distinct managed \<and>
    (\<forall>i \<in> set managed. \<exists>nn envName. i = identOf (nn, envName) \<and> ((nn, envName) \<in> held w \<or> nn \<in> D))"
  using steps_held [OF assms] by (fastforce simp: heldOr_def)

text \<open>The frontend of the cluster is handled; then somebody strips its finalizer, so that it is gone.\<close>

theorem managed_are_held_witness:
  "\<exists>w w'. steps clusterController (heldOr {} clusterHeld) (statusCluster (controlled False None), []) (w, [''.app'']) \<and>
     ''.app'' \<in> identOf ` clusterHeld w \<and>
     steps clusterController (heldOr {inNamespace [] ''app''} clusterHeld)
       (statusCluster (controlled False None), []) (w', [''.app'']) \<and>
     (\<forall>envName. (inNamespace [] ''app'', envName) \<notin> clusterHeld w')"
proof -
  let ?w0 = "statusCluster (controlled False None)" and ?app = "inNamespace [] ''app''"
  obtain out w where handled: "Reconcile clusterController ?app [] ?w0 = Some (out, [''.app''], w)"
    using cluster_handles by blast
  let ?w' = "w\<lparr>cl_Frontends := AList.delete ?app (cl_Frontends w)\<rparr>"
  have run: "steps clusterController (heldOr D clusterHeld) (?w0, []) (w, [''.app''])" for D
    by (rule steps.more [OF steps.none step.handle [OF handled]])
  moreover have "''.app'' \<in> identOf ` clusterHeld w"
    using managed_are_held [OF cluster_operator.shared_store_axioms run [of "{}"]] by auto
  moreover have "heldOr {?app} clusterHeld w \<subseteq> heldOr {?app} clusterHeld ?w'"
    by (auto simp: heldOr_def heldIn_def frontendView_put)
  then have "steps clusterController (heldOr {?app} clusterHeld) (?w0, []) (?w', [''.app''])"
    by (rule steps.more [OF run step.meanwhile])
  moreover have "\<forall>envName. (?app, envName) \<notin> clusterHeld ?w'" by (simp add: heldIn_def frontendView_put)
  ultimately show ?thesis by blast
qed

text \<open>C23: an identifier is made of the environment and the name. When a frontend is moved to another
  environment, the identifier it had before stays managed: no later call for the frontend removes it, the
  one that finalizes its deletion included.\<close>

theorem moved_frontend_stays_managed:
  assumes "sc_GetFrontend (kc_Status c) req w = (Inr fe, w1)" and "Reconcile c req managed w = Some (out, managed', w')"
    and "i \<in> set managed" and "i \<noteq> GetIdent fe"
  shows "i \<in> set managed'"
proof -
  from assms(1,2) consider "managed' = managed" | "handleDeletion c fe managed w1 = (out, managed', w')"
    | "reconcileLive c req fe managed w1 = Some (out, managed', w')"
    by (auto simp: Reconcile_def split: if_splits)
  then show ?thesis
  proof cases
    case 2
    with assms(3,4) show ?thesis
      by (auto simp: handleDeletion_def finalizeApp_def Let_def split: prod.splits sum.splits if_splits)
  next
    case 3
    with reconcileLive_managed [OF this] assms(3) show ?thesis by (auto simp: addManaged_def)
  qed (use assms(3) in simp)
qed

text \<open>The frontend of the cluster, moved to another environment and then deleted.\<close>

definition movedFrontend :: Frontend where
  "movedFrontend = (controlled False (Some ''t''))\<lparr>fe_Spec := (fe_Spec (controlled False (Some ''t'')))\<lparr>fs_EnvName := ''other''\<rparr>\<rparr>"

theorem moved_frontend_stays_managed_witness:
  "\<exists>out managed' w'. Reconcile clusterController (inNamespace [] ''app'') [''.app''] (statusCluster movedFrontend) =
     Some (out, managed', w') \<and> ''.app'' \<in> set managed' \<and> clusterHeld w' = {}"
proof -
  let ?w = "statusCluster movedFrontend" and ?req = "inNamespace [] ''app''"
  have name: "nameOf (fe_Meta movedFrontend) = ?req"
    using controlled_name [of False "Some ''t''"] by (simp add: movedFrontend_def)
  have get: "sc_GetFrontend (kc_Status clusterController) ?req ?w = (Inr movedFrontend, ?w)"
    by (simp add: clusterController_def statusCluster_def storeView_def name)
  let ?gone = "withFinalizers movedFrontend []"
  obtain w' where up: "kc_UpdateFrontend clusterController ?gone ?w = (Inr (), w')"
    using cluster_update_succeeds by blast
  have fields: "om_Finalizers (fe_Meta movedFrontend) = [frontendFinalizer]" "om_DeletionTimestamp (fe_Meta movedFrontend) = Some ''t''"
    "\<not> fs_Disabled (fe_Spec movedFrontend)" "GetIdent movedFrontend = ''other.app''"
    using name by (simp_all add: movedFrontend_def controlled_fields GetIdent_def inNamespace_def)
  then have run: "Reconcile clusterController ?req [''.app''] ?w = Some ((False, Inr ()), [''.app''], w')"
    using get up
    by (simp add: Reconcile_def handleDeletion_def cluster_operator.contains_mem finalizeApp_def Let_def)
      (simp add: clusterController_def)
  have "frontendView w' = (frontendView ?w)(?req := None)"
    using cluster_update [OF up] fields name by (simp add: withFinalizers_def)
  then have "frontendView w' = Map.empty" by (auto simp: statusCluster_def storeView_def emptyCluster_def)
  then have "clusterHeld w' = {}" by (simp add: heldIn_def)
  with run moved_frontend_stays_managed [OF get run, of "''.app''"] fields(4) show ?thesis by auto
qed

text \<open>C19: a disabled frontend is never finalized. As long as nobody enables it again or strips its finalizer, a frontend that is
  disabled, marked for deletion and carries the finalizer stays so, however often the operator handles it
  or others and however often it is restarted; each time it is read, \<open>Reconcile\<close> ends in the error that
  the frontend is disabled. So its deletion does not complete.\<close>

theorem disabled_never_finalized:
  assumes "disabled_store c stuck" and "steps c stuck (w, managed) (w', managed')" and "nn \<in> stuck w"
  shows "nn \<in> stuck w' \<and> (\<forall>fe v. sc_GetFrontend (kc_Status c) nn w' = (Inr fe, v) \<longrightarrow>
    Reconcile c nn managed' w' = Some ((False, Inl (Errorf ''frontend is disabled'')), managed', v))"
proof -
  let ?I = "\<lambda>(w, managed). nn \<in> stuck w"
  from assms(2) have "?I (w', managed')"
  proof (rule steps_invariant)
    fix w managed e w' managed'
    assume "?I (w, managed)" and "step c stuck (w, managed) e (w', managed')"
    with disabled_store.Reconcile_keeps_stuck [OF assms(1)] show "?I (w', managed')"
      unfolding step_simps by auto
  qed (use assms(3) in simp)
  then have "nn \<in> stuck w'" by simp
  with disabled_store.get_stuck [OF assms(1)] show ?thesis by (auto simp: Reconcile_def)
qed

theorem disabled_never_finalized_witness:
  "\<exists>managed'. steps clusterController clusterStuck (statusCluster (controlled True (Some ''t'')), [''.app''])
       (statusCluster (controlled True (Some ''t'')), managed') \<and>
     Reconcile clusterController (inNamespace [] ''app'') managed' (statusCluster (controlled True (Some ''t''))) =
       Some ((False, Inl (Errorf ''frontend is disabled'')), managed', statusCluster (controlled True (Some ''t'')))"
proof -
  let ?w = "statusCluster (controlled True (Some ''t''))" and ?nn = "inNamespace [] ''app''"
  have run: "steps clusterController clusterStuck (?w, [''.app'']) (?w, [])"
    by (rule steps.more [OF steps.none step.restart])
  have "?nn \<in> clusterStuck ?w"
    using cluster_reads [OF controlled_get] by (simp add: stuckIn_def controlled_fields)
  from disabled_never_finalized [OF cluster_disabled.disabled_store_axioms run this] controlled_get run show ?thesis by blast
qed

end
