(* ===== verification/Blocking.thy ===== *)
theory Blocking
  imports Lifecycle
begin

text \<open>
  What one broken navigation does to an environment (\<open>brokenNavigation\<close>). The config maps of an environment are generated
  from all its frontends by the reconciliation of each of them, so a navigation whose expansion does not
  end (\<^theory_text>\<open>Nav_Divergence\<close>) does not only spoil the frontend that declares it: \<open>Reconcile\<close> does not return
  for any frontend of the environment.
\<close>

lemma run_hangs:
  assumes "fr_ListFrontends r (fs_EnvName (fe_Spec (fr_Frontend r))) w = (Inr feList, w1)"
    and "ca_Create (fr_Configs r) (inNamespace (om_Namespace (fe_Meta (fr_Frontend r))) (fs_EnvName (fe_Spec (fr_Frontend r)))) w1 =
      (Inr old, w2)"
    and "(if env_GenerateNavJSON (fenv_Spec (fr_Env r)) then setupBundleData r else returnA ()) w2 = (Inr (), w3)"
    and "generateData r feList = None"
  shows "run r w = None"
  using assms
  by (simp add: run_def setupConfigMaps_def createConfigMap_def populateConfigMap_def bindP_def runP_def Let_def)

section \<open>A navigation that cannot be expanded\<close>

text \<open>The environment has a bundle whose items, gathered from all its frontends, hold a reference \<open>n\<close> to a segment
  of some frontend that holds, behind its first item, a reference to a segment that is not there. In front of
  \<open>n\<close>, in the segment, and in the bundles that are built before this one, there are only items without routes
  or group that are titled or refer to no segment. The bundles up to this one have IDs of their own, and the
  lists that the frontends declare are set.\<close>

definition brokenNavigation :: "FrontendList \<Rightarrow> FrontendEnvironment \<Rightarrow> bool" where
  "brokenNavigation feList env = (\<exists>before b after cache pre n rest its.
     env_Bundles (fenv_Spec env) = Some (before @ b # after) \<and> distinct (map fb_ID (before @ [b])) \<and>
     (\<forall>fe \<in> set feList. setPointers fe) \<and> fillNavSegmentCache feList = Inr cache \<and>
     (\<forall>b' \<in> set before. \<forall>m \<in> set (bundleItems feList (fb_ID b')). inert cache m) \<and>
     bundleItems feList (fb_ID b) = pre @ n # rest \<and> (\<forall>m \<in> set pre. inert cache m) \<and> bareRef n \<and> leafItem n \<and>
     cacheGet cache (refOf n) = Some \<lparr>ce_NavItems = its, ce_IsFilled = False\<rparr> \<and>
     (\<forall>m \<in> set its. inert cache m) \<and> (\<exists>m \<in> set (tl its). \<not> titled m))"

lemma buildBundles_hang:
  assumes "distinct (map fb_ID (before @ [b]))" and "\<forall>b' \<in> set before. \<exists>g. buildBundle m b' c = returnF (g, c)"
    and "buildBundle m b c = None"
  shows "buildBundles residue m (before @ b # after) c = None"
  using assms
proof (induction before arbitrary: m)
  case (Cons b' bs)
  let ?m = "afterBundle residue b' c m"
  have same: "buildBundle ?m b'' c = buildBundle m b'' c" if "b'' \<in> insert b (set bs)" for b''
  proof (rule buildBundle_cong)
    have "fb_ID b'' \<noteq> fb_ID b'" using that Cons.prems(1) by (auto simp: image_iff)
    then show "sort_slice segmentLess (slotOf ?m (fb_ID b'')) = sort_slice segmentLess (slotOf m (fb_ID b''))"
      by (simp add: slotOf_afterBundle)
  qed
  then have "buildBundles residue ?m (bs @ b # after) c = None" using Cons.prems by (intro Cons.IH) auto
  with Cons.prems(2) show ?case by auto
qed simp

lemma setupBundlesData_hangs:
  assumes "brokenNavigation feList env" and "rangeOrder order"
  shows "setupBundlesData residue order feList env = None"
proof -
  let ?m = "fst (fold collectPair (contributions feList) ([], []))"
  from assms(1) obtain before b after cache pre n rest its
    where bundles: "env_Bundles (fenv_Spec env) = Some (before @ b # after)" "distinct (map fb_ID (before @ [b]))"
      and cache: "\<forall>fe \<in> set feList. setPointers fe" "fillNavSegmentCache feList = Inr cache"
      and flat: "\<forall>b' \<in> set before. \<forall>m \<in> set (bundleItems feList (fb_ID b')). inert cache m"
      and items: "bundleItems feList (fb_ID b) = pre @ n # rest"
      and pre: "\<forall>m \<in> set pre. inert cache m" and n: "bareRef n" "leafItem n"
      and entry: "cacheGet cache (refOf n) = Some \<lparr>ce_NavItems = its, ce_IsFilled = False\<rparr>"
      and its: "\<forall>m \<in> set its. inert cache m" "\<exists>m \<in> set (tl its). \<not> titled m"
    unfolding brokenNavigation_def by blast
  have "fillFrom 0 (pre @ n # rest) 0 cache = None"
    by (rule reference_never_returns [OF _ pre n entry its]) simp
  then have hangs: "buildBundle ?m b cache = None"
    by (simp add: buildBundle_def collected_bundle(2) items fillNavRefsTree_def)
  have "fillFrom 0 (bundleItems feList (fb_ID b')) 0 cache = returnF (bundleItems feList (fb_ID b'), cache)"
    if "b' \<in> set before" for b' using flat that by (intro walk_inert) simp_all
  then have "\<forall>b' \<in> set before. \<exists>g. buildBundle ?m b' cache = returnF (g, cache)"
    by (simp add: buildBundle_def collected_bundle(2) fillNavRefsTree_def)
  from buildBundles_hang [OF bundles(2) this hangs]
  have "bindF (setupBundlesData residue order feList env) (\<lambda>p. returnF (fst p, set (snd p))) = None"
    by (simp add: setupBundlesData_collected [OF cache(1) assms(2) bundles(1) cache(2)])
  then show ?thesis by (cases "setupBundlesData residue order feList env" rule: run_cases) simp_all
qed

lemma generateData_hangs:
  assumes "brokenNavigation feList (fr_Env r)" and "rangeOrder (fr_PathOrder r)"
    and "setupFedModules (fr_PutJSON r) (fr_Env r) feList [] = Inr modules"
    and "setupServiceTilesData feList (fr_Env r) = Inr tiles"
  shows "generateData r feList = None"
proof -
  obtain index where "setupSearchIndex feList = Inr index" using setupSearchIndex_total by blast
  with assms(3,4) setupBundlesData_hangs [OF assms(1,2)] show ?thesis
    by (simp add: generateData_def Let_def wrapError_def)
qed

section \<open>A cluster with one broken frontend\<close>

definition brokenFrontend :: Frontend where
  "brokenFrontend = (emptyFrontend ''broken'')\<lparr>fe_Spec := emptySpec\<lparr>fs_FeoConfigEnabled := True,
     fs_BundleSegments := Some [Some (demoSegment ''b'' ''t'' [refItem ''broken'' ''s''])],
     fs_NavigationSegments := Some [Some \<lparr>ns_SegmentID = ''s'', ns_NavItems = Some [linkItem ''A'', refItem ''gone'' ''x'']\<rparr>]\<rparr>\<rparr>"

definition blockedEnv :: FrontendEnvironment where
  "blockedEnv = emptyEnv\<lparr>fenv_Spec := emptyEnvSpec\<lparr>env_Bundles := Some demoBundles\<rparr>\<rparr>"

definition blockedCluster :: Cluster where
  "blockedCluster = emptyCluster\<lparr>cl_Frontends := [(inNamespace [] ''app'', controlled False None),
     (inNamespace [] ''broken'', brokenFrontend)], cl_Environments := [(inNamespace [] [], blockedEnv)]\<rparr>"

lemma broken_contributions:
  "contributions [controlled False None, brokenFrontend] =
     [(''broken'', demoSegment ''b'' ''t'' [stampRefs ''broken'' ''t'' (refItem ''broken'' ''s'')])]"
  by (simp add: contributions_def contributed_def brokenFrontend_def controlled_def servedFrontend_def emptySpec_def
      demoSegment_def stamped_def emptyFrontend_def emptyMeta_def)

lemma broken_navigation: "brokenNavigation [controlled False None, brokenFrontend] blockedEnv"
proof -
  let ?l = "[controlled False None, brokenFrontend]"
  let ?n = "withPosition 100 (stampRefs ''broken'' ''t'' (refItem ''broken'' ''s''))"
  let ?its = "[linkItem ''A'', refItem ''gone'' ''x'']"
  let ?c = "cachePut (Map.empty(''broken'' \<mapsto> Map.empty)) \<lparr>sr_FrontendName = ''broken'', sr_SegmentID = ''s''\<rparr>
        \<lparr>ce_NavItems = ?its, ce_IsFilled = False\<rparr>"
  have bundles: "env_Bundles (fenv_Spec blockedEnv) = Some ([] @ \<lparr>fb_ID = ''b'', fb_Title = ''T'', fb_Description = ''D''\<rparr> # [])"
    by (simp add: blockedEnv_def demoBundles_def)
  have pointers: "\<forall>fe \<in> set ?l. setPointers fe"
    by (simp add: setPointers_def brokenFrontend_def controlled_def servedFrontend_def emptySpec_def demoSegment_def)
  have cache: "fillNavSegmentCache ?l = Inr ?c"
    by (simp add: fillNavSegmentCache_def cacheFrontend_def cacheSegment_def brokenFrontend_def controlled_def servedFrontend_def
        emptySpec_def emptyFrontend_def emptyMeta_def)
  have items: "bundleItems ?l (fb_ID \<lparr>fb_ID = ''b'', fb_Title = ''T'', fb_Description = ''D''\<rparr>) = [] @ ?n # []"
    by (simp add: bundleItems_def segmentItems_def sortedSegments_def segmentsOf_def broken_contributions demoSegment_def
        sort_slice_def)
  have n: "bareRef ?n" "leafItem ?n" "cacheGet ?c (refOf ?n) = Some \<lparr>ce_NavItems = ?its, ce_IsFilled = False\<rparr>"
    by (simp_all add: leafItem_def cacheGet_def cachePut_def refOf_def stampRefs_def withPosition_def refItem_def
        bareRef_def titled_def HasSegmentRef_def IsExpandable_def IsGroup_def emptyAttrs_def)
  have its: "\<forall>m \<in> set ?its. inert ?c m" "\<exists>m \<in> set (tl ?its). \<not> titled m"
    by (simp_all add: leafItem_def inert_def cacheGet_def cachePut_def refOf_def refItem_def
        bareRef_def titled_def HasSegmentRef_def IsExpandable_def IsGroup_def linkItem_def emptyAttrs_def)
  show ?thesis
    unfolding brokenNavigation_def
    by (intro exI conjI, rule bundles, simp, rule pointers, rule cache, simp, rule items, simp, rule n, rule n, rule n,
        rule its, rule its)
qed

section \<open>Properties\<close>

text \<open>C7: a navigation that cannot be expanded blocks its whole environment. Let a bundle of the environment refer to
  a segment of one of the frontends, and let that segment hold, behind its first item, a reference to a segment
  that is not there; the exact condition is \<open>brokenNavigation\<close>. Then \<open>Reconcile\<close> does not return for any
  frontend of the environment that is enabled and not being deleted, whether it has a part in that navigation or
  not, provided that everything before the bundles succeeds: the finalizer is on or is added, the frontend, the
  environment and the list of frontends are read, the config map is prepared, and the federated modules and the
  service tiles are generated. (If one of these fails, the call fails before it reaches the navigation.)\<close>

theorem navigation_blocks_environment:
  assumes "conflict_retry (sc_Retry (kc_Status c))" and "sc_GetFrontend (kc_Status c) req w = (Inr fe0, w1)"
    and "\<not> fs_Disabled (fe_Spec fe0)" and "om_DeletionTimestamp (fe_Meta fe0) = None"
    and "(if \<not> kc_Contains c (om_Finalizers (fe_Meta fe0)) frontendFinalizer then addFinalizer c fe0 w1 else (Inr (), w1)) = (Inr (), w2)"
    and "sc_GetEnvironment (kc_Status c) (envKey fe0) w2 = (Inr env0, w3)" and "sc_GetFrontend (kc_Status c) req w3 = (Inr fe, w4)"
    and "sc_GetEnvironment (kc_Status c) (envKey fe) w4 = (Inr env, w5)" and "r = kc_Reconciliation c fe env"
    and "fr_ListFrontends r (fs_EnvName (fe_Spec (fr_Frontend r))) (kc_NewCache c w5) = (Inr feList, w6)"
    and "ca_Create (fr_Configs r) (inNamespace (om_Namespace (fe_Meta (fr_Frontend r))) (fs_EnvName (fe_Spec (fr_Frontend r)))) w6 =
      (Inr old, w7)"
    and "(if env_GenerateNavJSON (fenv_Spec (fr_Env r)) then setupBundleData r else returnA ()) w7 = (Inr (), w8)"
    and "setupFedModules (fr_PutJSON r) (fr_Env r) feList [] = Inr modules"
    and "setupServiceTilesData feList (fr_Env r) = Inr tiles"
    and "rangeOrder (fr_PathOrder r)" and "brokenNavigation feList (fr_Env r)"
  shows "Reconcile c req managed w = None"
proof -
  have "generateData r feList = None" by (rule generateData_hangs [OF assms(16,15,13,14)])
  with assms(10-12) have "run r (kc_NewCache c w5) = None" by (rule run_hangs)
  then have "reconcileAttempt c req w3 = None"
    using assms(7-9) by (simp add: reconcileAttempt_def bindP_def)
  then have "sc_Retry (kc_Status c) (reconcileAttempt c req) w3 = None"
    by (rule conflict_retry.retry_calls [OF assms(1)])
  then have "reconcileLive c req fe0 managed w1 = None"
    unfolding reconcileLive_def assms(5) using assms(6) by simp
  with assms(2-4) show ?thesis by (simp add: Reconcile_def)
qed

theorem navigation_blocks_environment_witness:
  "Reconcile clusterController (inNamespace [] ''app'') [] blockedCluster = None"
proof -
  let ?c = clusterController and ?fe = "controlled False None" and ?w = blockedCluster
  let ?r = "clusterReconciliation (\<lambda>_. []) blockedEnv ?fe"
  have get: "sc_GetFrontend (kc_Status ?c) (inNamespace [] ''app'') ?w = (Inr ?fe, ?w)"
    by (simp add: clusterController_def blockedCluster_def storeView_def controlled_name)
  have env: "sc_GetEnvironment (kc_Status ?c) (envKey ?fe) ?w = (Inr blockedEnv, ?w)"
    by (simp add: clusterController_def clusterStatus_def blockedCluster_def envKey_def controlled_def servedFrontend_def
        emptySpec_def inNamespace_def)
  have list: "fr_ListFrontends ?r (fs_EnvName (fe_Spec (fr_Frontend ?r))) (kc_NewCache ?c ?w) = (Inr [?fe, brokenFrontend], ?w)"
    by (simp add: clusterReconciliation_def clusterController_def blockedCluster_def controlled_def servedFrontend_def
        brokenFrontend_def emptySpec_def)
  obtain old where cfg: "ca_Create (fr_Configs ?r) (inNamespace (om_Namespace (fe_Meta (fr_Frontend ?r)))
      (fs_EnvName (fe_Spec (fr_Frontend ?r)))) ?w = (Inr old, ?w)"
    using cache_calls(7) by (metis clusterReconciliation_fields(10))
  obtain modules tiles where "setupFedModules (\<lambda>raw k v. Inr raw) blockedEnv [?fe, brokenFrontend] [] = Inr modules"
    "setupServiceTilesData [?fe, brokenFrontend] blockedEnv = Inr tiles"
    by (simp_all add: setupFedModules_def addFedModule_def publishesModule_def
        setupServiceTilesData_def blockedEnv_def brokenFrontend_def controlled_def servedFrontend_def emptySpec_def
        emptyEnvSpec_def emptyFrontend_def entriesOf_def)
  then have files: "setupFedModules (fr_PutJSON ?r) (fr_Env ?r) [?fe, brokenFrontend] [] = Inr modules"
    "setupServiceTilesData [?fe, brokenFrontend] (fr_Env ?r) = Inr tiles"
    by (simp_all add: clusterReconciliation_def)
  have nav: "rangeOrder (fr_PathOrder ?r)" "brokenNavigation [?fe, brokenFrontend] (fr_Env ?r)"
    using broken_navigation by (simp_all add: clusterReconciliation_def rangeOrder_def)
  show ?thesis
    by (rule navigation_blocks_environment [OF _ get _ _ _ env get env _ list cfg _ files nav])
      (simp_all add: cluster_operator.retries cluster_operator.contains_mem controlled_fields,
       simp_all add: clusterController_def blockedEnv_def emptyEnvSpec_def)
qed

end
