(* ===== verification/Proxy_Convergence.thy ===== *)
theory Proxy_Convergence
  imports Reverse_Proxy
begin

text \<open>
  What the reconcilers of the reverse proxy achieve, over any API server that keeps the contract
  \<open>api_resource\<close>: a successful run leaves objects that the code's own comparisons accept, and a
  further run over them writes nothing. The comparisons are characterised exactly.
\<close>

section \<open>Comparisons\<close>

lemma portDiffers_iff: "portDiffers c d \<longleftrightarrow> c \<noteq> d"
  by (cases c; cases d) (auto simp: portDiffers_def)

lemma portsDiffer_iff: "length cs = length ds \<Longrightarrow> portsDiffer cs ds \<longleftrightarrow> cs \<noteq> ds"
  by (induction cs ds rule: portsDiffer.induct) (auto simp: portDiffers_iff)

lemma entriesIn_refl: "wf_map m \<Longrightarrow> entriesIn m m"
  by (auto simp: entriesIn_def wf_map_def list_all_iff)

text \<open>For maps, equal size and inclusion is equality.\<close>

lemma entriesIn_eq:
  assumes "wf_map a" and "wf_map b" and "mapLen a = mapLen b" and "entriesIn a b"
  shows "map_of (entries a) = map_of (entries b)"
proof -
  have d: "distinct (map fst (entries a))" "distinct (map fst (entries b))"
    using assms(1,2) by (simp_all add: wf_map_def)
  have len: "length (entries a) = length (entries b)"
    using assms(3) by (simp add: mapLen_def entries_def split: option.splits)
  have "set (entries a) \<subseteq> set (entries b)"
    using assms(4) by (auto simp: entriesIn_def list_all_iff dest: map_of_SomeD)
  moreover have "card (set (entries a)) = card (set (entries b))"
    using d len by (simp add: distinct_card distinct_map)
  ultimately have "set (entries a) = set (entries b)" by (simp add: card_subset_eq)
  with d show ?thesis by (simp add: map_of_inject_set)
qed

lemma labels_wf: "wf_map (getReverseProxyLabels env)"
  by (simp add: getReverseProxyLabels_def wf_map_def mapPut_def)

lemma wrongAnnotation_None:
  "wrongAnnotation annotations required = None \<longleftrightarrow>
     (required = [] \<or> annotations \<noteq> None) \<and> (\<forall>(k, v) \<in> set required. lookup0 annotations k = v)"
  by (induction annotations required rule: wrongAnnotation.induct) auto

lemma staleAnnotation_None:
  "staleAnnotation annotations keys = None \<longleftrightarrow> (\<forall>k \<in> set keys. lookup0 annotations k = [])"
  by (induction annotations keys rule: staleAnnotation.induct) (auto simp: lookup0_def)

lemma wrongLabel_None:
  "wrongLabel current desired labels = None \<longleftrightarrow> (\<forall>l \<in> set labels. lookup0 current l = lookup0 desired l)"
  by (induction current desired labels rule: wrongLabel.induct) auto

lemma compareBackend_None:
  "compareBackend s = None \<longleftrightarrow> s = Some \<lparr>ib_Name = ''reverse-proxy'', ib_PortNumber = ReverseProxyPort\<rparr>"
  by (cases s) (auto simp: compareBackend_def)

lemma comparePath_None:
  "comparePath p = None \<longleftrightarrow> p = \<lparr>ip_Path = ''/'', ip_PathType = Some ''Prefix'',
     ip_Service = Some \<lparr>ib_Name = ''reverse-proxy'', ib_PortNumber = ReverseProxyPort\<rparr>\<rparr>"
  by (cases p) (auto simp: comparePath_def compareBackend_None)

definition proxyRule :: "string \<Rightarrow> IngressRule" where
  "proxyRule host = \<lparr>ir_Host = host, ir_HTTP = Some [\<lparr>ip_Path = ''/'', ip_PathType = Some ''Prefix'',
     ip_Service = Some \<lparr>ib_Name = ''reverse-proxy'', ib_PortNumber = ReverseProxyPort\<rparr>\<rparr>]\<rparr>"

lemma compareRules_None: "compareRules rules host = None \<longleftrightarrow> rules = [proxyRule host]"
proof -
  have one: "length xs = 1 \<longleftrightarrow> (\<exists>x. xs = [x])" for xs :: "'a list"
    by (auto simp: length_Suc_conv)
  have rule: "compareRules [rule] host = None \<longleftrightarrow> rule = proxyRule host" for rule
  proof (cases "ir_HTTP rule")
    case None
    then have "rule \<noteq> proxyRule host" by (auto simp: proxyRule_def)
    with None show ?thesis by (simp add: compareRules_def Let_def)
  next
    case (Some paths)
    have "comparePath (paths ! 0) = None \<and> length paths = 1 \<longleftrightarrow> Some paths = ir_HTTP (proxyRule host)"
      using one [of paths] by (auto simp: comparePath_None proxyRule_def)
    moreover have "rule = proxyRule host \<longleftrightarrow> ir_Host rule = host \<and> ir_HTTP rule = ir_HTTP (proxyRule host)"
      by (cases rule) (auto simp: proxyRule_def)
    moreover have "compareRules [rule] host = None \<longleftrightarrow>
        ir_Host rule = host \<and> comparePath (paths ! 0) = None \<and> length paths = 1"
      using Some by (simp add: compareRules_def Let_def)
    ultimately show ?thesis using Some by metis
  qed
  show ?thesis
  proof (cases "length rules = 1")
    case True
    with one [of rules] rule show ?thesis by auto
  qed (auto simp: compareRules_def)
qed

lemma compareTLS_iff:
  "\<not> fst (compareTLS env tls) \<longleftrightarrow> map it_Hosts tls = (if env_SSL (fenv_Spec env) then [[]] else [])"
proof (cases tls)
  case (Cons t ts)
  then show ?thesis by (auto simp: compareTLS_def)
qed (simp add: compareTLS_def)

text \<open>When the comparison accepts an ingress. Of a TLS entry it looks at the hosts only, not at the secret.\<close>

definition ingressMatches :: "FrontendEnvironment \<Rightarrow> Ingress \<Rightarrow> string \<Rightarrow> strmap option \<Rightarrow> bool" where
  "ingressMatches env current host labels =
     ((case is_IngressClassName (i_Spec current) of None \<Rightarrow> [] | Some c \<Rightarrow> c) =
        orDefault (env_IngressClass (fenv_Spec env)) ''nginx'' \<and>
      is_Rules (i_Spec current) = [proxyRule host] \<and>
      map it_Hosts (is_TLS (i_Spec current)) = (if env_SSL (fenv_Spec env) then [[]] else []) \<and>
      (requiredAnnotations env = [] \<or> om_Annotations (i_Meta current) \<noteq> None) \<and>
      (\<forall>(k, v) \<in> set (requiredAnnotations env). lookup0 (om_Annotations (i_Meta current)) k = v) \<and>
      (env_Whitelist (fenv_Spec env) = [] \<longrightarrow>
        (\<forall>k \<in> {''haproxy.router.openshift.io/ip_whitelist'', ''nginx.ingress.kubernetes.io/whitelist-source-range''}.
           lookup0 (om_Annotations (i_Meta current)) k = [])) \<and>
      (\<forall>l \<in> set importantLabels. lookup0 (om_Labels (i_Meta current)) l = lookup0 labels l))"

lemma reason_steps:
  "fst (case a of None \<Rightarrow> x | Some r \<Rightarrow> (True, r)) \<longleftrightarrow> a \<noteq> None \<or> fst x"
  "fst (if c then (True, t) else x) \<longleftrightarrow> c \<or> fst x"
  "(if c then a else None) \<noteq> None \<longleftrightarrow> c \<and> a \<noteq> None"
  by (simp_all split: option.split)

lemma compareIngress_matches:
  "fst (compareIngressFields env current host labels) \<longleftrightarrow> \<not> ingressMatches env current host labels"
proof -
  have tls: "fst (compareTLS env t) \<longleftrightarrow> map it_Hosts t \<noteq> (if env_SSL (fenv_Spec env) then [[]] else [])" for t
    using compareTLS_iff by blast
  show ?thesis
    unfolding compareIngressFields_def ingressMatches_def Let_def reason_steps compareRules_None
      wrongAnnotation_None staleAnnotation_None wrongLabel_None tls length_0_conv list.set by blast
qed

section \<open>Desired objects are accepted\<close>

lemma sameMap_lookup0: "sameMap a b \<Longrightarrow> lookup0 b k = lookup0 a k"
  by (simp add: sameMap_def lookup0_entries)

text \<open>What the server stores for a desired ingress is accepted: every field of it was set.\<close>

lemma desired_ingress_matches:
  assumes "buildReverseProxyIngress r = Inr d" and "keepsOption (is_IngressClassName (i_Spec d)) (is_IngressClassName (i_Spec x))"
    and "is_TLS (i_Spec x) = is_TLS (i_Spec d)" and "is_Rules (i_Spec x) = is_Rules (i_Spec d)"
    and "sameMap (om_Labels (i_Meta d)) (om_Labels (i_Meta x))" and "sameMap (om_Annotations (i_Meta d)) (om_Annotations (i_Meta x))"
  shows "ingressMatches (rp_Env r) x (env_ReverseProxyHostname (fenv_Spec (rp_Env r))) (getReverseProxyLabels (rp_Env r))"
proof -
  let ?env = "rp_Env r"
  have d: "i_Spec d = \<lparr>is_IngressClassName = Some (orDefault (env_IngressClass (fenv_Spec ?env)) ''nginx''),
      is_TLS = (if env_SSL (fenv_Spec ?env) then [\<lparr>it_Hosts = [], it_SecretName = []\<rparr>] else []),
      is_Rules = [proxyRule (env_ReverseProxyHostname (fenv_Spec ?env))]\<rparr>"
    "om_Labels (i_Meta d) = getReverseProxyLabels ?env"
    "om_Annotations (i_Meta d) = sslAnnotations ?env (whitelistAnnotations ?env (Some []))"
    using assms(1) by (auto simp: buildReverseProxyIngress_def Let_def proxyRule_def split: if_splits)
  have a: "sslAnnotations ?env (whitelistAnnotations ?env (Some [])) = Some (requiredAnnotations ?env)"
    by (simp add: requiredAnnotations_def sslAnnotations_def whitelistAnnotations_def mapPut_def)
  have x: "entries (om_Annotations (i_Meta x)) = requiredAnnotations ?env"
    using assms(6) d(3) a by (simp add: sameMap_def)
  have "\<forall>(k, v) \<in> set (requiredAnnotations ?env). lookup0 (om_Annotations (i_Meta x)) k = v"
    unfolding lookup0_entries x
    by (auto simp: requiredAnnotations_def sslAnnotations_def whitelistAnnotations_def mapPut_def)
  moreover have "lookup0 (om_Annotations (i_Meta x)) k = []"
    if "env_Whitelist (fenv_Spec ?env) = []"
      "k \<in> {''haproxy.router.openshift.io/ip_whitelist'', ''nginx.ingress.kubernetes.io/whitelist-source-range''}" for k
    unfolding lookup0_entries x using that
    by (auto simp: requiredAnnotations_def sslAnnotations_def whitelistAnnotations_def mapPut_def)
  moreover have "requiredAnnotations ?env = [] \<or> om_Annotations (i_Meta x) \<noteq> None" using x by (auto simp: entries_def)
  moreover have "lookup0 (om_Labels (i_Meta x)) l = lookup0 (getReverseProxyLabels ?env) l" for l
    using sameMap_lookup0 [OF assms(5)] d(2) by simp
  ultimately show ?thesis using d(1) assms(2-4) by (simp add: ingressMatches_def keepsOption_def)
qed

lemma sameMap_compared:
  assumes "wf_map a" and "sameMap a b"
  shows "mapLen b = mapLen a" and "entriesIn a b" and "entriesIn b a"
proof -
  have "entries b = entries a" using assms(2) by (simp add: sameMap_def)
  then show "mapLen b = mapLen a" "entriesIn a b" "entriesIn b a"
    using entriesIn_refl [OF assms(1)]
    by (auto simp: entriesIn_def mapLen_def entries_def split: option.splits)
qed

lemma desired_service_accepted:
  assumes "createReverseProxyServiceConfig r = Inr d" and "list_all2 keepsServicePort (ss_Ports (s_Spec d)) (ss_Ports (s_Spec x))"
    and "sameMap (ss_Selector (s_Spec d)) (ss_Selector (s_Spec x))"
    and "sameMap (om_Labels (s_Meta d)) (om_Labels (s_Meta x))" and "sameMap (om_Annotations (s_Meta d)) (om_Annotations (s_Meta x))"
  shows "\<not> compareService x d"
proof -
  have ports: "ss_Ports (s_Spec d) = [\<lparr>sp_Name = ''http'', sp_Port = ReverseProxyPort, sp_TargetPort = ReverseProxyPort,
      sp_Protocol = ''TCP'', sp_AppProtocol = Some ''http''\<rparr>]"
    using assms(1) by (auto simp: createReverseProxyServiceConfig_def Let_def)
  have "ss_Ports (s_Spec x) = ss_Ports (s_Spec d)"
    using assms(2) by (auto simp: ports list_all2_Cons1 keepsServicePort_def keepsString_def keepsNumber_def ReverseProxyPort_def)
  moreover have "wf_map (om_Annotations (s_Meta d))" "wf_map (ss_Selector (s_Spec d))"
    using assms(1) labels_wf
    by (auto simp: createReverseProxyServiceConfig_def Let_def wf_map_def mapPut_def split: if_splits)
  ultimately show ?thesis
    using sameMap_compared [OF _ assms(5)] sameMap_compared [OF _ assms(3)] sameMap_lookup0 [OF assms(4)]
    by (simp add: compareService_def portsDiffer_iff importantLabels_def)
qed

section \<open>The reconcilers\<close>

abbreviation ingressName :: "Ingress \<Rightarrow> NamespacedName" where
  "ingressName x \<equiv> nameOf (i_Meta x)"

abbreviation serviceName :: "Service \<Rightarrow> NamespacedName" where
  "serviceName x \<equiv> nameOf (s_Meta x)"

abbreviation deploymentName :: "Deployment \<Rightarrow> NamespacedName" where
  "deploymentName x \<equiv> nameOf (d_Meta x)"

definition ingressCurrent :: "'w ProxyReconciliation \<Rightarrow> Ingress \<Rightarrow> bool" where
  "ingressCurrent r x = (env_ReverseProxyHostname (fenv_Spec (rp_Env r)) \<noteq> [] \<and>
     \<not> fst (compareIngressFields (rp_Env r) x (env_ReverseProxyHostname (fenv_Spec (rp_Env r)))
       (getReverseProxyLabels (rp_Env r))))"

definition serviceCurrent :: "'w ProxyReconciliation \<Rightarrow> Service \<Rightarrow> bool" where
  "serviceCurrent r x = (\<exists>d. createReverseProxyServiceConfig r = Inr d \<and> \<not> compareService x d)"

text \<open>The deployment is the desired one as the server stores it: every field that is set in the desired one
  has the same value.\<close>

definition deploymentCurrent :: "'w ProxyReconciliation \<Rightarrow> Deployment \<Rightarrow> bool" where
  "deploymentCurrent r x = (\<exists>d. buildReverseProxyDeployment r = Inr d \<and> sameDeployment d x)"

lemma built_names:
  "buildReverseProxyIngress r = Inr i \<Longrightarrow> ingressName i = proxyKey r"
  "createReverseProxyServiceConfig r = Inr s \<Longrightarrow> serviceName s = proxyKey r"
  "buildReverseProxyDeployment r = Inr d \<Longrightarrow> deploymentName d = proxyKey r"
  by (auto simp: buildReverseProxyIngress_def createReverseProxyServiceConfig_def
      buildReverseProxyDeployment_def Let_def proxyKey_def bindR_Inr split: if_splits)

lemma built_ingress_current:
  "buildReverseProxyIngress r = Inr d \<Longrightarrow> sameIngress y x \<Longrightarrow> i_Spec y = i_Spec d \<Longrightarrow>
     om_Labels (i_Meta y) = om_Labels (i_Meta d) \<Longrightarrow> om_Annotations (i_Meta y) = om_Annotations (i_Meta d) \<Longrightarrow>
     ingressCurrent r x"
  using desired_ingress_matches [of r d x]
  by (auto simp: ingressCurrent_def compareIngress_matches buildReverseProxyIngress_def sameIngress_def sameMeta_def
      Let_def split: if_splits)

lemma reconcileIngress_ensures:
  assumes api: "api_resource (rp_Ingresses r) view ingressName sameIngress"
    and run: "reconcileIngress r w = (Inr (), w')"
  shows "\<exists>i. view w' (proxyKey r) = Some i \<and> ingressCurrent r i"
proof (rule api_resource.ensure_stored [OF api run [unfolded reconcileIngress_def createReverseProxyIngress_def]])
  show "ingressName d = proxyKey r" if "buildReverseProxyIngress r = Inr d" for d
    using that by (rule built_names)
  show "ingressCurrent r y" if "buildReverseProxyIngress r = Inr d" "sameIngress d y" for d y
    using that by (rule built_ingress_current) simp_all
next
  fix x w1 w2
  assume x: "view w1 (proxyKey r) = Some x" and up: "updateReverseProxyIngress r x w1 = (Inr (), w2)"
  show "\<exists>y. view w2 (proxyKey r) = Some y \<and> ingressCurrent r y"
  proof (cases "ingressCurrent r x")
    case True
    with up x show ?thesis by (auto simp: updateReverseProxyIngress_def ingressCurrent_def Let_def)
  next
    case False
    with up obtain d where d: "buildReverseProxyIngress r = Inr d"
      and put: "rs_Update (rp_Ingresses r) (x\<lparr>i_Meta := (i_Meta x)\<lparr>om_Labels := om_Labels (i_Meta d),
        om_Annotations := om_Annotations (i_Meta d)\<rparr>, i_Spec := i_Spec d\<rparr>) w1 = (Inr (), w2)"
      by (auto simp: updateReverseProxyIngress_def ingressCurrent_def bindA_Inr Let_def split: if_splits)
    show ?thesis
    proof (rule api_resource.update_ensures [OF api put])
      show "ingressName (x\<lparr>i_Meta := (i_Meta x)\<lparr>om_Labels := om_Labels (i_Meta d),
          om_Annotations := om_Annotations (i_Meta d)\<rparr>, i_Spec := i_Spec d\<rparr>) = proxyKey r"
        using api_resource.view_name [OF api x] by simp
    qed (rule built_ingress_current [OF d], assumption, simp_all)
  qed
qed

lemma built_service_current:
  "createReverseProxyServiceConfig r = Inr d \<Longrightarrow> sameService y x \<Longrightarrow> ss_Ports (s_Spec y) = ss_Ports (s_Spec d) \<Longrightarrow>
     ss_Selector (s_Spec y) = ss_Selector (s_Spec d) \<Longrightarrow> om_Labels (s_Meta y) = om_Labels (s_Meta d) \<Longrightarrow>
     om_Annotations (s_Meta y) = om_Annotations (s_Meta d) \<Longrightarrow> serviceCurrent r x"
  using desired_service_accepted [of r d x] by (auto simp: serviceCurrent_def sameService_def sameMeta_def)

lemma reconcileService_ensures:
  assumes api: "api_resource (rp_Services r) view serviceName sameService"
    and run: "reconcileService r w = (Inr (), w')"
  shows "\<exists>s. view w' (proxyKey r) = Some s \<and> serviceCurrent r s"
proof (rule api_resource.ensure_stored [OF api run [unfolded reconcileService_def createReverseProxyService_def]])
  show "serviceName d = proxyKey r" if "createReverseProxyServiceConfig r = Inr d" for d
    using that by (rule built_names)
  show "serviceCurrent r y" if "createReverseProxyServiceConfig r = Inr d" "sameService d y" for d y
    using that by (rule built_service_current) simp_all
next
  fix x w1 w2
  assume x: "view w1 (proxyKey r) = Some x" and up: "updateReverseProxyService r x w1 = (Inr (), w2)"
  obtain d where d: "createReverseProxyServiceConfig r = Inr d"
    by (simp add: createReverseProxyServiceConfig_def Let_def)
  let ?x = "x\<lparr>s_Spec := (s_Spec x)\<lparr>ss_Ports := ss_Ports (s_Spec d), ss_Selector := ss_Selector (s_Spec d)\<rparr>,
    s_Meta := (s_Meta x)\<lparr>om_Labels := om_Labels (s_Meta d), om_Annotations := om_Annotations (s_Meta d)\<rparr>\<rparr>"
  show "\<exists>y. view w2 (proxyKey r) = Some y \<and> serviceCurrent r y"
  proof (cases "compareService x d")
    case True
    with up d have put: "rs_Update (rp_Services r) ?x w1 = (Inr (), w2)"
      by (simp add: updateReverseProxyService_def bindA_def)
    show ?thesis
      by (rule api_resource.update_ensures [OF api put])
        (use api_resource.view_name [OF api x] in simp,
         rule built_service_current [OF d], assumption, simp_all)
  next
    case False
    with up d x show ?thesis by (auto simp: updateReverseProxyService_def bindA_def serviceCurrent_def)
  qed
qed

lemma reconcileDeployment_ensures:
  assumes api: "api_resource (rp_Deployments r) view deploymentName sameDeployment"
    and run: "reconcileDeployment r w = (Inr (), w')"
  shows "\<exists>d. view w' (proxyKey r) = Some d \<and> deploymentCurrent r d"
proof (rule api_resource.ensure_stored [OF api run [unfolded reconcileDeployment_def createReverseProxyDeployment_def]])
  show "deploymentName d = proxyKey r" if "buildReverseProxyDeployment r = Inr d" for d
    using that by (rule built_names)
  show "deploymentCurrent r y" if "buildReverseProxyDeployment r = Inr d" "sameDeployment d y" for d y
    using that by (auto simp: deploymentCurrent_def)
next
  fix x w1 w2
  assume "updateReverseProxyDeployment r x w1 = (Inr (), w2)"
  then obtain d where d: "buildReverseProxyDeployment r = Inr d"
    and put: "rs_Update (rp_Deployments r) (d\<lparr>d_Meta := (d_Meta d)
      \<lparr>om_ResourceVersion := om_ResourceVersion (d_Meta x), om_UID := om_UID (d_Meta x),
       om_CreationTimestamp := om_CreationTimestamp (d_Meta x)\<rparr>\<rparr>) w1 = (Inr (), w2)"
    by (auto simp: updateReverseProxyDeployment_def bindA_Inr)
  show "\<exists>y. view w2 (proxyKey r) = Some y \<and> deploymentCurrent r y"
    by (rule api_resource.update_ensures [OF api put])
      (use built_names(3) [OF d] in simp,
       use d in \<open>auto simp: deploymentCurrent_def sameDeployment_def keepsMeta_def\<close>)
qed

text \<open>Over an object that is current, the service and the ingress reconcilers write nothing.\<close>

lemma reconcileIngress_settled:
  assumes "api_resource (rp_Ingresses r) view ingressName sameIngress"
    and "view w (proxyKey r) = Some x" and "ingressCurrent r x" and "reconcileIngress r w = (u, w')"
  shows "view w' = view w"
  using assms(2) _ assms(4) [unfolded reconcileIngress_def]
  by (rule api_resource.settled [OF assms(1)])
    (use assms(3) in \<open>simp_all add: updateReverseProxyIngress_def ingressCurrent_def\<close>)

lemma reconcileService_settled:
  assumes "api_resource (rp_Services r) view serviceName sameService"
    and "view w (proxyKey r) = Some x" and "serviceCurrent r x" and "reconcileService r w = (u, w')"
  shows "view w' = view w"
  using assms(2) _ assms(4) [unfolded reconcileService_def]
  by (rule api_resource.settled [OF assms(1)])
    (use assms(3) in \<open>auto simp: updateReverseProxyService_def serviceCurrent_def bindA_def\<close>)

section \<open>What the three reconcilers leave alone\<close>

lemma reconcilers_keep:
  "keepsView (rp_Deployments r) v1 \<Longrightarrow> v1 (snd (reconcileDeployment r w)) = v1 w"
  "keepsView (rp_Services r) v2 \<Longrightarrow> v2 (snd (reconcileService r w)) = v2 w"
  "keepsView (rp_Ingresses r) v3 \<Longrightarrow> v3 (snd (reconcileIngress r w)) = v3 w"
  unfolding reconcileDeployment_def reconcileService_def reconcileIngress_def
    updateReverseProxyDeployment_def updateReverseProxyService_def updateReverseProxyIngress_def
    createReverseProxyDeployment_def createReverseProxyService_def createReverseProxyIngress_def Let_def
  by (rule handleA_keeps; auto simp: keepsView_def intro!: bindA_keeps)+

section \<open>The whole run\<close>

text \<open>The server as the run uses it: the contract for each kind of object, and calls on one kind leave the
  others alone.\<close>

locale proxy_api =
  fixes r :: "'w ProxyReconciliation"
    and dview :: "'w \<Rightarrow> NamespacedName \<Rightarrow> Deployment option"
    and sview :: "'w \<Rightarrow> NamespacedName \<Rightarrow> Service option"
    and iview :: "'w \<Rightarrow> NamespacedName \<Rightarrow> Ingress option"
  assumes deployments_api: "api_resource (rp_Deployments r) dview deploymentName sameDeployment"
    and services_api: "api_resource (rp_Services r) sview serviceName sameService"
    and ingresses_api: "api_resource (rp_Ingresses r) iview ingressName sameIngress"
    and deployments_frame: "keepsView (rp_Deployments r) sview" "keepsView (rp_Deployments r) iview"
    and services_frame: "keepsView (rp_Services r) dview" "keepsView (rp_Services r) iview"
    and ingresses_frame: "keepsView (rp_Ingresses r) dview" "keepsView (rp_Ingresses r) sview"
begin

lemma frames:
  "reconcileDeployment r w = (u, w') \<Longrightarrow> sview w' = sview w \<and> iview w' = iview w"
  "reconcileService r w = (u, w') \<Longrightarrow> dview w' = dview w \<and> iview w' = iview w"
  "reconcileIngress r w = (u, w') \<Longrightarrow> dview w' = dview w \<and> sview w' = sview w"
  using reconcilers_keep(1) [OF deployments_frame(1), of w] reconcilers_keep(1) [OF deployments_frame(2), of w]
    reconcilers_keep(2) [OF services_frame(1), of w] reconcilers_keep(2) [OF services_frame(2), of w]
    reconcilers_keep(3) [OF ingresses_frame(1), of w] reconcilers_keep(3) [OF ingresses_frame(2), of w] by auto

lemma run_establishes:
  assumes "runReverseProxy r w = (Inr (), w')"
  shows "\<exists>d s i. dview w' (proxyKey r) = Some d \<and> deploymentCurrent r d \<and>
    sview w' (proxyKey r) = Some s \<and> serviceCurrent r s \<and>
    iview w' (proxyKey r) = Some i \<and> ingressCurrent r i"
proof -
  from assms obtain w1 w2 where run: "reconcileDeployment r w = (Inr (), w1)"
    "reconcileService r w1 = (Inr (), w2)" "reconcileIngress r w2 = (Inr (), w')"
    by (auto simp: runReverseProxy_def bindA_Inr)
  from reconcileDeployment_ensures [OF deployments_api run(1)] reconcileService_ensures [OF services_api run(2)]
    reconcileIngress_ensures [OF ingresses_api run(3)] frames(2) [OF run(2)] frames(3) [OF run(3)]
  show ?thesis by auto
qed

lemma run_settled:
  assumes s: "sview w (proxyKey r) = Some s" "serviceCurrent r s"
    and i: "iview w (proxyKey r) = Some i" "ingressCurrent r i"
    and run: "runReverseProxy r w = (u, w')"
  shows "sview w' = sview w \<and> iview w' = iview w"
proof -
  obtain u1 w1 where dep: "reconcileDeployment r w = (u1, w1)" by fastforce
  obtain u2 w2 where svc: "reconcileService r w1 = (u2, w2)" by fastforce
  obtain u3 w3 where ing: "reconcileIngress r w2 = (u3, w3)" by fastforce
  have 1: "sview w1 = sview w" "iview w1 = iview w" using frames(1) [OF dep] by simp_all
  have 2: "sview w2 = sview w" "iview w2 = iview w"
    using reconcileService_settled [OF services_api _ s(2) svc] frames(2) [OF svc] s(1) 1 by simp_all
  have 3: "sview w3 = sview w" "iview w3 = iview w"
    using reconcileIngress_settled [OF ingresses_api _ i(2) ing] frames(3) [OF ing] i(1) 2 by simp_all
  have "w' \<in> {w1, w2, w3}"
    using run dep svc ing by (auto simp: runReverseProxy_def bindA_def split: sum.splits)
  with 1 2 3 show ?thesis by auto
qed

end

section \<open>Progress\<close>

text \<open>What the reconcilers send, given what is stored under the name: the desired object as it is, or laid
  over the stored one.\<close>

fun sentDeployment :: "Deployment \<Rightarrow> Deployment option \<Rightarrow> Deployment" where
  "sentDeployment d None = d"
| "sentDeployment d (Some x) = d\<lparr>d_Meta := (d_Meta d)\<lparr>om_ResourceVersion := om_ResourceVersion (d_Meta x),
     om_UID := om_UID (d_Meta x), om_CreationTimestamp := om_CreationTimestamp (d_Meta x)\<rparr>\<rparr>"

fun sentService :: "Service \<Rightarrow> Service option \<Rightarrow> Service" where
  "sentService d None = d"
| "sentService d (Some x) = x\<lparr>s_Spec := (s_Spec x)\<lparr>ss_Ports := ss_Ports (s_Spec d), ss_Selector := ss_Selector (s_Spec d)\<rparr>,
     s_Meta := (s_Meta x)\<lparr>om_Labels := om_Labels (s_Meta d), om_Annotations := om_Annotations (s_Meta d)\<rparr>\<rparr>"

fun sentIngress :: "Ingress \<Rightarrow> Ingress option \<Rightarrow> Ingress" where
  "sentIngress d None = d"
| "sentIngress d (Some x) = x\<lparr>i_Meta := (i_Meta x)\<lparr>om_Labels := om_Labels (i_Meta d),
     om_Annotations := om_Annotations (i_Meta d)\<rparr>, i_Spec := i_Spec d\<rparr>"

locale answering_proxy = proxy_api r dview sview iview
  for r :: "'w ProxyReconciliation" and dview :: "'w \<Rightarrow> NamespacedName \<Rightarrow> Deployment option"
    and sview :: "'w \<Rightarrow> NamespacedName \<Rightarrow> Service option" and iview :: "'w \<Rightarrow> NamespacedName \<Rightarrow> Ingress option" +
  fixes acceptsD :: "Deployment option \<Rightarrow> Deployment \<Rightarrow> bool"
    and acceptsS :: "Service option \<Rightarrow> Service \<Rightarrow> bool"
    and acceptsI :: "Ingress option \<Rightarrow> Ingress \<Rightarrow> bool"
  assumes deployments_answer: "answering_resource (rp_Deployments r) dview deploymentName sameDeployment acceptsD"
    and services_answer: "answering_resource (rp_Services r) sview serviceName sameService acceptsS"
    and ingresses_answer: "answering_resource (rp_Ingresses r) iview ingressName sameIngress acceptsI"
begin

lemma deployment_succeeds:
  assumes d: "buildReverseProxyDeployment r = Inr d"
    and ok: "acceptsD (dview w (proxyKey r)) (sentDeployment d (dview w (proxyKey r)))"
  shows "\<exists>w'. reconcileDeployment r w = (Inr (), w')"
  unfolding reconcileDeployment_def createReverseProxyDeployment_def
proof (rule answering_resource.ensure_succeeds [OF deployments_answer d built_names(3) [OF d]])
  fix x w1
  assume x: "dview w (proxyKey r) = Some x" and keep: "dview w1 = dview w"
  have "\<exists>w2. rs_Update (rp_Deployments r) (sentDeployment d (Some x)) w1 = (Inr (), w2)"
    using ok x keep built_names(3) [OF d]
    by (intro answering_resource.update_answers [OF deployments_answer, where y = x]) simp_all
  with d show "\<exists>w2. updateReverseProxyDeployment r x w1 = (Inr (), w2)"
    by (simp add: updateReverseProxyDeployment_def bindA_def)
qed (use ok in simp)

lemma service_succeeds:
  assumes d: "createReverseProxyServiceConfig r = Inr d"
    and ok: "acceptsS (sview w (proxyKey r)) (sentService d (sview w (proxyKey r)))"
  shows "\<exists>w'. reconcileService r w = (Inr (), w')"
  unfolding reconcileService_def createReverseProxyService_def
proof (rule answering_resource.ensure_succeeds [OF services_answer d built_names(2) [OF d]])
  fix x w1
  assume x: "sview w (proxyKey r) = Some x" and keep: "sview w1 = sview w"
  have "\<exists>w2. rs_Update (rp_Services r) (sentService d (Some x)) w1 = (Inr (), w2)"
    using ok x keep api_resource.view_name [OF services_api x]
    by (intro answering_resource.update_answers [OF services_answer, where y = x]) simp_all
  with d show "\<exists>w2. updateReverseProxyService r x w1 = (Inr (), w2)"
    by (simp add: updateReverseProxyService_def bindA_def)
qed (use ok in simp)

lemma ingress_succeeds:
  assumes d: "buildReverseProxyIngress r = Inr d"
    and ok: "acceptsI (iview w (proxyKey r)) (sentIngress d (iview w (proxyKey r)))"
  shows "\<exists>w'. reconcileIngress r w = (Inr (), w')"
  unfolding reconcileIngress_def createReverseProxyIngress_def
proof (rule answering_resource.ensure_succeeds [OF ingresses_answer d built_names(1) [OF d]])
  fix x w1
  assume x: "iview w (proxyKey r) = Some x" and keep: "iview w1 = iview w"
  have host: "env_ReverseProxyHostname (fenv_Spec (rp_Env r)) \<noteq> []"
    using d by (auto simp: buildReverseProxyIngress_def Let_def split: if_splits)
  have "\<exists>w2. rs_Update (rp_Ingresses r) (sentIngress d (Some x)) w1 = (Inr (), w2)"
    using ok x keep api_resource.view_name [OF ingresses_api x]
    by (intro answering_resource.update_answers [OF ingresses_answer, where y = x]) simp_all
  with d host show "\<exists>w2. updateReverseProxyIngress r x w1 = (Inr (), w2)"
    by (simp add: updateReverseProxyIngress_def bindA_def Let_def)
qed (use ok in simp)

lemma run_succeeds:
  assumes "buildReverseProxyDeployment r = Inr d" and "createReverseProxyServiceConfig r = Inr s"
    and "buildReverseProxyIngress r = Inr i"
    and "acceptsD (dview w (proxyKey r)) (sentDeployment d (dview w (proxyKey r)))"
    and "acceptsS (sview w (proxyKey r)) (sentService s (sview w (proxyKey r)))"
    and "acceptsI (iview w (proxyKey r)) (sentIngress i (iview w (proxyKey r)))"
  shows "\<exists>w'. runReverseProxy r w = (Inr (), w')"
proof -
  obtain w1 where w1: "reconcileDeployment r w = (Inr (), w1)" using deployment_succeeds assms(1,4) by blast
  note f1 = frames(1) [OF w1]
  obtain w2 where w2: "reconcileService r w1 = (Inr (), w2)" using service_succeeds assms(2,5) f1 by fastforce
  note f2 = frames(2) [OF w2]
  obtain w3 where "reconcileIngress r w2 = (Inr (), w3)" using ingress_succeeds assms(3,6) f1 f2 by fastforce
  with w1 w2 show ?thesis by (simp add: runReverseProxy_def bindA_def)
qed

end

definition clusterProxy :: "(string \<Rightarrow> string) \<Rightarrow> string \<Rightarrow> FrontendEnvironment \<Rightarrow> Cluster ProxyReconciliation" where
  "clusterProxy getenv ns env = \<lparr>rp_Deployments = clusterDeployments, rp_Services = clusterServices,
     rp_Ingresses = clusterIngresses, rp_Getenv = getenv, rp_Namespace = ns, rp_Env = env\<rparr>"

lemma cluster_frames:
  "(\<And>m w. v (w\<lparr>cl_Deployments := m\<rparr>) = v w) \<Longrightarrow> keepsView clusterDeployments v"
  "(\<And>m w. v (w\<lparr>cl_Services := m\<rparr>) = v w) \<Longrightarrow> keepsView clusterServices v"
  "(\<And>m w. v (w\<lparr>cl_Ingresses := m\<rparr>) = v w) \<Longrightarrow> keepsView clusterIngresses v"
  unfolding clusterDeployments_def clusterServices_def clusterIngresses_def
  by (intro admitting_keeps storeResource_keeps; simp)+

interpretation cluster_proxy: answering_proxy "clusterProxy getenv ns env"
    "storeView cl_Deployments deploymentName" "storeView cl_Services serviceName" "storeView cl_Ingresses ingressName"
    "\<lambda>_ _. True" "\<lambda>_ _. True" "\<lambda>_ _. True"
  for getenv ns env
proof (intro answering_proxy.intro proxy_api.intro answering_proxy_axioms.intro)
qed (simp_all only: clusterProxy_def ProxyReconciliation.simps deployments.api_resource_axioms
    services.api_resource_axioms ingresses.api_resource_axioms deployments.answering_resource_axioms
    services.answering_resource_axioms ingresses.answering_resource_axioms,
  (rule cluster_frames, simp add: storeView_def fun_eq_iff)+)

lemma cluster_proxy_succeeds:
  assumes "buildReverseProxyDeployment (clusterProxy getenv ns env) = Inr d"
    and "env_ReverseProxyHostname (fenv_Spec env) \<noteq> []"
  shows "\<exists>w'. runReverseProxy (clusterProxy getenv ns env) w = (Inr (), w')"
proof -
  obtain s where "createReverseProxyServiceConfig (clusterProxy getenv ns env) = Inr s"
    by (simp add: createReverseProxyServiceConfig_def Let_def)
  moreover obtain i where "buildReverseProxyIngress (clusterProxy getenv ns env) = Inr i"
    using assms(2) by (simp add: buildReverseProxyIngress_def clusterProxy_def Let_def)
  ultimately show ?thesis using cluster_proxy.run_succeeds [OF assms(1)] by blast
qed

text \<open>A reconciliation to apply the properties to.\<close>

definition demoProxyEnv :: FrontendEnvironment where
  "demoProxyEnv = emptyEnv\<lparr>fenv_Spec := emptyEnvSpec\<lparr>env_ReverseProxyHostname := ''h'', env_SSL := True,
     env_Whitelist := [''10.0.0.0/8'', ''::1'']\<rparr>\<rparr>"

definition cachedProxyEnv :: FrontendEnvironment where
  "cachedProxyEnv = demoProxyEnv\<lparr>fenv_Spec := (fenv_Spec demoProxyEnv)\<lparr>env_EnablePushCache := True,
     env_ReverseProxyImage := ''proxy''\<rparr>\<rparr>"

abbreviation clusterScoped :: "string \<Rightarrow> NamespacedName" where
  "clusterScoped n \<equiv> \<lparr>nn_Namespace = [], nn_Name = n\<rparr>"

definition demoProxy :: "Cluster ProxyReconciliation" where
  "demoProxy = clusterProxy (\<lambda>_. ''x'') ''ns'' demoProxyEnv"

lemma demoProxy_builds: "\<exists>d. buildReverseProxyDeployment demoProxy = Inr d"
  by (simp add: demoProxy_def clusterProxy_def buildReverseProxyDeployment_def createReverseProxyContainer_def
      ExtractBucketConfigFromEnv_def deref_def Let_def)

lemma demoProxy_succeeds: "\<exists>w'. runReverseProxy demoProxy w = (Inr (), w')"
  using demoProxy_builds cluster_proxy_succeeds unfolding demoProxy_def by (auto simp: demoProxyEnv_def)

lemma demoProxy_api: "proxy_api demoProxy (storeView cl_Deployments deploymentName)
    (storeView cl_Services serviceName) (storeView cl_Ingresses ingressName)"
  unfolding demoProxy_def by (rule cluster_proxy.proxy_api_axioms)

section \<open>Properties\<close>

lemma envMap_mem:
  "distinct (map ev_Name es) \<Longrightarrow> map_of (fold (\<lambda>e. AList.update (ev_Name e) (ev_Value e)) es m) k = Some v \<longleftrightarrow>
     (\<exists>e \<in> set es. ev_Name e = k \<and> ev_Value e = v) \<or> (k \<notin> ev_Name ` set es \<and> map_of m k = Some v)"
  by (induction es arbitrary: m) (auto simp: update_conv' image_iff)

lemma EnvVar_eqI: "ev_Name a = ev_Name b \<Longrightarrow> ev_Value a = ev_Value b \<Longrightarrow> a = (b :: EnvVar)"
  by simp

lemma proxy_api_at: "proxy_api r dview sview iview \<Longrightarrow> proxy_api (r\<lparr>rp_Namespace := ns, rp_Env := env\<rparr>) dview sview iview"
  by (simp add: proxy_api_def)

text \<open>C4: over any API server that stores what it reports as stored, filling in defaults where a field was left
  unset (\<open>proxy_api\<close>), a \<open>Reconcile\<close> of the reverse proxy controller that reports no error does not ask
  for a requeue, and in the namespace named after the environment there are then a deployment that has every
  field the desired one sets and a service and an ingress that the comparisons accept. Where the push cache
  is off or no proxy image is set, nothing is written.\<close>

theorem proxyReconcile_establishes:
  assumes "proxy_api r dview sview iview" and "getEnv req w = (Inr env, w1)"
    and "proxyReconcile getEnv r req w = ((requeue, Inr ()), w')"
    and "r' = r\<lparr>rp_Namespace := fenv_Name env, rp_Env := env\<rparr>"
  shows "\<not> requeue \<and>
    (if env_EnablePushCache (fenv_Spec env) \<and> env_ReverseProxyImage (fenv_Spec env) \<noteq> []
     then \<exists>d s i. dview w' (proxyKey r') = Some d \<and> deploymentCurrent r' d \<and>
       sview w' (proxyKey r') = Some s \<and> serviceCurrent r' s \<and>
       iview w' (proxyKey r') = Some i \<and> ingressCurrent r' i
     else w' = w1)"
proof (cases "env_EnablePushCache (fenv_Spec env) \<and> env_ReverseProxyImage (fenv_Spec env) \<noteq> []")
  case False
  with assms(2,3) show ?thesis by (auto simp: proxyReconcile_def)
next
  case True
  with assms(2-4) have run: "runReverseProxy r' w1 = (Inr (), w')" and "\<not> requeue"
    by (auto simp: proxyReconcile_def split: prod.splits sum.splits)
  have "proxy_api r' dview sview iview" unfolding assms(4) by (rule proxy_api_at [OF assms(1)])
  with True \<open>\<not> requeue\<close> proxy_api.run_establishes [OF this run] show ?thesis by simp
qed

theorem proxyReconcile_establishes_witness:
  "\<exists>w' i. proxyReconcile (\<lambda>nn w. (Inr cachedProxyEnv, w)) demoProxy (clusterScoped ''h'') emptyCluster = ((False, Inr ()), w') \<and>
     storeView cl_Ingresses ingressName w' (proxyKey (clusterProxy (\<lambda>_. ''x'') [] cachedProxyEnv)) = Some i \<and>
     ingressCurrent (clusterProxy (\<lambda>_. ''x'') [] cachedProxyEnv) i"
proof -
  let ?r = "clusterProxy (\<lambda>_. ''x'') [] cachedProxyEnv" and ?get = "\<lambda>nn w. (Inr cachedProxyEnv, w)"
  have at: "?r = demoProxy\<lparr>rp_Namespace := fenv_Name cachedProxyEnv, rp_Env := cachedProxyEnv\<rparr>"
    by (simp add: demoProxy_def clusterProxy_def cachedProxyEnv_def demoProxyEnv_def emptyEnv_def emptyMeta_def)
  have on: "env_EnablePushCache (fenv_Spec cachedProxyEnv)" "env_ReverseProxyImage (fenv_Spec cachedProxyEnv) \<noteq> []"
    "env_ReverseProxyHostname (fenv_Spec cachedProxyEnv) \<noteq> []"
    by (simp_all add: cachedProxyEnv_def demoProxyEnv_def)
  have "\<exists>d. buildReverseProxyDeployment ?r = Inr d"
    by (simp add: clusterProxy_def buildReverseProxyDeployment_def createReverseProxyContainer_def
        ExtractBucketConfigFromEnv_def deref_def Let_def)
  then obtain w' where "runReverseProxy ?r emptyCluster = (Inr (), w')" using cluster_proxy_succeeds on(3) by blast
  then have run: "proxyReconcile ?get demoProxy (clusterScoped ''h'') emptyCluster = ((False, Inr ()), w')"
    using on by (simp add: proxyReconcile_def at)
  from proxyReconcile_establishes [OF demoProxy_api refl run at] on run show ?thesis by auto
qed

text \<open>C16: over any such server that also answers (reads find or report missing, and the objects this run sends
  pass validation and admission), with the push cache on, an image set and the three desired objects
  buildable, which for the ingress needs a hostname and for the deployment the bucket variables, one
  \<open>Reconcile\<close> succeeds from every state of the cluster without a requeue, and then the three objects are
  current. Nothing is assumed of what is stored beforehand.\<close>

theorem proxyReconcile_settles:
  assumes "answering_proxy r dview sview iview acceptsD acceptsS acceptsI"
    and "getEnv req w = (Inr env, w1)" and "env_EnablePushCache (fenv_Spec env)"
    and "env_ReverseProxyImage (fenv_Spec env) \<noteq> []" and "r' = r\<lparr>rp_Namespace := fenv_Name env, rp_Env := env\<rparr>"
    and "buildReverseProxyDeployment r' = Inr d0" and "createReverseProxyServiceConfig r' = Inr s0"
    and "buildReverseProxyIngress r' = Inr i0"
    and "acceptsD (dview w1 (proxyKey r')) (sentDeployment d0 (dview w1 (proxyKey r')))"
    and "acceptsS (sview w1 (proxyKey r')) (sentService s0 (sview w1 (proxyKey r')))"
    and "acceptsI (iview w1 (proxyKey r')) (sentIngress i0 (iview w1 (proxyKey r')))"
  shows "\<exists>w' d s i. proxyReconcile getEnv r req w = ((False, Inr ()), w') \<and>
    dview w' (proxyKey r') = Some d \<and> deploymentCurrent r' d \<and>
    sview w' (proxyKey r') = Some s \<and> serviceCurrent r' s \<and>
    iview w' (proxyKey r') = Some i \<and> ingressCurrent r' i"
proof -
  have answers: "answering_proxy r' dview sview iview acceptsD acceptsS acceptsI"
    using assms(1) unfolding assms(5) answering_proxy_def answering_proxy_axioms_def proxy_api_def by simp
  obtain w' where run: "runReverseProxy r' w1 = (Inr (), w')"
    using answering_proxy.run_succeeds [OF answers assms(6-11)] by blast
  then have "proxyReconcile getEnv r req w = ((False, Inr ()), w')"
    using assms(2-5) by (simp add: proxyReconcile_def)
  with proxy_api.run_establishes [OF answering_proxy.axioms(1) [OF answers] run] show ?thesis by blast
qed

theorem proxyReconcile_settles_witness:
  "\<exists>w' d. proxyReconcile (\<lambda>nn w. (Inr cachedProxyEnv, w)) demoProxy (clusterScoped ''h'') emptyCluster = ((False, Inr ()), w') \<and>
     storeView cl_Deployments deploymentName w' (proxyKey (clusterProxy (\<lambda>_. ''x'') [] cachedProxyEnv)) = Some d"
proof -
  let ?r = "clusterProxy (\<lambda>_. ''x'') [] cachedProxyEnv"
  have at: "?r = demoProxy\<lparr>rp_Namespace := fenv_Name cachedProxyEnv, rp_Env := cachedProxyEnv\<rparr>"
    by (simp add: demoProxy_def clusterProxy_def cachedProxyEnv_def demoProxyEnv_def emptyEnv_def emptyMeta_def)
  have on: "env_EnablePushCache (fenv_Spec cachedProxyEnv)" "env_ReverseProxyImage (fenv_Spec cachedProxyEnv) \<noteq> []"
    by (simp_all add: cachedProxyEnv_def demoProxyEnv_def)
  obtain d0 where d: "buildReverseProxyDeployment ?r = Inr d0"
    by (simp add: clusterProxy_def buildReverseProxyDeployment_def createReverseProxyContainer_def
        ExtractBucketConfigFromEnv_def deref_def Let_def)
  obtain s0 where s: "createReverseProxyServiceConfig ?r = Inr s0"
    by (simp add: createReverseProxyServiceConfig_def Let_def)
  obtain i0 where i: "buildReverseProxyIngress ?r = Inr i0"
    by (simp add: buildReverseProxyIngress_def clusterProxy_def cachedProxyEnv_def demoProxyEnv_def Let_def)
  have api: "answering_proxy demoProxy (storeView cl_Deployments deploymentName) (storeView cl_Services serviceName)
      (storeView cl_Ingresses ingressName) (\<lambda>_ _. True) (\<lambda>_ _. True) (\<lambda>_ _. True)"
    unfolding demoProxy_def by (rule cluster_proxy.answering_proxy_axioms)
  show ?thesis
    using proxyReconcile_settles [OF api, where getEnv = "\<lambda>nn w. (Inr cachedProxyEnv, w)", OF refl on at d s i TrueI TrueI TrueI]
    by blast
qed

text \<open>C15: over any API server as in the property above (it stores what was sent, with defaults where a field was
  left unset), after a successful run a further run, whether it succeeds or fails part way, changes neither
  services nor ingresses: the defaults never make a comparison ask for an update.\<close>

theorem runReverseProxy_idempotent:
  assumes "proxy_api r dview sview iview" and "runReverseProxy r w = (Inr (), w1)"
    and "runReverseProxy r w1 = (u, w2)"
  shows "sview w2 = sview w1 \<and> iview w2 = iview w1"
  using proxy_api.run_establishes [OF assms(1,2)] proxy_api.run_settled [OF assms(1) _ _ _ _ assms(3)] by blast

theorem runReverseProxy_idempotent_witness:
  "\<exists>w1 w2. runReverseProxy demoProxy emptyCluster = (Inr (), w1) \<and> runReverseProxy demoProxy w1 = (Inr (), w2) \<and>
     storeView cl_Ingresses ingressName w2 = storeView cl_Ingresses ingressName w1"
proof -
  obtain w1 where w1: "runReverseProxy demoProxy emptyCluster = (Inr (), w1)" using demoProxy_succeeds by blast
  obtain w2 where w2: "runReverseProxy demoProxy w1 = (Inr (), w2)" using demoProxy_succeeds by blast
  show ?thesis
    by (rule exI [where x = w1], rule exI [where x = w2])
      (use w1 w2 runReverseProxy_idempotent [OF demoProxy_api w1 w2] in simp)
qed

text \<open>C33: the comparison of ingresses asks for an update exactly when the class, the rules, the hosts of the
  TLS block, a required annotation, a whitelist annotation that should be gone, or one of the three
  important labels differs from what is desired. The secret of a TLS entry is not compared: an ingress whose
  only difference is a secret name is accepted like the one without it.\<close>

theorem compareIngressFields_exact:
  "(fst (compareIngressFields env current host labels) \<longleftrightarrow> \<not> ingressMatches env current host labels) \<and>
   compareIngressFields env (current\<lparr>i_Spec := (i_Spec current)
     \<lparr>is_TLS := map (\<lambda>t. t\<lparr>it_SecretName := secret\<rparr>) (is_TLS (i_Spec current))\<rparr>\<rparr>) host labels =
     compareIngressFields env current host labels"
proof -
  have "compareTLS env (map (\<lambda>t. t\<lparr>it_SecretName := secret\<rparr>) tls) = compareTLS env tls" for tls
    by (cases tls) (simp_all add: compareTLS_def Let_def)
  then show ?thesis
    using compareIngress_matches [of env current host labels] by (simp add: compareIngressFields_def Let_def split: option.split)
qed

text \<open>For variable lists without repeated names, the comparison accepts exactly the lists with the
  same variables, in any order.\<close>

lemma compareEnvVars_exact:
  assumes "distinct (map ev_Name existing)" and "distinct (map ev_Name desired)"
  shows "compareEnvVars existing desired = (set existing = set desired)"
proof -
  have mem: "map_of (fold (\<lambda>e. AList.update (ev_Name e) (ev_Value e)) existing []) (ev_Name e) =
      Some (ev_Value e) \<longleftrightarrow> e \<in> set existing" for e :: EnvVar
    by (simp add: envMap_mem [OF assms(1)]) (metis EnvVar_eqI)
  have "length existing = length desired \<and> set desired \<subseteq> set existing \<longleftrightarrow> set existing = set desired"
    using assms by (metis card_subset_eq distinct_card distinct_map finite_set order_refl)
  then show ?thesis
    by (auto simp: compareEnvVars_def Let_def list_all_iff mem)
qed

end
