(* ===== verification/Watches.thy ===== *)
theory Watches
  imports Frontend_Controller Proxy_Convergence
begin

text \<open>
  \<open>SetupWithManager\<close> of the two controllers, in \<^verbatim>\<open>controllers/frontend_controller.go\<close> and
  \<^verbatim>\<open>controllers/reverse_proxy_controller.go\<close>: which change in the cluster makes the manager call
  \<open>Reconcile\<close>, and for which frontend or environment.

  A change is the kind of object that changed, with what the watch looks at, and the event. The
  predicate \<open>GenerationChangedPredicate\<close> and the handler that finds the owner of an object belong to
  controller-runtime: they are fields of \<open>WatchRuntime\<close>, and \<open>watch_runtime\<close> says what their
  documentation says. The indexes that \<open>SetupWithManager\<close> registers are what \<open>List\<close> reads
  (\<open>env_index\<close>); the log lines of \<open>defaultPredicate\<close> are left out.
\<close>

section \<open>Model\<close>

datatype WatchEvent = CreateEvent | DeleteEvent | UpdateEvent nat nat | GenericEvent

fun defaultPredicate :: "WatchEvent \<Rightarrow> bool" where
  "defaultPredicate CreateEvent = True"
| "defaultPredicate DeleteEvent = True"
| "defaultPredicate (UpdateEvent oldGeneration newGeneration) = True"
| "defaultPredicate GenericEvent = True"

datatype Watched =
    FrontendChanged NamespacedName
  | BundleChanged NamespacedName
  | EnvironmentChanged NamespacedName
  | DeploymentChanged ObjectMeta
  | IngressChanged ObjectMeta
  | ServiceMonitorChanged ObjectMeta

record WatchRuntime =
  wr_GenerationChanged :: "WatchEvent \<Rightarrow> bool"
  wr_OwnerRequests :: "string \<Rightarrow> string \<Rightarrow> ObjectMeta \<Rightarrow> NamespacedName list"

text \<open>The owner that is looked for is a \<open>Frontend\<close> of the group that \<^verbatim>\<open>api/v1alpha1/groupversion_info.go\<close>
  registers.\<close>

definition frontendGroup :: string where
  "frontendGroup = ''cloud.redhat.com''"

definition ownedRequests :: "WatchRuntime \<Rightarrow> ObjectMeta \<Rightarrow> WatchEvent \<Rightarrow> NamespacedName list" where
  "ownedRequests rt m ev = (if wr_GenerationChanged rt ev then wr_OwnerRequests rt frontendGroup ''Frontend'' m else [])"

definition SetupWithManager ::
  "WatchRuntime \<Rightarrow> 'w ControllerClient \<Rightarrow> Watched \<Rightarrow> WatchEvent \<Rightarrow> 'w \<Rightarrow> NamespacedName list \<times> 'w"
where
  "SetupWithManager rt c watched ev w =
     (case watched of
        FrontendChanged nn \<Rightarrow> (if defaultPredicate ev then [nn] else [], w)
      | BundleChanged nn \<Rightarrow> appsToEnqueueUponBundleUpdate c nn w
      | EnvironmentChanged nn \<Rightarrow> appsToEnqueueUponFrontendEnvironmentUpdate c nn w
      | DeploymentChanged m \<Rightarrow> (ownedRequests rt m ev, w)
      | IngressChanged m \<Rightarrow> (ownedRequests rt m ev, w)
      | ServiceMonitorChanged m \<Rightarrow> (ownedRequests rt m ev, w))"

text \<open>The reverse proxy controller watches environments only, with every kind of event.\<close>

definition proxySetupWithManager :: "Watched \<Rightarrow> WatchEvent \<Rightarrow> NamespacedName list" where
  "proxySetupWithManager watched ev = (case watched of EnvironmentChanged nn \<Rightarrow> [nn] | _ \<Rightarrow> [])"

section \<open>The runtime\<close>

text \<open>The group that the API version of an owner reference names: what stands before the slash, and the empty
  group when there is no slash. A version with two slashes is not parsed.\<close>

definition versionGroup :: "string \<Rightarrow> string option" where
  "versionGroup v = (if count_list v (CHR ''/'') = 0 \<or> v = ''/'' then Some []
     else if count_list v (CHR ''/'') = 1 then Some (takeWhile (\<lambda>ch. ch \<noteq> CHR ''/'') v) else None)"

text \<open>The first owner reference that is marked as the controller counts, when its group and kind are those that
  are looked for; the request has its name and the namespace of the object.\<close>

definition requestsForOwner :: "string \<Rightarrow> string \<Rightarrow> ObjectMeta \<Rightarrow> NamespacedName list" where
  "requestsForOwner grp kind m = (case find (\<lambda>r. or_Controller r = Some True) (om_OwnerReferences m) of
       None \<Rightarrow> []
     | Some r \<Rightarrow> (if or_Kind r = kind \<and> versionGroup (or_APIVersion r) = Some grp
         then [\<lparr>nn_Namespace = om_Namespace m, nn_Name = or_Name r\<rparr>] else []))"

locale watch_runtime =
  fixes rt :: WatchRuntime
  assumes generation: "wr_GenerationChanged rt (UpdateEvent old new) = (old \<noteq> new)"
    and owners: "wr_OwnerRequests rt grp kind m = requestsForOwner grp kind m"
begin

lemma owned_by_frontend:
  assumes "om_OwnerReferences m = [MakeOwnerReference fe]" and "old \<noteq> new"
  shows "ownedRequests rt m (UpdateEvent old new) = (if fe_Kind fe = ''Frontend'' \<and> versionGroup (fe_APIVersion fe) = Some frontendGroup
     then [\<lparr>nn_Namespace = om_Namespace m, nn_Name = fe_Name fe\<rparr>] else [])"
  using assms by (simp add: ownedRequests_def generation owners requestsForOwner_def MakeOwnerReference_def)

lemma owned_by_environment:
  assumes "om_OwnerReferences m = [getReverseProxyOwnerRef env]"
  shows "ownedRequests rt m ev = []"
  using assms by (simp add: ownedRequests_def owners requestsForOwner_def getReverseProxyOwnerRef_def)

end

definition controllerRuntime :: WatchRuntime where
  "controllerRuntime = \<lparr>wr_GenerationChanged = (\<lambda>ev. case ev of UpdateEvent old new \<Rightarrow> old \<noteq> new | _ \<Rightarrow> True),
     wr_OwnerRequests = requestsForOwner\<rparr>"

interpretation controller_runtime: watch_runtime controllerRuntime
  by unfold_locales (simp_all add: controllerRuntime_def)

lemma ingress_owner: "om_OwnerReferences (i_Meta (buildFrontendIngress u fe env i0)) = [MakeOwnerReference fe]"
  by (simp add: buildFrontendIngress_def createAnnotationsAndPopulate_def populateConsoleDotIngress_def Let_def)

lemma proxy_owners:
  "buildReverseProxyDeployment r = Inr d \<Longrightarrow> om_OwnerReferences (d_Meta d) = [getReverseProxyOwnerRef (rp_Env r)]"
  "buildReverseProxyIngress r = Inr i \<Longrightarrow> om_OwnerReferences (i_Meta i) = [getReverseProxyOwnerRef (rp_Env r)]"
  by (auto simp: buildReverseProxyDeployment_def buildReverseProxyIngress_def Let_def bindR_Inr split: if_splits)

section \<open>Properties\<close>

text \<open>C21: a change of the spec of an ingress leads back to the frontend it was made for, provided that the
  frontend was read with its kind and an API version of the operator's group, which the owner reference repeats;
  without them there is no request at all. For a service monitor the request has the frontend's name and the
  namespace the monitor is in, so it leads back exactly when that is the frontend's own. In the default mode,
  where the monitors of all frontends are put into one namespace, the request names that namespace, and the
  owner reference crosses namespaces.\<close>

theorem owned_objects_lead_back:
  assumes "watch_runtime rt" and "osdk_utils u" and "old \<noteq> new"
  shows "fst (SetupWithManager rt c (IngressChanged (i_Meta (buildFrontendIngress u fe env i0))) (UpdateEvent old new) w) =
      (if fe_Kind fe = ''Frontend'' \<and> versionGroup (fe_APIVersion fe) = Some frontendGroup then [nameOf (fe_Meta fe)] else []) \<and>
    fst (SetupWithManager rt c (ServiceMonitorChanged (sm_Meta (buildServiceMonitor u fe env (monitorKey mon fe) m0)))
        (UpdateEvent old new) w) =
      (if fe_Kind fe = ''Frontend'' \<and> versionGroup (fe_APIVersion fe) = Some frontendGroup
       then [\<lparr>nn_Namespace = if mon_Mode mon = ''local'' then om_Namespace (fe_Meta fe) else ''openshift-customer-monitoring'',
              nn_Name = fe_Name fe\<rparr>] else [])"
proof
  note owned = watch_runtime.owned_by_frontend [OF assms(1) _ assms(3)]
  have "om_Namespace (i_Meta (buildFrontendIngress u fe env i0)) = om_Namespace (fe_Meta fe)"
    using osdk_utils.ingress_meta(2) [OF assms(2), of fe env i0] by (simp add: frontendKey_def)
  with owned [OF ingress_owner] show "fst (SetupWithManager rt c (IngressChanged (i_Meta (buildFrontendIngress u fe env i0)))
      (UpdateEvent old new) w) =
      (if fe_Kind fe = ''Frontend'' \<and> versionGroup (fe_APIVersion fe) = Some frontendGroup then [nameOf (fe_Meta fe)] else [])"
    by (simp add: SetupWithManager_def)
  show "fst (SetupWithManager rt c (ServiceMonitorChanged (sm_Meta (buildServiceMonitor u fe env (monitorKey mon fe) m0)))
        (UpdateEvent old new) w) =
      (if fe_Kind fe = ''Frontend'' \<and> versionGroup (fe_APIVersion fe) = Some frontendGroup
       then [\<lparr>nn_Namespace = if mon_Mode mon = ''local'' then om_Namespace (fe_Meta fe) else ''openshift-customer-monitoring'',
              nn_Name = fe_Name fe\<rparr>] else [])"
    unfolding SetupWithManager_def Watched.case fst_conv
    by (subst owned) (auto simp: buildServiceMonitor_def osdk_utils.labeler_namespace [OF assms(2)] monitorKey_def)
qed

theorem owned_objects_lead_back_witness:
  "fst (SetupWithManager controllerRuntime clusterController (IngressChanged (i_Meta (buildFrontendIngress mergingUtils
       (emptyFrontend ''app'') emptyEnv emptyIngress))) (UpdateEvent 1 2) emptyCluster) = [inNamespace [] ''app''] \<and>
   fst (SetupWithManager controllerRuntime clusterController (ServiceMonitorChanged (sm_Meta (buildServiceMonitor mergingUtils
       (emptyFrontend ''app'') emptyEnv (monitorKey \<lparr>mon_Mode = ''app-interface'', mon_Disabled = False\<rparr> (emptyFrontend ''app''))
       emptyMonitor))) (UpdateEvent 1 2) emptyCluster) = [inNamespace ''openshift-customer-monitoring'' ''app'']"
  using owned_objects_lead_back [OF controller_runtime.watch_runtime_axioms merging.osdk_utils_axioms, of 1 2
      clusterController "emptyFrontend ''app''" emptyEnv emptyIngress emptyCluster "\<lparr>mon_Mode = ''app-interface'', mon_Disabled = False\<rparr>"
      emptyMonitor]
  by (simp add: emptyFrontend_def emptyMeta_def inNamespace_def versionGroup_def frontendGroup_def)

text \<open>Drift of the reverse proxy goes unnoticed: a change of its deployment or its ingress makes no request,
  neither at its own controller, which does not watch them, nor at the frontend controller, since the
  environment owns them without being their controller. They are repaired at the next change of the
  environment.\<close>

theorem proxy_drift_unnoticed:
  assumes "watch_runtime rt" and "buildReverseProxyDeployment r = Inr d" and "buildReverseProxyIngress r = Inr i"
    and "watched \<in> {DeploymentChanged (d_Meta d), IngressChanged (i_Meta i)}"
  shows "proxySetupWithManager watched ev = [] \<and> SetupWithManager rt c watched ev w = ([], w)"
  using assms(4) watch_runtime.owned_by_environment [OF assms(1) proxy_owners(1) [OF assms(2)]]
    watch_runtime.owned_by_environment [OF assms(1) proxy_owners(2) [OF assms(3)]]
  by (auto simp: proxySetupWithManager_def SetupWithManager_def)

end
