(* ===== verification/Process_Start.thy ===== *)
theory Process_Start
  imports Watches
begin

text \<open>
  \<open>Run\<close> of \<^verbatim>\<open>main.go\<close> and the registrations of the two \<open>SetupWithManager\<close>: the order in which field
  indexes, controllers and health checks are set up before the manager starts.

  The manager belongs to controller-runtime, so it is the record \<open>Manager\<close> of the calls the code makes, over
  an unknown state \<open>'m\<close>; \<open>manager_api\<close> says what the code relies on. \<open>Start\<close> blocks until the process is told
  to stop. A controller is given by its name and what it watches; what the watches do is \<^theory_text>\<open>Watches\<close>, and what
  an index on \<^verbatim>\<open>spec.envName\<close> gives is \<open>env_index\<close>. Flags, logger and scheme are left out.
\<close>

section \<open>Model\<close>

datatype WatchSpec = ForKind string | WatchesKind string | OwnsKind string

datatype Registration =
    IndexField string string
  | Controller string "WatchSpec list"
  | HealthzCheck string
  | ReadyzCheck string

record ManagerOptions =
  mo_BindAddress :: string
  mo_HealthProbeBindAddress :: string
  mo_LeaderElection :: bool
  mo_LeaderElectionID :: string

record 'm Manager =
  mg_New :: "ManagerOptions \<Rightarrow> ('m, unit) act"
  mg_Register :: "Registration \<Rightarrow> ('m, unit) act"
  mg_Start :: "('m, unit) act"

definition wrapA :: "string \<Rightarrow> ('m, unit) act \<Rightarrow> ('m, unit) act" where
  "wrapA ctx a w = (case a w of (r, w') \<Rightarrow> (wrapError ctx r, w'))"

text \<open>The frontend controller is not given a name; the runtime takes it from the kind.\<close>

definition frontendController :: Registration where
  "frontendController = Controller ''frontend''
     [ForKind ''Frontend'', WatchesKind ''Bundle'', WatchesKind ''FrontendEnvironment'', OwnsKind ''Deployment'',
      OwnsKind ''Ingress'', OwnsKind ''ServiceMonitor'']"

definition reverseProxyController :: Registration where
  "reverseProxyController = Controller ''reverseproxy'' [ForKind ''FrontendEnvironment'']"

definition setupFrontendReconciler :: "'m Manager \<Rightarrow> ('m, unit) act" where
  "setupFrontendReconciler mgr =
     bindA (mg_Register mgr (IndexField ''Frontend'' ''spec.envName'')) (\<lambda>_.
     bindA (mg_Register mgr (IndexField ''Bundle'' ''spec.envName'')) (\<lambda>_.
     mg_Register mgr frontendController))"

definition setupReverseProxyController :: "'m Manager \<Rightarrow> ('m, unit) act" where
  "setupReverseProxyController mgr = mg_Register mgr reverseProxyController"

definition managerOptions :: "string \<Rightarrow> string \<Rightarrow> bool \<Rightarrow> ManagerOptions" where
  "managerOptions metricsAddr probeAddr enableLeaderElection =
     \<lparr>mo_BindAddress = metricsAddr, mo_HealthProbeBindAddress = probeAddr, mo_LeaderElection = enableLeaderElection,
      mo_LeaderElectionID = ''1dd43857.cloud.redhat.com''\<rparr>"

definition setUp :: "'m Manager \<Rightarrow> ManagerOptions \<Rightarrow> ('m, unit) act" where
  "setUp mgr options =
     bindA (wrapA ''unable to start manager: '' (mg_New mgr options)) (\<lambda>_.
     bindA (wrapA ''unable to create manager: '' (setupFrontendReconciler mgr)) (\<lambda>_.
     bindA (wrapA ''unable to create reverse proxy controller: '' (setupReverseProxyController mgr)) (\<lambda>_.
     bindA (wrapA ''unable to setup health check: '' (mg_Register mgr (HealthzCheck ''healthz''))) (\<lambda>_.
     wrapA ''unable to setup ready check: '' (mg_Register mgr (ReadyzCheck ''readyz''))))))"

definition Run :: "'m Manager \<Rightarrow> string \<Rightarrow> string \<Rightarrow> bool \<Rightarrow> ('m, unit) act" where
  "Run mgr metricsAddr probeAddr enableLeaderElection =
     bindA (setUp mgr (managerOptions metricsAddr probeAddr enableLeaderElection)) (\<lambda>_.
     wrapA ''problem running manager: '' (mg_Start mgr))"

section \<open>The manager\<close>

text \<open>\<open>started\<close> is the list of the registrations in force at every start, latest first.\<close>

lemma wrapA_Inr: "wrapA ctx a w = (Inr (), w') \<longleftrightarrow> a w = (Inr (), w')"
  by (auto simp: wrapA_def wrapError_def split: prod.splits sum.splits if_splits)

lemma withinA_wrap: "withinA R a \<Longrightarrow> withinA R (wrapA ctx a)"
  by (simp add: withinA_def wrapA_def case_prod_beta)

locale manager_api =
  fixes mgr :: "'m Manager"
    and registered :: "'m \<Rightarrow> Registration list"
    and started :: "'m \<Rightarrow> Registration list list"
  assumes new_empty: "mg_New mgr opts m = (Inr (), m') \<Longrightarrow> registered m' = []"
    and new_idle: "mg_New mgr opts m = (r, m') \<Longrightarrow> started m' = started m"
    and register_adds: "mg_Register mgr reg m = (Inr (), m') \<Longrightarrow> registered m' = registered m @ [reg]"
    and register_idle: "mg_Register mgr reg m = (r, m') \<Longrightarrow> started m' = started m"
    and start_once: "mg_Start mgr m = (r, m') \<Longrightarrow> started m' = registered m # started m"
begin

lemma setUp_idle: "withinA (sameView started) (setUp mgr options)"
proof -
  have new: "withinA (sameView started) (mg_New mgr opts)" and reg: "withinA (sameView started) (mg_Register mgr reg)" for opts reg
    by (auto simp: withinA_def intro: new_idle register_idle surjective_pairing)
  show ?thesis
    unfolding setUp_def setupFrontendReconciler_def setupReverseProxyController_def
    by (intro same_view.withinA_bind withinA_wrap new reg)
qed

lemma setUp_registers:
  "setUp mgr options m = (Inr (), m') \<Longrightarrow> registered m' =
     [IndexField ''Frontend'' ''spec.envName'', IndexField ''Bundle'' ''spec.envName'', frontendController,
      reverseProxyController, HealthzCheck ''healthz'', ReadyzCheck ''readyz'']"
  by (auto simp: setUp_def setupFrontendReconciler_def setupReverseProxyController_def bindA_Inr wrapA_Inr
      dest!: new_empty register_adds)

lemma run_starts:
  assumes "Run mgr metricsAddr probeAddr leader m = (r, m')"
  shows "if started m' = started m then r \<noteq> Inr ()
    else started m' = [IndexField ''Frontend'' ''spec.envName'', IndexField ''Bundle'' ''spec.envName'', frontendController,
      reverseProxyController, HealthzCheck ''healthz'', ReadyzCheck ''readyz''] # started m"
proof -
  obtain x m1 where up: "setUp mgr (managerOptions metricsAddr probeAddr leader) m = (x, m1)" by fastforce
  have idle: "started m1 = started m" by (rule withinA_D [OF setUp_idle up])
  show ?thesis
  proof (cases x)
    case (Inl e)
    with up assms idle show ?thesis by (auto simp: Run_def bindA_def)
  next
    case (Inr u)
    obtain y where "mg_Start mgr m1 = (y, m')"
      using assms up Inr by (auto simp: Run_def bindA_def wrapA_def split: prod.splits)
    from start_once [OF this] setUp_registers [of _ m m1] up Inr idle show ?thesis by simp
  qed
qed

end

record ManagerState =
  ms_Registered :: "Registration list"
  ms_Started :: "Registration list list"

definition recordingManager :: "ManagerState Manager" where
  "recordingManager = \<lparr>mg_New = (\<lambda>opts m. (Inr (), m\<lparr>ms_Registered := []\<rparr>)),
     mg_Register = (\<lambda>reg m. (Inr (), m\<lparr>ms_Registered := ms_Registered m @ [reg]\<rparr>)),
     mg_Start = (\<lambda>m. (Inr (), m\<lparr>ms_Started := ms_Registered m # ms_Started m\<rparr>))\<rparr>"

interpretation recording_manager: manager_api recordingManager ms_Registered ms_Started
  by unfold_locales (auto simp: recordingManager_def)

end
