(* ===== verification/Metrics.thy ===== *)
theory Metrics
  imports Lifecycle
begin

text \<open>
  \<^verbatim>\<open>controllers/metrics.go\<close> and the lines of \<^verbatim>\<open>controllers/frontend_controller.go\<close> that feed it: the gauge of managed
  frontends, the counter of requests and the histogram of reconciliation times.

  The collectors are the record \<open>Metrics\<close>: the value of the gauge, and by the label \<open>app\<close> the counter and the
  observations in their order. Every function that touches a collector has a metered version here, with the
  collectors beside \<open>managedFrontends\<close>; \<open>ReconcileM_erase\<close> shows that the versions do what the ones of
  \<^theory_text>\<open>Frontend_Controller\<close> do. The clock is the argument \<open>clock\<close>, in nanoseconds. A restart of the process starts
  with fresh collectors.
\<close>

section \<open>Model\<close>

record Metrics =
  me_Managed :: nat
  me_Requests :: "string \<Rightarrow> nat"
  me_Times :: "string \<Rightarrow> int list"

definition freshMetrics :: Metrics where
  "freshMetrics = \<lparr>me_Managed = 0, me_Requests = (\<lambda>_. 0), me_Times = (\<lambda>_. [])\<rparr>"

record ReconciliationMetrics =
  rm_AppName :: string
  rm_StartTime :: int

definition setManaged :: "string list \<Rightarrow> Metrics \<Rightarrow> Metrics" where
  "setManaged managedFrontends me = me\<lparr>me_Managed := length managedFrontends\<rparr>"

definition incRequests :: "string \<Rightarrow> Metrics \<Rightarrow> Metrics" where
  "incRequests app me = me\<lparr>me_Requests := (me_Requests me)(app := Suc (me_Requests me app))\<rparr>"

definition stopMetrics :: "ReconciliationMetrics \<Rightarrow> int \<Rightarrow> Metrics \<Rightarrow> Metrics" where
  "stopMetrics rm now me =
     me\<lparr>me_Times := (me_Times me)(rm_AppName rm := me_Times me (rm_AppName rm) @ [now - rm_StartTime rm])\<rparr>"

definition finalizeAppM :: "Frontend \<Rightarrow> string list \<Rightarrow> Metrics \<Rightarrow> string list \<times> Metrics" where
  "finalizeAppM a managedFrontends me =
     (let managed = finalizeApp a managedFrontends in (managed, setManaged managed me))"

type_synonym 'w metered = "outcome \<times> string list \<times> Metrics \<times> 'w"

definition handleDeletionM :: "'w ControllerClient \<Rightarrow> Frontend \<Rightarrow> string list \<Rightarrow> Metrics \<Rightarrow> 'w \<Rightarrow> 'w metered" where
  "handleDeletionM c fe managedFrontends me w =
     (if kc_Contains c (om_Finalizers (fe_Meta fe)) frontendFinalizer then
        (case finalizeAppM fe managedFrontends me of (managed, me1) \<Rightarrow>
         (case kc_UpdateFrontend c (withFinalizers fe (kc_RemoveFinalizer c (om_Finalizers (fe_Meta fe)) frontendFinalizer)) w of
           (Inl e, w1) \<Rightarrow> ((False, Inl e), managed, me1, w1)
         | (Inr _, w1) \<Rightarrow> ((False, Inr ()), managed, me1, w1)))
      else ((False, Inr ()), managedFrontends, me, w))"

definition unmetered :: "Metrics \<Rightarrow> (outcome \<times> string list \<times> 'w) option \<Rightarrow> 'w metered option" where
  "unmetered me = map_option (\<lambda>(out, managed, w). (out, managed, me, w))"

definition finishReconcileM ::
  "'w ControllerClient \<Rightarrow> ('w \<Rightarrow> int) \<Rightarrow> NamespacedName \<Rightarrow> Frontend \<Rightarrow> ReconciliationMetrics \<Rightarrow> string list \<Rightarrow> Metrics \<Rightarrow>
     'w \<Rightarrow> 'w metered option"
where
  "finishReconcileM c clock req frontend rm managedFrontends me w =
     (case kc_ReconcileCache c (om_UID (fe_Meta frontend)) (fe_Name frontend) w of
        (Inl e, w1) \<Rightarrow>
          unmetered me (reportFailure c req ''error setting status after reconcile delete error: '' e managedFrontends w1)
      | (Inr _, w1) \<Rightarrow>
          (let managed = addManaged (GetIdent frontend) managedFrontends; me1 = setManaged managed me in
           case SetFrontendConditions (kc_Status c) req ReconciliationSuccessful None w1 of
             None \<Rightarrow> None
           | Some (Inl e, w2) \<Rightarrow> Some ((True, Inr ()), managed, me1, w2)
           | Some (Inr _, w2) \<Rightarrow> Some ((False, Inr ()), managed, stopMetrics rm (clock w2) me1, w2)))"

definition reconcileLiveM ::
  "'w ControllerClient \<Rightarrow> ('w \<Rightarrow> int) \<Rightarrow> NamespacedName \<Rightarrow> Frontend \<Rightarrow> ReconciliationMetrics \<Rightarrow> string list \<Rightarrow> Metrics \<Rightarrow>
     'w \<Rightarrow> 'w metered option"
where
  "reconcileLiveM c clock req frontend rm managedFrontends me w =
     (case (if \<not> kc_Contains c (om_Finalizers (fe_Meta frontend)) frontendFinalizer
            then addFinalizer c frontend w else (Inr (), w)) of
        (Inl e, w1) \<Rightarrow> Some ((False, Inl e), managedFrontends, me, w1)
      | (Inr _, w1) \<Rightarrow>
          (case sc_GetEnvironment (kc_Status c) (envKey frontend) w1 of
             (Inl e, w2) \<Rightarrow> Some ((False, Inl e), managedFrontends, me, w2)
           | (Inr _, w2) \<Rightarrow>
               (case sc_Retry (kc_Status c) (reconcileAttempt c req) w2 of
                  None \<Rightarrow> None
                | Some (Inl e, w3) \<Rightarrow>
                    if isPanic e then Some ((False, Inl e), managedFrontends, me, w3)
                    else unmetered me
                      (reportFailure c req ''error setting status after reconciliation error: '' e managedFrontends w3)
                | Some (Inr fe, w3) \<Rightarrow> finishReconcileM c clock req fe rm managedFrontends me w3)))"

definition ReconcileM ::
  "'w ControllerClient \<Rightarrow> ('w \<Rightarrow> int) \<Rightarrow> NamespacedName \<Rightarrow> string list \<Rightarrow> Metrics \<Rightarrow> 'w \<Rightarrow> 'w metered option"
where
  "ReconcileM c clock req managedFrontends me w =
     (case sc_GetFrontend (kc_Status c) req w of
        (Inl e, w1) \<Rightarrow> Some (if IsNotFound e then ((False, Inr ()), managedFrontends, me, w1)
                        else ((False, Inl e), managedFrontends, me, w1))
      | (Inr frontend, w1) \<Rightarrow>
          if fs_Disabled (fe_Spec frontend)
          then Some ((False, Inl (Errorf ''frontend is disabled'')), managedFrontends, me, w1)
          else (let rm = \<lparr>rm_AppName = nn_Name req, rm_StartTime = clock w1\<rparr>; me1 = incRequests (nn_Name req) me in
            if om_DeletionTimestamp (fe_Meta frontend) \<noteq> None
            then Some (handleDeletionM c frontend managedFrontends me1 w1)
            else reconcileLiveM c clock req frontend rm managedFrontends me1 w1))"

section \<open>The metered versions do the same\<close>

definition erase :: "'w metered \<Rightarrow> outcome \<times> string list \<times> 'w" where
  "erase x = (case x of (out, managed, me, w) \<Rightarrow> (out, managed, w))"

lemma erase_simps [simp]: "erase (out, managed, me, w) = (out, managed, w)"
  by (simp add: erase_def)

lemma unmetered_erase [simp]: "map_option erase (unmetered me r) = r"
  by (cases r) (auto simp: unmetered_def)

lemma handleDeletionM_erase: "erase (handleDeletionM c fe managed me w) = handleDeletion c fe managed w"
  by (simp add: handleDeletionM_def handleDeletion_def finalizeAppM_def Let_def split: prod.split sum.split)

lemma finishReconcileM_erase:
  "map_option erase (finishReconcileM c clock req fe rm managed me w) = finishReconcile c req fe managed w"
  by (simp add: finishReconcileM_def finishReconcile_def Let_def split: prod.split sum.split option.split)

lemma reconcileLiveM_erase:
  "map_option erase (reconcileLiveM c clock req fe rm managed me w) = reconcileLive c req fe managed w"
  by (simp add: reconcileLiveM_def reconcileLive_def finishReconcileM_erase split: prod.split sum.split option.split)

lemma ReconcileM_erase: "map_option erase (ReconcileM c clock req managed me w) = Reconcile c req managed w"
  by (simp add: ReconcileM_def Reconcile_def Let_def handleDeletionM_erase reconcileLiveM_erase split: prod.split sum.split)

section \<open>What the collectors say\<close>

text \<open>A call for \<open>app\<close> brings the gauge up to date whenever it changes \<open>managedFrontends\<close>, counts itself at most once
  and observes at most one time, and that only when it has counted itself.\<close>

definition accounted :: "string list \<Rightarrow> Metrics \<Rightarrow> bool" where
  "accounted managed me = (me_Managed me = length managed \<and> (\<forall>app. length (me_Times me app) \<le> me_Requests me app))"

definition ahead :: "string \<Rightarrow> string list \<Rightarrow> Metrics \<Rightarrow> bool" where
  "ahead app managed me = (accounted managed me \<and> length (me_Times me app) < me_Requests me app)"

lemma ahead_accounted: "ahead app managed me \<Longrightarrow> accounted managed me"
  by (simp add: ahead_def)

lemma incRequests_ahead: "accounted managed me \<Longrightarrow> ahead app managed (incRequests app me)"
  by (auto simp: accounted_def ahead_def incRequests_def le_Suc_eq less_Suc_eq_le)

lemma setManaged_ahead: "ahead app managed me \<Longrightarrow> ahead app managed' (setManaged managed' me)"
  by (simp add: ahead_def accounted_def setManaged_def)

lemma stopMetrics_accounted: "ahead (rm_AppName rm) managed me \<Longrightarrow> accounted managed (stopMetrics rm now me)"
  by (auto simp: ahead_def accounted_def stopMetrics_def)

lemma unmetered_accounted:
  "unmetered me (reportFailure c req msg e managed w) = Some (out, managed', me', w') \<Longrightarrow> accounted managed me \<Longrightarrow> accounted managed' me'"
  by (auto simp: unmetered_def dest: reportFailure_managed)

lemma handleDeletionM_accounted:
  assumes "handleDeletionM c fe managed me w = (out, managed', me', w')" and "ahead app managed me"
  shows "accounted managed' me'"
  using assms by (auto simp: handleDeletionM_def finalizeAppM_def Let_def split: if_splits prod.splits sum.splits
      intro: ahead_accounted setManaged_ahead)

lemma finishReconcileM_accounted:
  assumes "finishReconcileM c clock req fe rm managed me w = Some (out, managed', me', w')" and "ahead (rm_AppName rm) managed me"
  shows "accounted managed' me'"
  using assms by (auto simp: finishReconcileM_def Let_def split: prod.splits sum.splits option.splits
      intro: ahead_accounted setManaged_ahead stopMetrics_accounted dest: unmetered_accounted)

lemma reconcileLiveM_accounted:
  assumes "reconcileLiveM c clock req fe rm managed me w = Some (out, managed', me', w')" and "ahead (rm_AppName rm) managed me"
  shows "accounted managed' me'"
  using assms by (auto simp: reconcileLiveM_def split: prod.splits sum.splits option.splits if_splits
      intro: ahead_accounted finishReconcileM_accounted dest: unmetered_accounted)

lemma ReconcileM_accounted:
  assumes "ReconcileM c clock req managed me w = Some (out, managed', me', w')" and "accounted managed me"
  shows "accounted managed' me'"
proof -
  note ahead = incRequests_ahead [OF assms(2), of "nn_Name req"]
  from assms(1) consider "accounted managed' me'" | fe v where
      "handleDeletionM c fe managed (incRequests (nn_Name req) me) v = (out, managed', me', w')"
    | fe t v where "reconcileLiveM c clock req fe \<lparr>rm_AppName = nn_Name req, rm_StartTime = t\<rparr> managed
        (incRequests (nn_Name req) me) v = Some (out, managed', me', w')"
    using assms(2) by (fastforce simp: ReconcileM_def Let_def split: prod.splits sum.splits if_splits)
  then show ?thesis
  proof cases
    case 2
    then show ?thesis using ahead by (rule handleDeletionM_accounted)
  next
    case 3
    then show ?thesis by (rule reconcileLiveM_accounted) (simp add: ahead)
  qed simp
qed

section \<open>The operator with its collectors\<close>

inductive metered :: "'w ControllerClient \<Rightarrow> ('w \<Rightarrow> int) \<Rightarrow> ('w \<Rightarrow> 'a set) \<Rightarrow> 'w \<Rightarrow> 'w \<Rightarrow> string list \<Rightarrow> Metrics \<Rightarrow> bool"
  for c clock held w0
where
  fresh: "metered c clock held w0 w0 [] freshMetrics"
| meanwhile: "metered c clock held w0 w managed me \<Longrightarrow> held w \<subseteq> held w' \<Longrightarrow> metered c clock held w0 w' managed me"
| handle: "metered c clock held w0 w managed me \<Longrightarrow> ReconcileM c clock req managed me w = Some (out, managed', me', w') \<Longrightarrow>
    metered c clock held w0 w' managed' me'"
| restart: "metered c clock held w0 w managed me \<Longrightarrow> metered c clock held w0 w [] freshMetrics"

lemma fresh_accounted: "accounted [] freshMetrics"
  by (simp add: accounted_def freshMetrics_def)

lemma metered_accounted: "metered c clock held w0 w managed me \<Longrightarrow> accounted managed me"
  by (induction rule: metered.induct) (blast intro: fresh_accounted ReconcileM_accounted)+

lemma metered_steps: "metered c clock held w0 w managed me \<Longrightarrow> steps c held (w0, []) (w, managed)"
proof (induction rule: metered.induct)
  case (handle w managed me req out managed' me' w')
  then have "Reconcile c req managed w = Some (out, managed', w')" by (metis ReconcileM_erase erase_simps option.map(2))
  with handle.IH show ?case by (blast intro: steps.more step.handle)
qed (auto intro: steps.intros step.intros)

lemma finite_clusterHeld: "finite (clusterHeld w)"
proof (rule finite_subset)
  show "clusterHeld w \<subseteq> (\<lambda>nn. (nn, fs_EnvName (fe_Spec (the (frontendView w nn))))) ` fst ` set (cl_Frontends w)"
    by (force simp: heldIn_def storeView_def image_iff dest: map_of_SomeD split: option.splits if_splits)
qed simp

section \<open>Properties\<close>

text \<open>C22: the collectors tell the truth. In every state that the operator can reach, by any number of requests,
  restarts and changes that others make, the gauge is the number of managed identifiers, and for every label no
  more times were observed than requests were counted. The gauge exceeds the number of the frontends stored with
  the operator's finalizer by at most the number of the managed identifiers that belong to the frontends \<open>D\<close>,
  which somebody beside the operator has moved to another environment or stripped of the finalizer: nothing is
  assumed of those, and C23 shows that they are really left over. When there are none, the gauge is at most the
  number of the frontends stored with the finalizer, of which there are finitely many.\<close>

theorem metrics_truthful:
  assumes "shared_store c D held" and "metered c clock (heldOr D held) w0 w managed me" and "finite (held w)"
  shows "me_Managed me = length managed \<and>
    me_Managed me \<le> card (held w) + card {i \<in> set managed. \<exists>nn envName. nn \<in> D \<and> i = identOf (nn, envName)} \<and>
    length (me_Times me app) \<le> me_Requests me app"
proof -
  let ?left = "{i \<in> set managed. \<exists>nn envName. nn \<in> D \<and> i = identOf (nn, envName)}"
  note held = steps_held [OF assms(1) metered_steps [OF assms(2)]]
  have "length managed = card (set managed)" using held(1) by (simp add: distinct_card)
  also have "\<dots> \<le> card (identOf ` held w \<union> ?left)"
  proof (rule card_mono)
    show "set managed \<subseteq> identOf ` held w \<union> ?left" using held(2) by (fastforce simp: heldOr_def)
  qed (use assms(3) in simp)
  also have "\<dots> \<le> card (identOf ` held w) + card ?left" by (rule card_Un_le)
  also have "\<dots> \<le> card (held w) + card ?left" using card_image_le [OF assms(3)] by simp
  finally show ?thesis using metered_accounted [OF assms(2)] by (simp add: accounted_def)
qed

theorem metrics_truthful_witness:
  "\<exists>w me. metered clusterController (\<lambda>_. 0) (heldOr {} clusterHeld) (statusCluster (controlled False None)) w [''.app''] me \<and>
     me_Managed me = 1 \<and> 1 \<le> card (clusterHeld w)"
proof -
  let ?w0 = "statusCluster (controlled False None)"
  obtain out w where "Reconcile clusterController (inNamespace [] ''app'') [] ?w0 = Some (out, [''.app''], w)"
    using cluster_handles by blast
  then obtain me where "ReconcileM clusterController (\<lambda>_. 0) (inNamespace [] ''app'') [] freshMetrics ?w0 = Some (out, [''.app''], me, w)"
    using ReconcileM_erase [of clusterController "\<lambda>_. 0" "inNamespace [] ''app''" "[]" freshMetrics ?w0] by (auto simp: erase_def)
  then have run: "metered clusterController (\<lambda>_. 0) (heldOr {} clusterHeld) ?w0 w [''.app''] me" by (rule metered.handle [OF metered.fresh])
  from metrics_truthful [OF cluster_operator.shared_store_axioms run finite_clusterHeld, of "[]"]
  have "me_Managed me = 1 \<and> 1 \<le> card (clusterHeld w)" by simp
  with run show ?thesis by blast
qed

end
