(* ===== verification/Go_Memory.thy ===== *)
theory Go_Memory
  imports Go_Prelude
begin

text \<open>
  Go's memory, as far as copying is concerned. The other theories treat slices, maps and pointers as values;
  here they are references to objects, so that sharing shows.

  \<^item> A value is a base value, nil, a pointer, a slice (an array with an offset and a length), a map, or a struct by
    its fields. An object is a cell for one value, an array or a table. The memory is the list of the objects
    ever allocated, an address is a position in it; \<open>new\<close> and \<open>make\<close> append.
  \<^item> \<open>reads D m S v T t\<close>: in the memory \<open>m\<close> the value \<open>v\<close> has the type \<open>T\<close> and the contents \<open>t\<close>, a finite tree, and all
    objects it refers to, directly or through others, are in \<open>S\<close>. \<open>D\<close> gives the declared types by name, for
    types that refer to themselves.
  \<^item> A \<open>copier\<close> is a function in the style of \<open>DeepCopyInto\<close>: it returns the value that is written through \<open>out\<close>, with the
    memory after the allocations, or \<^const>\<open>None\<close> where it does not return. An object that a copier makes is
    written by the same call only, so it is allocated with its final contents.
  \<^item> \<open>deepCopier D c T\<close>: for every finite value of type \<open>T\<close> the copier \<open>c\<close> returns a value with the same contents that uses
    new objects only.
\<close>

section \<open>Values and memory\<close>

datatype val = Prim string | NilV | Ptr nat | Slice nat nat nat | MapV nat | Struct "(string \<times> val) list"

datatype obj = Cell val | Array "val list" | Table "(string \<times> val) list"

type_synonym memory = "obj list"

definition objectAt :: "memory \<Rightarrow> nat \<Rightarrow> obj option" where
  "objectAt m a = (if a < length m then Some (m ! a) else None)"

lemma objectAt_append:
  "objectAt m a = Some x \<Longrightarrow> objectAt (m @ new) a = Some x"
  "a = length m \<Longrightarrow> objectAt (m @ [x]) a = Some x"
  by (auto simp: objectAt_def nth_append split: if_splits)

datatype ty = Base | PtrT ty | SliceT ty | MapT ty | StructT "(string \<times> ty) list" | Named string

datatype tree = TBase string | TNil | TPtr tree | TSlice "tree list" | TMap "(string \<times> tree) list" | TStruct "(string \<times> tree) list"

type_synonym field = "string \<times> ty \<times> tree"

abbreviation fieldType :: "field \<Rightarrow> string \<times> ty" where
  "fieldType g \<equiv> (fst g, fst (snd g))"

abbreviation fieldTree :: "field \<Rightarrow> string \<times> tree" where
  "fieldTree g \<equiv> (fst g, snd (snd g))"

inductive reads :: "(string \<Rightarrow> ty option) \<Rightarrow> memory \<Rightarrow> nat set \<Rightarrow> val \<Rightarrow> ty \<Rightarrow> tree \<Rightarrow> bool"
  for D m S
where
  base: "reads D m S (Prim s) Base (TBase s)"
| nil_ptr: "reads D m S NilV (PtrT T) TNil"
| nil_slice: "reads D m S NilV (SliceT T) TNil"
| nil_map: "reads D m S NilV (MapT T) TNil"
| ptr: "a \<in> S \<Longrightarrow> objectAt m a = Some (Cell v) \<Longrightarrow> reads D m S v T t \<Longrightarrow> reads D m S (Ptr a) (PtrT T) (TPtr t)"
| slice: "a \<in> S \<Longrightarrow> objectAt m a = Some (Array vs) \<Longrightarrow> off + len \<le> length vs \<Longrightarrow>
    list_all2 (\<lambda>v t. reads D m S v T t) (take len (drop off vs)) ts \<Longrightarrow> reads D m S (Slice a off len) (SliceT T) (TSlice ts)"
| table: "a \<in> S \<Longrightarrow> objectAt m a = Some (Table es) \<Longrightarrow> distinct (map fst es) \<Longrightarrow>
    list_all2 (\<lambda>e k. fst e = fst k \<and> reads D m S (snd e) T (snd k)) es ks \<Longrightarrow> reads D m S (MapV a) (MapT T) (TMap ks)"
| struct: "list_all2 (\<lambda>f g. fst f = fst g \<and> reads D m S (snd f) (fst (snd g)) (snd (snd g))) fs fts \<Longrightarrow>
    reads D m S (Struct fs) (StructT (map fieldType fts)) (TStruct (map fieldTree fts))"
| named: "D n = Some T \<Longrightarrow> reads D m S v T t \<Longrightarrow> reads D m S v (Named n) t"

inductive_cases readsE:
  "reads D m S v (PtrT T) t" "reads D m S v (SliceT T) t" "reads D m S v (MapT T) t" "reads D m S v (StructT Fs) t"
  "reads D m S v (Named n) t" "reads D m S v Base t"

text \<open>Only the objects of \<open>S\<close> matter.\<close>

lemma reads_local:
  assumes "reads D m S v T t" and "S \<subseteq> S'" and "\<And>a x. a \<in> S \<Longrightarrow> objectAt m a = Some x \<Longrightarrow> objectAt m' a = Some x"
  shows "reads D m' S' v T t"
  using assms(1)
proof (induction rule: reads.induct)
  case (slice a vs off len T ts)
  then show ?case using assms(2,3) by (auto intro!: reads.slice elim: list_all2_mono)
next
  case (table a es T ks)
  then show ?case using assms(2,3) by (auto intro!: reads.table elim: list_all2_mono)
next
  case (struct fs fts)
  then show ?case by (auto intro!: reads.struct elim: list_all2_mono)
qed (use assms(2,3) in \<open>auto intro: reads.intros\<close>)

lemma reads_extend: "reads D m S v T t \<Longrightarrow> reads D (m @ new) S v T t"
  by (erule reads_local) (auto intro: objectAt_append(1))

section \<open>Copiers\<close>

type_synonym copier = "val \<Rightarrow> memory \<Rightarrow> (val \<times> memory) option"

text \<open>An assignment copies the words of the value.\<close>

definition assign :: copier where
  "assign v m = Some (v, m)"

text \<open>\<^verbatim>\<open>if in != nil { *out = new(T); (*in).DeepCopyInto(*out) }\<close>\<close>

definition copyPtr :: "copier \<Rightarrow> copier" where
  "copyPtr c v m =
     (case v of
        NilV \<Rightarrow> Some (NilV, m)
      | Ptr a \<Rightarrow> (case objectAt m a of
            Some (Cell x) \<Rightarrow> Option.bind (c x m) (\<lambda>(x', m1). Some (Ptr (length m1), m1 @ [Cell x']))
          | _ \<Rightarrow> None)
      | _ \<Rightarrow> None)"

primrec copyElems :: "copier \<Rightarrow> val list \<Rightarrow> memory \<Rightarrow> (val list \<times> memory) option" where
  "copyElems c [] m = Some ([], m)"
| "copyElems c (v # vs) m =
     Option.bind (c v m) (\<lambda>(v', m1). Option.bind (copyElems c vs m1) (\<lambda>(vs', m2). Some (v' # vs', m2)))"

text \<open>\<^verbatim>\<open>*out = make([]T, len(*in)); for i := range *in { (*in)[i].DeepCopyInto(&(*out)[i]) }\<close>\<close>

definition copySlice :: "copier \<Rightarrow> copier" where
  "copySlice c v m =
     (case v of
        NilV \<Rightarrow> Some (NilV, m)
      | Slice a off len \<Rightarrow> (case objectAt m a of
            Some (Array vs) \<Rightarrow> Option.bind (copyElems c (take len (drop off vs)) m)
              (\<lambda>(vs', m1). Some (Slice (length m1) 0 len, m1 @ [Array vs']))
          | _ \<Rightarrow> None)
      | _ \<Rightarrow> None)"

text \<open>\<^verbatim>\<open>*out = make(map[string]T, len(*in)); for key, val := range *in { (*out)[key] = val.DeepCopy() }\<close>. The keys of a
  table are distinct, so entering them one after the other lists them.\<close>

definition copyMap :: "copier \<Rightarrow> copier" where
  "copyMap c v m =
     (case v of
        NilV \<Rightarrow> Some (NilV, m)
      | MapV a \<Rightarrow> (case objectAt m a of
            Some (Table es) \<Rightarrow> Option.bind (copyElems c (map snd es) m)
              (\<lambda>(vs', m1). Some (MapV (length m1), m1 @ [Table (zip (map fst es) vs')]))
          | _ \<Rightarrow> None)
      | _ \<Rightarrow> None)"

primrec copyFields :: "(string \<times> copier) list \<Rightarrow> (string \<times> val) list \<Rightarrow> (string \<times> val) list \<Rightarrow> memory \<Rightarrow>
    ((string \<times> val) list \<times> memory) option" where
  "copyFields [] inn out m = Some (out, m)"
| "copyFields (fc # cs) inn out m =
     (case map_of inn (fst fc) of
        None \<Rightarrow> None
      | Some v \<Rightarrow> Option.bind (snd fc v m) (\<lambda>(v', m1). copyFields cs inn (AList.update (fst fc) v' out) m1))"

text \<open>\<^verbatim>\<open>*out = *in\<close>, then the listed fields in turn.\<close>

definition into :: "(string \<times> copier) list \<Rightarrow> copier" where
  "into cs v m =
     (case v of
        Struct fs \<Rightarrow> Option.bind (copyFields cs fs fs m) (\<lambda>(out, m1). Some (Struct out, m1))
      | _ \<Rightarrow> None)"

text \<open>A copier may call itself: each of the constructions is monotone in the copiers it is made of.\<close>

lemma mono_cases:
  "(\<And>x. mono_option (\<lambda>f. g x f)) \<Longrightarrow> mono_option (\<lambda>f. case z of None \<Rightarrow> None | Some x \<Rightarrow> g x f)"
  "(\<And>x. mono_option (\<lambda>f. g1 x f)) \<Longrightarrow> (\<And>x. mono_option (\<lambda>f. g2 x f)) \<Longrightarrow> (\<And>x. mono_option (\<lambda>f. g3 x f)) \<Longrightarrow>
     mono_option (\<lambda>f. case ob of Cell x \<Rightarrow> g1 x f | Array x \<Rightarrow> g2 x f | Table x \<Rightarrow> g3 x f)"
  "(\<And>x y. mono_option (\<lambda>f. h x y f)) \<Longrightarrow> mono_option (\<lambda>f. case p of (x, y) \<Rightarrow> h x y f)"
  by (cases z; cases ob; cases p; simp add: option.const_mono)+

lemmas mono_steps = bind_mono option.const_mono mono_cases

lemma copyElems_mono [partial_function_mono]:
  "(\<And>v m. mono_option (\<lambda>f. c f v m)) \<Longrightarrow> mono_option (\<lambda>f. copyElems (c f) vs m)"
  by (induction vs arbitrary: m) (auto intro!: mono_steps)

lemma copyPtr_mono [partial_function_mono]:
  "(\<And>v m. mono_option (\<lambda>f. c f v m)) \<Longrightarrow> mono_option (\<lambda>f. copyPtr (c f) v m)"
  unfolding copyPtr_def by (cases v) (auto intro!: mono_steps)

lemma copySlice_mono [partial_function_mono]:
  "(\<And>v m. mono_option (\<lambda>f. c f v m)) \<Longrightarrow> mono_option (\<lambda>f. copySlice (c f) v m)"
  unfolding copySlice_def by (cases v) (auto intro!: mono_steps copyElems_mono)

lemma copyFields_mono [partial_function_mono]:
  "mono_option (\<lambda>f. copyFields [] inn out m)"
  "(\<And>v m. mono_option (\<lambda>f. c f v m)) \<Longrightarrow> (\<And>inn out m. mono_option (\<lambda>f. copyFields (cs f) inn out m)) \<Longrightarrow>
     mono_option (\<lambda>f. copyFields ((n, c f) # cs f) inn out m)"
  unfolding copyFields.simps fst_conv snd_conv by (auto intro!: mono_steps)

lemma into_mono [partial_function_mono]:
  "(\<And>inn out m. mono_option (\<lambda>f. copyFields (cs f) inn out m)) \<Longrightarrow> mono_option (\<lambda>f. into (cs f) v m)"
  unfolding into_def by (cases v) (auto intro!: mono_steps)

section \<open>Deep copies\<close>

definition deepAt :: "(string \<Rightarrow> ty option) \<Rightarrow> copier \<Rightarrow> ty \<Rightarrow> tree \<Rightarrow> bool" where
  "deepAt D c T t = (\<forall>m v. reads D m UNIV v T t \<longrightarrow>
     (\<exists>v' new. c v m = Some (v', m @ new) \<and> reads D (m @ new) {length m..} v' T t))"

definition deepCopier :: "(string \<Rightarrow> ty option) \<Rightarrow> copier \<Rightarrow> ty \<Rightarrow> bool" where
  "deepCopier D c T = (\<forall>t. deepAt D c T t)"

text \<open>Types without references.\<close>

primrec flat :: "ty \<Rightarrow> bool" where
  "flat Base = True"
| "flat (PtrT T) = False"
| "flat (SliceT T) = False"
| "flat (MapT T) = False"
| "flat (StructT Fs) = list_all snd (map (map_prod id flat) Fs)"
| "flat (Named n) = False"

lemma flat_anywhere: "reads D m S v T t \<Longrightarrow> flat T \<Longrightarrow> reads D m' S' v T t"
proof (induction rule: reads.induct)
  case (struct fs fts)
  from struct.prems have flat: "flat (fst (snd g))" if "g \<in> set fts" for g using that by (auto simp: list_all_iff)
  from struct.IH have "list_all2 (\<lambda>f g. fst f = fst g \<and> reads D m' S' (snd f) (fst (snd g)) (snd (snd g))) fs fts"
    by (rule list.rel_mono_strong) (use flat in auto)
  then show ?case by (rule reads.struct)
qed (auto intro: reads.intros)

lemma deepAtI:
  assumes "\<And>m v. reads D m UNIV v T t \<Longrightarrow> \<exists>v' new. c v m = Some (v', m @ new) \<and> reads D (m @ new) {length m..} v' T t"
  shows "deepAt D c T t"
  using assms by (simp add: deepAt_def)

lemma deepAtE:
  assumes "deepAt D c T t" and "reads D m UNIV v T t"
  obtains v' new where "c v m = Some (v', m @ new)" and "reads D (m @ new) {length m..} v' T t"
  using assms unfolding deepAt_def by blast

lemma assign_deep: "flat T \<Longrightarrow> deepAt D assign T t"
  by (rule deepAtI) (auto simp: assign_def intro: flat_anywhere)

lemma ptr_deep:
  assumes "\<And>u. t = TPtr u \<Longrightarrow> deepAt D c T u"
  shows "deepAt D (copyPtr c) (PtrT T) t"
proof (rule deepAtI)
  fix m v assume "reads D m UNIV v (PtrT T) t"
  then show "\<exists>v' new. copyPtr c v m = Some (v', m @ new) \<and> reads D (m @ new) {length m..} v' (PtrT T) t"
  proof (rule readsE(1))
    fix a x u assume v: "v = Ptr a" "t = TPtr u" "objectAt m a = Some (Cell x)" "reads D m UNIV x T u"
    obtain x' new where c: "c x m = Some (x', m @ new)" and r: "reads D (m @ new) {length m..} x' T u"
      using deepAtE [OF assms [OF v(2)] v(4)] by blast
    have "reads D ((m @ new) @ [Cell x']) {length m..} (Ptr (length (m @ new))) (PtrT T) (TPtr u)"
      by (rule reads.ptr [OF _ objectAt_append(2) reads_extend [OF r]]) simp_all
    with v c show ?thesis by (intro exI [of _ "Ptr (length (m @ new))"] exI [of _ "new @ [Cell x']"]) (simp add: copyPtr_def)
  qed (auto simp: copyPtr_def intro: reads.intros)
qed


lemma elems_deep:
  assumes "list_all2 (\<lambda>v t. reads D m UNIV v T t) vs ts" and "\<And>t. t \<in> set ts \<Longrightarrow> deepAt D c T t"
  shows "\<exists>vs' new. copyElems c vs m = Some (vs', m @ new) \<and> list_all2 (\<lambda>v t. reads D (m @ new) {length m..} v T t) vs' ts"
  using assms
proof (induction vs arbitrary: m ts)
  case (Cons v vs)
  then obtain t us where ts: "ts = t # us" and r: "reads D m UNIV v T t" "list_all2 (\<lambda>v t. reads D m UNIV v T t) vs us"
    by (auto simp: list_all2_Cons1)
  obtain v' new1 where c: "c v m = Some (v', m @ new1)" and r': "reads D (m @ new1) {length m..} v' T t"
    using deepAtE [OF Cons.prems(2) r(1)] ts by auto
  have "list_all2 (\<lambda>v t. reads D (m @ new1) UNIV v T t) vs us"
    using r(2) by (rule list_all2_mono) (rule reads_extend)
  from Cons.IH [OF this] Cons.prems(2) ts obtain vs' new2 where cs: "copyElems c vs (m @ new1) = Some (vs', (m @ new1) @ new2)"
    and rs: "list_all2 (\<lambda>v t. reads D ((m @ new1) @ new2) {length (m @ new1)..} v T t) vs' us" by auto
  have "list_all2 (\<lambda>v t. reads D (m @ new1 @ new2) {length m..} v T t) vs' us"
    using rs by (rule list_all2_mono) (auto elim: reads_local)
  moreover have "reads D (m @ new1 @ new2) {length m..} v' T t" using reads_extend [OF r', of new2] by simp
  ultimately show ?case using c cs ts by (intro exI [of _ "v' # vs'"] exI [of _ "new1 @ new2"]) simp
qed simp

lemma slice_deep:
  assumes "\<And>ts u. t = TSlice ts \<Longrightarrow> u \<in> set ts \<Longrightarrow> deepAt D c T u"
  shows "deepAt D (copySlice c) (SliceT T) t"
proof (rule deepAtI)
  fix m v assume "reads D m UNIV v (SliceT T) t"
  then show "\<exists>v' new. copySlice c v m = Some (v', m @ new) \<and> reads D (m @ new) {length m..} v' (SliceT T) t"
  proof (rule readsE(2))
    fix a vs off len ts
    assume v: "v = Slice a off len" "t = TSlice ts" "objectAt m a = Some (Array vs)" "off + len \<le> length vs"
      and el: "list_all2 (\<lambda>v t. reads D m UNIV v T t) (take len (drop off vs)) ts"
    obtain vs' new where c: "copyElems c (take len (drop off vs)) m = Some (vs', m @ new)"
      and r: "list_all2 (\<lambda>v t. reads D (m @ new) {length m..} v T t) vs' ts"
      using elems_deep [OF el assms [OF v(2)]] by blast
    have len: "length vs' = len" using v(4) list_all2_lengthD [OF r] list_all2_lengthD [OF el] by simp
    have "list_all2 (\<lambda>v t. reads D ((m @ new) @ [Array vs']) {length m..} v T t) vs' ts"
      using r by (rule list_all2_mono) (rule reads_extend)
    then have "reads D ((m @ new) @ [Array vs']) {length m..} (Slice (length (m @ new)) 0 len) (SliceT T) (TSlice ts)"
      by (intro reads.slice [OF _ objectAt_append(2)]) (simp_all add: len)
    with v c show ?thesis
      by (intro exI [of _ "Slice (length (m @ new)) 0 len"] exI [of _ "new @ [Array vs']"]) (simp add: copySlice_def)
  qed (auto simp: copySlice_def intro: reads.intros)
qed

lemma map_deep:
  assumes "\<And>ks k. t = TMap ks \<Longrightarrow> k \<in> set ks \<Longrightarrow> deepAt D c T (snd k)"
  shows "deepAt D (copyMap c) (MapT T) t"
proof (rule deepAtI)
  fix m v assume "reads D m UNIV v (MapT T) t"
  then show "\<exists>v' new. copyMap c v m = Some (v', m @ new) \<and> reads D (m @ new) {length m..} v' (MapT T) t"
  proof (rule readsE(3))
    fix a es ks
    assume v: "v = MapV a" "t = TMap ks" "objectAt m a = Some (Table es)" "distinct (map fst es)"
      and el: "list_all2 (\<lambda>e k. fst e = fst k \<and> reads D m UNIV (snd e) T (snd k)) es ks"
    have keys: "map fst es = map fst ks" using el by (induction rule: list_all2_induct) simp_all
    have "list_all2 (\<lambda>v t. reads D m UNIV v T t) (map snd es) (map snd ks)"
      using el by (auto simp: list_all2_map1 list_all2_map2 elim: list_all2_mono)
    then obtain vs' new where c: "copyElems c (map snd es) m = Some (vs', m @ new)"
      and r: "list_all2 (\<lambda>v t. reads D (m @ new) {length m..} v T t) vs' (map snd ks)"
      using elems_deep [of D m T "map snd es" "map snd ks" c] assms [OF v(2)] by (metis (no_types, lifting) imageE set_map)
    let ?es = "zip (map fst es) vs'"
    have len: "length vs' = length es" using list_all2_lengthD [OF r] list_all2_lengthD [OF el] by simp
    have "list_all2 (\<lambda>e k. fst e = fst k \<and> reads D ((m @ new) @ [Table ?es]) {length m..} (snd e) T (snd k)) ?es ks"
      unfolding keys using r reads_extend by (fastforce simp: list_all2_conv_all_nth)
    then have "reads D ((m @ new) @ [Table ?es]) {length m..} (MapV (length (m @ new))) (MapT T) (TMap ks)"
      by (intro reads.table [OF _ objectAt_append(2)]) (simp_all add: len v(4))
    with v c show ?thesis
      by (intro exI [of _ "MapV (length (m @ new))"] exI [of _ "new @ [Table ?es]"]) (simp add: copyMap_def)
  qed (auto simp: copyMap_def intro: reads.intros)
qed

text \<open>Structs. A field of \<open>out\<close> that is still to be copied may refer to anything; the others use new objects only.\<close>

definition fieldsOK :: "(string \<Rightarrow> ty option) \<Rightarrow> memory \<Rightarrow> nat \<Rightarrow> string set \<Rightarrow> (string \<times> val) list \<Rightarrow> field list \<Rightarrow> bool" where
  "fieldsOK D m n todo out fts =
     list_all2 (\<lambda>f g. fst f = fst g \<and> (fst f \<in> todo \<or> reads D m {n..} (snd f) (fst (snd g)) (snd (snd g)))) out fts"

lemma fieldsOK_update:
  assumes "fieldsOK D m n (insert f todo) out fts" and "distinct (map fst fts)" and "(f, T, t) \<in> set fts"
    and "reads D m {n..} v T t"
  shows "fieldsOK D m n todo (AList.update f v out) fts"
  using assms
proof (induction out arbitrary: fts)
  case (Cons e out)
  then obtain g gs where fts: "fts = g # gs" by (cases fts) (auto simp: fieldsOK_def)
  show ?case
  proof (cases "fst e = f")
    case True
    with Cons.prems fts have g: "g = (f, T, t)" by (auto simp: fieldsOK_def rev_image_eqI)
    have "fieldsOK D m n todo out gs"
      unfolding fieldsOK_def
    proof (rule list.rel_mono_strong)
      show "list_all2 (\<lambda>f' g. fst f' = fst g \<and> (fst f' \<in> insert f todo \<or> reads D m {n..} (snd f') (fst (snd g)) (snd (snd g)))) out gs"
        using Cons.prems(1) fts by (simp add: fieldsOK_def)
      show "fst f' = fst h \<and> (fst f' \<in> todo \<or> reads D m {n..} (snd f') (fst (snd h)) (snd (snd h)))"
        if "h \<in> set gs" "fst f' = fst h \<and> (fst f' \<in> insert f todo \<or> reads D m {n..} (snd f') (fst (snd h)) (snd (snd h)))" for f' h
        using that Cons.prems(2) fts g by (auto simp: rev_image_eqI)
    qed
    with True g fts Cons.prems(4) show ?thesis by (cases e) (simp add: fieldsOK_def)
  next
    case False
    with Cons.prems fts have "(f, T, t) \<in> set gs" by (auto simp: fieldsOK_def)
    with Cons.IH [of gs] Cons.prems fts have "fieldsOK D m n todo (AList.update f v out) gs" by (simp add: fieldsOK_def)
    with False fts Cons.prems(1) show ?thesis by (cases e) (simp add: fieldsOK_def)
  qed
qed (simp add: fieldsOK_def)


lemma fieldsOK_extend: "fieldsOK D m n todo out fts \<Longrightarrow> fieldsOK D (m @ new) n todo out fts"
  unfolding fieldsOK_def by (erule list_all2_mono) (auto intro: reads_extend)

lemma field_lookup:
  assumes "list_all2 (\<lambda>f g. fst f = fst g \<and> reads D m S (snd f) (fst (snd g)) (snd (snd g))) inn fts"
    and "distinct (map fst fts)" and "(f, T, t) \<in> set fts"
  shows "\<exists>v. map_of inn f = Some v \<and> reads D m S v T t"
  using assms
proof (induction rule: list_all2_induct)
  case (Cons e es g gs)
  then show ?case by (cases e) (auto simp: rev_image_eqI)
qed simp

lemma copyFields_deep:
  assumes "list_all2 (\<lambda>f g. fst f = fst g \<and> reads D m UNIV (snd f) (fst (snd g)) (snd (snd g))) inn fts"
    and "distinct (map fst fts)" and "\<And>f c T t. (f, c) \<in> set cs \<Longrightarrow> (f, T, t) \<in> set fts \<Longrightarrow> deepAt D c T t"
    and "fst ` set cs \<subseteq> fst ` set fts" and "fieldsOK D m n (fst ` set cs) out fts" and "n \<le> length m"
  shows "\<exists>out' new. copyFields cs inn out m = Some (out', m @ new) \<and> fieldsOK D (m @ new) n {} out' fts"
  using assms
proof (induction cs arbitrary: m out)
  case Nil
  then show ?case by (intro exI [of _ out] exI [of _ "[]"]) simp
next
  case (Cons fc cs)
  obtain f c where fc: "fc = (f, c)" by fastforce
  with Cons.prems(4) obtain T t where g: "(f, T, t) \<in> set fts" by auto
  obtain v where v: "map_of inn f = Some v" "reads D m UNIV v T t" using field_lookup [OF Cons.prems(1,2) g] by blast
  obtain v' new1 where c: "c v m = Some (v', m @ new1)" and r: "reads D (m @ new1) {length m..} v' T t"
    using deepAtE [OF Cons.prems(3) [OF _ g] v(2)] fc by auto
  let ?out = "AList.update f v' out"
  have "reads D (m @ new1) {n..} v' T t" using r by (rule reads_local) (use Cons.prems(6) in auto)
  moreover have "fieldsOK D (m @ new1) n (insert f (fst ` set cs)) out fts"
    using fieldsOK_extend [OF Cons.prems(5)] fc by simp
  ultimately have ok: "fieldsOK D (m @ new1) n (fst ` set cs) ?out fts"
    using fieldsOK_update [OF _ Cons.prems(2) g] by blast
  have "list_all2 (\<lambda>f g. fst f = fst g \<and> reads D (m @ new1) UNIV (snd f) (fst (snd g)) (snd (snd g))) inn fts"
    using Cons.prems(1) by (rule list_all2_mono) (auto intro: reads_extend)
  moreover have "\<And>f c T t. (f, c) \<in> set cs \<Longrightarrow> (f, T, t) \<in> set fts \<Longrightarrow> deepAt D c T t" using Cons.prems(3) by (meson list.set_intros(2))
  moreover have "fst ` set cs \<subseteq> fst ` set fts" "n \<le> length (m @ new1)" using Cons.prems(4,6) by simp_all
  ultimately obtain out' new2 where
    "copyFields cs inn ?out (m @ new1) = Some (out', (m @ new1) @ new2)" "fieldsOK D ((m @ new1) @ new2) n {} out' fts"
    using Cons.IH [OF _ Cons.prems(2) _ _ ok] by meson
  then show ?case using v c fc by (intro exI [of _ out'] exI [of _ "new1 @ new2"]) simp
qed

text \<open>A copier of a struct is deep when it copies every field deeply and assigns only fields without references.\<close>

lemma into_deep:
  assumes "distinct (map fst Fs)" and "fst ` set cs \<subseteq> fst ` set Fs" and "distinct (map fst cs)"
    and "\<And>f T ts u. t = TStruct ts \<Longrightarrow> (f, T) \<in> set Fs \<Longrightarrow> (f, u) \<in> set ts \<Longrightarrow>
      (case map_of cs f of Some c \<Rightarrow> deepAt D c T u | None \<Rightarrow> flat T)"
  shows "deepAt D (into cs) (StructT Fs) t"
proof (rule deepAtI)
  fix m v assume "reads D m UNIV v (StructT Fs) t"
  then show "\<exists>v' new. into cs v m = Some (v', m @ new) \<and> reads D (m @ new) {length m..} v' (StructT Fs) t"
  proof (rule readsE(4))
    fix fs fts
    assume v: "v = Struct fs" "Fs = map fieldType fts" "t = TStruct (map fieldTree fts)"
      and r: "list_all2 (\<lambda>f g. fst f = fst g \<and> reads D m UNIV (snd f) (fst (snd g)) (snd (snd g))) fs fts"
    have names: "map fst Fs = map fst fts" using v(2) by simp
    have field: "case map_of cs (fst g) of Some c \<Rightarrow> deepAt D c (fst (snd g)) (snd (snd g)) | None \<Rightarrow> flat (fst (snd g))"
      if "g \<in> set fts" for g
      using assms(4) [OF v(3), of "fst g" "fst (snd g)" "snd (snd g)"] that v(2) by auto
    have copied: "deepAt D c T u" if "(f, c) \<in> set cs" "(f, T, u) \<in> set fts" for f c T u
      using field [OF that(2)] map_of_is_SomeI [OF assms(3) that(1)] by simp
    have ok: "fieldsOK D m (length m) (fst ` set cs) fs fts"
      unfolding fieldsOK_def
    proof (rule list.rel_mono_strong [OF r])
      show "fst f = fst g \<and> (fst f \<in> fst ` set cs \<or> reads D m {length m..} (snd f) (fst (snd g)) (snd (snd g)))"
        if "g \<in> set fts" "fst f = fst g \<and> reads D m UNIV (snd f) (fst (snd g)) (snd (snd g))" for f g
        using field [OF that(1)] that(2) flat_anywhere 
          by (cases "map_of cs (fst g)") (auto dest: map_of_SomeD intro: rev_image_eqI)
    qed
    have dist: "distinct (map fst fts)" using assms(1) names by simp
    have sub: "fst ` set cs \<subseteq> fst ` set fts" using assms(2) names by (metis list.set_map)
    obtain out new where "copyFields cs fs fs m = Some (out, m @ new)" and "fieldsOK D (m @ new) (length m) {} out fts"
      using copyFields_deep [OF r dist _ sub ok le_refl] copied by metis
    moreover from this(2) have "reads D (m @ new) {length m..} (Struct out) (StructT Fs) t"
      unfolding v(2,3) by (intro reads.struct) (simp add: fieldsOK_def)
    ultimately show ?thesis using v(1) by (intro exI [of _ "Struct out"] exI [of _ new]) (simp add: into_def)
  qed
qed

text \<open>The rules for whole types.\<close>

lemma deepCopier_assign: "flat T \<Longrightarrow> deepCopier D assign T"
  by (simp add: deepCopier_def assign_deep)

lemma deepCopier_ptr: "deepCopier D c T \<Longrightarrow> deepCopier D (copyPtr c) (PtrT T)"
  by (simp add: deepCopier_def ptr_deep)

lemma deepCopier_slice: "deepCopier D c T \<Longrightarrow> deepCopier D (copySlice c) (SliceT T)"
  by (simp add: deepCopier_def slice_deep)

lemma deepCopier_map: "deepCopier D c T \<Longrightarrow> deepCopier D (copyMap c) (MapT T)"
  by (simp add: deepCopier_def map_deep)

definition covers :: "(string \<Rightarrow> ty option) \<Rightarrow> (string \<times> copier) list \<Rightarrow> (string \<times> ty) list \<Rightarrow> bool" where
  "covers D cs Fs = (distinct (map fst Fs) \<and> distinct (map fst cs) \<and> list_all (\<lambda>f. f \<in> fst ` set Fs) (map fst cs) \<and>
     list_all (\<lambda>(f, T). case map_of cs f of Some c \<Rightarrow> deepCopier D c T | None \<Rightarrow> flat T) Fs)"

lemma deepCopier_into: "covers D cs Fs \<Longrightarrow> deepCopier D (into cs) (StructT Fs)"
  unfolding deepCopier_def covers_def
  by (intro allI into_deep) (auto simp: list_all_iff deepCopier_def split: option.splits)

lemma deepCopierD: "deepCopier D c T \<Longrightarrow> deepAt D c T t"
  by (simp add: deepCopier_def)

lemma named_deep: "D n = Some T \<Longrightarrow> deepAt D c T t \<Longrightarrow> deepAt D c (Named n) t"
  unfolding deepAt_def by (metis reads.named readsE(5) option.inject)

text \<open>What a deep copy is good for: whatever is written to the old objects afterwards, the copy keeps its contents, and
  whatever is written to the new ones, the original keeps its contents.\<close>

lemma deepCopier_separates:
  assumes "deepCopier D c T" and "reads D m UNIV v T t"
  shows "\<exists>v' new. c v m = Some (v', m @ new) \<and> (\<forall>old. length old = length m \<longrightarrow> reads D (old @ new) UNIV v' T t) \<and>
    (\<forall>new'. reads D (m @ new') UNIV v T t)"
proof -
  obtain v' new where "c v m = Some (v', m @ new)" and r: "reads D (m @ new) {length m..} v' T t"
    using assms deepAtE unfolding deepCopier_def by metis
  moreover have "reads D (old @ new) UNIV v' T t" if "length old = length m" for old
    using r by (rule reads_local) (use that in \<open>auto simp: objectAt_def nth_append split: if_splits\<close>)
  ultimately show ?thesis using reads_extend [OF assms(2)] by blast
qed

end
