(* ===== verification/Deep_Copy.thy ===== *)
theory Deep_Copy
  imports Go_Memory
begin

text \<open>
  \<^verbatim>\<open>api/v1alpha1/zz_generated.deepcopy.go\<close> over the memory of \<^theory_text>\<open>Go_Memory\<close>:
    \<open>DeepCopyInto\<close>, \<open>DeepCopy\<close> and \<open>DeepCopyObject\<close> of
  every type of the API group, against the types as \<^verbatim>\<open>api/v1alpha1\<close> declares them.

  \<^item> \<open>FrontendSpecT\<close> and so on are the declared structs, field by field; strings, numbers and booleans are base values.
    \<open>FrontendSpec_DeepCopyInto\<close> and so on are the methods, statement by statement: a field that is not listed is
    copied by the first statement, \<^verbatim>\<open>*out = *in\<close>. The two are translated from different files, so that
    the property says that the generated file has kept up with the declarations.
  \<^item> \<open>ChromeNavItem\<close> refers to itself. Its method calls itself and may, for a cyclic value, not return; so it is a
    \<^theory_text>\<open>partial_function (option)\<close>. For finite values it returns, by induction on the contents.
  \<^item> The types of Kubernetes (\<open>ObjectMeta\<close>, \<open>ListMeta\<close>, \<open>Condition\<close>,
    \<open>JSON\<close>, \<open>Quantity\<close>, \<open>TypeMeta\<close>) and their copiers are
    the fields
    of \<open>Externals\<close>; the locale \<open>external_copies\<close> says that their copiers are deep, and that \<open>TypeMeta\<close> has no
    references.

  The other theories treat slices as values. Where the code relies on a copy being separate, it calls these
  methods: \<open>fillNavRefsTree\<close> for the items it takes from a segment, \<open>SetFrontendConditions\<close> for the old status.
\<close>

section \<open>Types\<close>

named_theorems shapes

record Externals =
  ex_TypeMetaT :: ty
  ex_ObjectMetaT :: ty
  ex_ListMetaT :: ty
  ex_ConditionT :: ty
  ex_JSONT :: ty
  ex_QuantityT :: ty
  ex_ObjectMeta :: copier
  ex_ListMeta :: copier
  ex_Condition :: copier
  ex_JSON :: copier
  ex_Quantity :: copier

definition APISpecInfoT :: "Externals \<Rightarrow> ty" where
  [shapes]: "APISpecInfoT x = StructT [(''URL'', Base), (''BundleLabels'', SliceT Base), (''FrontendName'', Base)]"

definition APIInfoT :: "Externals \<Rightarrow> ty" where
  [shapes]: "APIInfoT x = StructT [(''Versions'', SliceT Base), (''Specs'', SliceT (APISpecInfoT x))]"

definition AnalyticsT :: "Externals \<Rightarrow> ty" where
  [shapes]: "AnalyticsT x = StructT [(''APIKey'', Base), (''APIKeyDev'', Base), (''AutocaptureAPIKey'', Base),
     (''AutocaptureAPIKeyDev'', Base)]"

definition WidgetTemplateConfigItemT :: "Externals \<Rightarrow> ty" where
  [shapes]: "WidgetTemplateConfigItemT x = StructT [(''W'', Base), (''H'', Base), (''MaxH'', PtrT Base),
     (''MinH'', PtrT Base), (''CX'', PtrT Base), (''CY'', PtrT Base), (''I'', Base), (''Static'', PtrT Base)]"

definition TemplateConfigT :: "Externals \<Rightarrow> ty" where
  [shapes]: "TemplateConfigT x = StructT [(''Sm'', SliceT (WidgetTemplateConfigItemT x)),
     (''Md'', SliceT (WidgetTemplateConfigItemT x)), (''Lg'', SliceT (WidgetTemplateConfigItemT x)),
     (''Xl'', SliceT (WidgetTemplateConfigItemT x))]"

definition BaseWidgetDashboardTemplateT :: "Externals \<Rightarrow> ty" where
  [shapes]: "BaseWidgetDashboardTemplateT x = StructT [(''Name'', Base), (''DisplayName'', Base),
     (''TemplateConfig'', TemplateConfigT x), (''FrontendRef'', Base)]"

definition PermissionT :: "Externals \<Rightarrow> ty" where
  [shapes]: "PermissionT x = StructT [(''Method'', Base), (''Apps'', SliceT Base), (''Args'', PtrT (ex_JSONT x))]"

definition SegmentRefT :: "Externals \<Rightarrow> ty" where
  [shapes]: "SegmentRefT x = StructT [(''FrontendName'', Base), (''SegmentID'', Base)]"

definition navFields :: "Externals \<Rightarrow> (string \<times> ty) list" where
  "navFields x = [(''IsHidden'', Base), (''Expandable'', Base), (''Href'', Base), (''AppID'', Base),
     (''IsExternal'', Base), (''Title'', Base), (''GroupID'', Base), (''ID'', Base), (''Product'', Base),
     (''Notifier'', Base), (''Icon'', Base), (''IsBeta'', Base), (''NavItems'', SliceT (Named ''ChromeNavItem'')),
     (''Routes'', SliceT (Named ''ChromeNavItem'')), (''Permissions'', SliceT (PermissionT x)),
     (''Position'', PtrT Base), (''SegmentRef'', PtrT (SegmentRefT x)), (''BundleSegmentRef'', Base),
     (''FrontendRef'', Base)]"

definition ChromeNavItemT :: "Externals \<Rightarrow> ty" where
  "ChromeNavItemT x = StructT (navFields x)"

definition ExtraNavItemT :: "Externals \<Rightarrow> ty" where
  [shapes]: "ExtraNavItemT x = StructT [(''Name'', Base), (''NavItem'', Named ''ChromeNavItem'')]"

definition BundleSpecT :: "Externals \<Rightarrow> ty" where
  [shapes]: "BundleSpecT x = StructT [(''ID'', Base), (''Title'', Base), (''AppList'', SliceT Base), (''EnvName'', Base),
     (''ExtraNavItems'', SliceT (ExtraNavItemT x)), (''CustomNav'', SliceT (Named ''ChromeNavItem''))]"

definition BundleStatusT :: "Externals \<Rightarrow> ty" where
  [shapes]: "BundleStatusT x = StructT []"

definition BundleT :: "Externals \<Rightarrow> ty" where
  [shapes]: "BundleT x = StructT [(''TypeMeta'', ex_TypeMetaT x), (''ObjectMeta'', ex_ObjectMetaT x),
     (''Spec'', BundleSpecT x), (''Status'', BundleStatusT x)]"

definition BundleListT :: "Externals \<Rightarrow> ty" where
  [shapes]: "BundleListT x = StructT [(''TypeMeta'', ex_TypeMetaT x), (''ListMeta'', ex_ListMetaT x),
     (''Items'', SliceT (BundleT x))]"

definition BundlePermissionT :: "Externals \<Rightarrow> ty" where
  [shapes]: "BundlePermissionT x = StructT [(''Method'', Base), (''Args'', SliceT Base)]"

definition EmbeddedRouteT :: "Externals \<Rightarrow> ty" where
  [shapes]: "EmbeddedRouteT x = StructT [(''Title'', Base), (''AppID'', Base), (''Href'', Base), (''Product'', Base)]"

definition LeafBundleNavItemT :: "Externals \<Rightarrow> ty" where
  [shapes]: "LeafBundleNavItemT x = StructT [(''Title'', Base), (''GroupID'', Base), (''AppID'', Base), (''Href'', Base),
     (''Product'', Base), (''IsExternal'', Base), (''Filterable'', Base), (''Expandable'', Base),
     (''Notifier'', Base), (''Routes'', SliceT (EmbeddedRouteT x)),
     (''Permissions'', SliceT (BundlePermissionT x))]"

definition BundleNavItemT :: "Externals \<Rightarrow> ty" where
  [shapes]: "BundleNavItemT x = StructT [(''Title'', Base), (''GroupID'', Base), (''Icon'', Base),
     (''NavItems'', SliceT (LeafBundleNavItemT x)), (''AppID'', Base), (''Href'', Base), (''Product'', Base),
     (''IsExternal'', Base), (''Filterable'', Base), (''Permissions'', SliceT (BundlePermissionT x)),
     (''Routes'', SliceT (EmbeddedRouteT x)), (''Expandable'', Base), (''DynamicNav'', Base)]"

definition BundleSegmentT :: "Externals \<Rightarrow> ty" where
  [shapes]: "BundleSegmentT x = StructT [(''SegmentID'', Base), (''BundleID'', Base), (''Position'', Base),
     (''NavItems'', PtrT (SliceT (Named ''ChromeNavItem'')))]"

definition ComputedBundleT :: "Externals \<Rightarrow> ty" where
  [shapes]: "ComputedBundleT x = StructT [(''ID'', Base), (''Title'', Base),
     (''NavItems'', SliceT (Named ''ChromeNavItem''))]"

definition SupportCaseDataT :: "Externals \<Rightarrow> ty" where
  [shapes]: "SupportCaseDataT x = StructT [(''Version'', Base), (''Product'', Base)]"

definition RouteT :: "Externals \<Rightarrow> ty" where
  [shapes]: "RouteT x = StructT [(''Pathname'', Base), (''Dynamic'', Base), (''Exact'', Base),
     (''Props'', PtrT (ex_JSONT x)), (''FullProfile'', Base), (''IsFedramp'', Base),
     (''SupportCaseData'', PtrT (SupportCaseDataT x)), (''Permissions'', SliceT (PermissionT x))]"

definition ModuleT :: "Externals \<Rightarrow> ty" where
  [shapes]: "ModuleT x = StructT [(''ID'', Base), (''Module'', Base), (''Routes'', SliceT (RouteT x)),
     (''Dependencies'', SliceT Base), (''OptionalDependencies'', SliceT Base)]"

definition ModuleConfigT :: "Externals \<Rightarrow> ty" where
  [shapes]: "ModuleConfigT x = StructT [(''SupportCaseData'', SupportCaseDataT x), (''SSOScopes'', SliceT Base)]"

definition FedModuleT :: "Externals \<Rightarrow> ty" where
  [shapes]: "FedModuleT x = StructT [(''ManifestLocation'', Base), (''Modules'', SliceT (ModuleT x)), (''ModuleID'', Base),
     (''Config'', PtrT (ex_JSONT x)), (''ModuleConfig'', PtrT (ModuleConfigT x)), (''FullProfile'', PtrT Base),
     (''DefaultDocumentTitle'', Base), (''IsFedramp'', PtrT Base), (''Analytics'', PtrT (AnalyticsT x)),
     (''CDNPath'', Base)]"

definition FrontendInfoT :: "Externals \<Rightarrow> ty" where
  [shapes]: "FrontendInfoT x = StructT [(''Paths'', SliceT Base)]"

definition NavigationSegmentT :: "Externals \<Rightarrow> ty" where
  [shapes]: "NavigationSegmentT x = StructT [(''SegmentID'', Base), (''NavItems'', PtrT (SliceT (Named ''ChromeNavItem'')))]"

definition SearchEntryT :: "Externals \<Rightarrow> ty" where
  [shapes]: "SearchEntryT x = StructT [(''ID'', Base), (''Href'', Base), (''Title'', Base), (''Description'', Base),
     (''AltTitle'', SliceT Base), (''IsExternal'', Base), (''FrontendRef'', Base),
     (''Permissions'', SliceT (PermissionT x))]"

definition ServiceMonitorConfigT :: "Externals \<Rightarrow> ty" where
  [shapes]: "ServiceMonitorConfigT x = StructT [(''Disabled'', Base)]"

definition ServiceTileT :: "Externals \<Rightarrow> ty" where
  [shapes]: "ServiceTileT x = StructT [(''Section'', Base), (''Group'', Base), (''ID'', Base), (''Href'', Base),
     (''Title'', Base), (''Description'', Base), (''Icon'', Base), (''IsExternal'', Base), (''FrontendRef'', Base),
     (''Permissions'', SliceT (PermissionT x))]"

definition WidgetBaseDimensionsT :: "Externals \<Rightarrow> ty" where
  [shapes]: "WidgetBaseDimensionsT x = StructT [(''Width'', PtrT Base), (''Height'', PtrT Base), (''MaxHeight'', PtrT Base),
     (''MinHeight'', PtrT Base)]"

definition WidgetHeaderLinkT :: "Externals \<Rightarrow> ty" where
  [shapes]: "WidgetHeaderLinkT x = StructT [(''Title'', Base), (''Href'', Base)]"

definition WidgetConfigurationT :: "Externals \<Rightarrow> ty" where
  [shapes]: "WidgetConfigurationT x = StructT [(''Title'', Base), (''Icon'', Base), (''HeaderLink'', WidgetHeaderLinkT x),
     (''Permissions'', SliceT (PermissionT x))]"

definition WidgetModuleFederationMetadataT :: "Externals \<Rightarrow> ty" where
  [shapes]: "WidgetModuleFederationMetadataT x = StructT [(''Scope'', Base), (''Module'', Base), (''ImportName'', Base),
     (''FeatureFlag'', Base), (''Defaults'', WidgetBaseDimensionsT x), (''Config'', WidgetConfigurationT x),
     (''FrontendRef'', Base)]"

definition FrontendSpecT :: "Externals \<Rightarrow> ty" where
  "FrontendSpecT x = StructT [(''Disabled'', Base), (''EnvName'', Base), (''Title'', Base),
     (''DeploymentRepo'', Base), (''API'', PtrT (APIInfoT x)), (''Frontend'', FrontendInfoT x), (''Image'', Base),
     (''Service'', Base), (''ServiceMonitor'', ServiceMonitorConfigT x), (''Module'', PtrT (FedModuleT x)),
     (''NavItems'', SliceT (PtrT (BundleNavItemT x))), (''BundleSegments'', SliceT (PtrT (BundleSegmentT x))),
     (''NavigationSegments'', SliceT (PtrT (NavigationSegmentT x))), (''AssetsPrefix'', Base),
     (''AkamaiCacheBustDisable'', Base), (''AkamaiCacheBustPaths'', SliceT Base),
     (''SearchEntries'', SliceT (PtrT (SearchEntryT x))), (''ServiceTiles'', SliceT (PtrT (ServiceTileT x))),
     (''WidgetRegistry'', SliceT (PtrT (WidgetModuleFederationMetadataT x))),
     (''BaseWidgetLayouts'', SliceT (PtrT (BaseWidgetDashboardTemplateT x))), (''Replicas'', PtrT Base),
     (''FeoConfigEnabled'', Base)]"

definition FrontendDeploymentsT :: "Externals \<Rightarrow> ty" where
  [shapes]: "FrontendDeploymentsT x = StructT [(''ManagedDeployments'', Base), (''ReadyDeployments'', Base)]"

definition FrontendStatusT :: "Externals \<Rightarrow> ty" where
  [shapes]: "FrontendStatusT x = StructT [(''Deployments'', FrontendDeploymentsT x), (''Ready'', Base),
     (''Conditions'', SliceT (ex_ConditionT x))]"

definition FrontendT :: "Externals \<Rightarrow> ty" where
  [shapes]: "FrontendT x = StructT [(''TypeMeta'', ex_TypeMetaT x), (''ObjectMeta'', ex_ObjectMetaT x),
     (''Spec'', FrontendSpecT x), (''Status'', FrontendStatusT x)]"

definition FrontendBundlesT :: "Externals \<Rightarrow> ty" where
  [shapes]: "FrontendBundlesT x = StructT [(''ID'', Base), (''Title'', Base), (''Description'', Base)]"

definition FrontendBundlesGeneratedT :: "Externals \<Rightarrow> ty" where
  [shapes]: "FrontendBundlesGeneratedT x = StructT [(''ID'', Base), (''Title'', Base), (''Description'', Base),
     (''NavItems'', SliceT (Named ''ChromeNavItem''))]"

definition FrontendServiceCategoryGroupT :: "Externals \<Rightarrow> ty" where
  [shapes]: "FrontendServiceCategoryGroupT x = StructT [(''ID'', Base), (''Title'', Base)]"

definition FrontendServiceCategoryT :: "Externals \<Rightarrow> ty" where
  [shapes]: "FrontendServiceCategoryT x = StructT [(''ID'', Base), (''Title'', Base), (''Icon'', Base),
     (''Groups'', SliceT (FrontendServiceCategoryGroupT x))]"

definition MonitoringConfigT :: "Externals \<Rightarrow> ty" where
  [shapes]: "MonitoringConfigT x = StructT [(''Mode'', Base), (''Disabled'', Base)]"

definition FrontendEnvironmentSpecT :: "Externals \<Rightarrow> ty" where
  "FrontendEnvironmentSpecT x = StructT [(''SSO'', Base), (''SSOMapping'', MapT Base), (''IngressClass'', Base),
     (''IngressAnnotations'', MapT Base), (''Hostname'', Base), (''Whitelist'', SliceT Base),
     (''Monitoring'', PtrT (MonitoringConfigT x)), (''SSL'', Base), (''GenerateNavJSON'', Base),
     (''EnableAkamaiCacheBust'', Base), (''AkamaiCacheBustImage'', Base), (''AkamaiCacheBustURL'', Base),
     (''AkamaiCacheBustURLs'', SliceT Base), (''AkamaiSecretName'', Base), (''TargetNamespaces'', SliceT Base),
     (''ServiceCategories'', PtrT (SliceT (FrontendServiceCategoryT x))), (''HTTPHeaders'', MapT Base),
     (''OverwriteCaddyConfig'', Base), (''EnablePushCache'', Base), (''ValpopImage'', Base),
     (''ReverseProxyImage'', Base), (''ReverseProxySPAEntrypointPath'', Base), (''ReverseProxyLogLevel'', Base),
     (''ReverseProxyHostname'', Base), (''DeployCutoffTimestampPushCache'', Base),
     (''DefaultReplicas'', PtrT Base), (''Bundles'', PtrT (SliceT (FrontendBundlesT x))),
     (''Requests'', MapT (ex_QuantityT x)), (''Limits'', MapT (ex_QuantityT x))]"

definition FrontendEnvironmentStatusT :: "Externals \<Rightarrow> ty" where
  [shapes]: "FrontendEnvironmentStatusT x = StructT []"

definition FrontendEnvironmentT :: "Externals \<Rightarrow> ty" where
  [shapes]: "FrontendEnvironmentT x = StructT [(''TypeMeta'', ex_TypeMetaT x), (''ObjectMeta'', ex_ObjectMetaT x),
     (''Spec'', FrontendEnvironmentSpecT x), (''Status'', FrontendEnvironmentStatusT x)]"

definition FrontendEnvironmentListT :: "Externals \<Rightarrow> ty" where
  [shapes]: "FrontendEnvironmentListT x = StructT [(''TypeMeta'', ex_TypeMetaT x), (''ListMeta'', ex_ListMetaT x),
     (''Items'', SliceT (FrontendEnvironmentT x))]"

definition FrontendListT :: "Externals \<Rightarrow> ty" where
  [shapes]: "FrontendListT x = StructT [(''TypeMeta'', ex_TypeMetaT x), (''ListMeta'', ex_ListMetaT x),
     (''Items'', SliceT (FrontendT x))]"

definition FrontendServiceCategoryGroupGeneratedT :: "Externals \<Rightarrow> ty" where
  [shapes]: "FrontendServiceCategoryGroupGeneratedT x = StructT [(''ID'', Base), (''Title'', Base),
     (''Tiles'', PtrT (SliceT (ServiceTileT x)))]"

definition FrontendServiceCategoryGeneratedT :: "Externals \<Rightarrow> ty" where
  [shapes]: "FrontendServiceCategoryGeneratedT x = StructT [(''ID'', Base), (''Title'', Base), (''Icon'', Base),
     (''Groups'', SliceT (FrontendServiceCategoryGroupGeneratedT x))]"

definition declared :: "Externals \<Rightarrow> string \<Rightarrow> ty option" where
  "declared x n = (if n = ''ChromeNavItem'' then Some (ChromeNavItemT x) else None)"

section \<open>Copying into\<close>

definition APISpecInfo_DeepCopyInto :: "Externals \<Rightarrow> copier" where
  [shapes]: "APISpecInfo_DeepCopyInto x = into [(''BundleLabels'', copySlice assign)]"

definition APIInfo_DeepCopyInto :: "Externals \<Rightarrow> copier" where
  [shapes]: "APIInfo_DeepCopyInto x = into [(''Versions'', copySlice assign),
     (''Specs'', copySlice (APISpecInfo_DeepCopyInto x))]"

definition Analytics_DeepCopyInto :: "Externals \<Rightarrow> copier" where
  [shapes]: "Analytics_DeepCopyInto x = into []"

definition WidgetTemplateConfigItem_DeepCopyInto :: "Externals \<Rightarrow> copier" where
  [shapes]: "WidgetTemplateConfigItem_DeepCopyInto x = into [(''MaxH'', copyPtr assign), (''MinH'', copyPtr assign),
     (''CX'', copyPtr assign), (''CY'', copyPtr assign), (''Static'', copyPtr assign)]"

definition TemplateConfig_DeepCopyInto :: "Externals \<Rightarrow> copier" where
  [shapes]: "TemplateConfig_DeepCopyInto x = into [(''Sm'', copySlice (WidgetTemplateConfigItem_DeepCopyInto x)),
     (''Md'', copySlice (WidgetTemplateConfigItem_DeepCopyInto x)),
     (''Lg'', copySlice (WidgetTemplateConfigItem_DeepCopyInto x)),
     (''Xl'', copySlice (WidgetTemplateConfigItem_DeepCopyInto x))]"

definition BaseWidgetDashboardTemplate_DeepCopyInto :: "Externals \<Rightarrow> copier" where
  [shapes]: "BaseWidgetDashboardTemplate_DeepCopyInto x = into [(''TemplateConfig'', TemplateConfig_DeepCopyInto x)]"

definition Permission_DeepCopyInto :: "Externals \<Rightarrow> copier" where
  [shapes]: "Permission_DeepCopyInto x = into [(''Apps'', copySlice assign), (''Args'', copyPtr (ex_JSON x))]"

definition SegmentRef_DeepCopyInto :: "Externals \<Rightarrow> copier" where
  [shapes]: "SegmentRef_DeepCopyInto x = into []"

partial_function (option) ChromeNavItem_DeepCopyInto :: "Externals \<Rightarrow> copier" where
  "ChromeNavItem_DeepCopyInto x v m = into [
     (''NavItems'', copySlice (\<lambda>v m. ChromeNavItem_DeepCopyInto x v m)),
     (''Routes'', copySlice (\<lambda>v m. ChromeNavItem_DeepCopyInto x v m)),
     (''Permissions'', copySlice (Permission_DeepCopyInto x)), (''Position'', copyPtr assign),
     (''SegmentRef'', copyPtr assign)] v m"

definition ExtraNavItem_DeepCopyInto :: "Externals \<Rightarrow> copier" where
  [shapes]: "ExtraNavItem_DeepCopyInto x = into [(''NavItem'', ChromeNavItem_DeepCopyInto x)]"

definition BundleSpec_DeepCopyInto :: "Externals \<Rightarrow> copier" where
  [shapes]: "BundleSpec_DeepCopyInto x = into [(''AppList'', copySlice assign),
     (''ExtraNavItems'', copySlice (ExtraNavItem_DeepCopyInto x)),
     (''CustomNav'', copySlice (ChromeNavItem_DeepCopyInto x))]"

definition BundleStatus_DeepCopyInto :: "Externals \<Rightarrow> copier" where
  [shapes]: "BundleStatus_DeepCopyInto x = into []"

definition Bundle_DeepCopyInto :: "Externals \<Rightarrow> copier" where
  [shapes]: "Bundle_DeepCopyInto x = into [(''TypeMeta'', assign), (''ObjectMeta'', ex_ObjectMeta x),
     (''Spec'', BundleSpec_DeepCopyInto x), (''Status'', assign)]"

definition BundleList_DeepCopyInto :: "Externals \<Rightarrow> copier" where
  [shapes]: "BundleList_DeepCopyInto x = into [(''TypeMeta'', assign), (''ListMeta'', ex_ListMeta x),
     (''Items'', copySlice (Bundle_DeepCopyInto x))]"

definition BundlePermission_DeepCopyInto :: "Externals \<Rightarrow> copier" where
  [shapes]: "BundlePermission_DeepCopyInto x = into [(''Args'', copySlice assign)]"

definition EmbeddedRoute_DeepCopyInto :: "Externals \<Rightarrow> copier" where
  [shapes]: "EmbeddedRoute_DeepCopyInto x = into []"

definition LeafBundleNavItem_DeepCopyInto :: "Externals \<Rightarrow> copier" where
  [shapes]: "LeafBundleNavItem_DeepCopyInto x = into [(''Routes'', copySlice assign),
     (''Permissions'', copySlice (BundlePermission_DeepCopyInto x))]"

definition BundleNavItem_DeepCopyInto :: "Externals \<Rightarrow> copier" where
  [shapes]: "BundleNavItem_DeepCopyInto x = into [(''NavItems'', copySlice (LeafBundleNavItem_DeepCopyInto x)),
     (''Permissions'', copySlice (BundlePermission_DeepCopyInto x)), (''Routes'', copySlice assign)]"

definition BundleSegment_DeepCopyInto :: "Externals \<Rightarrow> copier" where
  [shapes]: "BundleSegment_DeepCopyInto x = into [(''NavItems'', copyPtr (copySlice (ChromeNavItem_DeepCopyInto x)))]"

definition ComputedBundle_DeepCopyInto :: "Externals \<Rightarrow> copier" where
  [shapes]: "ComputedBundle_DeepCopyInto x = into [(''NavItems'', copySlice (ChromeNavItem_DeepCopyInto x))]"

definition SupportCaseData_DeepCopyInto :: "Externals \<Rightarrow> copier" where
  [shapes]: "SupportCaseData_DeepCopyInto x = into []"

definition Route_DeepCopyInto :: "Externals \<Rightarrow> copier" where
  [shapes]: "Route_DeepCopyInto x = into [(''Props'', copyPtr (ex_JSON x)), (''SupportCaseData'', copyPtr assign),
     (''Permissions'', copySlice (Permission_DeepCopyInto x))]"

definition Module_DeepCopyInto :: "Externals \<Rightarrow> copier" where
  [shapes]: "Module_DeepCopyInto x = into [(''Routes'', copySlice (Route_DeepCopyInto x)),
     (''Dependencies'', copySlice assign), (''OptionalDependencies'', copySlice assign)]"

definition ModuleConfig_DeepCopyInto :: "Externals \<Rightarrow> copier" where
  [shapes]: "ModuleConfig_DeepCopyInto x = into [(''SupportCaseData'', assign), (''SSOScopes'', copySlice assign)]"

definition FedModule_DeepCopyInto :: "Externals \<Rightarrow> copier" where
  [shapes]: "FedModule_DeepCopyInto x = into [(''Modules'', copySlice (Module_DeepCopyInto x)),
     (''Config'', copyPtr (ex_JSON x)), (''ModuleConfig'', copyPtr (ModuleConfig_DeepCopyInto x)),
     (''FullProfile'', copyPtr assign), (''IsFedramp'', copyPtr assign), (''Analytics'', copyPtr assign)]"

definition FrontendInfo_DeepCopyInto :: "Externals \<Rightarrow> copier" where
  [shapes]: "FrontendInfo_DeepCopyInto x = into [(''Paths'', copySlice assign)]"

definition NavigationSegment_DeepCopyInto :: "Externals \<Rightarrow> copier" where
  [shapes]: "NavigationSegment_DeepCopyInto x = into [(''NavItems'', copyPtr (copySlice (ChromeNavItem_DeepCopyInto x)))]"

definition SearchEntry_DeepCopyInto :: "Externals \<Rightarrow> copier" where
  [shapes]: "SearchEntry_DeepCopyInto x = into [(''AltTitle'', copySlice assign),
     (''Permissions'', copySlice (Permission_DeepCopyInto x))]"

definition ServiceMonitorConfig_DeepCopyInto :: "Externals \<Rightarrow> copier" where
  [shapes]: "ServiceMonitorConfig_DeepCopyInto x = into []"

definition ServiceTile_DeepCopyInto :: "Externals \<Rightarrow> copier" where
  [shapes]: "ServiceTile_DeepCopyInto x = into [(''Permissions'', copySlice (Permission_DeepCopyInto x))]"

definition WidgetBaseDimensions_DeepCopyInto :: "Externals \<Rightarrow> copier" where
  [shapes]: "WidgetBaseDimensions_DeepCopyInto x = into [(''Width'', copyPtr assign), (''Height'', copyPtr assign),
     (''MaxHeight'', copyPtr assign), (''MinHeight'', copyPtr assign)]"

definition WidgetHeaderLink_DeepCopyInto :: "Externals \<Rightarrow> copier" where
  [shapes]: "WidgetHeaderLink_DeepCopyInto x = into []"

definition WidgetConfiguration_DeepCopyInto :: "Externals \<Rightarrow> copier" where
  [shapes]: "WidgetConfiguration_DeepCopyInto x = into [(''HeaderLink'', assign),
     (''Permissions'', copySlice (Permission_DeepCopyInto x))]"

definition WidgetModuleFederationMetadata_DeepCopyInto :: "Externals \<Rightarrow> copier" where
  [shapes]: "WidgetModuleFederationMetadata_DeepCopyInto x = into [(''Defaults'', WidgetBaseDimensions_DeepCopyInto x),
     (''Config'', WidgetConfiguration_DeepCopyInto x)]"

definition FrontendSpec_DeepCopyInto :: "Externals \<Rightarrow> copier" where
  "FrontendSpec_DeepCopyInto x = into [(''API'', copyPtr (APIInfo_DeepCopyInto x)),
     (''Frontend'', FrontendInfo_DeepCopyInto x), (''ServiceMonitor'', assign),
     (''Module'', copyPtr (FedModule_DeepCopyInto x)),
     (''NavItems'', copySlice (copyPtr (BundleNavItem_DeepCopyInto x))),
     (''BundleSegments'', copySlice (copyPtr (BundleSegment_DeepCopyInto x))),
     (''NavigationSegments'', copySlice (copyPtr (NavigationSegment_DeepCopyInto x))),
     (''AkamaiCacheBustPaths'', copySlice assign),
     (''SearchEntries'', copySlice (copyPtr (SearchEntry_DeepCopyInto x))),
     (''ServiceTiles'', copySlice (copyPtr (ServiceTile_DeepCopyInto x))),
     (''WidgetRegistry'', copySlice (copyPtr (WidgetModuleFederationMetadata_DeepCopyInto x))),
     (''BaseWidgetLayouts'', copySlice (copyPtr (BaseWidgetDashboardTemplate_DeepCopyInto x))),
     (''Replicas'', copyPtr assign)]"

definition FrontendDeployments_DeepCopyInto :: "Externals \<Rightarrow> copier" where
  [shapes]: "FrontendDeployments_DeepCopyInto x = into []"

definition FrontendStatus_DeepCopyInto :: "Externals \<Rightarrow> copier" where
  [shapes]: "FrontendStatus_DeepCopyInto x = into [(''Deployments'', assign), (''Conditions'', copySlice (ex_Condition x))]"

definition Frontend_DeepCopyInto :: "Externals \<Rightarrow> copier" where
  [shapes]: "Frontend_DeepCopyInto x = into [(''TypeMeta'', assign), (''ObjectMeta'', ex_ObjectMeta x),
     (''Spec'', FrontendSpec_DeepCopyInto x), (''Status'', FrontendStatus_DeepCopyInto x)]"

definition FrontendBundles_DeepCopyInto :: "Externals \<Rightarrow> copier" where
  [shapes]: "FrontendBundles_DeepCopyInto x = into []"

definition FrontendBundlesGenerated_DeepCopyInto :: "Externals \<Rightarrow> copier" where
  [shapes]: "FrontendBundlesGenerated_DeepCopyInto x = into [(''NavItems'', copySlice (ChromeNavItem_DeepCopyInto x))]"

definition FrontendServiceCategoryGroup_DeepCopyInto :: "Externals \<Rightarrow> copier" where
  [shapes]: "FrontendServiceCategoryGroup_DeepCopyInto x = into []"

definition FrontendServiceCategory_DeepCopyInto :: "Externals \<Rightarrow> copier" where
  [shapes]: "FrontendServiceCategory_DeepCopyInto x = into [(''Groups'', copySlice assign)]"

definition MonitoringConfig_DeepCopyInto :: "Externals \<Rightarrow> copier" where
  [shapes]: "MonitoringConfig_DeepCopyInto x = into []"

definition FrontendEnvironmentSpec_DeepCopyInto :: "Externals \<Rightarrow> copier" where
  "FrontendEnvironmentSpec_DeepCopyInto x = into [(''SSOMapping'', copyMap assign),
     (''IngressAnnotations'', copyMap assign), (''Whitelist'', copySlice assign), (''Monitoring'', copyPtr assign),
     (''AkamaiCacheBustURLs'', copySlice assign), (''TargetNamespaces'', copySlice assign),
     (''ServiceCategories'', copyPtr (copySlice (FrontendServiceCategory_DeepCopyInto x))),
     (''HTTPHeaders'', copyMap assign), (''DefaultReplicas'', copyPtr assign),
     (''Bundles'', copyPtr (copySlice assign)), (''Requests'', copyMap (ex_Quantity x)),
     (''Limits'', copyMap (ex_Quantity x))]"

definition FrontendEnvironmentStatus_DeepCopyInto :: "Externals \<Rightarrow> copier" where
  [shapes]: "FrontendEnvironmentStatus_DeepCopyInto x = into []"

definition FrontendEnvironment_DeepCopyInto :: "Externals \<Rightarrow> copier" where
  [shapes]: "FrontendEnvironment_DeepCopyInto x = into [(''TypeMeta'', assign), (''ObjectMeta'', ex_ObjectMeta x),
     (''Spec'', FrontendEnvironmentSpec_DeepCopyInto x), (''Status'', assign)]"

definition FrontendEnvironmentList_DeepCopyInto :: "Externals \<Rightarrow> copier" where
  [shapes]: "FrontendEnvironmentList_DeepCopyInto x = into [(''TypeMeta'', assign), (''ListMeta'', ex_ListMeta x),
     (''Items'', copySlice (FrontendEnvironment_DeepCopyInto x))]"

definition FrontendList_DeepCopyInto :: "Externals \<Rightarrow> copier" where
  [shapes]: "FrontendList_DeepCopyInto x = into [(''TypeMeta'', assign), (''ListMeta'', ex_ListMeta x),
     (''Items'', copySlice (Frontend_DeepCopyInto x))]"

definition FrontendServiceCategoryGroupGenerated_DeepCopyInto :: "Externals \<Rightarrow> copier" where
  [shapes]: "FrontendServiceCategoryGroupGenerated_DeepCopyInto x = into [
     (''Tiles'', copyPtr (copySlice (ServiceTile_DeepCopyInto x)))]"

definition FrontendServiceCategoryGenerated_DeepCopyInto :: "Externals \<Rightarrow> copier" where
  [shapes]: "FrontendServiceCategoryGenerated_DeepCopyInto x = into [
     (''Groups'', copySlice (FrontendServiceCategoryGroupGenerated_DeepCopyInto x))]"

section \<open>New copies\<close>

definition APISpecInfo_DeepCopy :: "Externals \<Rightarrow> copier" where
  [shapes]: "APISpecInfo_DeepCopy x = copyPtr (APISpecInfo_DeepCopyInto x)"

definition APIInfo_DeepCopy :: "Externals \<Rightarrow> copier" where
  [shapes]: "APIInfo_DeepCopy x = copyPtr (APIInfo_DeepCopyInto x)"

definition Analytics_DeepCopy :: "Externals \<Rightarrow> copier" where
  [shapes]: "Analytics_DeepCopy x = copyPtr (Analytics_DeepCopyInto x)"

definition WidgetTemplateConfigItem_DeepCopy :: "Externals \<Rightarrow> copier" where
  [shapes]: "WidgetTemplateConfigItem_DeepCopy x = copyPtr (WidgetTemplateConfigItem_DeepCopyInto x)"

definition TemplateConfig_DeepCopy :: "Externals \<Rightarrow> copier" where
  [shapes]: "TemplateConfig_DeepCopy x = copyPtr (TemplateConfig_DeepCopyInto x)"

definition BaseWidgetDashboardTemplate_DeepCopy :: "Externals \<Rightarrow> copier" where
  [shapes]: "BaseWidgetDashboardTemplate_DeepCopy x = copyPtr (BaseWidgetDashboardTemplate_DeepCopyInto x)"

definition Permission_DeepCopy :: "Externals \<Rightarrow> copier" where
  [shapes]: "Permission_DeepCopy x = copyPtr (Permission_DeepCopyInto x)"

definition SegmentRef_DeepCopy :: "Externals \<Rightarrow> copier" where
  [shapes]: "SegmentRef_DeepCopy x = copyPtr (SegmentRef_DeepCopyInto x)"

definition ChromeNavItem_DeepCopy :: "Externals \<Rightarrow> copier" where
  [shapes]: "ChromeNavItem_DeepCopy x = copyPtr (ChromeNavItem_DeepCopyInto x)"

definition ExtraNavItem_DeepCopy :: "Externals \<Rightarrow> copier" where
  [shapes]: "ExtraNavItem_DeepCopy x = copyPtr (ExtraNavItem_DeepCopyInto x)"

definition BundleSpec_DeepCopy :: "Externals \<Rightarrow> copier" where
  [shapes]: "BundleSpec_DeepCopy x = copyPtr (BundleSpec_DeepCopyInto x)"

definition BundleStatus_DeepCopy :: "Externals \<Rightarrow> copier" where
  [shapes]: "BundleStatus_DeepCopy x = copyPtr (BundleStatus_DeepCopyInto x)"

definition Bundle_DeepCopy :: "Externals \<Rightarrow> copier" where
  [shapes]: "Bundle_DeepCopy x = copyPtr (Bundle_DeepCopyInto x)"

definition BundleList_DeepCopy :: "Externals \<Rightarrow> copier" where
  [shapes]: "BundleList_DeepCopy x = copyPtr (BundleList_DeepCopyInto x)"

definition BundlePermission_DeepCopy :: "Externals \<Rightarrow> copier" where
  [shapes]: "BundlePermission_DeepCopy x = copyPtr (BundlePermission_DeepCopyInto x)"

definition EmbeddedRoute_DeepCopy :: "Externals \<Rightarrow> copier" where
  [shapes]: "EmbeddedRoute_DeepCopy x = copyPtr (EmbeddedRoute_DeepCopyInto x)"

definition LeafBundleNavItem_DeepCopy :: "Externals \<Rightarrow> copier" where
  [shapes]: "LeafBundleNavItem_DeepCopy x = copyPtr (LeafBundleNavItem_DeepCopyInto x)"

definition BundleNavItem_DeepCopy :: "Externals \<Rightarrow> copier" where
  [shapes]: "BundleNavItem_DeepCopy x = copyPtr (BundleNavItem_DeepCopyInto x)"

definition BundleSegment_DeepCopy :: "Externals \<Rightarrow> copier" where
  [shapes]: "BundleSegment_DeepCopy x = copyPtr (BundleSegment_DeepCopyInto x)"

definition ComputedBundle_DeepCopy :: "Externals \<Rightarrow> copier" where
  [shapes]: "ComputedBundle_DeepCopy x = copyPtr (ComputedBundle_DeepCopyInto x)"

definition SupportCaseData_DeepCopy :: "Externals \<Rightarrow> copier" where
  [shapes]: "SupportCaseData_DeepCopy x = copyPtr (SupportCaseData_DeepCopyInto x)"

definition Route_DeepCopy :: "Externals \<Rightarrow> copier" where
  [shapes]: "Route_DeepCopy x = copyPtr (Route_DeepCopyInto x)"

definition Module_DeepCopy :: "Externals \<Rightarrow> copier" where
  [shapes]: "Module_DeepCopy x = copyPtr (Module_DeepCopyInto x)"

definition ModuleConfig_DeepCopy :: "Externals \<Rightarrow> copier" where
  [shapes]: "ModuleConfig_DeepCopy x = copyPtr (ModuleConfig_DeepCopyInto x)"

definition FedModule_DeepCopy :: "Externals \<Rightarrow> copier" where
  [shapes]: "FedModule_DeepCopy x = copyPtr (FedModule_DeepCopyInto x)"

definition FrontendInfo_DeepCopy :: "Externals \<Rightarrow> copier" where
  [shapes]: "FrontendInfo_DeepCopy x = copyPtr (FrontendInfo_DeepCopyInto x)"

definition NavigationSegment_DeepCopy :: "Externals \<Rightarrow> copier" where
  [shapes]: "NavigationSegment_DeepCopy x = copyPtr (NavigationSegment_DeepCopyInto x)"

definition SearchEntry_DeepCopy :: "Externals \<Rightarrow> copier" where
  [shapes]: "SearchEntry_DeepCopy x = copyPtr (SearchEntry_DeepCopyInto x)"

definition ServiceMonitorConfig_DeepCopy :: "Externals \<Rightarrow> copier" where
  [shapes]: "ServiceMonitorConfig_DeepCopy x = copyPtr (ServiceMonitorConfig_DeepCopyInto x)"

definition ServiceTile_DeepCopy :: "Externals \<Rightarrow> copier" where
  [shapes]: "ServiceTile_DeepCopy x = copyPtr (ServiceTile_DeepCopyInto x)"

definition WidgetBaseDimensions_DeepCopy :: "Externals \<Rightarrow> copier" where
  [shapes]: "WidgetBaseDimensions_DeepCopy x = copyPtr (WidgetBaseDimensions_DeepCopyInto x)"

definition WidgetHeaderLink_DeepCopy :: "Externals \<Rightarrow> copier" where
  [shapes]: "WidgetHeaderLink_DeepCopy x = copyPtr (WidgetHeaderLink_DeepCopyInto x)"

definition WidgetConfiguration_DeepCopy :: "Externals \<Rightarrow> copier" where
  [shapes]: "WidgetConfiguration_DeepCopy x = copyPtr (WidgetConfiguration_DeepCopyInto x)"

definition WidgetModuleFederationMetadata_DeepCopy :: "Externals \<Rightarrow> copier" where
  [shapes]: "WidgetModuleFederationMetadata_DeepCopy x = copyPtr (WidgetModuleFederationMetadata_DeepCopyInto x)"

definition FrontendSpec_DeepCopy :: "Externals \<Rightarrow> copier" where
  [shapes]: "FrontendSpec_DeepCopy x = copyPtr (FrontendSpec_DeepCopyInto x)"

definition FrontendDeployments_DeepCopy :: "Externals \<Rightarrow> copier" where
  [shapes]: "FrontendDeployments_DeepCopy x = copyPtr (FrontendDeployments_DeepCopyInto x)"

definition FrontendStatus_DeepCopy :: "Externals \<Rightarrow> copier" where
  [shapes]: "FrontendStatus_DeepCopy x = copyPtr (FrontendStatus_DeepCopyInto x)"

definition Frontend_DeepCopy :: "Externals \<Rightarrow> copier" where
  [shapes]: "Frontend_DeepCopy x = copyPtr (Frontend_DeepCopyInto x)"

definition FrontendBundles_DeepCopy :: "Externals \<Rightarrow> copier" where
  [shapes]: "FrontendBundles_DeepCopy x = copyPtr (FrontendBundles_DeepCopyInto x)"

definition FrontendBundlesGenerated_DeepCopy :: "Externals \<Rightarrow> copier" where
  [shapes]: "FrontendBundlesGenerated_DeepCopy x = copyPtr (FrontendBundlesGenerated_DeepCopyInto x)"

definition FrontendServiceCategoryGroup_DeepCopy :: "Externals \<Rightarrow> copier" where
  [shapes]: "FrontendServiceCategoryGroup_DeepCopy x = copyPtr (FrontendServiceCategoryGroup_DeepCopyInto x)"

definition FrontendServiceCategory_DeepCopy :: "Externals \<Rightarrow> copier" where
  [shapes]: "FrontendServiceCategory_DeepCopy x = copyPtr (FrontendServiceCategory_DeepCopyInto x)"

definition MonitoringConfig_DeepCopy :: "Externals \<Rightarrow> copier" where
  [shapes]: "MonitoringConfig_DeepCopy x = copyPtr (MonitoringConfig_DeepCopyInto x)"

definition FrontendEnvironmentSpec_DeepCopy :: "Externals \<Rightarrow> copier" where
  [shapes]: "FrontendEnvironmentSpec_DeepCopy x = copyPtr (FrontendEnvironmentSpec_DeepCopyInto x)"

definition FrontendEnvironmentStatus_DeepCopy :: "Externals \<Rightarrow> copier" where
  [shapes]: "FrontendEnvironmentStatus_DeepCopy x = copyPtr (FrontendEnvironmentStatus_DeepCopyInto x)"

definition FrontendEnvironment_DeepCopy :: "Externals \<Rightarrow> copier" where
  [shapes]: "FrontendEnvironment_DeepCopy x = copyPtr (FrontendEnvironment_DeepCopyInto x)"

definition FrontendEnvironmentList_DeepCopy :: "Externals \<Rightarrow> copier" where
  [shapes]: "FrontendEnvironmentList_DeepCopy x = copyPtr (FrontendEnvironmentList_DeepCopyInto x)"

definition FrontendList_DeepCopy :: "Externals \<Rightarrow> copier" where
  [shapes]: "FrontendList_DeepCopy x = copyPtr (FrontendList_DeepCopyInto x)"

definition FrontendServiceCategoryGroupGenerated_DeepCopy :: "Externals \<Rightarrow> copier" where
  [shapes]: "FrontendServiceCategoryGroupGenerated_DeepCopy x = copyPtr (FrontendServiceCategoryGroupGenerated_DeepCopyInto x)"

definition FrontendServiceCategoryGenerated_DeepCopy :: "Externals \<Rightarrow> copier" where
  [shapes]: "FrontendServiceCategoryGenerated_DeepCopy x = copyPtr (FrontendServiceCategoryGenerated_DeepCopyInto x)"

text \<open>As a \<^verbatim>\<open>runtime.Object\<close>: the nil pointer becomes the nil interface.\<close>

definition objectOf :: "copier \<Rightarrow> copier" where
  "objectOf c v m = Option.bind (c v m) (\<lambda>(c', m1). if c' \<noteq> NilV then Some (c', m1) else Some (NilV, m1))"

definition Bundle_DeepCopyObject :: "Externals \<Rightarrow> copier" where
  [shapes]: "Bundle_DeepCopyObject x = objectOf (Bundle_DeepCopy x)"

definition BundleList_DeepCopyObject :: "Externals \<Rightarrow> copier" where
  [shapes]: "BundleList_DeepCopyObject x = objectOf (BundleList_DeepCopy x)"

definition Frontend_DeepCopyObject :: "Externals \<Rightarrow> copier" where
  [shapes]: "Frontend_DeepCopyObject x = objectOf (Frontend_DeepCopy x)"

definition FrontendEnvironment_DeepCopyObject :: "Externals \<Rightarrow> copier" where
  [shapes]: "FrontendEnvironment_DeepCopyObject x = objectOf (FrontendEnvironment_DeepCopy x)"

definition FrontendEnvironmentList_DeepCopyObject :: "Externals \<Rightarrow> copier" where
  [shapes]: "FrontendEnvironmentList_DeepCopyObject x = objectOf (FrontendEnvironmentList_DeepCopy x)"

definition FrontendList_DeepCopyObject :: "Externals \<Rightarrow> copier" where
  [shapes]: "FrontendList_DeepCopyObject x = objectOf (FrontendList_DeepCopy x)"

text \<open>All types of the group with their copies, and those that are objects with their copies as objects.\<close>

definition apiTypes :: "Externals \<Rightarrow> (string \<times> ty \<times> copier) list" where
  "apiTypes x = [(''APISpecInfo'', APISpecInfoT x, APISpecInfo_DeepCopy x),
     (''APIInfo'', APIInfoT x, APIInfo_DeepCopy x), (''Analytics'', AnalyticsT x, Analytics_DeepCopy x),
     (''WidgetTemplateConfigItem'', WidgetTemplateConfigItemT x, WidgetTemplateConfigItem_DeepCopy x),
     (''TemplateConfig'', TemplateConfigT x, TemplateConfig_DeepCopy x),
     (''BaseWidgetDashboardTemplate'', BaseWidgetDashboardTemplateT x, BaseWidgetDashboardTemplate_DeepCopy x),
     (''Permission'', PermissionT x, Permission_DeepCopy x),
     (''SegmentRef'', SegmentRefT x, SegmentRef_DeepCopy x),
     (''ChromeNavItem'', ChromeNavItemT x, ChromeNavItem_DeepCopy x),
     (''ExtraNavItem'', ExtraNavItemT x, ExtraNavItem_DeepCopy x),
     (''BundleSpec'', BundleSpecT x, BundleSpec_DeepCopy x),
     (''BundleStatus'', BundleStatusT x, BundleStatus_DeepCopy x), (''Bundle'', BundleT x, Bundle_DeepCopy x),
     (''BundleList'', BundleListT x, BundleList_DeepCopy x),
     (''BundlePermission'', BundlePermissionT x, BundlePermission_DeepCopy x),
     (''EmbeddedRoute'', EmbeddedRouteT x, EmbeddedRoute_DeepCopy x),
     (''LeafBundleNavItem'', LeafBundleNavItemT x, LeafBundleNavItem_DeepCopy x),
     (''BundleNavItem'', BundleNavItemT x, BundleNavItem_DeepCopy x),
     (''BundleSegment'', BundleSegmentT x, BundleSegment_DeepCopy x),
     (''ComputedBundle'', ComputedBundleT x, ComputedBundle_DeepCopy x),
     (''SupportCaseData'', SupportCaseDataT x, SupportCaseData_DeepCopy x),
     (''Route'', RouteT x, Route_DeepCopy x), (''Module'', ModuleT x, Module_DeepCopy x),
     (''ModuleConfig'', ModuleConfigT x, ModuleConfig_DeepCopy x),
     (''FedModule'', FedModuleT x, FedModule_DeepCopy x),
     (''FrontendInfo'', FrontendInfoT x, FrontendInfo_DeepCopy x),
     (''NavigationSegment'', NavigationSegmentT x, NavigationSegment_DeepCopy x),
     (''SearchEntry'', SearchEntryT x, SearchEntry_DeepCopy x),
     (''ServiceMonitorConfig'', ServiceMonitorConfigT x, ServiceMonitorConfig_DeepCopy x),
     (''ServiceTile'', ServiceTileT x, ServiceTile_DeepCopy x),
     (''WidgetBaseDimensions'', WidgetBaseDimensionsT x, WidgetBaseDimensions_DeepCopy x),
     (''WidgetHeaderLink'', WidgetHeaderLinkT x, WidgetHeaderLink_DeepCopy x),
     (''WidgetConfiguration'', WidgetConfigurationT x, WidgetConfiguration_DeepCopy x),
     (''WidgetModuleFederationMetadata'', WidgetModuleFederationMetadataT x, WidgetModuleFederationMetadata_DeepCopy x),
     (''FrontendSpec'', FrontendSpecT x, FrontendSpec_DeepCopy x),
     (''FrontendDeployments'', FrontendDeploymentsT x, FrontendDeployments_DeepCopy x),
     (''FrontendStatus'', FrontendStatusT x, FrontendStatus_DeepCopy x),
     (''Frontend'', FrontendT x, Frontend_DeepCopy x),
     (''FrontendBundles'', FrontendBundlesT x, FrontendBundles_DeepCopy x),
     (''FrontendBundlesGenerated'', FrontendBundlesGeneratedT x, FrontendBundlesGenerated_DeepCopy x),
     (''FrontendServiceCategoryGroup'', FrontendServiceCategoryGroupT x, FrontendServiceCategoryGroup_DeepCopy x),
     (''FrontendServiceCategory'', FrontendServiceCategoryT x, FrontendServiceCategory_DeepCopy x),
     (''MonitoringConfig'', MonitoringConfigT x, MonitoringConfig_DeepCopy x),
     (''FrontendEnvironmentSpec'', FrontendEnvironmentSpecT x, FrontendEnvironmentSpec_DeepCopy x),
     (''FrontendEnvironmentStatus'', FrontendEnvironmentStatusT x, FrontendEnvironmentStatus_DeepCopy x),
     (''FrontendEnvironment'', FrontendEnvironmentT x, FrontendEnvironment_DeepCopy x),
     (''FrontendEnvironmentList'', FrontendEnvironmentListT x, FrontendEnvironmentList_DeepCopy x),
     (''FrontendList'', FrontendListT x, FrontendList_DeepCopy x),
     (''FrontendServiceCategoryGroupGenerated'', FrontendServiceCategoryGroupGeneratedT x, FrontendServiceCategoryGroupGenerated_DeepCopy x),
     (''FrontendServiceCategoryGenerated'', FrontendServiceCategoryGeneratedT x, FrontendServiceCategoryGenerated_DeepCopy x),
     (''Bundle'', BundleT x, Bundle_DeepCopyObject x),
     (''BundleList'', BundleListT x, BundleList_DeepCopyObject x),
     (''Frontend'', FrontendT x, Frontend_DeepCopyObject x),
     (''FrontendEnvironment'', FrontendEnvironmentT x, FrontendEnvironment_DeepCopyObject x),
     (''FrontendEnvironmentList'', FrontendEnvironmentListT x, FrontendEnvironmentList_DeepCopyObject x),
     (''FrontendList'', FrontendListT x, FrontendList_DeepCopyObject x)]"

section \<open>The copies are deep\<close>

named_theorems deep

declare deepCopier_ptr [deep] deepCopier_slice [deep] deepCopier_map [deep] deepCopier_assign [deep] deepCopier_into [deep]

lemma objectOf_same: "objectOf c = c"
  by (simp add: objectOf_def fun_eq_iff split: Option.bind_split)

lemma smaller_tree:
  "(f, u) \<in> set ts \<Longrightarrow> size u < size (TStruct ts)"
  "u \<in> set us \<Longrightarrow> size u < size (TSlice us)"
proof -
  show "size u < size (TStruct ts)" if "(f, u) \<in> set ts"
    using size_list_estimation' [OF that, of "size u" "size_prod (\<lambda>_. 0) size"] by simp
  show "size u < size (TSlice us)" if "u \<in> set us"
    using size_list_estimation' [OF that, of "size u" size] by simp
qed


locale external_copies =
  fixes x :: Externals
  assumes type_meta [simp]: "flat (ex_TypeMetaT x)"
    and object_meta [deep]: "deepCopier (declared x) (ex_ObjectMeta x) (ex_ObjectMetaT x)"
    and list_meta [deep]: "deepCopier (declared x) (ex_ListMeta x) (ex_ListMetaT x)"
    and condition [deep]: "deepCopier (declared x) (ex_Condition x) (ex_ConditionT x)"
    and json [deep]: "deepCopier (declared x) (ex_JSON x) (ex_JSONT x)"
    and quantity [deep]: "deepCopier (declared x) (ex_Quantity x) (ex_QuantityT x)"
begin

lemma item_parts_deep:
  "deepCopier (declared x) (Permission_DeepCopyInto x) (PermissionT x)"
  "flat (SegmentRefT x)"
  by (simp_all add: covers_def deep shapes)

lemma declared_nav: "declared x ''ChromeNavItem'' = Some (ChromeNavItemT x)"
  by (simp add: declared_def)

lemma nav_unfold:
  "ChromeNavItem_DeepCopyInto x = into [(''NavItems'', copySlice (ChromeNavItem_DeepCopyInto x)),
     (''Routes'', copySlice (ChromeNavItem_DeepCopyInto x)), (''Permissions'', copySlice (Permission_DeepCopyInto x)),
     (''Position'', copyPtr assign), (''SegmentRef'', copyPtr assign)]"
  by (intro ext) (subst ChromeNavItem_DeepCopyInto.simps, rule refl)

lemma nav_deep [deep]: "deepCopier (declared x) (ChromeNavItem_DeepCopyInto x) (ChromeNavItemT x)"
  unfolding deepCopier_def
proof
  fix t show "deepAt (declared x) (ChromeNavItem_DeepCopyInto x) (ChromeNavItemT x) t"
  proof (induction t rule: measure_induct_rule [of size])
    case (less t)
    have items: "deepAt (declared x) (copySlice (ChromeNavItem_DeepCopyInto x)) (SliceT (Named ''ChromeNavItem'')) u"
      if "size u < size t" for u
    proof (rule slice_deep)
      fix us w assume "u = TSlice us" "w \<in> set us"
      with that smaller_tree(2) have "size w < size t" by fastforce
      from less.IH [OF this] show "deepAt (declared x) (ChromeNavItem_DeepCopyInto x) (Named ''ChromeNavItem'') w"
        by (rule named_deep [of "declared x", OF declared_nav])
    qed
    have parts: "deepAt (declared x) (copySlice (Permission_DeepCopyInto x)) (SliceT (PermissionT x)) u"
      "deepAt (declared x) (copyPtr assign) (PtrT Base) u" "deepAt (declared x) (copyPtr assign) (PtrT (SegmentRefT x)) u" for u
      by (simp_all add: deep deepCopierD item_parts_deep)
    show ?case
      unfolding ChromeNavItemT_def
    proof (subst nav_unfold, rule into_deep)
      fix f T ts u assume t: "t = TStruct ts" "(f, u) \<in> set ts" and f: "(f, T) \<in> set (navFields x)"
      have "size u < size t" unfolding t(1) using t(2) by (rule smaller_tree)
      note items = items [OF this]
      from f show "case map_of [(''NavItems'', copySlice (ChromeNavItem_DeepCopyInto x)), (''Routes'', copySlice (ChromeNavItem_DeepCopyInto x)),
          (''Permissions'', copySlice (Permission_DeepCopyInto x)), (''Position'', copyPtr assign), (''SegmentRef'', copyPtr assign)] f of
          None \<Rightarrow> flat T | Some c \<Rightarrow> deepAt (declared x) c T u"
        unfolding navFields_def list.set insert_iff empty_iff prod.inject by (elim disjE conjE) (simp_all add: items parts)
    qed (simp_all add: navFields_def)
  qed
qed

lemma nav_named [deep]: "deepCopier (declared x) (ChromeNavItem_DeepCopyInto x) (Named ''ChromeNavItem'')"
  unfolding deepCopier_def by (intro allI named_deep [of "declared x", OF declared_nav] deepCopierD [OF nav_deep])

lemma specs_deep [deep]:
  "deepCopier (declared x) (FrontendSpec_DeepCopyInto x) (FrontendSpecT x)"
  "deepCopier (declared x) (FrontendEnvironmentSpec_DeepCopyInto x) (FrontendEnvironmentSpecT x)"
  by (simp_all add: covers_def deep shapes FrontendSpec_DeepCopyInto_def FrontendSpecT_def
      FrontendEnvironmentSpec_DeepCopyInto_def FrontendEnvironmentSpecT_def)

lemma every_type_deep: "list_all (\<lambda>(n, T, c). deepCopier (declared x) c (PtrT T)) (apiTypes x)"
  unfolding apiTypes_def list.pred_inject prod.case
  by (intro conjI TrueI) (simp_all add: covers_def deep shapes objectOf_same)

end

text \<open>The types of Kubernetes, with the fields that the operator uses.\<close>

definition ownerReferenceT :: ty where
  "ownerReferenceT = StructT [(''APIVersion'', Base), (''Kind'', Base), (''Name'', Base), (''UID'', Base), (''Controller'', PtrT Base)]"

definition kubernetesTypes :: Externals where
  "kubernetesTypes = \<lparr>ex_TypeMetaT = StructT [(''Kind'', Base), (''APIVersion'', Base)],
     ex_ObjectMetaT = StructT [(''Name'', Base), (''Namespace'', Base), (''UID'', Base), (''DeletionTimestamp'', PtrT Base),
       (''Labels'', MapT Base), (''Annotations'', MapT Base), (''OwnerReferences'', SliceT ownerReferenceT), (''Finalizers'', SliceT Base)],
     ex_ListMetaT = StructT [(''ResourceVersion'', Base), (''Continue'', Base), (''RemainingItemCount'', PtrT Base)],
     ex_ConditionT = StructT [(''Type'', Base), (''Status'', Base), (''LastTransitionTime'', Base), (''Reason'', Base), (''Message'', Base)],
     ex_JSONT = StructT [(''Raw'', SliceT Base)],
     ex_QuantityT = StructT [(''i'', Base), (''d'', PtrT Base), (''s'', Base), (''Format'', Base)],
     ex_ObjectMeta = into [(''DeletionTimestamp'', copyPtr assign), (''Labels'', copyMap assign), (''Annotations'', copyMap assign),
       (''OwnerReferences'', copySlice (into [(''Controller'', copyPtr assign)])), (''Finalizers'', copySlice assign)],
     ex_ListMeta = into [(''RemainingItemCount'', copyPtr assign)],
     ex_Condition = into [],
     ex_JSON = into [(''Raw'', copySlice assign)],
     ex_Quantity = into [(''d'', copyPtr assign)]\<rparr>"

interpretation kubernetes: external_copies kubernetesTypes
  by unfold_locales (simp_all add: kubernetesTypes_def ownerReferenceT_def covers_def deep)

section \<open>Properties\<close>

text \<open>C11: the copies are deep, for every type of the API group as it is declared. From a pointer to a finite value
  \<open>DeepCopy\<close>, or \<open>DeepCopyObject\<close>, returns a pointer to a value with
    the same contents, it changes no object, and the two are
  separate: whatever the objects that existed before are overwritten with afterwards, the copy keeps its
  contents, and whatever the new objects are overwritten with, the original does.\<close>

theorem DeepCopy_separates:
  assumes "external_copies x" and "(n, T, DeepCopy) \<in> set (apiTypes x)" and "reads (declared x) m UNIV v (PtrT T) t"
  shows "\<exists>v' new. DeepCopy v m = Some (v', m @ new) \<and>
    (\<forall>old. length old = length m \<longrightarrow> reads (declared x) (old @ new) UNIV v' (PtrT T) t) \<and>
    (\<forall>new'. reads (declared x) (m @ new') UNIV v (PtrT T) t)"
proof -
  have "deepCopier (declared x) DeepCopy (PtrT T)"
    using external_copies.every_type_deep [OF assms(1)] assms(2) by (auto simp: list_all_iff)
  then show ?thesis using assms(3) by (rule deepCopier_separates)
qed

theorem DeepCopy_separates_witness:
  "\<exists>v' new. APIInfo_DeepCopy kubernetesTypes (Ptr 1)
      [Array [Prim ''v1'', Prim ''v2''], Cell (Struct [(''Versions'', Slice 0 0 2), (''Specs'', NilV)])] =
      Some (v', [Array [Prim ''v1'', Prim ''v2''], Cell (Struct [(''Versions'', Slice 0 0 2), (''Specs'', NilV)])] @ new) \<and>
    reads (declared kubernetesTypes) ([Array [Prim ''x'', Prim ''y''], Cell NilV] @ new) UNIV v' (PtrT (APIInfoT kubernetesTypes))
      (TPtr (TStruct [(''Versions'', TSlice [TBase ''v1'', TBase ''v2'']), (''Specs'', TNil)]))"
proof -
  let ?D = "declared kubernetesTypes" and ?s = "Struct [(''Versions'', Slice 0 0 2), (''Specs'', NilV)]"
  let ?m = "[Array [Prim ''v1'', Prim ''v2''], Cell ?s]"
  let ?t = "TStruct [(''Versions'', TSlice [TBase ''v1'', TBase ''v2'']), (''Specs'', TNil)]"
  have versions: "reads ?D ?m UNIV (Slice 0 0 2) (SliceT Base) (TSlice [TBase ''v1'', TBase ''v2''])"
    by (rule reads.slice [where vs = "[Prim ''v1'', Prim ''v2'']"]) (simp_all add: objectAt_def reads.base)
  have "reads ?D ?m UNIV ?s (APIInfoT kubernetesTypes) ?t"
    using reads.struct [of ?D ?m UNIV "[(''Versions'', Slice 0 0 2), (''Specs'', NilV)]"
        "[(''Versions'', SliceT Base, TSlice [TBase ''v1'', TBase ''v2'']), (''Specs'', SliceT (APISpecInfoT kubernetesTypes), TNil)]"]
    by (simp add: APIInfoT_def versions reads.nil_slice)
  then have r: "reads ?D ?m UNIV (Ptr 1) (PtrT (APIInfoT kubernetesTypes)) (TPtr ?t)"
    by (intro reads.ptr [where v = ?s]) (simp_all add: objectAt_def)
  have "(''APIInfo'', APIInfoT kubernetesTypes, APIInfo_DeepCopy kubernetesTypes) \<in> set (apiTypes kubernetesTypes)"
    by (simp add: apiTypes_def)
  from DeepCopy_separates [OF kubernetes.external_copies_axioms this r] obtain v' new where
    "APIInfo_DeepCopy kubernetesTypes (Ptr 1) ?m = Some (v', ?m @ new)"
    and "\<forall>old. length old = length ?m \<longrightarrow> reads ?D (old @ new) UNIV v' (PtrT (APIInfoT kubernetesTypes)) (TPtr ?t)" by blast
  moreover from this(2) have "reads ?D ([Array [Prim ''x'', Prim ''y''], Cell NilV] @ new) UNIV v' (PtrT (APIInfoT kubernetesTypes)) (TPtr ?t)"
    by (rule allE) (erule mp, simp)
  ultimately show ?thesis by (intro exI conjI)
qed

end
