(* ===== verification/Spec2Isabelle.thy ===== *)
theory Spec2Isabelle
  imports Config_Hash Blocking Process_Start Metrics Deep_Copy
begin

text \<open>
  A verification of the Red Hat Insights frontend operator (package \<^verbatim>\<open>frontend-operator\<close>, in Go).

  \<^bold>\<open>The program.\<close> The operator runs two controllers against a Kubernetes API server. The frontend
  controller (\<^verbatim>\<open>controllers/frontend_controller.go\<close>) reconciles \<^verbatim>\<open>Frontend\<close> resources: a request names a
  frontend; \<open>Reconcile\<close> adds the finalizer or finalizes, reads the environment, and under a retry on
  conflicts calls \<open>run\<close> of \<^verbatim>\<open>controllers/reconcile.go\<close>. \<open>run\<close> generates the config maps of the whole environment
  from all its frontends, hashes them, stages deployment, service, ingress and service monitor of the one
  frontend in a resource cache, handles the two jobs, and the cache is applied. Then the status is
  written (\<^verbatim>\<open>controllers/status.go\<close>). The reverse proxy controller
  (\<^verbatim>\<open>controllers/reverse_proxy_controller.go\<close>, \<^verbatim>\<open>controllers/reconcile_reverse_proxy.go\<close>) reconciles the deployment,
  service and ingress of one proxy per environment, directly through the API server. Watches turn
  changes of frontends, bundles, environments and owned objects into requests.

  \<^bold>\<open>The theories\<close>, in the order of their imports:

  \<^item> \<^theory_text>\<open>Go_Prelude\<close>: what the code uses of Go: strings, maps, errors and panics as values, \<^verbatim>\<open>sort.Slice\<close>. A
    fallible pure function returns a \<open>result\<close>, a call that moves the world is an \<open>act\<close>, a program that may
    also not return is a \<open>prog\<close>, \<^const>\<open>None\<close> for a run that does not end.
  \<^item> \<^theory_text>\<open>Api_Types\<close>: \<^verbatim>\<open>api/v1alpha1\<close>, a record per struct and the methods. \<^theory_text>\<open>Camel_Case\<close>: \<^verbatim>\<open>controllers/utils\<close>,
    \<open>ToCamelCase\<close> and its inverse.
  \<^item> \<^theory_text>\<open>Navigation\<close>, \<^theory_text>\<open>Nav_Termination\<close>, \<^theory_text>\<open>Nav_Expansion\<close>, \<^theory_text>\<open>Nav_Divergence\<close>: \<open>fillNavRefsTree\<close>,
    \<open>filterUnknownNavRefs\<close> and \<open>addRefsToNavItems\<close> of \<^verbatim>\<open>reconcile.go\<close>; when the loop returns, that it then computes
    the cache-free expansion, that a cycle is always reported, and which inputs make it run for ever.
    \<^theory_text>\<open>Bundles\<close>: \<open>setupBundlesData\<close>, the navigation of every bundle, over the same specification.
  \<^item> \<^theory_text>\<open>Index_Data\<close>, \<^theory_text>\<open>Service_Tiles\<close>, \<^theory_text>\<open>Fed_Modules\<close>, \<^theory_text>\<open>Edge_Config\<close>: the other generated files and texts of
    \<^verbatim>\<open>reconcile.go\<close>: search index, widgets, dashboard templates and API specs; tiles through the heap of slices;
    \<^verbatim>\<open>fed-modules.json\<close> and SSO; purge lists, \<^verbatim>\<open>.edgerc\<close>, Caddy headers, object store. Each is characterised
    entry by entry and shown not to depend on the order of the frontends.
  \<^item> \<^theory_text>\<open>Kube_Types\<close>, \<^theory_text>\<open>Reconciliation\<close>: the Kubernetes objects, the API server and the resource cache as
    parameters with contracts, and the state \<open>FrontendReconciliation\<close>. \<^theory_text>\<open>Interference\<close>: how far a program may
    move the world, with frame rules and interference by other clients as instances.
  \<^item> \<^theory_text>\<open>Reverse_Proxy\<close>, \<^theory_text>\<open>Proxy_Convergence\<close>: builders, comparisons, reconcilers and \<open>Reconcile\<close> of the proxy; a
    successful run establishes the desired objects, a further one changes nothing.
  \<^item> \<^theory_text>\<open>Workload\<close>, \<^theory_text>\<open>Jobs\<close>, \<^theory_text>\<open>Config_Maps\<close>: the objects of a frontend and how they fit together, the jobs and
    when they are replaced, \<open>setupConfigMaps\<close> and \<open>run\<close>. \<^theory_text>\<open>Config_Hash\<close>: contents do not depend on orders
    nor on the frontend that is reconciled; in the root theory, the pods of an environment agree on their hash.
  \<^item> \<^theory_text>\<open>Status\<close>: counts in 32 bits, conditions, the status update under retries.
  \<^item> \<^theory_text>\<open>Frontend_Controller\<close>, \<^theory_text>\<open>Watches\<close>, \<^theory_text>\<open>Lifecycle\<close>, \<^theory_text>\<open>Blocking\<close>: \<open>Reconcile\<close>, the watches of both controllers,
    the operator as a transition system of calls, restarts and foreign changes (\<open>step\<close>, \<open>steps\<close>) with its
    invariants, and what a navigation that does not end does to an environment. \<^theory_text>\<open>Process_Start\<close>: \<open>Run\<close> of
    \<^verbatim>\<open>main.go\<close>; the manager starts only with both indexes, both controllers and both checks registered.
  \<^item> \<^theory_text>\<open>Metrics\<close>: \<^verbatim>\<open>metrics.go\<close> and the metered \<open>Reconcile\<close>, which does what the plain one does; the collectors tell the truth in
    every reachable state.
  \<^item> \<^theory_text>\<open>Go_Memory\<close>, \<^theory_text>\<open>Deep_Copy\<close>: a memory with pointers, slices and maps as references, and \<^verbatim>\<open>zz_generated.deepcopy.go\<close>
    over it: for every declared type the copy has the same contents and shares nothing with the original. This is
    what lets the other theories treat a copied navigation item or status as a value of its own.

  \<^bold>\<open>Interfaces.\<close> Every interface is a locale, with the client's lemmas inside and an interpretation on the
  model's own definitions: \<open>slice_sorter\<close> (\<^verbatim>\<open>sort.Slice\<close>, which is not stable), \<open>frontend_index\<close> (the four sorted
  files), \<open>api_resource\<close> and \<open>answering_resource\<close> (a server that fills in defaults, and one that accepts what it
  is sent), \<open>proxy_api\<close>, \<open>answering_proxy\<close>, \<open>job_api\<close>, \<open>config_api\<close>, \<open>run_api\<close>, \<open>frontend_store\<close> and \<open>env_index\<close> (calls of
  the API server), \<open>object_cache\<close> and \<open>osdk_utils\<close> (the library \<^verbatim>\<open>rhc-osdk-utils\<close>), \<open>rely\<close> (interference),
  \<open>condition_setter\<close> and \<open>conflict_retry\<close> (\<^verbatim>\<open>SetStatusCondition\<close>, \<^verbatim>\<open>RetryOnConflict\<close>), \<open>watch_runtime\<close>
  and \<open>manager_api\<close> (controller-runtime), \<open>external_copies\<close> (the copiers of the Kubernetes types), and
  \<open>shared_calls\<close> with its extensions \<open>shared_store\<close> and \<open>disabled_store\<close> (a server shared with other clients; of
  the frontends that somebody else moves or strips of the finalizer, \<open>shared_store\<close> says nothing). The server
  of the interpretations is \<open>Cluster\<close>, a store per kind of object. As a Kubernetes server does, it fills in the fields
  that a client leaves unset (restart policy, probe thresholds and periods, protocols) and labels the pods of a
  job; the contracts ask of a stored object only what the API promises: what the client has set is kept.

  \<^bold>\<open>Parameters.\<close> Code outside the repository is an argument or a field of a record: the API server, the resource
  cache and the helpers of \<^verbatim>\<open>rhc-osdk-utils\<close>, the JSON encoder, SHA-256, \<^verbatim>\<open>RetryOnConflict\<close>,
  \<^verbatim>\<open>SetStatusCondition\<close>, the process environment, the clock, the watches of controller-runtime. Nothing is assumed of
  them but the laws of the locales and, where a property says so, a named predicate (\<open>encodesMaps\<close>: a JSON
  encoding of a map does not depend on the order of its entries; \<open>rangeOrder\<close>: Go's \<open>range\<close> visits every entry
  once).

  \<^bold>\<open>Bounds and fuel.\<close> The depth guard 10 of \<open>fillNavRefsTree\<close> is the code's own. There is no fuel in the model of
  the loop: it is a \<^theory_text>\<open>partial_function (option)\<close>, and that it returns is proved for closed caches. So is
  \<open>ChromeNavItem_DeepCopyInto\<close>, which is proved to return for every finite value. The instance
  \<open>retrySteps n\<close> of the retry contract tries n further times, and the contract holds for every n. Integers of 32 bits
  are words where the API has them; positions and counts are unbounded integers with the range test written out
  where the code has it.

  \<^bold>\<open>Properties.\<close> The theorems marked C1 to C40 are the correctness properties; each one with hypotheses is followed by
  a witness that applies it to a concrete input. Some state where the code departs from its intention:
  items that hang the operator, the finalizer of a disabled frontend, the cache-bust job that is never current, annotations that are never removed, service selectors,
  monitors that lead to a request in another namespace. Further theorems without a number record smaller ones (a reference skipped
  behind an empty segment, permissions that do not reach the search index, equal tile keys,
  a nil widget, equal module names, drift of the proxy's objects).

  \<^bold>\<open>Not modelled.\<close> \<open>main\<close> of \<^verbatim>\<open>main.go\<close> parses flags and sets up the logger before it calls \<open>Run\<close>; the registration of
  the collectors with Prometheus and of the types with the scheme; log lines. A controller handles one request at a time, as it asks for no
  further workers; the other controller and the clients of the server show as interference. Outside
  \<^theory_text>\<open>Deep_Copy\<close> slices are values except where tiles are placed through pointers. Filling a bundle also writes into
  the arrays of its segments' items; only a bundle with the same ID reads them again, and what it finds there is
  the argument \<open>residue\<close> of \<open>setupBundlesData\<close> (\<open>fr_Residue\<close> of a run), of which nothing is assumed.
\<close>

section \<open>Across the components\<close>

text \<open>Frontends with an image, a cluster that has them, and the reconciliation of one of them.\<close>

definition imaged :: "string \<Rightarrow> Frontend" where
  "imaged n = (emptyFrontend n)\<lparr>fe_Spec := emptySpec\<lparr>fs_Image := ''img''\<rparr>\<rparr>"

definition clusterOf :: "string list \<Rightarrow> Cluster" where
  "clusterOf names = emptyCluster\<lparr>cl_Frontends := map (\<lambda>n. (inNamespace [] n, imaged n)) names\<rparr>"

abbreviation runOf :: "string \<Rightarrow> Cluster FrontendReconciliation" where
  "runOf n \<equiv> clusterReconciliation (\<lambda>_. []) demoRunEnv (imaged n)"

lemma unambiguous_plain:
  "distinct names \<Longrightarrow> unambiguous demoRunEnv (map imaged names)"
  by (auto simp: unambiguous_def uniqueKeys_def contributions_def contributed_def collectSearch_def collectWidgets_def collectTemplates_def
      collectSpecs_def publishesModule_def imaged_def emptyFrontend_def emptySpec_def demoRunEnv_def emptyEnvSpec_def comp_def
      filter_map inj_on_def)

lemma clusterOf_lists:
  "fr_ListFrontends (runOf n) (fs_EnvName (fe_Spec (fr_Frontend (runOf n)))) (clusterOf names) = (Inr (map imaged names), clusterOf names)"
  by (simp add: clusterReconciliation_def clusterOf_def comp_def imaged_def emptyFrontend_def emptySpec_def filter_map)

lemma plain_files:
  "setupSearchIndex (map imaged names) = Inr []" "setupWidgetRegistry (map imaged names) = Inr []"
  "setupAPISpecs (map imaged names) = Inr []"
  "\<exists>l. setupBaseWidgetDashboardTemplates (map imaged names) = Inr ([], l)"
  "setupFedModules putJSON env (map imaged names) [] = Inr []"
  by (induction names) (auto simp: setupSearchIndex_def setupWidgetRegistry_def setupAPISpecs_def
      setupBaseWidgetDashboardTemplates_def indexOf_def collectSearch_def collectWidgets_def collectTemplates_def
      collectSpecs_def setupFedModules_def addFedModule_def publishesModule_def imaged_def emptyFrontend_def emptySpec_def bindR_Inr
      sort_slice_def)

lemma clusterOf_runs: "\<exists>w'. run (runOf n) (clusterOf names) = Some (Inr (), w')"
proof -
  let ?l = "map imaged names"
  have off: "env_ServiceCategories (fenv_Spec demoRunEnv) = None" "env_Bundles (fenv_Spec demoRunEnv) = None"
    by (simp_all add: demoRunEnv_def emptyEnvSpec_def)
  obtain l where l: "setupBaseWidgetDashboardTemplates ?l = Inr ([], l)" using plain_files(4) by blast
  obtain data wdata tdata where "generateData (runOf n) ?l = returnF data" "widgetData (runOf n) ?l = Inr wdata"
    "templateData (runOf n) ?l = Inr tdata"
    using off l
    by (auto simp: generateData_def widgetData_def templateData_def countingEncoder_def Let_def wrapError_def
        plain_files(1-3,5) setupServiceTilesData_def setupBundlesData_def)
  then obtain cms w1 where "setupConfigMaps (runOf n) (clusterOf names) = Some (Inr cms, w1)"
    using cluster_setup_succeeds [OF _ _ _ _ demoRun_off(1)] clusterOf_lists [of n names] by fastforce
  from cluster_run_succeeds [OF this demoRun_off(2,3)] show ?thesis
    by (simp add: monitored_def demoRunEnv_def emptyEnvSpec_def)
qed

text \<open>C2: the pods of an environment agree on their configuration. Take two frontends with an image and a successful
  run for each (or two runs for one). The runs read the same environment resource, were set up with the same
  encoders, and saw the same frontends, in whatever order the API server listed them and Go visited its maps. Let
  the input be \<open>unambiguous\<close>: frontend names, the names under which modules are published, the IDs of the
  environment's bundles and its tile groups are distinct, every tile that is listed is set, and no two segments of a
  bundle, search entries, widgets, templates, API specs or tiles have the same sort key. Then the pod templates of
  the two deployments carry the same configuration hash.\<close>

theorem environment_pods_agree:
  assumes "config_api r cview" and "run_api r dview" and "config_api r' cview'" and "run_api r' dview'"
    and "sameGenerator r r'" and "run r w = Some (Inr (), w1)" and "run r' w' = Some (Inr (), w1')"
    and "fs_Image (fe_Spec (fr_Frontend r)) \<noteq> []" and "fs_Image (fe_Spec (fr_Frontend r')) \<noteq> []"
    and "fr_ListFrontends r (fs_EnvName (fe_Spec (fr_Frontend r))) w = (Inr feList, v)"
    and "fr_ListFrontends r' (fs_EnvName (fe_Spec (fr_Frontend r'))) w' = (Inr feList', v')"
    and "mset feList' = mset feList" and "unambiguous (fr_Env r) feList" and "encodesMaps (fr_Json r)"
    and "rangeOrder (fr_PathOrder r)" and "rangeOrder (fr_PathOrder r')"
  shows "\<exists>hash d d'. dview w1 (deploymentKey (fr_Frontend r)) = Some d \<and> dview' w1' (deploymentKey (fr_Frontend r')) = Some d' \<and>
    map_of (entries (om_Annotations (pt_Meta (ds_Template (d_Spec d))))) ''configHash'' = Some hash \<and>
    map_of (entries (om_Annotations (pt_Meta (ds_Template (d_Spec d'))))) ''configHash'' = Some hash"
proof -
  obtain cms v1 hash d where 1: "setupConfigMaps r w = Some (Inr cms, v1)" "createConfigmapHash r (map cm_Data cms) = Inr hash"
    and d: "dview w1 (deploymentKey (fr_Frontend r)) = Some d"
      "map_of (entries (om_Annotations (pt_Meta (ds_Template (d_Spec d))))) ''configHash'' = Some hash"
    using run_api.run_annotates [OF assms(2,6,8)] by blast
  obtain cms' v1' hash' d' where 2: "setupConfigMaps r' w' = Some (Inr cms', v1')" "createConfigmapHash r' (map cm_Data cms') = Inr hash'"
    and d': "dview' w1' (deploymentKey (fr_Frontend r')) = Some d'"
      "map_of (entries (om_Annotations (pt_Meta (ds_Template (d_Spec d'))))) ''configHash'' = Some hash'"
    using run_api.run_annotates [OF assms(4,7,9)] by blast
  from setup_hash_agrees [OF assms(1,3,5) 1(1) 2(1) assms(10-16)] 1(2) 2(2) have "hash' = hash" by simp
  with d d' show ?thesis by blast
qed

theorem environment_pods_agree_witness:
  "\<exists>w1 w2 hash d d'. run (runOf ''a'') (clusterOf [''a'', ''b'']) = Some (Inr (), w1) \<and>
     run (runOf ''b'') (clusterOf [''b'', ''a'']) = Some (Inr (), w2) \<and>
     storeView cl_Deployments (\<lambda>x. nameOf (d_Meta x)) w1 (deploymentKey (imaged ''a'')) = Some d \<and>
     storeView cl_Deployments (\<lambda>x. nameOf (d_Meta x)) w2 (deploymentKey (imaged ''b'')) = Some d' \<and>
     map_of (entries (om_Annotations (pt_Meta (ds_Template (d_Spec d))))) ''configHash'' = Some hash \<and>
     map_of (entries (om_Annotations (pt_Meta (ds_Template (d_Spec d'))))) ''configHash'' = Some hash"
proof -
  obtain w1 where 1: "run (runOf ''a'') (clusterOf [''a'', ''b'']) = Some (Inr (), w1)" using clusterOf_runs by blast
  obtain w2 where 2: "run (runOf ''b'') (clusterOf [''b'', ''a'']) = Some (Inr (), w2)" using clusterOf_runs by blast
  have same: "sameGenerator (runOf ''a'') (runOf ''b'')" by (simp add: sameGenerator_def clusterReconciliation_def)
  have image: "fs_Image (fe_Spec (fr_Frontend (runOf n))) \<noteq> []" for n by (simp add: imaged_def)
  have rest: "mset (map imaged [''b'', ''a'']) = mset (map imaged [''a'', ''b''])"
    "unambiguous (fr_Env (runOf ''a'')) (map imaged [''a'', ''b''])" "encodesMaps (fr_Json (runOf ''a''))"
    "rangeOrder (fr_PathOrder (runOf n))" for n
    using unambiguous_plain [of "[''a'', ''b'']"] counting_encodesMaps
    by (simp_all add: clusterReconciliation_def rangeOrder_def add_mset_commute)
  from environment_pods_agree [OF cluster_configs.config_api_axioms cluster_run.run_api_axioms cluster_configs.config_api_axioms
      cluster_run.run_api_axioms same 1 2 image image clusterOf_lists clusterOf_lists rest(1-3) rest(4) rest(4)] 1 2
  show ?thesis by simp
qed

end
